(* ===== verification/Basebox_Prelude.thy ===== *)
theory Basebox_Prelude
  imports Main "HOL-Library.Word" "HOL-Library.Finite_Map" "HOL-Library.Product_Lexorder"
begin

text \<open>
  Shared vocabulary of the development.

  \<^item> The integer widths of the C++ sources (\<open>uint8_t\<close> \<dots> \<open>uint64_t\<close>) and the address
    types of rofl as words; return codes (\<open>int\<close>) as \<open>int\<close> with the negated errno values of
    Linux.
  \<^item> \<open>std::map\<close> is \<open>('k, 'v) fmap\<close>, \<open>std::set\<close> is \<open>'a fset\<close>. A range-based loop visits
    them in ascending key order, so loops run over \<open>sorted_list_of_fmap\<close> and
    \<open>sorted_list_of_fset\<close>.
  \<^item> The two loop shapes the sources use: run a fallible operation on each element and stop at
    the first negative code (\<open>foreach_break\<close>), or run it on each element and ignore the codes
    (\<open>foreach_ignore\<close>), with their induction rules.
\<close>

unbundle bit_operations_syntax

type_synonym u8 = "8 word"
type_synonym u16 = "16 word"
type_synonym u32 = "32 word"
type_synonym u64 = "64 word"

type_synonym mac = "48 word"
type_synonym in4 = "32 word"
type_synonym in6 = "128 word"

subsection \<open>Return codes\<close>

abbreviation (input) EAGAIN :: int where "EAGAIN \<equiv> 11"
abbreviation (input) EEXIST :: int where "EEXIST \<equiv> 17"
abbreviation (input) ENODEV :: int where "ENODEV \<equiv> 19"
abbreviation (input) EINVAL :: int where "EINVAL \<equiv> 22"
abbreviation (input) ENOSPC :: int where "ENOSPC \<equiv> 28"
abbreviation (input) ENODATA :: int where "ENODATA \<equiv> 61"
abbreviation (input) ENOTCONN :: int where "ENOTCONN \<equiv> 107"

subsection \<open>Collections of facts\<close>

named_theorems frame \<open>fields an operation leaves alone\<close>
named_theorems trace_ext \<open>how an operation extends the trace of external calls\<close>
named_theorems op_defs \<open>definitions of the operations of a component\<close>

subsection \<open>Maps and sets\<close>

definition fm_emplace :: "'k \<Rightarrow> 'v \<Rightarrow> ('k, 'v) fmap \<Rightarrow> ('k, 'v) fmap" where
  "fm_emplace k v m = (case fmlookup m k of None \<Rightarrow> fmupd k v m | Some _ \<Rightarrow> m)"

lemma fmlookup_fm_emplace:
  "fmlookup (fm_emplace k v m) k' =
     (if k' = k \<and> fmlookup m k = None then Some v else fmlookup m k')"
  by (auto simp: fm_emplace_def split: option.splits)

lemma fm_emplace_present [simp]: "fmlookup m k = Some v' \<Longrightarrow> fm_emplace k v m = m"
  by (simp add: fm_emplace_def)

lemma fm_emplace_absent [simp]: "fmlookup m k = None \<Longrightarrow> fm_emplace k v m = fmupd k v m"
  by (simp add: fm_emplace_def)

lemma fmdrop_fmupd_absent [simp]: "fmlookup m k = None \<Longrightarrow> fmdrop k (fmupd k v m) = m"
  by (intro fmap_ext) auto

lemma fmupd_same: "fmlookup m k = Some v \<Longrightarrow> fmupd k v m = m"
  by (intro fmap_ext) auto

lemma fmran_fmupd_absent:
  assumes "fmlookup m k = None"
  shows "fmran (fmupd k v m) = finsert v (fmran m)"
proof (rule fset_eqI)
  fix x
  show "x |\<in>| fmran (fmupd k v m) \<longleftrightarrow> x |\<in>| finsert v (fmran m)"
    using assms by (auto simp: fmlookup_ran_iff split: if_splits) (metis option.distinct(1))+
qed

lemma set_sorted_list_of_fmap:
  "set (sorted_list_of_fmap m) = {(k, v). fmlookup m k = Some v}"
  by (force simp: sorted_list_of_fmap_def fmlookup_dom_iff image_iff)

lemma map_fst_sorted_list_of_fmap [simp]:
  "map fst (sorted_list_of_fmap m) = sorted_list_of_fset (fmdom m)"
  by (simp add: sorted_list_of_fmap_def comp_def)

lemma distinct_sorted_list_of_fset [simp]: "distinct (sorted_list_of_fset S)"
  by (simp add: sorted_list_of_fset.rep_eq)

lemma sorted_list_of_fset_empty [simp]: "sorted_list_of_fset {||} = []"
  by (simp add: sorted_list_of_fset.rep_eq)

lemma fcard_of_empty [simp]: "fcard {||} = 0"
  by (simp add: fcard.rep_eq)

lemma fcard_fsinglet [simp]: "fcard {|x|} = Suc 0"
  by (simp add: fcard_finsert_disjoint)

lemma fcard_pos_iff: "0 < fcard S \<longleftrightarrow> S \<noteq> {||}"
  by (metis fcard_0_eq neq0_conv)

text \<open>Results are pairs of a return code and a state.\<close>

lemma ex_result_iff: "(\<exists>rv s. r = (rv, s) \<and> P s) \<longleftrightarrow> P (snd r)"
  by (cases r) auto

subsection \<open>Words\<close>

lemma ucast_u16_u32 [simp]: "ucast (ucast (v :: u16) :: u32) = v"
  by (rule bit_word_eqI) (auto simp: bit_simps)

subsection \<open>Loops\<close>

text \<open>
  \<open>rv = rv0; for (x : xs) { rv = f(x); if (rv < 0) break; }\<close>
\<close>

fun foreach_break :: "('a \<Rightarrow> 's \<Rightarrow> int \<times> 's) \<Rightarrow> 'a list \<Rightarrow> int \<Rightarrow> 's \<Rightarrow> int \<times> 's" where
  "foreach_break f [] rv s = (rv, s)"
| "foreach_break f (x # xs) rv s =
     (let (rv', s') = f x s in if rv' < 0 then (rv', s') else foreach_break f xs rv' s')"

text \<open>\<open>for (x : xs) (void)f(x);\<close>\<close>

fun foreach_ignore :: "('a \<Rightarrow> 's \<Rightarrow> int \<times> 's) \<Rightarrow> 'a list \<Rightarrow> 's \<Rightarrow> 's" where
  "foreach_ignore f [] s = s"
| "foreach_ignore f (x # xs) s = foreach_ignore f xs (snd (f x s))"

lemma foreach_ignore_append [simp]:
  "foreach_ignore f (xs @ ys) s = foreach_ignore f ys (foreach_ignore f xs s)"
  by (induction xs arbitrary: s) auto

text \<open>A property kept by the body is kept by the loop.\<close>

lemma foreach_ignore_inv:
  assumes "P s" and "\<And>x s. x \<in> set xs \<Longrightarrow> P s \<Longrightarrow> P (snd (f x s))"
  shows "P (foreach_ignore f xs s)"
  using assms by (induction xs arbitrary: s) auto

lemma foreach_break_inv:
  assumes "P s" and "\<And>x s. x \<in> set xs \<Longrightarrow> P s \<Longrightarrow> P (snd (f x s))"
  shows "P (snd (foreach_break f xs rv s))"
  using assms
proof (induction xs arbitrary: rv s)
  case (Cons x xs)
  have "P (snd (f x s))" using Cons.prems by simp
  then show ?case using Cons.IH [of "snd (f x s)"] Cons.prems(2)
    by (auto simp: split_beta Let_def)
qed simp

lemma foreach_break_frame:
  assumes "\<And>x s. x \<in> set xs \<Longrightarrow> g (snd (f x s)) = g s"
  shows "g (snd (foreach_break f xs rv s)) = g s"
  using foreach_break_inv [of "\<lambda>t. g t = g s" s xs f rv] assms by simp

lemma foreach_ignore_frame:
  assumes "\<And>x s. x \<in> set xs \<Longrightarrow> g (snd (f x s)) = g s"
  shows "g (foreach_ignore f xs s) = g s"
  using foreach_ignore_inv [of "\<lambda>t. g t = g s" s xs f] assms by simp

text \<open>When no iteration fails, the break is never taken.\<close>

lemma foreach_break_ok:
  assumes "P s" and "rv \<ge> 0"
    and "\<And>x s. x \<in> set xs \<Longrightarrow> P s \<Longrightarrow> fst (f x s) \<ge> 0 \<and> P (snd (f x s))"
  shows "fst (foreach_break f xs rv s) \<ge> 0 \<and>
         snd (foreach_break f xs rv s) = foreach_ignore f xs s"
  using assms
proof (induction xs arbitrary: rv s)
  case (Cons x xs)
  have "fst (f x s) \<ge> 0" and "P (snd (f x s))" using Cons.prems by auto
  then show ?case using Cons.IH [of "snd (f x s)" "fst (f x s)"] Cons.prems(3)
    by (simp add: split_beta Let_def)
qed simp

end
