(* ===== verification/Port_Ids.thy ===== *)
theory Port_Ids
  imports Basebox_Prelude
begin

text \<open>
  Port identifiers (\<open>src/src/sai.h\<close>, class \<open>nbi\<close>). A port id is 32 bits wide: the upper half
  is the port type, the lower half the port number. An enumerator is its C++ value, so a
  number that is no enumerator (the result of the \<open>static_cast\<close>) is still represented.
\<close>

type_synonym port_type = u32

abbreviation (input) port_type_physical :: port_type where "port_type_physical \<equiv> 0"
abbreviation (input) port_type_vxlan :: port_type where "port_type_vxlan \<equiv> 1"
abbreviation (input) port_type_lag :: port_type where "port_type_lag \<equiv> 2"

definition combine_port_type :: "u16 \<Rightarrow> port_type \<Rightarrow> u32" where
  "combine_port_type port_num type = ucast port_num OR push_bit 16 type"

definition get_port_type :: "u32 \<Rightarrow> port_type" where
  "get_port_type port_id = drop_bit 16 port_id"

definition get_port_num :: "u32 \<Rightarrow> u16" where
  "get_port_num port_id = ucast (port_id AND 0xffffffff)"

abbreviation is_lag :: "u32 \<Rightarrow> bool" where
  "is_lag port_id \<equiv> get_port_type port_id = port_type_lag"

lemma all_ones_u32: "(0xffffffff :: u32) = - 1"
  by simp

lemma get_port_num_ucast: "get_port_num i = ucast i"
  unfolding get_port_num_def all_ones_u32 by simp

lemma get_port_type_combine:
  "get_port_type (combine_port_type n t) = take_bit 16 t"
  by (rule bit_word_eqI)
    (auto simp: get_port_type_def combine_port_type_def bit_simps dest: bit_imp_le_length)

lemma get_port_num_combine: "get_port_num (combine_port_type n t) = n"
  by (rule bit_word_eqI) (auto simp: get_port_num_ucast combine_port_type_def bit_simps)

lemma combine_get: "combine_port_type (get_port_num i) (get_port_type i) = i"
proof (rule bit_word_eqI)
  fix n assume "n < LENGTH(32)"
  then show "bit (combine_port_type (get_port_num i) (get_port_type i)) n = bit i n"
    by (cases "n < 16")
      (auto simp: get_port_num_ucast get_port_type_def combine_port_type_def bit_simps)
qed

lemma take_bit_16_port_type: "t < 2 ^ 16 \<Longrightarrow> take_bit 16 t = (t :: port_type)"
  by (simp only: take_bit_eq_mask less_mask_eq)

text \<open>
  C6: packing and unpacking a port id are inverse: the number and the type survive
  \<open>combine_port_type\<close> for every port type below \<open>2^16\<close> (all enumerators are), and every
  32-bit id is the combination of its own type and number.
\<close>

theorem port_id_roundtrip:
  "(\<forall>n t. t < 2 ^ 16 \<longrightarrow>
      get_port_num (combine_port_type n t) = n \<and> get_port_type (combine_port_type n t) = t) \<and>
   (\<forall>i. combine_port_type (get_port_num i) (get_port_type i) = i)"
  by (auto simp: get_port_num_combine get_port_type_combine combine_get
      take_bit_16_port_type)

theorem port_id_roundtrip_witness:
  "(2::port_type) < 2 ^ 16 \<and> get_port_num (combine_port_type 7 port_type_lag) = 7 \<and>
   get_port_type (combine_port_type 7 port_type_lag) = port_type_lag"
  using port_id_roundtrip by simp

end
