(* ===== verification/Openflow.thy ===== *)
theory Openflow
  imports Port_Ids
begin

text \<open>
  The boundary between the controller and the code it calls that is not part of the
  repository: rofl-common and rofl-ofdpa (OpenFlow messages and the connection to the switch)
  and the OF-DPA gRPC service.

  \<^item> \<open>flow_mod\<close> and \<open>group_mod\<close> have one constructor per builder of \<open>rofl_ofdpa_fm_driver\<close> the
    controller calls, holding the arguments of the call. The OpenFlow version argument is left
    out: \<open>handle_dpt_open\<close> only accepts version 1.3.
  \<^item> \<open>rpc\<close> has one constructor per method of the gRPC stub, holding the fields of the request.
  \<^item> \<open>event\<close> is one interaction with the outside; a run leaves a list of them, oldest first.
  \<^item> \<open>ofenv\<close> is everything the controller learns from outside: whether a datapath with a given
    id is attached, what each send and each remote call does (a function of the whole history, so
    any behaviour of switch and network is covered), and the group-id encoders of rofl-ofdpa.
\<close>

subsection \<open>OpenFlow messages\<close>

datatype (plugins only: code size) flow_mod =
    Enable_overlay_tunnel u32
  | Disable_overlay_tunnel u32
  | Remove_bridging_unicast_vlan_all u32 u16
  | Remove_bridging_unicast_vlan u32 u16 mac
  | Add_bridging_unicast_vlan u32 u16 mac bool bool "u16 option"
      \<comment> \<open>port, vid, mac, filtered, lag; idle timeout with the flow-removed flag\<close>
  | Add_bridging_unicast_overlay u32 u32 mac "u16 option"
  | Remove_bridging_unicast_overlay_all_lport u32
  | Remove_bridging_unicast_overlay u32 mac
  | Add_bridging_multicast_vlan int u16 mac
  | Remove_bridging_multicast_vlan u32 u16 mac
  | Enable_tmac_ipv4_multicast_mac
  | Enable_tmac_ipv6_multicast_mac
  | Enable_tmac_ipv4_unicast_mac u32 u16 mac
  | Enable_tmac_ipv6_unicast_mac u32 u16 mac
  | Disable_tmac_ipv4_unicast_mac u32 u16 mac
  | Disable_tmac_ipv6_unicast_mac u32 u16 mac
  | Enable_ipv4_unicast_host in4 u32 bool u16
  | Enable_ipv6_unicast_host in6 u32 bool u16
  | Disable_ipv4_unicast_host in4 u16
  | Disable_ipv6_unicast_host in6
  | Enable_ipv4_unicast_lpm in4 in4 u32 bool u16
  | Enable_ipv6_unicast_lpm in6 in6 u32 bool u16
  | Disable_ipv4_unicast_lpm in4 in4 u16
  | Disable_ipv6_unicast_lpm in6 in6 u16
  | Enable_port_vid_allow_all u32
  | Disable_port_vid_allow_all u32
  | Enable_port_vid_ingress u32 u16 u16 bool \<comment> \<open>port, vid, vrf, stacked\<close>
  | Disable_port_vid_ingress u32 u16 u16 bool
  | Enable_port_pvid_ingress u32 u16
  | Disable_port_pvid_ingress u32 u16
  | Add_bridging_dlf_vlan u16 u32
  | Remove_bridging_dlf_vlan u16
  | Add_bridging_dlf_overlay u32 u32
  | Remove_bridging_dlf_overlay u32
  | Enable_port_pop_tag_ingress u32 u16 u16 u16 \<comment> \<open>port, inner vid, outer vid, vrf\<close>
  | Disable_port_pop_tag_ingress u32 u16 u16 u16
  | Enable_vlan_egress_push_tag u32 u16 u16
  | Disable_vlan_egress_push_tag u32 u16 u16
  | Set_port_tpid u32
  | Remove_port_tpid u32
  | Enable_policy_arp
  | Enable_tmac_bpdu_multicast_mac mac mac
  | Enable_policy_ipv4_multicast in4 in4
  | Enable_policy_ipv6_multicast in6 in6
  | Enable_policy_udp u16 u16 u16

datatype (plugins only: code size) group_mod =
    Enable_group_l2_multicast int u16 "u32 fset" bool
  | Disable_group_l2_multicast int u16
  | Enable_group_l3_unicast u32 mac mac u32 bool
  | Disable_group_l3_unicast u32
  | Enable_group_l3_ecmp u32 "u32 fset" bool
  | Disable_group_l3_ecmp u32
  | Enable_group_l2_unfiltered_interface u32
  | Disable_group_l2_unfiltered_interface u32
  | Enable_group_l2_interface u32 u16 bool bool \<comment> \<open>port, vid, untagged, update\<close>
  | Enable_group_l2_trunk_interface u32 u16 bool bool
  | Disable_group_l2_interface u32 u16
  | Disable_group_l2_trunk_interface u32 u16
  | Enable_group_l2_flood u16 u16 "u32 fset" bool \<comment> \<open>vid, id, members, update\<close>
  | Disable_group_l2_flood u16 u16
  | Enable_group_l2_overlay_flood u32 u32 "u32 fset" bool
  | Disable_group_l2_overlay_flood u32 u32

datatype ofmsg =
    Flow flow_mod
  | Group group_mod
  | Barrier
  | Packet_out u32 "u8 list"
  | Port_mod u32 mac u32 u32 \<comment> \<open>port, mac, config, mask\<close>
  | Flow_mod_reset
  | Group_mod_reset
  | Features_request
  | Desc_stats_request
  | Port_desc_stats_request
  | Port_stats_request
  | Experimenter u32 u32 u32 \<comment> \<open>xid, experimenter, type\<close>

subsection \<open>Requests of the OF-DPA gRPC service\<close>

record access_port_config =
  pysical_port_num :: u32
  access_vlan_id :: u32
  access_untagged :: bool

record endpoint_config =
  remote_endpoint :: u32
  local_endpoint :: u32
  endpoint_ttl :: u32
  endpoint_next_hop_id :: u32
  initiator_udp_dst_port :: u32
  terminator_udp_dst_port :: u32
  udp_src_port_if_no_entropy :: u32
  use_entropy :: bool

datatype tunnel_port_config =
    Access_port access_port_config
  | Endpoint_port endpoint_config

datatype (plugins only: code size) rpc =
    Rpc_TunnelReset
  | Rpc_TunnelTenantCreate u32 u32
  | Rpc_TunnelTenantDelete u32
  | Rpc_PortSourceMacLearningSet u32 u32
  | Rpc_PortSourceMacMoveLearningSet u32 u32
  | Rpc_TunnelNextHopCreate u32 u64 u64 u32 u16
  | Rpc_TunnelNextHopModify u32 u64 u64 u32 u16
  | Rpc_TunnelNextHopDelete u32
  | Rpc_TunnelPortCreate u32 string tunnel_port_config
  | Rpc_TunnelPortDelete u32
  | Rpc_TunnelPortTenantAdd u32 u32
  | Rpc_TunnelPortTenantDelete u32 u32
  | Rpc_StgReset
  | Rpc_StgStatePortSet u32 string u32
  | Rpc_StgCreate u16
  | Rpc_StgDestroy u16
  | Rpc_StgVlanAdd u16 u32
  | Rpc_TrunkCreate string u32 u8
  | Rpc_TrunkDelete u32
  | Rpc_PortTrunkGroupSet u32 u32 \<comment> \<open>lag id, member\<close>
  | Rpc_TrunkPortMemberActiveSet u32 u32 u32
  | Rpc_TrunkPortPSCSet u32 u8
  | Rpc_RxRateSet int
  | Rpc_PortKnetCreate u32
  | Rpc_PortKnetDelete u32

subsection \<open>Exceptions, events and the environment\<close>

datatype exn = RofBaseNotFound | RofConnNotConnected | StdException

datatype event =
    Sent ofmsg
  | Send_failed ofmsg exn
  | Rpc_done rpc "int option" \<comment> \<open>\<open>None\<close>: the transport failed (\<open>!rv.ok()\<close>)\<close>
  | Client_created \<comment> \<open>\<open>ofdpa = std::make_shared<ofdpa_client>(chan)\<close>\<close>

record ofenv =
  dpt_found :: "nat \<Rightarrow> bool"
  send_outcome :: "event list \<Rightarrow> ofmsg \<Rightarrow> exn + int"
  rpc_outcome :: "event list \<Rightarrow> rpc \<Rightarrow> int option"
  OFDPA_E_RPC :: int
  group_id_l2_interface :: "u32 \<Rightarrow> u16 \<Rightarrow> u32"
  group_id_l2_trunk_interface :: "u32 \<Rightarrow> u16 \<Rightarrow> u32"
  group_id_l3_unicast :: "u32 \<Rightarrow> u32"
  group_id_l3_ecmp :: "u32 \<Rightarrow> u32"
  group_id_l2_flood :: "u16 \<Rightarrow> u16 \<Rightarrow> u32"
  group_id_l2_overlay_flood :: "u32 \<Rightarrow> u32 \<Rightarrow> u32"
  dpt_established :: bool
  dpt_has_port :: "u32 \<Rightarrow> bool"
  mac_is_multicast :: "mac \<Rightarrow> bool" \<comment> \<open>\<open>rofl::caddress_ll::is_multicast\<close>\<close>

text \<open>The messages that reached the switch, in order.\<close>

fun sent :: "event list \<Rightarrow> ofmsg list" where
  "sent [] = []"
| "sent (Sent m # es) = m # sent es"
| "sent (e # es) = sent es"

lemma sent_append [simp]: "sent (xs @ ys) = sent xs @ sent ys"
  by (induction xs rule: sent.induct) auto

lemma sent_map_Sent [simp]: "sent (map Sent ms) = ms"
  by (induction ms) auto

text \<open>
  The environment in which nothing fails: the datapath is attached, every send returns 0 and
  every remote call answers with status 0. Group ids follow the layout of OF-DPA (type in the
  top four bits). It serves as the concrete instance of the hypotheses on the environment.
\<close>

definition ideal_env :: ofenv where
  "ideal_env = \<lparr>
     dpt_found = (\<lambda>_. True),
     send_outcome = (\<lambda>_ _. Inr 0),
     rpc_outcome = (\<lambda>_ _. Some 0),
     OFDPA_E_RPC = -20,
     group_id_l2_interface = (\<lambda>port vid. push_bit 16 (ucast vid) OR (port AND 0xffff)),
     group_id_l2_trunk_interface =
       (\<lambda>port vid. push_bit 28 14 OR push_bit 16 (ucast vid) OR (port AND 0xffff)),
     group_id_l3_unicast = (\<lambda>i. push_bit 28 2 OR i),
     group_id_l3_ecmp = (\<lambda>i. push_bit 28 7 OR i),
     group_id_l2_flood = (\<lambda>vid i. push_bit 28 4 OR push_bit 16 (ucast vid) OR ucast i),
     group_id_l2_overlay_flood = (\<lambda>t i. push_bit 28 8 OR push_bit 12 t OR i),
     dpt_established = True,
     dpt_has_port = (\<lambda>_. True),
     mac_is_multicast = (\<lambda>m. bit m 40)\<rparr>"

text \<open>No send throws and none reports a negative result.\<close>

definition sends_ok :: "ofenv \<Rightarrow> bool" where
  "sends_ok env \<longleftrightarrow> (\<forall>d. dpt_found env d) \<and>
     (\<forall>h m. \<exists>r. send_outcome env h m = Inr r \<and> 0 \<le> r)"

lemma sends_ok_ideal [simp]: "sends_ok ideal_env"
  by (simp add: sends_ok_def ideal_env_def)

end
