(* ===== verification/Controller_Base.thy ===== *)
theory Controller_Base
  imports Openflow
begin

text \<open>
  The state of class \<open>controller\<close> (\<open>src/src/of-dpa/controller.h\<close>) and the way its methods talk
  to the switch. Every method that sends OpenFlow messages has the same frame: a \<open>try\<close> block that
  looks up the datapath and sends messages one after the other, and three handlers that turn an
  exception into a return code. \<open>of_send\<close> is that frame for a list of messages fixed up front;
  the few methods that change state between sends use \<open>with_dpt\<close>, \<open>send_all\<close> and \<open>try_catch\<close>
  directly. What has been done before an exception stays done.
\<close>

record mc_entry =
  mc_mac :: mac
  mc_vid :: u16
  mc_index :: int
  l2_interface :: "u32 fset"
  disabled_l2_interface :: "u32 fset"

record port_stats =
  rx_packets :: u64
  tx_packets :: u64
  rx_bytes :: u64
  tx_bytes :: u64
  rx_dropped :: u64
  tx_dropped :: u64
  rx_errors :: u64
  rx_frame_err :: u64
  rx_over_err :: u64
  rx_crc_err :: u64
  collisions :: u64

record controller =
  connected :: bool
  dptid :: nat \<comment> \<open>0: no datapath\<close>
  swi_flags :: u32
  l2_domain :: "(u16, u32 fset) fmap"
  lag :: "(u16, u32 fset) fmap"
  lag_id_next :: u16 \<comment> \<open>the function-local static \<open>_lag_id\<close> of \<open>lag_create\<close>\<close>
  tunnel_dlf_flood :: "(u16, u32 fset) fmap"
  vlan_to_stg :: "(u16, u32) fmap"
  current_stg :: u32
  stg_in_use :: "u32 fset" \<comment> \<open>the indices of the set bits\<close>
  mc_groups :: "mc_entry list"
  egress_interface_id :: u32
  freed_egress_interfaces_ids :: "u32 fset"
  ecmp_interface_id :: u32
  freed_ecmp_interfaces_ids :: "u32 fset"
  default_idle_timeout :: u16
  stats_array :: "(u32, port_stats) fmap"
  trace :: "event list" \<comment> \<open>every interaction with the outside, oldest first\<close>

definition controller_init :: controller where
  "controller_init = \<lparr>
     connected = False, dptid = 0, swi_flags = 0,
     l2_domain = fmempty, lag = fmempty, lag_id_next = 1, tunnel_dlf_flood = fmempty,
     vlan_to_stg = fmempty, current_stg = 2, stg_in_use = {||}, mc_groups = [],
     egress_interface_id = 1, freed_egress_interfaces_ids = {||},
     ecmp_interface_id = 1, freed_ecmp_interfaces_ids = {||},
     default_idle_timeout = 300, stats_array = fmempty, trace = []\<rparr>"

subsection \<open>Sending\<close>

definition emit :: "event \<Rightarrow> controller \<Rightarrow> controller" where
  "emit e c = c\<lparr>trace := trace c @ [e]\<rparr>"

definition send :: "ofenv \<Rightarrow> ofmsg \<Rightarrow> controller \<Rightarrow> (exn + int) \<times> controller" where
  "send env m c =
     (case send_outcome env (trace c) m of
        Inl e \<Rightarrow> (Inl e, emit (Send_failed m e) c)
      | Inr r \<Rightarrow> (Inr r, emit (Sent m) c))"

fun send_all :: "ofenv \<Rightarrow> ofmsg list \<Rightarrow> controller \<Rightarrow> (exn + int) \<times> controller" where
  "send_all env [] c = (Inr 0, c)"
| "send_all env (m # ms) c =
     (case send env m c of
        (Inl e, c') \<Rightarrow> (Inl e, c')
      | (Inr r, c') \<Rightarrow> send_all env ms c')"

text \<open>\<open>set_dpt(dptid, true)\<close> throws when no such datapath is attached.\<close>

definition with_dpt ::
  "ofenv \<Rightarrow> controller \<Rightarrow> (exn + int) \<times> controller \<Rightarrow> (exn + int) \<times> controller" where
  "with_dpt env c body = (if dpt_found env (dptid c) then body else (Inl RofBaseNotFound, c))"

text \<open>The three handlers every method has.\<close>

fun catch_rv :: "exn \<Rightarrow> int" where
  "catch_rv RofBaseNotFound = - EINVAL"
| "catch_rv RofConnNotConnected = - ENOTCONN"
| "catch_rv StdException = - EINVAL"

definition try_catch :: "(exn + int) \<times> controller \<Rightarrow> int \<times> controller" where
  "try_catch r = (case fst r of Inl e \<Rightarrow> catch_rv e | Inr rv \<Rightarrow> rv, snd r)"

definition of_send :: "ofenv \<Rightarrow> ofmsg list \<Rightarrow> controller \<Rightarrow> int \<times> controller" where
  "of_send env ms c = try_catch (with_dpt env c (send_all env ms c))"

text \<open>A method of the gRPC client: the status of the answer, or \<open>OFDPA_E_RPC\<close>.\<close>

definition rpc_call :: "ofenv \<Rightarrow> rpc \<Rightarrow> controller \<Rightarrow> int \<times> controller" where
  "rpc_call env r c =
     (let out = rpc_outcome env (trace c) r
      in (case out of None \<Rightarrow> OFDPA_E_RPC env | Some st \<Rightarrow> st, emit (Rpc_done r out) c))"

text \<open>
  The pointer \<open>ofdpa\<close> to the client is null until \<open>handle_dpt_open\<close> creates a client. A remote call that the trace has before
  the first \<open>Client_created\<close> stands for the use of the null pointer: from there on the source has no defined behaviour.
\<close>

fun null_client_used :: "event list \<Rightarrow> bool" where
  "null_client_used [] = False"
| "null_client_used (Client_created # es) = False"
| "null_client_used (Rpc_done r out # es) = True"
| "null_client_used (e # es) = null_client_used es"

text \<open>The L2 interface group of a port in a VLAN; LAG ports have a group type of their own.\<close>

definition l2_group_id :: "ofenv \<Rightarrow> u32 \<Rightarrow> u16 \<Rightarrow> u32" where
  "l2_group_id env port vid =
     (if is_lag port then group_id_l2_trunk_interface env port vid
      else group_id_l2_interface env port vid)"

subsection \<open>Sending only touches the trace\<close>

lemma trace_emit [simp]: "trace (emit e c) = trace c @ [e]"
  by (simp add: emit_def)

lemma snd_send_all: "snd (send_all env ms c) = c\<lparr>trace := trace (snd (send_all env ms c))\<rparr>"
proof (induction ms arbitrary: c)
  case (Cons m ms)
  show ?case
  proof (cases "send_outcome env (trace c) m")
    case (Inr r)
    then show ?thesis using Cons.IH [of "emit (Sent m) c"]
      by (simp add: send_def emit_def split: sum.splits)
  qed (simp add: send_def emit_def)
qed simp

lemma snd_of_send: "snd (of_send env ms c) = c\<lparr>trace := trace (snd (of_send env ms c))\<rparr>"
  using snd_send_all [of env ms c] by (simp add: of_send_def try_catch_def with_dpt_def)

lemma snd_rpc_call: "snd (rpc_call env r c) = c\<lparr>trace := trace (snd (rpc_call env r c))\<rparr>"
  by (simp add: rpc_call_def emit_def Let_def)

lemma fst_rpc_call:
  "fst (rpc_call env r c) =
     (case rpc_outcome env (trace c) r of None \<Rightarrow> OFDPA_E_RPC env | Some st \<Rightarrow> st)"
  by (simp add: rpc_call_def Let_def)

lemma trace_rpc_call [simp]:
  "trace (snd (rpc_call env r c)) = trace c @ [Rpc_done r (rpc_outcome env (trace c) r)]"
  by (simp add: rpc_call_def Let_def)

subsection \<open>What a failed or successful send leaves behind\<close>

text \<open>
  Either every message went out and the code is 0, or a prefix went out, then one send threw,
  and the code is that exception's.
\<close>

lemma send_all_cases:
  obtains (all) "fst (send_all env ms c) = Inr 0"
      "trace (snd (send_all env ms c)) = trace c @ map Sent ms"
  | (thrown) e ms1 m ms2 where "ms = ms1 @ m # ms2" "fst (send_all env ms c) = Inl e"
      "trace (snd (send_all env ms c)) = trace c @ map Sent ms1 @ [Send_failed m e]"
proof (induction ms arbitrary: c thesis)
  case Nil
  show ?case by (rule Nil.prems(1)) simp_all
next
  case (Cons m ms)
  show ?case
  proof (cases "send_outcome env (trace c) m")
    case (Inl e)
    show ?thesis by (rule Cons.prems(2) [of "[]" m ms e]) (use Inl in \<open>simp_all add: send_def\<close>)
  next
    case (Inr r)
    let ?c = "emit (Sent m) c"
    have step: "send_all env (m # ms) c = send_all env ms ?c"
      using Inr by (simp add: send_def)
    show ?thesis
    proof (rule Cons.IH [of ?c])
      assume "fst (send_all env ms ?c) = Inr 0"
        and "trace (snd (send_all env ms ?c)) = trace ?c @ map Sent ms"
      then show thesis by (intro Cons.prems(1)) (simp_all add: step del: send_all.simps)
    next
      fix e ms1 m' ms2
      assume split: "ms = ms1 @ m' # ms2" and thrown: "fst (send_all env ms ?c) = Inl e"
        "trace (snd (send_all env ms ?c)) = trace ?c @ map Sent ms1 @ [Send_failed m' e]"
      from split have "m # ms = (m # ms1) @ m' # ms2" by simp
      then show thesis
        by (rule Cons.prems(2)) (simp_all add: step thrown del: send_all.simps)
    qed
  qed
qed

lemma case_send_all:
  "(case send_all env ms c of (Inl e, c') \<Rightarrow> (Inl e, c') | (Inr r, c') \<Rightarrow> F c') =
     (case fst (send_all env ms c) of
        Inl e \<Rightarrow> (Inl e, snd (send_all env ms c))
      | Inr r \<Rightarrow> F (snd (send_all env ms c)))"
  by (simp split: prod.split sum.split)

lemma catch_rv_neg [simp]: "catch_rv e < 0"
  by (cases e) auto

lemma of_send_cases:
  obtains (ok) "fst (of_send env ms c) = 0" "trace (snd (of_send env ms c)) = trace c @ map Sent ms"
  | (no_dpt) "of_send env ms c = (- EINVAL, c)" "\<not> dpt_found env (dptid c)"
  | (thrown) e ms1 m ms2 where "ms = ms1 @ m # ms2" "fst (of_send env ms c) = catch_rv e"
      "trace (snd (of_send env ms c)) = trace c @ map Sent ms1 @ [Send_failed m e]"
proof (cases "dpt_found env (dptid c)")
  case True
  then have eq: "of_send env ms c = try_catch (send_all env ms c)"
    by (simp add: of_send_def with_dpt_def)
  show ?thesis
  proof (rule send_all_cases [of env ms c])
    assume "fst (send_all env ms c) = Inr 0"
      and "trace (snd (send_all env ms c)) = trace c @ map Sent ms"
    then show thesis by (intro ok) (simp_all add: eq try_catch_def)
  next
    fix e ms1 m ms2
    assume split: "ms = ms1 @ m # ms2" and res: "fst (send_all env ms c) = Inl e"
      "trace (snd (send_all env ms c)) = trace c @ map Sent ms1 @ [Send_failed m e]"
    from split show thesis by (rule thrown) (simp_all add: eq try_catch_def res)
  qed
next
  case False
  then show ?thesis by (intro no_dpt) (simp_all add: of_send_def with_dpt_def try_catch_def)
qed

lemma fst_of_send_le: "fst (of_send env ms c) \<le> 0"
  by (rule of_send_cases [of env ms c]) (auto simp: less_imp_le)

lemma sent_of_send_prefix:
  "\<exists>ms1 ms2. ms = ms1 @ ms2 \<and> sent (trace (snd (of_send env ms c))) = sent (trace c) @ ms1"
  by (rule of_send_cases [of env ms c]) auto

lemma sends_ok_send_all:
  "sends_ok env \<Longrightarrow> send_all env ms c = (Inr 0, c\<lparr>trace := trace c @ map Sent ms\<rparr>)"
proof (induction ms arbitrary: c)
  case (Cons m ms)
  then obtain r where "send_outcome env (trace c) m = Inr r" unfolding sends_ok_def by blast
  then show ?case using Cons by (simp add: send_def emit_def)
qed simp

lemma sends_ok_case_send [simp]:
  "sends_ok env \<Longrightarrow>
     (case send env m c of (Inl e, c') \<Rightarrow> A e c' | (Inr r, c') \<Rightarrow> B c') = B (emit (Sent m) c)"
  unfolding sends_ok_def send_def by (metis (no_types, lifting) old.sum.simps(6) prod.case)

lemma sends_ok_with_dpt [simp]: "sends_ok env \<Longrightarrow> with_dpt env c body = body"
  by (simp add: with_dpt_def sends_ok_def)

lemma try_catch_Inr [simp]: "try_catch (Inr rv, c) = (rv, c)"
  by (simp add: try_catch_def)

lemma sends_ok_of_send [simp]:
  "sends_ok env \<Longrightarrow> of_send env ms c = (0, c\<lparr>trace := trace c @ map Sent ms\<rparr>)"
  by (simp add: of_send_def sends_ok_send_all)

text \<open>The trace only grows.\<close>

lemma trace_send_all_mono [trace_ext]: "set (trace c) \<subseteq> set (trace (snd (send_all env ms c)))"
  by (rule send_all_cases [of env ms c]) auto

lemma trace_of_send_mono [trace_ext]: "set (trace c) \<subseteq> set (trace (snd (of_send env ms c)))"
  by (rule of_send_cases [of env ms c]) auto

end
