(* ===== verification/Ofdpa_Client.thy ===== *)
theory Ofdpa_Client
  imports Controller_Base
begin

text \<open>
  The gRPC client (\<open>src/src/of-dpa/ofdpa_client.cc\<close>): one definition per method. A method fills
  a request, waits for the answer and returns its status, or \<open>OFDPA_E_RPC\<close> when the transport
  failed. The protocol of every tunnel request is VXLAN, so it is not carried around.
  \<open>ofdpaStgVlanRemove\<close> makes no call at all and returns the status of an empty answer (0).
\<close>

definition ofdpaTunnelReset :: "ofenv \<Rightarrow> controller \<Rightarrow> int \<times> controller" where
  "ofdpaTunnelReset env = rpc_call env Rpc_TunnelReset"

definition ofdpaTunnelTenantCreate :: "ofenv \<Rightarrow> u32 \<Rightarrow> u32 \<Rightarrow> controller \<Rightarrow> int \<times> controller" where
  "ofdpaTunnelTenantCreate env tunnel_id vni = rpc_call env (Rpc_TunnelTenantCreate tunnel_id vni)"

definition ofdpaTunnelTenantDelete :: "ofenv \<Rightarrow> u32 \<Rightarrow> controller \<Rightarrow> int \<times> controller" where
  "ofdpaTunnelTenantDelete env tunnel_id = rpc_call env (Rpc_TunnelTenantDelete tunnel_id)"

definition ofdpaPortSourceMacLearningSet ::
  "ofenv \<Rightarrow> u32 \<Rightarrow> u32 \<Rightarrow> controller \<Rightarrow> int \<times> controller" where
  "ofdpaPortSourceMacLearningSet env port_num l2_learn =
     rpc_call env (Rpc_PortSourceMacLearningSet port_num l2_learn)"

definition ofdpaPortSourceMacMoveLearningSet ::
  "ofenv \<Rightarrow> u32 \<Rightarrow> u32 \<Rightarrow> controller \<Rightarrow> int \<times> controller" where
  "ofdpaPortSourceMacMoveLearningSet env port_num l2_learn =
     rpc_call env (Rpc_PortSourceMacMoveLearningSet port_num l2_learn)"

definition ofdpaTunnelNextHopCreate ::
  "ofenv \<Rightarrow> u32 \<Rightarrow> u64 \<Rightarrow> u64 \<Rightarrow> u32 \<Rightarrow> u16 \<Rightarrow> controller \<Rightarrow> int \<times> controller" where
  "ofdpaTunnelNextHopCreate env next_hop_id src_mac dst_mac physical_port vlan_id =
     rpc_call env (Rpc_TunnelNextHopCreate next_hop_id src_mac dst_mac physical_port vlan_id)"

definition ofdpaTunnelNextHopDelete :: "ofenv \<Rightarrow> u32 \<Rightarrow> controller \<Rightarrow> int \<times> controller" where
  "ofdpaTunnelNextHopDelete env next_hop_id = rpc_call env (Rpc_TunnelNextHopDelete next_hop_id)"

definition ofdpaTunnelNextHopModify ::
  "ofenv \<Rightarrow> u32 \<Rightarrow> u64 \<Rightarrow> u64 \<Rightarrow> u32 \<Rightarrow> u16 \<Rightarrow> controller \<Rightarrow> int \<times> controller" where
  "ofdpaTunnelNextHopModify env next_hop_id src_mac dst_mac physical_port vlan_id =
     rpc_call env (Rpc_TunnelNextHopModify next_hop_id src_mac dst_mac physical_port vlan_id)"

definition make_access_port_config :: "u32 \<Rightarrow> u32 \<Rightarrow> bool \<Rightarrow> access_port_config" where
  "make_access_port_config physical_port vlan_id untagged =
     \<lparr>pysical_port_num = physical_port, access_vlan_id = vlan_id, access_untagged = untagged\<rparr>"

definition make_endpoint_config ::
  "u32 \<Rightarrow> u32 \<Rightarrow> u32 \<Rightarrow> u32 \<Rightarrow> u32 \<Rightarrow> u32 \<Rightarrow> u32 \<Rightarrow> bool \<Rightarrow> endpoint_config" where
  "make_endpoint_config remote loc ttl next_hop_id term_udp_dst_port init_udp_dst_port
     udp_src_port entropy =
     \<lparr>remote_endpoint = remote, local_endpoint = loc, endpoint_ttl = ttl,
      endpoint_next_hop_id = next_hop_id,
      initiator_udp_dst_port = init_udp_dst_port,
      terminator_udp_dst_port = term_udp_dst_port,
      udp_src_port_if_no_entropy = 0,
      use_entropy = entropy\<rparr>"

definition ofdpaTunnelPortCreate ::
  "ofenv \<Rightarrow> u32 \<Rightarrow> string \<Rightarrow> tunnel_port_config \<Rightarrow> controller \<Rightarrow> int \<times> controller" where
  "ofdpaTunnelPortCreate env port_id port_name config =
     rpc_call env (Rpc_TunnelPortCreate port_id port_name config)"

definition ofdpaTunnelAccessPortCreate ::
  "ofenv \<Rightarrow> u32 \<Rightarrow> string \<Rightarrow> u32 \<Rightarrow> u16 \<Rightarrow> bool \<Rightarrow> controller \<Rightarrow> int \<times> controller" where
  "ofdpaTunnelAccessPortCreate env port_id port_name physical_port vlan_id untagged =
     ofdpaTunnelPortCreate env port_id port_name
       (Access_port (make_access_port_config physical_port (ucast vlan_id) untagged))"

definition ofdpaTunnelEndpointPortCreate ::
  "ofenv \<Rightarrow> u32 \<Rightarrow> string \<Rightarrow> u32 \<Rightarrow> u32 \<Rightarrow> u32 \<Rightarrow> u32 \<Rightarrow> u32 \<Rightarrow> u32 \<Rightarrow> u32 \<Rightarrow> bool \<Rightarrow>
   controller \<Rightarrow> int \<times> controller" where
  "ofdpaTunnelEndpointPortCreate env port_id port_name remote_ipv4 local_ipv4 ttl next_hop_id
     term_udp_dst_port init_udp_dst_port udp_src_port entropy =
     ofdpaTunnelPortCreate env port_id port_name
       (Endpoint_port (make_endpoint_config remote_ipv4 local_ipv4 ttl next_hop_id
          term_udp_dst_port init_udp_dst_port udp_src_port entropy))"

definition ofdpaTunnelPortDelete :: "ofenv \<Rightarrow> u32 \<Rightarrow> controller \<Rightarrow> int \<times> controller" where
  "ofdpaTunnelPortDelete env lport_id = rpc_call env (Rpc_TunnelPortDelete lport_id)"

definition ofdpaTunnelPortTenantAdd :: "ofenv \<Rightarrow> u32 \<Rightarrow> u32 \<Rightarrow> controller \<Rightarrow> int \<times> controller" where
  "ofdpaTunnelPortTenantAdd env port_id tunnel_id =
     rpc_call env (Rpc_TunnelPortTenantAdd port_id tunnel_id)"

definition ofdpaTunnelPortTenantDelete :: "ofenv \<Rightarrow> u32 \<Rightarrow> u32 \<Rightarrow> controller \<Rightarrow> int \<times> controller" where
  "ofdpaTunnelPortTenantDelete env port_id tunnel_id =
     rpc_call env (Rpc_TunnelPortTenantDelete port_id tunnel_id)"

definition ofdpaStgReset :: "ofenv \<Rightarrow> controller \<Rightarrow> int \<times> controller" where
  "ofdpaStgReset env = rpc_call env Rpc_StgReset"

definition ofdpaStgStatePortSet ::
  "ofenv \<Rightarrow> u32 \<Rightarrow> string \<Rightarrow> u32 \<Rightarrow> controller \<Rightarrow> int \<times> controller" where
  "ofdpaStgStatePortSet env port_id state stg_id =
     rpc_call env (Rpc_StgStatePortSet port_id state stg_id)"

definition ofdpaStgCreate :: "ofenv \<Rightarrow> u16 \<Rightarrow> controller \<Rightarrow> int \<times> controller" where
  "ofdpaStgCreate env stg_id = rpc_call env (Rpc_StgCreate stg_id)"

definition ofdpaStgDestroy :: "ofenv \<Rightarrow> u16 \<Rightarrow> controller \<Rightarrow> int \<times> controller" where
  "ofdpaStgDestroy env stg_id = rpc_call env (Rpc_StgDestroy stg_id)"

definition ofdpaStgVlanAdd :: "ofenv \<Rightarrow> u16 \<Rightarrow> u32 \<Rightarrow> controller \<Rightarrow> int \<times> controller" where
  "ofdpaStgVlanAdd env vlanid stgid = rpc_call env (Rpc_StgVlanAdd vlanid stgid)"

definition ofdpaStgVlanRemove :: "ofenv \<Rightarrow> u16 \<Rightarrow> u32 \<Rightarrow> controller \<Rightarrow> int \<times> controller" where
  "ofdpaStgVlanRemove env vlan_id stg_id c = (0, c)"

definition OfdpaTrunkCreate :: "ofenv \<Rightarrow> u32 \<Rightarrow> string \<Rightarrow> u8 \<Rightarrow> controller \<Rightarrow> int \<times> controller" where
  "OfdpaTrunkCreate env lag_id name mode = rpc_call env (Rpc_TrunkCreate name lag_id mode)"

definition OfdpaTrunkDelete :: "ofenv \<Rightarrow> u32 \<Rightarrow> controller \<Rightarrow> int \<times> controller" where
  "OfdpaTrunkDelete env lag_id = rpc_call env (Rpc_TrunkDelete lag_id)"

definition OfdpaPortTrunkGroupSet :: "ofenv \<Rightarrow> u32 \<Rightarrow> u32 \<Rightarrow> controller \<Rightarrow> int \<times> controller" where
  "OfdpaPortTrunkGroupSet env port_id trunk_id =
     rpc_call env (Rpc_PortTrunkGroupSet trunk_id port_id)"

definition OfdpaTrunkPortMemberActiveSet ::
  "ofenv \<Rightarrow> u32 \<Rightarrow> u32 \<Rightarrow> u32 \<Rightarrow> controller \<Rightarrow> int \<times> controller" where
  "OfdpaTrunkPortMemberActiveSet env port_id trunk_id active =
     rpc_call env (Rpc_TrunkPortMemberActiveSet trunk_id port_id active)"

definition ofdpaTrunkPortPSCSet :: "ofenv \<Rightarrow> u32 \<Rightarrow> u8 \<Rightarrow> controller \<Rightarrow> int \<times> controller" where
  "ofdpaTrunkPortPSCSet env lag_id mode = rpc_call env (Rpc_TrunkPortPSCSet lag_id mode)"

definition ofdpaRxRateSet :: "ofenv \<Rightarrow> int \<Rightarrow> controller \<Rightarrow> int \<times> controller" where
  "ofdpaRxRateSet env pps = rpc_call env (Rpc_RxRateSet pps)"

definition ofdpaPortKnetCreate :: "ofenv \<Rightarrow> u32 \<Rightarrow> controller \<Rightarrow> int \<times> controller" where
  "ofdpaPortKnetCreate env port_id = rpc_call env (Rpc_PortKnetCreate port_id)"

definition ofdpaPortKnetDelete :: "ofenv \<Rightarrow> u32 \<Rightarrow> controller \<Rightarrow> int \<times> controller" where
  "ofdpaPortKnetDelete env port_id = rpc_call env (Rpc_PortKnetDelete port_id)"

lemmas ofdpa_defs [op_defs] =
  ofdpaTunnelReset_def ofdpaTunnelTenantCreate_def ofdpaTunnelTenantDelete_def
  ofdpaPortSourceMacLearningSet_def ofdpaPortSourceMacMoveLearningSet_def
  ofdpaTunnelNextHopCreate_def ofdpaTunnelNextHopDelete_def ofdpaTunnelNextHopModify_def
  ofdpaTunnelPortCreate_def ofdpaTunnelAccessPortCreate_def ofdpaTunnelEndpointPortCreate_def
  ofdpaTunnelPortDelete_def ofdpaTunnelPortTenantAdd_def ofdpaTunnelPortTenantDelete_def
  ofdpaStgReset_def ofdpaStgStatePortSet_def ofdpaStgCreate_def ofdpaStgDestroy_def
  ofdpaStgVlanAdd_def ofdpaStgVlanRemove_def OfdpaTrunkCreate_def OfdpaTrunkDelete_def
  OfdpaPortTrunkGroupSet_def OfdpaTrunkPortMemberActiveSet_def ofdpaTrunkPortPSCSet_def
  ofdpaRxRateSet_def ofdpaPortKnetCreate_def ofdpaPortKnetDelete_def

end
