(* ===== verification/Group_Spec.thy ===== *)
theory Group_Spec
  imports Basebox_Prelude
begin

text \<open>
  What the switch promises about a family of groups, and what a component that manages such a
  family has to do. OpenFlow distinguishes adding a group (an error if it exists) from modifying
  one (an error if it does not); \<open>gstep\<close> is that rule, and replaying a list of group commands
  either gives the resulting group table or fails at the first rejected command.

  The locale \<open>group_family\<close> is the contract of a component that keeps the member sets itself and
  sends the commands. It is interpreted on the L2 flooding groups of VLANs and on the flooding
  groups of tunnels.
\<close>

datatype ('k, 'm) gop =
    GCreate 'k "'m fset"
  | GModify 'k "'m fset"
  | GDelete 'k

fun gstep :: "('k, 'm) gop \<Rightarrow> ('k \<rightharpoonup> 'm fset) \<Rightarrow> ('k \<rightharpoonup> 'm fset) option" where
  "gstep (GCreate k S) t = (if t k = None then Some (t(k \<mapsto> S)) else None)"
| "gstep (GModify k S) t = (if t k = None then None else Some (t(k \<mapsto> S)))"
| "gstep (GDelete k) t = (if t k = None then None else Some (t(k := None)))"

fun greplay :: "('k, 'm) gop list \<Rightarrow> ('k \<rightharpoonup> 'm fset) \<Rightarrow> ('k \<rightharpoonup> 'm fset) option" where
  "greplay [] t = Some t"
| "greplay (g # gs) t = (case gstep g t of None \<Rightarrow> None | Some t' \<Rightarrow> greplay gs t')"

lemma greplay_append:
  "greplay (xs @ ys) t = (case greplay xs t of None \<Rightarrow> None | Some t' \<Rightarrow> greplay ys t')"
  by (induction xs arbitrary: t) (auto split: option.splits)

text \<open>The group table that belongs to member sets: a group exists iff it has members.\<close>

definition table_of :: "('k \<Rightarrow> 'm fset) \<Rightarrow> ('k \<rightharpoonup> 'm fset)" where
  "table_of M k = (if M k = {||} then None else Some (M k))"

text \<open>Membership commands, their effect, and the discipline of adding only non-members.\<close>

datatype ('k, 'p) gcmd = GAdd 'k 'p | GDel 'k 'p

fun grun :: "('k \<Rightarrow> 'p \<Rightarrow> 's \<Rightarrow> 's) \<Rightarrow> ('k \<Rightarrow> 'p \<Rightarrow> 's \<Rightarrow> 's) \<Rightarrow> ('k, 'p) gcmd list \<Rightarrow> 's \<Rightarrow> 's" where
  "grun add del [] s = s"
| "grun add del (GAdd k p # cs) s = grun add del cs (add k p s)"
| "grun add del (GDel k p # cs) s = grun add del cs (del k p s)"

fun disciplined ::
  "('p \<Rightarrow> bool) \<Rightarrow> ('k \<Rightarrow> 'p \<Rightarrow> 'm) \<Rightarrow> ('k, 'p) gcmd list \<Rightarrow> ('k \<Rightarrow> 'm fset) \<Rightarrow> bool" where
  "disciplined valid gid [] M = True"
| "disciplined valid gid (GAdd k p # cs) M \<longleftrightarrow>
     valid p \<and> gid k p |\<notin>| M k \<and> disciplined valid gid cs (M(k := finsert (gid k p) (M k)))"
| "disciplined valid gid (GDel k p # cs) M \<longleftrightarrow>
     valid p \<and> gid k p |\<in>| M k \<and> disciplined valid gid cs (M(k := M k |-| {|gid k p|}))"

locale group_family =
  fixes env_ok :: bool
    and valid :: "'p \<Rightarrow> bool"
    and gid :: "'k \<Rightarrow> 'p \<Rightarrow> 'm"
    and add :: "'k \<Rightarrow> 'p \<Rightarrow> 's \<Rightarrow> 's"
    and del :: "'k \<Rightarrow> 'p \<Rightarrow> 's \<Rightarrow> 's"
    and members :: "'s \<Rightarrow> 'k \<Rightarrow> 'm fset"
    and gops :: "'s \<Rightarrow> ('k, 'm) gop list"
  assumes members_add: "env_ok \<Longrightarrow> valid p \<Longrightarrow>
      members (add k p s) = (members s)(k := finsert (gid k p) (members s k))"
    and members_del: "env_ok \<Longrightarrow> valid p \<Longrightarrow> gid k p |\<in>| members s k \<Longrightarrow>
      members (del k p s) = (members s)(k := members s k |-| {|gid k p|})"
    and gops_add: "env_ok \<Longrightarrow> valid p \<Longrightarrow> gid k p |\<notin>| members s k \<Longrightarrow>
      gops (add k p s) = gops s @
        [if members s k = {||} then GCreate k {|gid k p|}
         else GModify k (finsert (gid k p) (members s k))]"
    and gops_del: "env_ok \<Longrightarrow> valid p \<Longrightarrow> gid k p |\<in>| members s k \<Longrightarrow>
      gops (del k p s) = gops s @
        [if members s k |-| {|gid k p|} = {||} then GDelete k
         else GModify k (members s k |-| {|gid k p|})]"
begin

definition in_sync :: "'s \<Rightarrow> bool" where
  "in_sync s \<longleftrightarrow> greplay (gops s) Map.empty = Some (table_of (members s))"

lemma in_sync_add:
  assumes "env_ok" "valid p" "gid k p |\<notin>| members s k" "in_sync s"
  shows "in_sync (add k p s)"
  using assms
  by (auto simp: in_sync_def gops_add members_add greplay_append table_of_def fun_eq_iff)

lemma in_sync_del:
  assumes "env_ok" "valid p" "gid k p |\<in>| members s k" "in_sync s"
  shows "in_sync (del k p s)"
proof -
  have "members s k \<noteq> {||}" using assms(3) by auto
  then show ?thesis using assms
    by (auto simp: in_sync_def gops_del members_del greplay_append table_of_def fun_eq_iff)
qed

lemma in_sync_run:
  assumes "env_ok" and "disciplined valid gid cs (members s)" and "in_sync s"
  shows "in_sync (grun add del cs s)"
  using assms(2,3)
proof (induction cs arbitrary: s)
  case (Cons c cs)
  show ?case
  proof (cases c)
    case (GAdd k p)
    with Cons.prems have "in_sync (add k p s)" by (intro in_sync_add assms(1)) auto
    moreover have "disciplined valid gid cs (members (add k p s))"
      using Cons.prems GAdd by (simp add: members_add assms(1))
    ultimately show ?thesis using Cons.IH GAdd by simp
  next
    case (GDel k p)
    with Cons.prems have "in_sync (del k p s)" by (intro in_sync_del assms(1)) auto
    moreover have "disciplined valid gid cs (members (del k p s))"
      using Cons.prems GDel by (simp add: members_del assms(1))
    ultimately show ?thesis using Cons.IH GDel by simp
  qed
qed simp

end

end
