(* ===== verification/Ctl_Vlan.thy ===== *)
theory Ctl_Vlan
  imports Ofdpa_Client Group_Spec
begin

text \<open>
  The VLAN part of class \<open>controller\<close> (\<open>src/src/of-dpa/controller.cc\<close>): ingress and egress
  VLAN membership of a port, double tagging, and the L2 flooding group of a VLAN
  (\<open>egress_bridge_port_vlan_add\<close>/\<open>_remove\<close>), whose members are recorded in \<open>l2_domain\<close>.
\<close>

subsection \<open>Ingress\<close>

definition ingress_port_vlan_accept_all :: "ofenv \<Rightarrow> u32 \<Rightarrow> controller \<Rightarrow> int \<times> controller" where
  "ingress_port_vlan_accept_all env port = of_send env [Flow (Enable_port_vid_allow_all port)]"

definition ingress_port_vlan_drop_accept_all :: "ofenv \<Rightarrow> u32 \<Rightarrow> controller \<Rightarrow> int \<times> controller" where
  "ingress_port_vlan_drop_accept_all env port =
     of_send env [Flow (Disable_port_vid_allow_all port)]"

definition ingress_port_vlan_add ::
  "ofenv \<Rightarrow> u32 \<Rightarrow> u16 \<Rightarrow> bool \<Rightarrow> u16 \<Rightarrow> controller \<Rightarrow> int \<times> controller" where
  "ingress_port_vlan_add env port vid pvid vrf_id =
     of_send env
       (if pvid
        then [Flow (Enable_port_vid_ingress port vid vrf_id False),
              Flow (Enable_port_pvid_ingress port vid)]
        else [Flow (Enable_port_vid_ingress port vid vrf_id False)])"

definition ingress_port_vlan_remove ::
  "ofenv \<Rightarrow> u32 \<Rightarrow> u16 \<Rightarrow> bool \<Rightarrow> u16 \<Rightarrow> controller \<Rightarrow> int \<times> controller" where
  "ingress_port_vlan_remove env port vid pvid vrf_id =
     of_send env
       ((if pvid
         then [Flow (Disable_port_vid_ingress port vid vrf_id False),
               Flow (Disable_port_pvid_ingress port vid)]
         else [Flow (Disable_port_vid_ingress port vid vrf_id False)]) @ [Barrier])"

definition ingress_port_pvid_add :: "ofenv \<Rightarrow> u32 \<Rightarrow> u16 \<Rightarrow> controller \<Rightarrow> int \<times> controller" where
  "ingress_port_pvid_add env port pvid =
     of_send env [Flow (Enable_port_pvid_ingress port pvid), Barrier]"

definition ingress_port_pvid_remove :: "ofenv \<Rightarrow> u32 \<Rightarrow> u16 \<Rightarrow> controller \<Rightarrow> int \<times> controller" where
  "ingress_port_pvid_remove env port pvid =
     of_send env [Flow (Disable_port_pvid_ingress port pvid), Barrier]"

subsection \<open>Egress\<close>

definition egress_port_vlan_accept_all :: "ofenv \<Rightarrow> u32 \<Rightarrow> controller \<Rightarrow> int \<times> controller" where
  "egress_port_vlan_accept_all env port =
     of_send env [Group (Enable_group_l2_unfiltered_interface port)]"

definition egress_port_vlan_drop_accept_all :: "ofenv \<Rightarrow> u32 \<Rightarrow> controller \<Rightarrow> int \<times> controller" where
  "egress_port_vlan_drop_accept_all env port =
     of_send env [Group (Disable_group_l2_unfiltered_interface port)]"

definition egress_port_vlan_add ::
  "ofenv \<Rightarrow> u32 \<Rightarrow> u16 \<Rightarrow> bool \<Rightarrow> bool \<Rightarrow> controller \<Rightarrow> int \<times> controller" where
  "egress_port_vlan_add env port vid untagged update =
     of_send env
       [Group (if is_lag port then Enable_group_l2_trunk_interface port vid untagged update
               else Enable_group_l2_interface port vid untagged update)]"

definition egress_port_vlan_remove :: "ofenv \<Rightarrow> u32 \<Rightarrow> u16 \<Rightarrow> controller \<Rightarrow> int \<times> controller" where
  "egress_port_vlan_remove env port vid =
     of_send env
       [Group (if is_lag port then Disable_group_l2_trunk_interface port vid
               else Disable_group_l2_interface port vid), Barrier]"

subsection \<open>Double tagging\<close>

definition ingress_port_stacked_vlan_enable ::
  "ofenv \<Rightarrow> u32 \<Rightarrow> u16 \<Rightarrow> controller \<Rightarrow> int \<times> controller" where
  "ingress_port_stacked_vlan_enable env port vid =
     of_send env [Flow (Enable_port_vid_ingress port vid 0 True)]"

definition ingress_port_stacked_vlan_disable ::
  "ofenv \<Rightarrow> u32 \<Rightarrow> u16 \<Rightarrow> controller \<Rightarrow> int \<times> controller" where
  "ingress_port_stacked_vlan_disable env port vid =
     of_send env [Flow (Disable_port_vid_ingress port vid 0 True)]"

definition ingress_port_pop_vlan_add ::
  "ofenv \<Rightarrow> u32 \<Rightarrow> u16 \<Rightarrow> u16 \<Rightarrow> u16 \<Rightarrow> controller \<Rightarrow> int \<times> controller" where
  "ingress_port_pop_vlan_add env port outer_vid inner_vid vrf_id =
     of_send env [Flow (Enable_port_pop_tag_ingress port inner_vid outer_vid vrf_id)]"

definition ingress_port_pop_vlan_remove ::
  "ofenv \<Rightarrow> u32 \<Rightarrow> u16 \<Rightarrow> u16 \<Rightarrow> u16 \<Rightarrow> controller \<Rightarrow> int \<times> controller" where
  "ingress_port_pop_vlan_remove env port outer_vid inner_vid vrf_id =
     of_send env [Flow (Disable_port_pop_tag_ingress port inner_vid outer_vid vrf_id)]"

definition egress_port_push_vlan_add ::
  "ofenv \<Rightarrow> u32 \<Rightarrow> u16 \<Rightarrow> u16 \<Rightarrow> controller \<Rightarrow> int \<times> controller" where
  "egress_port_push_vlan_add env port vid push_vid =
     of_send env [Flow (Enable_vlan_egress_push_tag port vid push_vid)]"

definition egress_port_push_vlan_remove ::
  "ofenv \<Rightarrow> u32 \<Rightarrow> u16 \<Rightarrow> u16 \<Rightarrow> controller \<Rightarrow> int \<times> controller" where
  "egress_port_push_vlan_remove env port vid push_vid =
     of_send env [Flow (Disable_vlan_egress_push_tag port vid push_vid)]"

definition set_egress_tpid :: "ofenv \<Rightarrow> u32 \<Rightarrow> controller \<Rightarrow> int \<times> controller" where
  "set_egress_tpid env port = of_send env [Flow (Set_port_tpid port)]"

definition delete_egress_tpid :: "ofenv \<Rightarrow> u32 \<Rightarrow> controller \<Rightarrow> int \<times> controller" where
  "delete_egress_tpid env port = of_send env [Flow (Remove_port_tpid port)]"

subsection \<open>The flooding domain of a VLAN\<close>

text \<open>
  The set stored for a VLAN; an absent entry and an empty set are the same to every reader but
  the early return of \<open>egress_bridge_port_vlan_remove\<close>.
\<close>

definition members_of :: "('k, 'm fset) fmap \<Rightarrow> 'k \<Rightarrow> 'm fset" where
  "members_of m k = (case fmlookup m k of None \<Rightarrow> {||} | Some S \<Rightarrow> S)"

lemma members_of_fmupd [simp]:
  "members_of (fmupd k S m) k' = (if k' = k then S else members_of m k')"
  by (simp add: members_of_def)

text \<open>The barrier between the nested call and the group update is a send of its own.\<close>

definition egress_bridge_port_vlan_add ::
  "ofenv \<Rightarrow> u32 \<Rightarrow> u16 \<Rightarrow> bool \<Rightarrow> controller \<Rightarrow> int \<times> controller" where
  "egress_bridge_port_vlan_add env port vid untagged c =
     try_catch (with_dpt env c
       (let (rv, c1) = egress_port_vlan_add env port vid untagged False c
        in if is_lag port then (Inr 0, c1)
           else if rv < 0 then (Inr rv, c1)
           else case send env Barrier c1 of
               (Inl e, c2) \<Rightarrow> (Inl e, c2)
             | (Inr _, c2) \<Rightarrow>
                 (let S = finsert (group_id_l2_interface env port vid) (members_of (l2_domain c2) vid);
                      c3 = c2\<lparr>l2_domain := fmupd vid S (l2_domain c2)\<rparr>
                  in case send_all env
                       ([Group (Enable_group_l2_flood vid vid S (fcard S \<noteq> 1))] @
                        (if fcard S = 1
                         then [Barrier, Flow (Add_bridging_dlf_vlan vid (group_id_l2_flood env vid vid))]
                         else [])) c3 of
                      (Inl e, c4) \<Rightarrow> (Inl e, c4)
                    | (Inr _, c4) \<Rightarrow> (Inr rv, c4))))"

definition egress_bridge_port_vlan_remove ::
  "ofenv \<Rightarrow> u32 \<Rightarrow> u16 \<Rightarrow> controller \<Rightarrow> int \<times> controller" where
  "egress_bridge_port_vlan_remove env port vid c =
     try_catch (with_dpt env c
       (case fmlookup (l2_domain c) vid of
          None \<Rightarrow> (Inr 0, c)
        | Some S0 \<Rightarrow>
            (let S = S0 |-| {|group_id_l2_interface env port vid|};
                 c1 = c\<lparr>l2_domain := fmupd vid S (l2_domain c)\<rparr>
             in case send_all env
                  ((if fcard S \<noteq> 0 then [Group (Enable_group_l2_flood vid vid S True)]
                    else [Flow (Remove_bridging_dlf_vlan vid), Barrier,
                          Group (Disable_group_l2_flood vid vid)]) @ [Barrier]) c1 of
                 (Inl e, c2) \<Rightarrow> (Inl e, c2)
               | (Inr _, c2) \<Rightarrow> (let (rv, c3) = egress_port_vlan_remove env port vid c2 in (Inr rv, c3)))))"

lemmas ctl_vlan_send_defs [op_defs] =
  ingress_port_vlan_accept_all_def ingress_port_vlan_drop_accept_all_def
  ingress_port_vlan_add_def ingress_port_vlan_remove_def ingress_port_pvid_add_def
  ingress_port_pvid_remove_def egress_port_vlan_accept_all_def
  egress_port_vlan_drop_accept_all_def egress_port_vlan_add_def egress_port_vlan_remove_def
  ingress_port_stacked_vlan_enable_def ingress_port_stacked_vlan_disable_def
  ingress_port_pop_vlan_add_def ingress_port_pop_vlan_remove_def
  egress_port_push_vlan_add_def egress_port_push_vlan_remove_def
  set_egress_tpid_def delete_egress_tpid_def

subsection \<open>The flooding group on the switch follows \<open>l2_domain\<close>\<close>

text \<open>The flooding-group commands among the messages that reached the switch.\<close>

fun flood_gops :: "ofmsg list \<Rightarrow> (u16, u32) gop list" where
  "flood_gops [] = []"
| "flood_gops (Group (Enable_group_l2_flood vid i S update) # ms) =
     (if update then GModify vid S else GCreate vid S) # flood_gops ms"
| "flood_gops (Group (Disable_group_l2_flood vid i) # ms) = GDelete vid # flood_gops ms"
| "flood_gops (m # ms) = flood_gops ms"

lemma flood_gops_append [simp]: "flood_gops (xs @ ys) = flood_gops xs @ flood_gops ys"
  by (induction xs rule: flood_gops.induct) auto

lemma flood_gops_other [simp]:
  "flood_gops [Group (if b then Enable_group_l2_trunk_interface p v u d
     else Enable_group_l2_interface p v u d)] = []"
  "flood_gops (Group (if b then Disable_group_l2_trunk_interface p v
     else Disable_group_l2_interface p v) # ms) = flood_gops ms"
  by (cases b; simp)+

lemma fcard_finsert_eq_1: "x |\<notin>| S \<Longrightarrow> fcard (finsert x S) = 1 \<longleftrightarrow> S = {||}"
  by (simp add: fcard_finsert_disjoint)

lemma sends_ok_bridge_add:
  assumes "sends_ok env" and "\<not> is_lag port"
  shows "egress_bridge_port_vlan_add env port vid untagged c =
    (let S = finsert (group_id_l2_interface env port vid) (members_of (l2_domain c) vid)
     in (0, c\<lparr>l2_domain := fmupd vid S (l2_domain c),
              trace := trace c @ map Sent
                ([Group (Enable_group_l2_interface port vid untagged False), Barrier,
                  Group (Enable_group_l2_flood vid vid S (fcard S \<noteq> 1))] @
                 (if fcard S = 1
                  then [Barrier, Flow (Add_bridging_dlf_vlan vid (group_id_l2_flood env vid vid))]
                  else []))\<rparr>))"
  using assms
  by (simp add: egress_bridge_port_vlan_add_def egress_port_vlan_add_def sends_ok_send_all
      emit_def Let_def)

lemma sends_ok_bridge_remove:
  assumes "sends_ok env" and "\<not> is_lag port" and "fmlookup (l2_domain c) vid = Some S0"
  shows "egress_bridge_port_vlan_remove env port vid c =
    (let S = S0 |-| {|group_id_l2_interface env port vid|}
     in (0, c\<lparr>l2_domain := fmupd vid S (l2_domain c),
              trace := trace c @ map Sent
                ((if fcard S \<noteq> 0 then [Group (Enable_group_l2_flood vid vid S True)]
                  else [Flow (Remove_bridging_dlf_vlan vid), Barrier,
                        Group (Disable_group_l2_flood vid vid)]) @
                 [Barrier, Group (Disable_group_l2_interface port vid), Barrier])\<rparr>))"
  using assms
  by (simp add: egress_bridge_port_vlan_remove_def egress_port_vlan_remove_def sends_ok_send_all
      Let_def)

abbreviation vlan_gid :: "ofenv \<Rightarrow> u16 \<Rightarrow> u32 \<times> bool \<Rightarrow> u32" where
  "vlan_gid env vid p \<equiv> group_id_l2_interface env (fst p) vid"

interpretation vlan_flood: group_family "sends_ok env" "\<lambda>p. \<not> is_lag (fst p)" "vlan_gid env"
    "\<lambda>vid p c. snd (egress_bridge_port_vlan_add env (fst p) vid (snd p) c)"
    "\<lambda>vid p c. snd (egress_bridge_port_vlan_remove env (fst p) vid c)"
    "\<lambda>c. members_of (l2_domain c)" "\<lambda>c. flood_gops (sent (trace c))"
  for env :: ofenv
proof unfold_locales
  fix p :: "u32 \<times> bool" and vid and c :: controller
  assume ok: "sends_ok env" and p: "\<not> is_lag (fst p)"
  let ?M = "members_of (l2_domain c)" and ?g = "vlan_gid env vid p"
  show "members_of (l2_domain (snd (egress_bridge_port_vlan_add env (fst p) vid (snd p) c))) =
        ?M(vid := finsert ?g (?M vid))"
    using ok p by (simp add: sends_ok_bridge_add Let_def fun_eq_iff)
  show "flood_gops (sent (trace (snd (egress_bridge_port_vlan_add env (fst p) vid (snd p) c)))) =
        flood_gops (sent (trace c)) @
          [if ?M vid = {||} then GCreate vid {|?g|} else GModify vid (finsert ?g (?M vid))]"
    if "?g |\<notin>| ?M vid"
    using ok p that by (simp add: sends_ok_bridge_add Let_def fcard_finsert_disjoint)
  assume mem: "?g |\<in>| ?M vid"
  then obtain S0 where S0: "fmlookup (l2_domain c) vid = Some S0"
    by (auto simp: members_of_def split: option.splits)
  show "members_of (l2_domain (snd (egress_bridge_port_vlan_remove env (fst p) vid c))) =
        ?M(vid := ?M vid |-| {|?g|})"
    using ok p S0 by (simp add: sends_ok_bridge_remove Let_def fun_eq_iff members_of_def)
  show "flood_gops (sent (trace (snd (egress_bridge_port_vlan_remove env (fst p) vid c)))) =
        flood_gops (sent (trace c)) @
          [if ?M vid |-| {|?g|} = {||} then GDelete vid else GModify vid (?M vid |-| {|?g|})]"
    using ok p S0 by (simp add: sends_ok_bridge_remove Let_def members_of_def)
qed

text \<open>
  C1: as long as sends succeed, and ports are added to a VLAN's flooding domain only when they
  are not in it and removed only when they are, the switch accepts every flooding-group command
  and ends up with exactly the groups of \<open>l2_domain\<close>: a VLAN has a flooding group iff its member
  set is not empty, and the group's buckets are that set. LAG ports are excluded: they are
  flooded to through their members.
\<close>

theorem flood_groups_follow_l2_domain:
  assumes "sends_ok env"
    and "disciplined (\<lambda>p. \<not> is_lag (fst p)) (vlan_gid env) cmds (members_of (l2_domain c))"
    and "greplay (flood_gops (sent (trace c))) Map.empty = Some (table_of (members_of (l2_domain c)))"
    and "c' = grun (\<lambda>vid p c. snd (egress_bridge_port_vlan_add env (fst p) vid (snd p) c))
                  (\<lambda>vid p c. snd (egress_bridge_port_vlan_remove env (fst p) vid c)) cmds c"
  shows "greplay (flood_gops (sent (trace c'))) Map.empty = Some (table_of (members_of (l2_domain c')))"
  using vlan_flood.in_sync_run [OF assms(1,2)] assms(3,4) by (simp add: vlan_flood.in_sync_def)

lemma init_flood_groups_in_sync:
  "greplay (flood_gops (sent (trace controller_init))) Map.empty =
   Some (table_of (members_of (l2_domain controller_init)))"
  by (simp add: controller_init_def table_of_def members_of_def fun_eq_iff)

theorem flood_groups_follow_l2_domain_witness:
  "\<exists>c'. greplay (flood_gops (sent (trace c'))) Map.empty =
         Some (table_of (members_of (l2_domain c'))) \<and>
        c' = grun (\<lambda>vid p c. snd (egress_bridge_port_vlan_add ideal_env (fst p) vid (snd p) c))
               (\<lambda>vid p c. snd (egress_bridge_port_vlan_remove ideal_env (fst p) vid c))
               [GAdd 10 (1, True), GAdd 10 (2, False), GDel 10 (1, True)] controller_init"
proof -
  have "disciplined (\<lambda>p. \<not> is_lag (fst p)) (vlan_gid ideal_env)
      [GAdd 10 (1, True), GAdd 10 (2, False), GDel 10 (1, True)]
      (members_of (l2_domain controller_init))"
    by (simp add: ideal_env_def controller_init_def members_of_def get_port_type_def)
  from flood_groups_follow_l2_domain [OF sends_ok_ideal this init_flood_groups_in_sync refl]
  show ?thesis by blast
qed

text \<open>
  the discipline above is needed. Adding again the only member of a VLAN's domain makes the
  controller send a second \<open>add\<close> for the existing flooding group (the update flag is computed from
  the size of the set, which is still 1), and the switch rejects it.
\<close>

theorem readding_sole_member_rejected:
  assumes "sends_ok env" and "\<not> is_lag port"
    and "greplay (flood_gops (sent (trace c))) Map.empty = Some (table_of (members_of (l2_domain c)))"
    and "members_of (l2_domain c) vid = {|group_id_l2_interface env port vid|}"
  shows "greplay (flood_gops (sent (trace (snd (egress_bridge_port_vlan_add env port vid untagged c)))))
           Map.empty = None"
  using assms by (simp add: sends_ok_bridge_add Let_def greplay_append table_of_def)

theorem readding_sole_member_rejected_witness:
  "let c = snd (egress_bridge_port_vlan_add ideal_env 1 10 True controller_init)
   in greplay (flood_gops (sent (trace (snd (egress_bridge_port_vlan_add ideal_env 1 10 True c)))))
        Map.empty = None"
proof -
  have lag: "\<not> is_lag 1" by (simp add: get_port_type_def)
  let ?c = "snd (egress_bridge_port_vlan_add ideal_env 1 10 True controller_init)"
  have "greplay (flood_gops (sent (trace ?c))) Map.empty = Some (table_of (members_of (l2_domain ?c)))"
    and "members_of (l2_domain ?c) 10 = {|group_id_l2_interface ideal_env 1 10|}"
    using lag by (auto simp: sends_ok_bridge_add Let_def controller_init_def members_of_def
        table_of_def fun_eq_iff)
  from readding_sole_member_rejected [OF sends_ok_ideal lag this] show ?thesis by simp
qed

text \<open>
  a VLAN that is bridged on a LAG only has no entry in \<open>l2_domain\<close>
  (\<open>egress_bridge_port_vlan_add\<close> returns before recording a LAG), so removing it from the LAG
  returns at once: the L2 interface group created by the addition is never removed from the
  switch.
\<close>

theorem lag_bridge_vlan_group_leaks:
  assumes "sends_ok env" and "is_lag port" and "fmlookup (l2_domain c) vid = None"
    and "c1 = snd (egress_bridge_port_vlan_add env port vid untagged c)"
    and "c2 = snd (egress_bridge_port_vlan_remove env port vid c1)"
  shows "sent (trace c2) =
           sent (trace c) @ [Group (Enable_group_l2_trunk_interface port vid untagged False)]"
  using assms
  by (simp add: egress_bridge_port_vlan_add_def egress_bridge_port_vlan_remove_def
      egress_port_vlan_add_def Let_def)

theorem lag_bridge_vlan_group_leaks_witness:
  "\<exists>c2. sent (trace c2) = [Group (Enable_group_l2_trunk_interface 0x20001 10 True False)] \<and>
        c2 = snd (egress_bridge_port_vlan_remove ideal_env 0x20001 10
               (snd (egress_bridge_port_vlan_add ideal_env 0x20001 10 True controller_init)))"
  using lag_bridge_vlan_group_leaks
    [where env = ideal_env and port = "0x20001" and c = controller_init and vid = 10
       and untagged = True, OF sends_ok_ideal _ _ refl refl]
  by (simp add: get_port_type_def controller_init_def)

end
