(* ===== verification/Id_Allocator.thy ===== *)
theory Id_Allocator
  imports Basebox_Prelude
begin

text \<open>
  The contract of an identifier allocator with a counter and a set of returned identifiers: a
  returned identifier is handed out again before the counter advances. The controller has two of
  them, for L3 egress groups and for ECMP groups; each interprets the locale \<open>id_allocator\<close>.

  The client's view is the set of identifiers it holds. \<open>id_run\<close> executes requests and releases
  on behalf of a client that releases only what it holds, and yields \<open>None\<close> if the allocator ever
  hands out an identifier that is still held.
\<close>

text \<open>\<open>*s.begin()\<close> of a non-empty \<open>std::set\<close>.\<close>

definition fset_begin :: "'a::linorder fset \<Rightarrow> 'a" where
  "fset_begin S = hd (sorted_list_of_fset S)"

lemma fset_begin_in: "S \<noteq> {||} \<Longrightarrow> fset_begin S |\<in>| S"
  unfolding fset_begin_def
  by (metis hd_in_set sorted_list_of_fset_simps fset_of_list.rep_eq fset_of_list_simps(1))

datatype 'a id_cmd = Id_alloc 'a | Id_free u32

fun id_run :: "('a \<Rightarrow> 's \<Rightarrow> u32 \<times> 's) \<Rightarrow> (u32 \<Rightarrow> 's \<Rightarrow> 's) \<Rightarrow> 'a id_cmd list \<Rightarrow>
    u32 fset \<times> 's \<Rightarrow> (u32 fset \<times> 's) option" where
  "id_run alloc free [] (L, s) = Some (L, s)"
| "id_run alloc free (Id_alloc a # cs) (L, s) =
     (let (i, s') = alloc a s
      in if i |\<in>| L then None else id_run alloc free cs (finsert i L, s'))"
| "id_run alloc free (Id_free i # cs) (L, s) =
     (if i |\<in>| L then id_run alloc free cs (L |-| {|i|}, free i s) else id_run alloc free cs (L, s))"

definition id_inv :: "u32 fset \<Rightarrow> u32 \<Rightarrow> u32 fset \<Rightarrow> bool" where
  "id_inv L nxt F \<longleftrightarrow> L |\<inter>| F = {||} \<and> fset (L |\<union>| F) = {i. 1 \<le> i \<and> i < nxt} \<and> 1 \<le> nxt"

lemma id_inv_initial: "id_inv {||} 1 {||}"
  by (auto simp: id_inv_def word_le_nat_alt word_less_nat_alt)

lemma id_inv_member: "id_inv L nxt F \<Longrightarrow> i |\<in>| L |\<union>| F \<longleftrightarrow> 1 \<le> i \<and> i < nxt"
  by (auto simp: id_inv_def)

lemma below_increment: "unat (n :: u32) + 1 < 2 ^ 32 \<Longrightarrow> i < n + 1 \<longleftrightarrow> i < n \<or> i = n"
  by (simp add: word_less_nat_alt word_unat_eq_iff unat_word_ariths) linarith

lemma le_increment: "unat (n :: u32) + 1 < 2 ^ 32 \<Longrightarrow> 1 \<le> n + 1"
  by (simp add: word_le_nat_alt unat_word_ariths)

text \<open>The three transitions of the invariant.\<close>

lemma id_inv_fresh:
  assumes "id_inv L nxt {||}" and "unat nxt + 1 < 2 ^ 32"
  shows "nxt |\<notin>| L" and "id_inv (finsert nxt L) (nxt + 1) {||}"
  using assms by (auto simp: id_inv_def below_increment le_increment)

lemma id_inv_reuse:
  assumes "id_inv L nxt F" and "i |\<in>| F"
  shows "i |\<notin>| L" and "id_inv (finsert i L) nxt (F |-| {|i|})"
  using assms by (auto simp: id_inv_def)

lemma id_inv_release:
  assumes "id_inv L nxt F" and "i |\<in>| L"
  shows "id_inv (L |-| {|i|}) nxt (finsert i F)"
  using assms by (auto simp: id_inv_def)

locale id_allocator =
  fixes alloc :: "'a \<Rightarrow> 's \<Rightarrow> u32 \<times> 's"
    and free :: "u32 \<Rightarrow> 's \<Rightarrow> 's"
    and next_id :: "'s \<Rightarrow> u32"
    and freed :: "'s \<Rightarrow> u32 fset"
    and limit :: nat \<comment> \<open>identifiers below this can be released\<close>
  assumes limit: "limit \<le> 2 ^ 32"
    and alloc_fresh: "freed s = {||} \<Longrightarrow> fst (alloc a s) = next_id s \<and>
      next_id (snd (alloc a s)) = next_id s + 1 \<and> freed (snd (alloc a s)) = {||}"
    and alloc_reuse: "freed s \<noteq> {||} \<Longrightarrow> fst (alloc a s) = fset_begin (freed s) \<and>
      next_id (snd (alloc a s)) = next_id s \<and>
      freed (snd (alloc a s)) = freed s |-| {|fset_begin (freed s)|}"
    and free: "unat i < limit \<Longrightarrow>
      next_id (free i s) = next_id s \<and> freed (free i s) = finsert i (freed s)"
begin

lemma alloc_inv:
  assumes "id_inv L (next_id s) (freed s)" and "unat (next_id s) + 1 < 2 ^ 32"
  shows "fst (alloc a s) |\<notin>| L"
    and "id_inv (finsert (fst (alloc a s)) L) (next_id (snd (alloc a s))) (freed (snd (alloc a s)))"
    and "unat (next_id (snd (alloc a s))) \<le> unat (next_id s) + 1"
proof -
  consider (fresh) "freed s = {||}" | (reuse) "freed s \<noteq> {||}" by blast
  then have "fst (alloc a s) |\<notin>| L \<and>
    id_inv (finsert (fst (alloc a s)) L) (next_id (snd (alloc a s))) (freed (snd (alloc a s))) \<and>
    unat (next_id (snd (alloc a s))) \<le> unat (next_id s) + 1"
  proof cases
    case fresh
    then show ?thesis using alloc_fresh [OF fresh] id_inv_fresh [of L "next_id s"] assms
      by (simp add: unat_word_ariths)
  next
    case reuse
    then show ?thesis using alloc_reuse [OF reuse] fset_begin_in [OF reuse] assms
        id_inv_reuse [of L "next_id s" "freed s" "fset_begin (freed s)"]
      by simp
  qed
  then show "fst (alloc a s) |\<notin>| L"
    and "id_inv (finsert (fst (alloc a s)) L) (next_id (snd (alloc a s))) (freed (snd (alloc a s)))"
    and "unat (next_id (snd (alloc a s))) \<le> unat (next_id s) + 1" by auto
qed

lemma free_inv:
  assumes "id_inv L (next_id s) (freed s)" and "i |\<in>| L" and "unat (next_id s) \<le> limit"
  shows "id_inv (L |-| {|i|}) (next_id (free i s)) (freed (free i s))"
    and "next_id (free i s) = next_id s"
proof -
  have "i < next_id s" using assms(1,2) id_inv_member [of L _ _ i] by auto
  then have "unat i < limit" using assms(3) by (simp add: word_less_nat_alt)
  then show "id_inv (L |-| {|i|}) (next_id (free i s)) (freed (free i s))"
    and "next_id (free i s) = next_id s"
    using free id_inv_release [OF assms(1,2)] by auto
qed

text \<open>No identifier is handed out twice, and none is lost, in any run.\<close>

lemma run_inv:
  assumes "id_inv L (next_id s) (freed s)" and "unat (next_id s) + length cs < limit"
  shows "\<exists>L' s'. id_run alloc free cs (L, s) = Some (L', s') \<and>
           id_inv L' (next_id s') (freed s')"
  using assms
proof (induction cs arbitrary: L s)
  case (Cons c cs)
  show ?case
  proof (cases c)
    case (Id_alloc a)
    have "unat (next_id s) + 1 < 2 ^ 32" using Cons.prems(2) limit by simp
    note step = alloc_inv [OF Cons.prems(1) this, of a]
    from step(3) have "unat (next_id (snd (alloc a s))) + length cs < limit"
      using Cons.prems(2) by simp
    from Cons.IH [OF step(2) this] step(1) show ?thesis
      by (simp add: Id_alloc split_beta Let_def)
  next
    case (Id_free i)
    show ?thesis
    proof (cases "i |\<in>| L")
      case True
      have "unat (next_id s) \<le> limit" using Cons.prems(2) by simp
      note step = free_inv [OF Cons.prems(1) True this]
      from Cons.IH [OF step(1)] step(2) Cons.prems(2) True show ?thesis
        by (simp add: Id_free)
    next
      case False
      then show ?thesis using Cons by (simp add: Id_free)
    qed
  qed
qed auto

end

end
