(* ===== verification/Ctl_L3.thy ===== *)
theory Ctl_L3
  imports Ofdpa_Client Id_Allocator
begin

text \<open>
  The routing part of class \<open>controller\<close> (\<open>src/src/of-dpa/controller.cc\<close>): termination MACs, L3
  egress groups and ECMP groups with their identifier allocators, host and prefix routes.
\<close>

subsection \<open>Termination MACs\<close>

text \<open>Send, keep the result of the send, then send a barrier.\<close>

definition send_then_barrier :: "ofenv \<Rightarrow> ofmsg \<Rightarrow> controller \<Rightarrow> int \<times> controller" where
  "send_then_barrier env m c =
     try_catch (with_dpt env c
       (case send env m c of
          (Inl e, c1) \<Rightarrow> (Inl e, c1)
        | (Inr r, c1) \<Rightarrow>
            (case send env Barrier c1 of
               (Inl e, c2) \<Rightarrow> (Inl e, c2)
             | (Inr _, c2) \<Rightarrow> (Inr r, c2))))"

definition l3_termination_add :: "ofenv \<Rightarrow> u32 \<Rightarrow> u16 \<Rightarrow> mac \<Rightarrow> controller \<Rightarrow> int \<times> controller" where
  "l3_termination_add env sport vid dmac =
     send_then_barrier env
       (Flow (if mac_is_multicast env dmac then Enable_tmac_ipv4_multicast_mac
              else Enable_tmac_ipv4_unicast_mac sport vid dmac))"

definition l3_termination_add_v6 :: "ofenv \<Rightarrow> u32 \<Rightarrow> u16 \<Rightarrow> mac \<Rightarrow> controller \<Rightarrow> int \<times> controller" where
  "l3_termination_add_v6 env sport vid dmac =
     send_then_barrier env
       (Flow (if mac_is_multicast env dmac then Enable_tmac_ipv6_multicast_mac
              else Enable_tmac_ipv6_unicast_mac sport vid dmac))"

definition l3_termination_remove :: "ofenv \<Rightarrow> u32 \<Rightarrow> u16 \<Rightarrow> mac \<Rightarrow> controller \<Rightarrow> int \<times> controller" where
  "l3_termination_remove env sport vid dmac =
     of_send env [Flow (Disable_tmac_ipv4_unicast_mac sport vid dmac), Barrier]"

definition l3_termination_remove_v6 :: "ofenv \<Rightarrow> u32 \<Rightarrow> u16 \<Rightarrow> mac \<Rightarrow> controller \<Rightarrow> int \<times> controller" where
  "l3_termination_remove_v6 env sport vid dmac =
     of_send env [Flow (Disable_tmac_ipv6_unicast_mac sport vid dmac), Barrier]"

subsection \<open>Egress groups\<close>

text \<open>
  \<open>l3_egress_create\<close> returns the code and the identifier (the out parameter). The identifier is
  taken from the allocator whether or not the send succeeded.
\<close>

definition l3_egress_create ::
  "ofenv \<Rightarrow> u32 \<Rightarrow> u16 \<Rightarrow> mac \<Rightarrow> mac \<Rightarrow> controller \<Rightarrow> (int \<times> u32) \<times> controller" where
  "l3_egress_create env port vid src_mac dst_mac c =
     (let F = freed_egress_interfaces_ids c;
          increment = (F = {||});
          i = (if increment then egress_interface_id c else fset_begin F);
          (rv, c1) = of_send env
            [Group (Enable_group_l3_unicast i src_mac dst_mac (l2_group_id env port vid) False)] c;
          c2 = (if increment then c1\<lparr>egress_interface_id := egress_interface_id c1 + 1\<rparr>
                else c1\<lparr>freed_egress_interfaces_ids := freed_egress_interfaces_ids c1
                         |-| {|fset_begin (freed_egress_interfaces_ids c1)|}\<rparr>)
      in ((rv, i), c2))"

definition l3_egress_update ::
  "ofenv \<Rightarrow> u32 \<Rightarrow> u16 \<Rightarrow> mac \<Rightarrow> mac \<Rightarrow> u32 \<Rightarrow> controller \<Rightarrow> int \<times> controller" where
  "l3_egress_update env port vid src_mac dst_mac l3_interface_id =
     of_send env [Group (Enable_group_l3_unicast l3_interface_id src_mac dst_mac
       (l2_group_id env port vid) True)]"

definition l3_egress_remove :: "ofenv \<Rightarrow> u32 \<Rightarrow> controller \<Rightarrow> int \<times> controller" where
  "l3_egress_remove env l3_interface_id c =
     (let (rv, c1) = of_send env [Barrier, Group (Disable_group_l3_unicast l3_interface_id)] c
      in (rv, c1\<lparr>freed_egress_interfaces_ids :=
                   finsert l3_interface_id (freed_egress_interfaces_ids c1)\<rparr>))"

subsection \<open>Host and prefix routes\<close>

definition max_l3_interface_id :: u32 where "max_l3_interface_id = 0x0fffffff"

text \<open>Identifier 0 means: send to the controller.\<close>

definition l3_group_id :: "ofenv \<Rightarrow> u32 \<Rightarrow> bool \<Rightarrow> u32" where
  "l3_group_id env l3_interface_id is_ecmp =
     (if l3_interface_id \<noteq> 0
      then (if is_ecmp then group_id_l3_ecmp env l3_interface_id
            else group_id_l3_unicast env l3_interface_id)
      else l3_interface_id)"

definition l3_unicast_host_add_in4 ::
  "ofenv \<Rightarrow> in4 \<Rightarrow> u32 \<Rightarrow> bool \<Rightarrow> bool \<Rightarrow> u16 \<Rightarrow> controller \<Rightarrow> int \<times> controller" where
  "l3_unicast_host_add_in4 env ipv4_dst l3_interface_id is_ecmp update_route vrf_id c =
     (if l3_interface_id > max_l3_interface_id then (- EINVAL, c)
      else if is_ecmp \<and> l3_interface_id = 0 then (- EINVAL, c)
      else of_send env [Flow (Enable_ipv4_unicast_host ipv4_dst
             (l3_group_id env l3_interface_id is_ecmp) update_route vrf_id)] c)"

definition l3_unicast_host_add_in6 ::
  "ofenv \<Rightarrow> in6 \<Rightarrow> u32 \<Rightarrow> bool \<Rightarrow> bool \<Rightarrow> u16 \<Rightarrow> controller \<Rightarrow> int \<times> controller" where
  "l3_unicast_host_add_in6 env ipv6_dst l3_interface_id is_ecmp update_route vrf_id c =
     (if l3_interface_id > max_l3_interface_id then (- EINVAL, c)
      else if is_ecmp \<and> l3_interface_id = 0 then (- EINVAL, c)
      else of_send env [Flow (Enable_ipv6_unicast_host ipv6_dst
             (l3_group_id env l3_interface_id is_ecmp) update_route vrf_id)] c)"

definition l3_unicast_host_remove_in4 :: "ofenv \<Rightarrow> in4 \<Rightarrow> u16 \<Rightarrow> controller \<Rightarrow> int \<times> controller" where
  "l3_unicast_host_remove_in4 env ipv4_dst vrf_id =
     of_send env [Flow (Disable_ipv4_unicast_host ipv4_dst vrf_id), Barrier]"

definition l3_unicast_host_remove_in6 :: "ofenv \<Rightarrow> in6 \<Rightarrow> u16 \<Rightarrow> controller \<Rightarrow> int \<times> controller" where
  "l3_unicast_host_remove_in6 env ipv6_dst vrf_id =
     of_send env [Flow (Disable_ipv6_unicast_host ipv6_dst), Barrier]"

definition l3_unicast_route_add_in4 ::
  "ofenv \<Rightarrow> in4 \<Rightarrow> in4 \<Rightarrow> u32 \<Rightarrow> bool \<Rightarrow> bool \<Rightarrow> u16 \<Rightarrow> controller \<Rightarrow> int \<times> controller" where
  "l3_unicast_route_add_in4 env ipv4_dst msk l3_interface_id is_ecmp update_route vrf_id c =
     (if l3_interface_id > max_l3_interface_id then (- EINVAL, c)
      else of_send env [Flow (Enable_ipv4_unicast_lpm ipv4_dst msk
             (l3_group_id env l3_interface_id is_ecmp) update_route vrf_id), Barrier] c)"

definition l3_unicast_route_add_in6 ::
  "ofenv \<Rightarrow> in6 \<Rightarrow> in6 \<Rightarrow> u32 \<Rightarrow> bool \<Rightarrow> bool \<Rightarrow> u16 \<Rightarrow> controller \<Rightarrow> int \<times> controller" where
  "l3_unicast_route_add_in6 env ipv6_dst msk l3_interface_id is_ecmp update_route vrf_id c =
     (if l3_interface_id > max_l3_interface_id then (- EINVAL, c)
      else of_send env [Flow (Enable_ipv6_unicast_lpm ipv6_dst msk
             (l3_group_id env l3_interface_id is_ecmp) update_route vrf_id), Barrier] c)"

definition l3_unicast_route_remove_in4 ::
  "ofenv \<Rightarrow> in4 \<Rightarrow> in4 \<Rightarrow> u16 \<Rightarrow> controller \<Rightarrow> int \<times> controller" where
  "l3_unicast_route_remove_in4 env ipv4_dst msk vrf_id =
     of_send env [Flow (Disable_ipv4_unicast_lpm ipv4_dst msk vrf_id), Barrier]"

definition l3_unicast_route_remove_in6 ::
  "ofenv \<Rightarrow> in6 \<Rightarrow> in6 \<Rightarrow> u16 \<Rightarrow> controller \<Rightarrow> int \<times> controller" where
  "l3_unicast_route_remove_in6 env ipv6_dst msk vrf_id =
     of_send env [Flow (Disable_ipv6_unicast_lpm ipv6_dst msk vrf_id), Barrier]"

subsection \<open>ECMP groups\<close>

definition l3_ecmp_add :: "ofenv \<Rightarrow> u32 fset \<Rightarrow> controller \<Rightarrow> (int \<times> u32) \<times> controller" where
  "l3_ecmp_add env l3_interfaces c =
     (let F = freed_ecmp_interfaces_ids c;
          increment = (F = {||});
          i = (if increment then ecmp_interface_id c else fset_begin F);
          (rv, c1) = of_send env
            [Group (Enable_group_l3_ecmp (group_id_l3_ecmp env i)
               (group_id_l3_unicast env |`| l3_interfaces) False)] c;
          c2 = (if increment then c1\<lparr>ecmp_interface_id := ecmp_interface_id c1 + 1\<rparr>
                else c1\<lparr>freed_ecmp_interfaces_ids := freed_ecmp_interfaces_ids c1
                         |-| {|fset_begin (freed_ecmp_interfaces_ids c1)|}\<rparr>)
      in ((rv, i), c2))"

definition l3_ecmp_update :: "ofenv \<Rightarrow> u32 \<Rightarrow> u32 fset \<Rightarrow> controller \<Rightarrow> int \<times> controller" where
  "l3_ecmp_update env l3_ecmp_id l3_interfaces =
     of_send env [Group (Enable_group_l3_ecmp (group_id_l3_ecmp env l3_ecmp_id)
       (group_id_l3_unicast env |`| l3_interfaces) True)]"

definition l3_ecmp_remove :: "ofenv \<Rightarrow> u32 \<Rightarrow> controller \<Rightarrow> int \<times> controller" where
  "l3_ecmp_remove env l3_ecmp_id c =
     (if l3_ecmp_id > max_l3_interface_id then (- EINVAL, c)
      else (let (rv, c1) = of_send env [Group (Disable_group_l3_ecmp (group_id_l3_ecmp env l3_ecmp_id))] c
            in (rv, c1\<lparr>freed_ecmp_interfaces_ids :=
                         finsert l3_ecmp_id (freed_ecmp_interfaces_ids c1)\<rparr>)))"

subsection \<open>The two allocators\<close>

lemma of_send_fields [frame]:
  "egress_interface_id (snd (of_send env ms c)) = egress_interface_id c"
  "freed_egress_interfaces_ids (snd (of_send env ms c)) = freed_egress_interfaces_ids c"
  "ecmp_interface_id (snd (of_send env ms c)) = ecmp_interface_id c"
  "freed_ecmp_interfaces_ids (snd (of_send env ms c)) = freed_ecmp_interfaces_ids c"
  by (subst snd_of_send; simp)+

text \<open>The identifier part of a result.\<close>

definition id_of :: "(int \<times> u32) \<times> 's \<Rightarrow> u32 \<times> 's" where
  "id_of r = (snd (fst r), snd r)"

abbreviation egress_alloc :: "ofenv \<Rightarrow> u32 \<times> u16 \<times> mac \<times> mac \<Rightarrow> controller \<Rightarrow> u32 \<times> controller" where
  "egress_alloc env a c \<equiv> id_of (case a of (port, vid, s, d) \<Rightarrow> l3_egress_create env port vid s d c)"

interpretation egress_ids: id_allocator "egress_alloc env" "\<lambda>i c. snd (l3_egress_remove env i c)"
    egress_interface_id freed_egress_interfaces_ids "2 ^ 32" for env :: ofenv
  by unfold_locales
    (auto simp: l3_egress_create_def l3_egress_remove_def id_of_def Let_def split_beta frame
      split: prod.split)

interpretation ecmp_ids: id_allocator "\<lambda>S c. id_of (l3_ecmp_add env S c)"
    "\<lambda>i c. snd (l3_ecmp_remove env i c)"
    ecmp_interface_id freed_ecmp_interfaces_ids "2 ^ 28" for env :: ofenv
  by unfold_locales
    (auto simp: l3_ecmp_add_def l3_ecmp_remove_def id_of_def Let_def split_beta frame
      max_l3_interface_id_def word_less_nat_alt split: prod.split)

subsection \<open>Properties\<close>

text \<open>
  C4: whatever the switch and the network do, \<open>l3_egress_create\<close> never returns an egress
  interface id that a client still holds: any sequence of creations and removals (of held ids)
  from the initial state runs without a double allocation, and at its end the held ids and the
  returned ids are disjoint and together are exactly the ids below the counter, so no id is lost
  either. The bound is the wrap-around of the 32-bit counter.
\<close>

theorem l3_egress_ids_unique:
  assumes "length cmds + 1 < 2 ^ 32"
  shows "\<exists>L c. id_run (egress_alloc env) (\<lambda>i c. snd (l3_egress_remove env i c)) cmds
             ({||}, controller_init) = Some (L, c) \<and>
           id_inv L (egress_interface_id c) (freed_egress_interfaces_ids c)"
  by (rule egress_ids.run_inv)
    (use assms in \<open>simp_all add: controller_init_def id_inv_initial\<close>)

theorem l3_egress_ids_unique_witness:
  "\<exists>L c. id_run (egress_alloc ideal_env) (\<lambda>i c. snd (l3_egress_remove ideal_env i c))
      [Id_alloc (1, 10, 2, 4), Id_alloc (2, 10, 2, 6), Id_free 1, Id_alloc (3, 10, 2, 8)]
      ({||}, controller_init) = Some (L, c) \<and>
    id_inv L (egress_interface_id c) (freed_egress_interfaces_ids c)"
  by (rule l3_egress_ids_unique) simp

text \<open>
  C5: the same for ECMP group ids. \<open>l3_ecmp_remove\<close> rejects ids above \<open>0x0fffffff\<close>, so the bound is
  \<open>2^28\<close>: beyond it a held id could no longer be returned.
\<close>

theorem l3_ecmp_ids_unique:
  assumes "length cmds + 1 < 2 ^ 28"
  shows "\<exists>L c. id_run (\<lambda>S c. id_of (l3_ecmp_add env S c)) (\<lambda>i c. snd (l3_ecmp_remove env i c)) cmds
             ({||}, controller_init) = Some (L, c) \<and>
           id_inv L (ecmp_interface_id c) (freed_ecmp_interfaces_ids c)"
  by (rule ecmp_ids.run_inv)
    (use assms in \<open>simp_all add: controller_init_def id_inv_initial\<close>)

theorem l3_ecmp_ids_unique_witness:
  "\<exists>L c. id_run (\<lambda>S c. id_of (l3_ecmp_add ideal_env S c)) (\<lambda>i c. snd (l3_ecmp_remove ideal_env i c))
      [Id_alloc {|1, 2|}, Id_free 1, Id_alloc {|1, 3|}, Id_alloc {|2, 3|}]
      ({||}, controller_init) = Some (L, c) \<and>
    id_inv L (ecmp_interface_id c) (freed_ecmp_interfaces_ids c)"
  by (rule l3_ecmp_ids_unique) simp

end
