(* ===== verification/Net_Utils.thy ===== *)
theory Net_Utils
  imports Basebox_Prelude
begin

text \<open>
  Address helpers and link classification: \<open>src/src/utils/rofl-utils.h\<close> and
  \<open>src/src/netlink/netlink-utils.cc\<close>. Byte arrays are lists of bytes, most significant first;
  a write outside an array is the value \<open>None\<close>.
\<close>

subsection \<open>Masks\<close>

definition build_mask_in4 :: "nat \<Rightarrow> in4" where
  "build_mask_in4 prefix_len =
     (if prefix_len > 0 then NOT (push_bit (32 - prefix_len) 1 - 1) else 0)"

definition build_mask_in6 :: "nat \<Rightarrow> u8 list option" where
  "build_mask_in6 prefix_len =
     (let d = prefix_len div 8;
          s6_addr = replicate d 0xff @ replicate (16 - d) 0
      in if d < 16
         then Some (s6_addr[d := push_bit (8 - prefix_len mod 8) 0xff AND 0xff])
         else None)"

text \<open>Bit \<open>i\<close> of a byte array, counted from the most significant bit.\<close>

definition msb_bit :: "u8 list \<Rightarrow> nat \<Rightarrow> bool" where
  "msb_bit bs i = bit (bs ! (i div 8)) (7 - i mod 8)"

lemma bit_build_mask_in4:
  assumes "n \<le> 32"
  shows "bit (build_mask_in4 n) i \<longleftrightarrow> 32 - n \<le> i \<and> i < 32"
proof -
  have "push_bit k (1::in4) - 1 = mask k" for k by (simp add: mask_eq_exp_minus_1)
  then show ?thesis using assms
    by (auto simp: build_mask_in4_def bit_simps simp flip: mask_eq_exp_minus_1)
qed

lemma bit_0xff [simp]: "bit (0xff :: int) j \<longleftrightarrow> j < 8"
proof -
  have "(0xff :: int) = mask 8" by (simp add: mask_eq_exp_minus_1)
  then show ?thesis by (simp only: bit_mask_iff) auto
qed

lemma bit_mask_byte:
  "k < 8 \<Longrightarrow> j < 8 \<Longrightarrow> bit (push_bit (8 - k) 0xff AND (0xff :: u8)) (7 - j) \<longleftrightarrow> j < k"
  by (auto simp: bit_and_iff bit_push_bit_iff)

lemma build_mask_in6_bits:
  assumes "build_mask_in6 n = Some bs" and "i < 128"
  shows "msb_bit bs i = (i < n)"
proof -
  have d: "n div 8 < 16" and bs: "bs = (replicate (n div 8) 0xff @ replicate (16 - n div 8) 0)
      [n div 8 := push_bit (8 - n mod 8) 0xff AND (0xff::u8)]"
    using assms(1) by (auto simp: build_mask_in6_def Let_def split: if_splits)
  have i: "i div 8 < 16" "i mod 8 < 8" using assms(2) by auto
  consider "i div 8 < n div 8" | "i div 8 = n div 8" | "n div 8 < i div 8" by linarith
  then show ?thesis
  proof cases
    case 1
    then have "bs ! (i div 8) = 0xff" by (simp add: bs nth_append)
    moreover have "i < n" using 1 by (metis div_le_mono leD le_less_linear)
    ultimately show ?thesis by (simp add: msb_bit_def)
  next
    case 2
    have "msb_bit bs i \<longleftrightarrow> i mod 8 < n mod 8"
      using 2 d bit_mask_byte [of "n mod 8" "i mod 8"] by (simp add: bs msb_bit_def)
    then show ?thesis using 2 by (metis div_mult_mod_eq nat_add_left_cancel_less)
  next
    case 3
    then have "bs ! (i div 8) = 0" using i d by (simp add: bs nth_append)
    moreover have "\<not> i < n" using 3 by (metis div_le_mono leD less_imp_le)
    ultimately show ?thesis by (simp add: msb_bit_def)
  qed
qed

text \<open>
  C37: a prefix length gives the mask whose leading bits, exactly that many, are set: for IPv4 up
  to length 32, for IPv6 up to length 127 as a byte array. For IPv6 length 128 the function writes
  the 17th byte of the 16-byte array.
\<close>

theorem build_mask_correct:
  "(\<forall>n i. n \<le> 32 \<and> i < 32 \<longrightarrow> bit (build_mask_in4 n) (31 - i) = (i < n)) \<and>
   (\<forall>n < 128. \<exists>bs. build_mask_in6 n = Some bs \<and> length bs = 16 \<and>
      (\<forall>i < 128. msb_bit bs i = (i < n))) \<and>
   build_mask_in6 128 = None"
proof (intro conjI allI impI)
  fix n i :: nat assume "n \<le> 32 \<and> i < 32"
  then show "bit (build_mask_in4 n) (31 - i) = (i < n)"
    by (auto simp: bit_build_mask_in4)
next
  fix n :: nat assume "n < 128"
  then have "build_mask_in6 n \<noteq> None" by (simp add: build_mask_in6_def Let_def)
  then obtain bs where bs: "build_mask_in6 n = Some bs" by blast
  then have "length bs = 16" by (auto simp: build_mask_in6_def Let_def split: if_splits)
  then show "\<exists>bs. build_mask_in6 n = Some bs \<and> length bs = 16 \<and> (\<forall>i < 128. msb_bit bs i = (i < n))"
    using bs build_mask_in6_bits [OF bs] by blast
qed (simp add: build_mask_in6_def)

theorem build_mask_correct_witness:
  "bit (build_mask_in4 20) (31 - 3) \<and>
   (\<exists>bs. build_mask_in6 64 = Some bs \<and> length bs = 16 \<and> (\<forall>i < 128. msb_bit bs i = (i < 64)))"
proof
  show "bit (build_mask_in4 20) (31 - 3)"
    using build_mask_correct [THEN conjunct1, rule_format, of 20 3] by simp
  show "\<exists>bs. build_mask_in6 64 = Some bs \<and> length bs = 16 \<and> (\<forall>i < 128. msb_bit bs i = (i < 64))"
    using build_mask_correct [THEN conjunct2, THEN conjunct1, rule_format, of 64] by simp
qed

subsection \<open>Hardware addresses\<close>

text \<open>
  \<open>nlall2uint64\<close> stores the six bytes of an address in reverse order into the object
  representation of a \<open>uint64_t\<close>; on the little-endian targets of the program byte \<open>i\<close> of that
  representation has weight \<open>2^(8 * i)\<close>. The assertion on the length is the value \<open>None\<close>.
\<close>

definition nlall2uint64 :: "u8 list \<Rightarrow> u64 option" where
  "nlall2uint64 a =
     (if length a = 6
      then Some (ucast (a!5) OR push_bit 8 (ucast (a!4)) OR push_bit 16 (ucast (a!3)) OR
        push_bit 24 (ucast (a!2)) OR push_bit 32 (ucast (a!1)) OR push_bit 40 (ucast (a!0)))
      else None)"

definition multicast_ipv4_to_ll :: "u32 \<Rightarrow> u8 list" where
  "multicast_ipv4_to_ll addr =
     [0x01, 0x00, 0x5e,
      ucast (drop_bit 16 addr AND 0x7f), ucast (drop_bit 8 addr AND 0xff), ucast (addr AND 0xff)]"

text \<open>The source address is in network byte order, so its last four bytes are copied as they are.\<close>

definition multicast_ipv6_to_ll :: "u8 list \<Rightarrow> u8 list" where
  "multicast_ipv6_to_ll s6_addr = [0x33, 0x33] @ take 4 (drop 12 s6_addr)"

subsection \<open>Link types\<close>

datatype link_type =
    LT_UNSUPPORTED | LT_BOND | LT_BOND_SLAVE | LT_BRIDGE | LT_BRIDGE_SLAVE | LT_TEAM | LT_TUN
  | LT_VLAN | LT_VRF | LT_VRF_SLAVE | LT_VXLAN | LT_MAX

text \<open>The enumerators in order; \<open>lt2names\<close> has one name for each but the last.\<close>

definition link_types :: "link_type list" where
  "link_types = [LT_UNSUPPORTED, LT_BOND, LT_BOND_SLAVE, LT_BRIDGE, LT_BRIDGE_SLAVE, LT_TEAM,
     LT_TUN, LT_VLAN, LT_VRF, LT_VRF_SLAVE, LT_VXLAN]"

definition lt2names :: "string list" where
  "lt2names = [''unsupported'', ''bond'', ''bond_slave'', ''bridge'', ''bridge_slave'', ''team'',
     ''tun'', ''vlan'', ''vrf'', ''vrf_slave'', ''vxlan'']"

definition kind2lt :: "string \<Rightarrow> link_type option" where
  "kind2lt = map_of (zip lt2names link_types)"

fun link_type_succ :: "link_type \<Rightarrow> link_type" where
  "link_type_succ LT_UNSUPPORTED = LT_BOND"
| "link_type_succ LT_BOND = LT_BOND_SLAVE"
| "link_type_succ LT_BOND_SLAVE = LT_BRIDGE"
| "link_type_succ LT_BRIDGE = LT_BRIDGE_SLAVE"
| "link_type_succ LT_BRIDGE_SLAVE = LT_TEAM"
| "link_type_succ LT_TEAM = LT_TUN"
| "link_type_succ LT_TUN = LT_VLAN"
| "link_type_succ LT_VLAN = LT_VRF"
| "link_type_succ LT_VRF = LT_VRF_SLAVE"
| "link_type_succ LT_VRF_SLAVE = LT_VXLAN"
| "link_type_succ LT_VXLAN = LT_MAX"
| "link_type_succ LT_MAX = LT_MAX"

text \<open>An address: its family, prefix length and bits.\<close>

record nl_addr =
  na_family :: int
  na_prefixlen :: nat
  na_bits :: in6

text \<open>
  The VLANs of a bridge port (\<open>rtnl_link_bridge_vlan\<close> of libnl): 128 words of 32 bits for the VLANs, and
  for those that leave untagged.
\<close>

record br_vlan =
  bv_pvid :: u16
  vlan_bitmap :: "u32 list"
  untagged_bitmap :: "u32 list"

text \<open>
  A network link as libnl reports it, with the attributes the sources read. Index 0 is the
  kernel's \<open>no link\<close>; an absent string attribute is \<open>None\<close>.
\<close>

record rtnl_link =
  ln_ifindex :: int
  ln_name :: string
  ln_family :: int
  ln_type :: "string option"
  ln_slave_type :: "string option"
  ln_master :: int
  ln_link :: int \<comment> \<open>the lower device of a VLAN or VXLAN\<close>
  ln_addr :: mac
  ln_vlan_id :: u16
  ln_up :: bool \<comment> \<open>\<open>IFF_UP\<close>\<close>
  ln_vxlan_id :: "u32 option"
  ln_vrf_table :: "u32 option"
  ln_bond_mode :: "u8 option"
  ln_slave_state :: "u8 option"
  ln_loopback :: bool \<comment> \<open>\<open>IFF_LOOPBACK\<close>\<close>
  ln_vlan_proto :: u16 \<comment> \<open>host byte order\<close>
  ln_br_vlan :: "br_vlan option"
  ln_br_state :: u8
  ln_br_flood :: bool \<comment> \<open>\<open>RTNL_BRIDGE_UNICAST_FLOOD\<close>\<close>
  ln_br_locked :: bool \<comment> \<open>\<open>RTNL_BRIDGE_LOCKED\<close>\<close>
  ln_ageing_time :: "u32 option"
  ln_vxlan_group :: "nl_addr option"
  ln_vxlan_local :: "nl_addr option"
  ln_vxlan_port :: "u32 option"
  ln_vxlan_ttl :: u32
  ln_mtu :: u32
  ln_vlan_filtering :: "u8 option"

abbreviation (input) AF_BRIDGE :: int where "AF_BRIDGE \<equiv> 7"

definition get_link_type :: "rtnl_link \<Rightarrow> link_type" where
  "get_link_type link =
     (let classify = (\<lambda>type slave.
            case type of
              None \<Rightarrow> LT_UNSUPPORTED
            | Some ty \<Rightarrow>
                (case kind2lt ty of
                   None \<Rightarrow> LT_UNSUPPORTED
                 | Some lt \<Rightarrow>
                     (let lt = (if lt = LT_TEAM then LT_BOND else lt)
                      in if slave then link_type_succ lt else lt)))
      in if ln_master link \<noteq> 0
         then (let type = ln_slave_type link
               in if type = None \<and> ln_family link = AF_BRIDGE then LT_BRIDGE_SLAVE
                  else if type = Some ''bridge'' \<and> ln_type link \<noteq> None
                  then classify (ln_type link) False
                  else classify type True)
         else classify (ln_type link) False)"

text \<open>The entry of \<open>kind2lt\<close> for each name, for the simplifier.\<close>

lemma kind2lt_simps [simp]:
  "kind2lt ''bond'' = Some LT_BOND" "kind2lt ''bridge'' = Some LT_BRIDGE"
  "kind2lt ''team'' = Some LT_TEAM" "kind2lt ''tun'' = Some LT_TUN"
  "kind2lt ''vlan'' = Some LT_VLAN" "kind2lt ''vrf'' = Some LT_VRF"
  "kind2lt ''vxlan'' = Some LT_VXLAN"
  by (simp_all add: kind2lt_def lt2names_def link_types_def)

text \<open>
  the classification of enslaved links. A device whose master is a bond or a team is a bond
  member; a VRF member is a VRF slave; a device in a bridge is classified by its own kind when it
  has one (so a VLAN or VXLAN device in a bridge keeps its type), and as a bridge slave when it
  has none.
\<close>

theorem get_link_type_slaves:
  assumes "ln_master link \<noteq> 0"
    and "ln_slave_type link \<in> {None, Some ''bond'', Some ''team'', Some ''vrf'', Some ''bridge''}"
  shows "get_link_type link =
    (case ln_slave_type link of
       None \<Rightarrow> if ln_family link = AF_BRIDGE then LT_BRIDGE_SLAVE else LT_UNSUPPORTED
     | Some kind \<Rightarrow>
         if kind = ''bond'' \<or> kind = ''team'' then LT_BOND_SLAVE
         else if kind = ''vrf'' then LT_VRF_SLAVE
         else if ln_type link = None then LT_BRIDGE_SLAVE
         else get_link_type (link\<lparr>ln_master := 0\<rparr>))"
  using assms by (auto simp: get_link_type_def Let_def split: option.split)

definition plain_link :: "int \<Rightarrow> rtnl_link" where
  "plain_link i = \<lparr>ln_ifindex = i, ln_name = ''port'', ln_family = 0, ln_type = None,
     ln_slave_type = None, ln_master = 0, ln_link = 0, ln_addr = 0x020000000001, ln_vlan_id = 0,
     ln_up = True, ln_vxlan_id = None, ln_vrf_table = None, ln_bond_mode = None,
     ln_slave_state = None, ln_loopback = False, ln_vlan_proto = 0, ln_br_vlan = None, ln_br_state = 0,
     ln_br_flood = False, ln_br_locked = False, ln_ageing_time = None, ln_vxlan_group = None, ln_vxlan_local = None,
     ln_vxlan_port = None, ln_vxlan_ttl = 0, ln_mtu = 1500, ln_vlan_filtering = None\<rparr>"

theorem get_link_type_slaves_witness:
  "get_link_type ((plain_link 3)\<lparr>ln_master := 9, ln_slave_type := Some ''team''\<rparr>) = LT_BOND_SLAVE \<and>
   get_link_type ((plain_link 3)\<lparr>ln_master := 9, ln_slave_type := Some ''bridge'',
     ln_type := Some ''vxlan''\<rparr>) = LT_VXLAN"
proof
  show "get_link_type ((plain_link 3)\<lparr>ln_master := 9, ln_slave_type := Some ''team''\<rparr>) = LT_BOND_SLAVE"
    by (subst get_link_type_slaves) (simp_all add: plain_link_def)
  show "get_link_type ((plain_link 3)\<lparr>ln_master := 9, ln_slave_type := Some ''bridge'',
     ln_type := Some ''vxlan''\<rparr>) = LT_VXLAN"
    by (subst get_link_type_slaves) (simp_all add: plain_link_def get_link_type_def Let_def)
qed

lemma bit_byte_beyond [simp]: "8 \<le> n \<Longrightarrow> \<not> bit (b :: u8) n"
  using bit_imp_le_length [of b n] by auto

text \<open>
  \<open>nlall2uint64\<close> yields the 48-bit number whose bytes are those of the address, the first
  byte most significant, and 0 above: byte \<open>5 - i\<close> of the address is byte \<open>i\<close> of the result.
\<close>

theorem nlall2uint64_bytes:
  assumes "length a = 6"
  shows "\<exists>w. nlall2uint64 a = Some w \<and> (\<forall>i < 6. ucast (drop_bit (8 * i) w) = a ! (5 - i)) \<and>
             drop_bit 48 w = 0"
proof -
  obtain a0 a1 a2 a3 a4 a5 where a: "a = [a0, a1, a2, a3, a4, a5]"
    using assms by (auto simp: length_Suc_conv numeral_eq_Suc)
  define w :: u64 where "w = ucast a5 OR push_bit 8 (ucast a4) OR push_bit 16 (ucast a3) OR
    push_bit 24 (ucast a2) OR push_bit 32 (ucast a1) OR push_bit 40 (ucast a0)"
  have w: "nlall2uint64 a = Some w" by (simp add: nlall2uint64_def a w_def numeral_eq_Suc)
  have "ucast (drop_bit (8 * i) w) = a ! (5 - i)" if "i < 6" for i
  proof -
    have "i = 0 \<or> i = 1 \<or> i = 2 \<or> i = 3 \<or> i = 4 \<or> i = 5" using that by linarith
    then show ?thesis
      by (elim disjE) (auto simp: w_def a bit_simps intro!: bit_word_eqI dest: bit_imp_le_length)
  qed
  moreover have "drop_bit 48 w = 0"
    by (rule bit_word_eqI) (auto simp: w_def bit_simps dest: bit_imp_le_length)
  ultimately show ?thesis using w by blast
qed

theorem nlall2uint64_bytes_witness:
  "\<exists>w. nlall2uint64 [2, 0, 0x5e, 0x10, 0xff, 1] = Some w \<and>
       (\<forall>i < 6. ucast (drop_bit (8 * i) w) = [2, 0, 0x5e, 0x10, 0xff, 1 :: u8] ! (5 - i)) \<and>
       drop_bit 48 w = 0"
  by (rule nlall2uint64_bytes) simp

end
