(* ===== verification/Ctl_L2.thy ===== *)
theory Ctl_L2
  imports Ofdpa_Client Net_Utils
begin

text \<open>
  The bridging part of class \<open>controller\<close> (\<open>src/src/of-dpa/controller.cc\<close>): learning modes,
  forwarding entries, L2 multicast groups, port configuration, statistics and the policy entries
  installed by \<open>subscribe_to\<close>.
\<close>

subsection \<open>Learning modes\<close>

datatype sai_bridge_port_fdb_learning_t =
    SAI_BRIDGE_PORT_FDB_LEARNING_MODE_DROP
  | SAI_BRIDGE_PORT_FDB_LEARNING_MODE_DISABLE
  | SAI_BRIDGE_PORT_FDB_LEARNING_MODE_HW
  | SAI_BRIDGE_PORT_FDB_LEARNING_MODE_CPU_TRAP
  | SAI_BRIDGE_PORT_FDB_LEARNING_MODE_CPU_LOG
  | SAI_BRIDGE_PORT_FDB_LEARNING_MODE_FDB_NOTIFICATION
  | SAI_BRIDGE_PORT_FDB_LEARNING_MODE_FDB_LOG_NOTIFICATION

abbreviation (input) SRC_MAC_LEARN_NONE :: u32 where "SRC_MAC_LEARN_NONE \<equiv> 0"
abbreviation (input) SRC_MAC_LEARN_ARL :: u32 where "SRC_MAC_LEARN_ARL \<equiv> 1"
abbreviation (input) SRC_MAC_LEARN_CPU :: u32 where "SRC_MAC_LEARN_CPU \<equiv> 2"
abbreviation (input) SRC_MAC_LEARN_FWD :: u32 where "SRC_MAC_LEARN_FWD \<equiv> 4"
abbreviation (input) SRC_MAC_LEARN_PENDING :: u32 where "SRC_MAC_LEARN_PENDING \<equiv> 8"

text \<open>Every enumerator has a case, so the \<open>default\<close> branch (\<open>-EINVAL\<close>) is for other numbers only.\<close>

fun sai_learn_mode_to_flags :: "sai_bridge_port_fdb_learning_t \<Rightarrow> u32" where
  "sai_learn_mode_to_flags SAI_BRIDGE_PORT_FDB_LEARNING_MODE_DROP = SRC_MAC_LEARN_NONE"
| "sai_learn_mode_to_flags SAI_BRIDGE_PORT_FDB_LEARNING_MODE_DISABLE = SRC_MAC_LEARN_FWD"
| "sai_learn_mode_to_flags SAI_BRIDGE_PORT_FDB_LEARNING_MODE_HW =
     SRC_MAC_LEARN_FWD OR SRC_MAC_LEARN_ARL"
| "sai_learn_mode_to_flags SAI_BRIDGE_PORT_FDB_LEARNING_MODE_CPU_TRAP = SRC_MAC_LEARN_CPU"
| "sai_learn_mode_to_flags SAI_BRIDGE_PORT_FDB_LEARNING_MODE_CPU_LOG =
     SRC_MAC_LEARN_FWD OR SRC_MAC_LEARN_CPU"
| "sai_learn_mode_to_flags SAI_BRIDGE_PORT_FDB_LEARNING_MODE_FDB_NOTIFICATION =
     SRC_MAC_LEARN_CPU OR SRC_MAC_LEARN_ARL OR SRC_MAC_LEARN_PENDING"
| "sai_learn_mode_to_flags SAI_BRIDGE_PORT_FDB_LEARNING_MODE_FDB_LOG_NOTIFICATION =
     SRC_MAC_LEARN_FWD OR SRC_MAC_LEARN_CPU OR SRC_MAC_LEARN_ARL OR SRC_MAC_LEARN_PENDING"

definition port_set_learn ::
  "ofenv \<Rightarrow> u32 \<Rightarrow> sai_bridge_port_fdb_learning_t \<Rightarrow> controller \<Rightarrow> int \<times> controller" where
  "port_set_learn env port_id l2_learn c =
     (if \<not> connected c then (- EAGAIN, c)
      else ofdpaPortSourceMacLearningSet env port_id (sai_learn_mode_to_flags l2_learn) c)"

definition port_set_move_learn ::
  "ofenv \<Rightarrow> u32 \<Rightarrow> sai_bridge_port_fdb_learning_t \<Rightarrow> controller \<Rightarrow> int \<times> controller" where
  "port_set_move_learn env port_id l2_learn c =
     (if \<not> connected c then (- EAGAIN, c)
      else ofdpaPortSourceMacMoveLearningSet env port_id (sai_learn_mode_to_flags l2_learn) c)"

subsection \<open>Forwarding entries\<close>

definition overlay_tunnel_add :: "ofenv \<Rightarrow> u32 \<Rightarrow> controller \<Rightarrow> int \<times> controller" where
  "overlay_tunnel_add env tunnel_id = of_send env [Flow (Enable_overlay_tunnel tunnel_id)]"

definition overlay_tunnel_remove :: "ofenv \<Rightarrow> u32 \<Rightarrow> controller \<Rightarrow> int \<times> controller" where
  "overlay_tunnel_remove env tunnel_id = of_send env [Flow (Disable_overlay_tunnel tunnel_id)]"

definition l2_set_idle_timeout :: "u16 \<Rightarrow> controller \<Rightarrow> int \<times> controller" where
  "l2_set_idle_timeout idle_timeout c = (0, c\<lparr>default_idle_timeout := idle_timeout\<rparr>)"

definition l2_addr_remove_all_in_vlan :: "ofenv \<Rightarrow> u32 \<Rightarrow> u16 \<Rightarrow> controller \<Rightarrow> int \<times> controller" where
  "l2_addr_remove_all_in_vlan env port vid =
     of_send env [Flow (Remove_bridging_unicast_vlan_all port vid)]"

text \<open>A permanent entry has no timeout; neither has any entry while the default timeout is 0.\<close>

definition entry_timeout :: "bool \<Rightarrow> controller \<Rightarrow> u16 option" where
  "entry_timeout permanent c =
     (if \<not> permanent \<and> default_idle_timeout c > 0 then Some (default_idle_timeout c) else None)"

definition l2_addr_add ::
  "ofenv \<Rightarrow> u32 \<Rightarrow> u16 \<Rightarrow> mac \<Rightarrow> bool \<Rightarrow> bool \<Rightarrow> bool \<Rightarrow> controller \<Rightarrow> int \<times> controller" where
  "l2_addr_add env port vid mac filtered permanent update c =
     of_send env
       ((if update then [Flow (Remove_bridging_unicast_vlan 0 vid mac), Barrier] else []) @
        [Flow (Add_bridging_unicast_vlan port vid mac filtered (is_lag port)
                 (entry_timeout permanent c))]) c"

definition l2_addr_remove :: "ofenv \<Rightarrow> u32 \<Rightarrow> u16 \<Rightarrow> mac \<Rightarrow> controller \<Rightarrow> int \<times> controller" where
  "l2_addr_remove env port vid mac = of_send env [Flow (Remove_bridging_unicast_vlan port vid mac)]"

definition l2_overlay_addr_add ::
  "ofenv \<Rightarrow> u32 \<Rightarrow> u32 \<Rightarrow> mac \<Rightarrow> bool \<Rightarrow> controller \<Rightarrow> int \<times> controller" where
  "l2_overlay_addr_add env lport tunnel_id mac permanent c =
     of_send env [Flow (Add_bridging_unicast_overlay lport tunnel_id mac (entry_timeout permanent c))] c"

definition l2_overlay_addr_remove ::
  "ofenv \<Rightarrow> u32 \<Rightarrow> u32 \<Rightarrow> mac \<Rightarrow> controller \<Rightarrow> int \<times> controller" where
  "l2_overlay_addr_remove env tunnel_id lport_id mac =
     of_send env
       (if lport_id \<noteq> 0 then [Flow (Remove_bridging_unicast_overlay_all_lport lport_id), Barrier]
        else [Flow (Remove_bridging_unicast_overlay tunnel_id mac)])"

subsection \<open>Multicast groups\<close>

text \<open>\<open>std::find\<close> on \<open>mc_groups\<close>: entries are equal when their keys are. Then the two ways the
  found entry is used: changed in place, or erased.\<close>

definition mc_key :: "mc_entry \<Rightarrow> mac \<times> u16" where
  "mc_key e = (mc_mac e, mc_vid e)"

definition mc_find :: "mac \<times> u16 \<Rightarrow> mc_entry list \<Rightarrow> mc_entry option" where
  "mc_find k es = find (\<lambda>e. mc_key e = k) es"

fun mc_replace :: "mac \<times> u16 \<Rightarrow> mc_entry \<Rightarrow> mc_entry list \<Rightarrow> mc_entry list" where
  "mc_replace k e' [] = []"
| "mc_replace k e' (e # es) = (if mc_key e = k then e' # es else e # mc_replace k e' es)"

fun mc_erase :: "mac \<times> u16 \<Rightarrow> mc_entry list \<Rightarrow> mc_entry list" where
  "mc_erase k [] = []"
| "mc_erase k (e # es) = (if mc_key e = k then es else e # mc_erase k es)"

text \<open>The index of a new group: one pass over the list.\<close>

fun mc_next_index :: "u16 \<Rightarrow> int \<Rightarrow> mc_entry list \<Rightarrow> int" where
  "mc_next_index vid index [] = index"
| "mc_next_index vid index (e # es) =
     mc_next_index vid (if mc_vid e = vid \<and> index = mc_index e then index + 1 else index) es"

definition l2_multicast_group_join :: "ofenv \<Rightarrow> u32 \<Rightarrow> u16 \<Rightarrow> mac \<Rightarrow> controller \<Rightarrow> int \<times> controller" where
  "l2_multicast_group_join env port vid mc_group c =
     try_catch (with_dpt env c
       (let group_id = l2_group_id env port vid;
            (e, es) =
              (case mc_find (mc_group, vid) (mc_groups c) of
                 Some e0 \<Rightarrow>
                   (let e1 = e0\<lparr>l2_interface := finsert group_id (l2_interface e0),
                                disabled_l2_interface := disabled_l2_interface e0 |-| {|group_id|}\<rparr>
                    in (e1, mc_replace (mc_group, vid) e1 (mc_groups c)))
               | None \<Rightarrow>
                   (let e1 = \<lparr>mc_mac = mc_group, mc_vid = vid,
                              mc_index = mc_next_index vid 1 (mc_groups c),
                              l2_interface = {|group_id|}, disabled_l2_interface = {||}\<rparr>
                    in (e1, mc_groups c @ [e1])))
        in send_all env
             ([Group (Enable_group_l2_multicast (mc_index e) vid (l2_interface e)
                        (fcard (l2_interface e) > 1))] @
              (if fcard (l2_interface e) = 1
               then [Flow (Add_bridging_multicast_vlan (mc_index e) vid mc_group)] else []))
             (c\<lparr>mc_groups := es\<rparr>)))"

definition l2_multicast_group_leave ::
  "ofenv \<Rightarrow> u32 \<Rightarrow> u16 \<Rightarrow> mac \<Rightarrow> bool \<Rightarrow> controller \<Rightarrow> int \<times> controller" where
  "l2_multicast_group_leave env port vid mc_group disable_only c =
     try_catch (with_dpt env c
       (let k = (mc_group, vid); group_id = l2_group_id env port vid in
        case mc_find k (mc_groups c) of
          None \<Rightarrow> (Inr (- EINVAL), c)
        | Some e0 \<Rightarrow>
            if group_id |\<notin>| l2_interface e0
            then (if disable_only then (Inr (- EINVAL), c)
                  else if group_id |\<notin>| disabled_l2_interface e0 then (Inr (- EINVAL), c)
                  else (let e1 = e0\<lparr>disabled_l2_interface := disabled_l2_interface e0 |-| {|group_id|}\<rparr>
                        in (Inr 0, c\<lparr>mc_groups :=
                              (if fcard (l2_interface e1) = 0 \<and> fcard (disabled_l2_interface e1) = 0
                               then mc_erase k (mc_groups c) else mc_replace k e1 (mc_groups c))\<rparr>)))
            else
              (let e1 = e0\<lparr>l2_interface := l2_interface e0 |-| {|group_id|},
                           disabled_l2_interface :=
                             (if disable_only then finsert group_id (disabled_l2_interface e0)
                              else disabled_l2_interface e0)\<rparr>;
                   c1 = c\<lparr>mc_groups := mc_replace k e1 (mc_groups c)\<rparr>
               in if fcard (l2_interface e1) \<noteq> 0
                  then send_all env
                         [Group (Enable_group_l2_multicast (mc_index e1) vid (l2_interface e1) True),
                          Barrier] c1
                  else (case send_all env
                          [Flow (Remove_bridging_multicast_vlan port vid mc_group), Barrier,
                           Group (Disable_group_l2_multicast (mc_index e1) vid)] c1 of
                          (Inl e, c2) \<Rightarrow> (Inl e, c2)
                        | (Inr _, c2) \<Rightarrow>
                            (Inr 0, if fcard (disabled_l2_interface e1) = 0
                                    then c2\<lparr>mc_groups := mc_erase k (mc_groups c2)\<rparr> else c2)))))"

text \<open>
  The loops of the two \<open>_all_in_vlan\<close> methods run an iterator over \<open>mc_groups\<close> while the called
  method changes the list. The model walks the positions of the list and reads the entry from the
  current state; that the iterator stays valid is a theorem below.
\<close>

fun mc_walk :: "(mc_entry \<Rightarrow> bool) \<Rightarrow> (mac \<Rightarrow> controller \<Rightarrow> int \<times> controller) \<Rightarrow> nat list \<Rightarrow>
    int \<times> controller \<Rightarrow> int \<times> controller" where
  "mc_walk sel act [] (rv, c) = (rv, c)"
| "mc_walk sel act (i # is) (rv, c) =
     mc_walk sel act is
       (if sel (mc_groups c ! i) then act (mc_mac (mc_groups c ! i)) c else (rv, c))"

definition l2_multicast_group_rejoin_all_in_vlan ::
  "ofenv \<Rightarrow> u32 \<Rightarrow> u16 \<Rightarrow> controller \<Rightarrow> int \<times> controller" where
  "l2_multicast_group_rejoin_all_in_vlan env port vid c =
     (let group_id = l2_group_id env port vid
      in mc_walk (\<lambda>e. mc_vid e = vid \<and> group_id |\<in>| disabled_l2_interface e)
           (l2_multicast_group_join env port vid) [0..<length (mc_groups c)] (0, c))"

definition l2_multicast_group_leave_all_in_vlan ::
  "ofenv \<Rightarrow> u32 \<Rightarrow> u16 \<Rightarrow> controller \<Rightarrow> int \<times> controller" where
  "l2_multicast_group_leave_all_in_vlan env port vid c =
     (let group_id = l2_group_id env port vid
      in mc_walk (\<lambda>e. mc_vid e = vid \<and> group_id |\<in>| l2_interface e)
           (\<lambda>m. l2_multicast_group_leave env port vid m True) [0..<length (mc_groups c)] (0, c))"

subsection \<open>Lists of multicast entries\<close>

lemma mc_find_Some: "mc_find k es = Some e \<Longrightarrow> mc_key e = k \<and> e \<in> set es"
  by (auto simp: mc_find_def find_Some_iff)

lemma mc_find_None: "mc_find k es = None \<longleftrightarrow> k \<notin> mc_key ` set es"
  by (auto simp: mc_find_def find_None_iff)

lemma map_key_mc_replace [simp]:
  "mc_key e' = k \<Longrightarrow> map mc_key (mc_replace k e' es) = map mc_key es"
  by (induction es) auto

lemma map_key_mc_erase [simp]: "map mc_key (mc_erase k es) = remove1 k (map mc_key es)"
  by (induction es) auto

lemma set_mc_replace: "set (mc_replace k e' es) \<subseteq> insert e' (set es)"
  by (induction es) auto

lemma set_mc_erase: "set (mc_erase k es) \<subseteq> set es"
  by (induction es) auto

lemma mc_at_position:
  assumes "distinct (map mc_key es)" and "i < length es"
  shows "mc_find (mc_key (es ! i)) es = Some (es ! i)"
    and "mc_replace (mc_key (es ! i)) e' es = es[i := e']"
proof -
  show "mc_find (mc_key (es ! i)) es = Some (es ! i)"
    using assms by (auto simp: mc_find_def find_Some_iff distinct_conv_nth intro!: exI [of _ i])
  show "mc_replace (mc_key (es ! i)) e' es = es[i := e']"
    using assms
  proof (induction es arbitrary: i)
    case (Cons e es)
    then show ?case by (cases i) (auto simp: image_iff)
  qed simp
qed

lemma mc_groups_send_all [frame]: "mc_groups (snd (send_all env ms c)) = mc_groups c"
  by (subst snd_send_all) simp

text \<open>What an entry looks like after its interface joined or was disabled.\<close>

definition mc_join_entry :: "u32 \<Rightarrow> mc_entry \<Rightarrow> mc_entry" where
  "mc_join_entry g e = e\<lparr>l2_interface := finsert g (l2_interface e),
                         disabled_l2_interface := disabled_l2_interface e |-| {|g|}\<rparr>"

definition mc_disable_entry :: "u32 \<Rightarrow> mc_entry \<Rightarrow> mc_entry" where
  "mc_disable_entry g e = e\<lparr>l2_interface := l2_interface e |-| {|g|},
                            disabled_l2_interface := finsert g (disabled_l2_interface e)\<rparr>"

lemma mc_key_updates [simp]:
  "mc_key (e\<lparr>l2_interface := A\<rparr>) = mc_key e" "mc_key (e\<lparr>disabled_l2_interface := A\<rparr>) = mc_key e"
  "mc_key (mc_join_entry g e) = mc_key e" "mc_key (mc_disable_entry g e) = mc_key e"
  by (simp_all add: mc_key_def mc_join_entry_def mc_disable_entry_def)

lemma mc_disable_entry_fields [simp]:
  "mc_vid (mc_disable_entry g e) = mc_vid e" "g |\<in>| disabled_l2_interface (mc_disable_entry g e)"
  by (simp_all add: mc_disable_entry_def)

lemma mc_groups_join:
  "mc_groups (snd (l2_multicast_group_join env port vid m c)) =
     (if dpt_found env (dptid c)
      then (case mc_find (m, vid) (mc_groups c) of
              Some e \<Rightarrow> mc_replace (m, vid) (mc_join_entry (l2_group_id env port vid) e) (mc_groups c)
            | None \<Rightarrow> mc_groups c @
                [\<lparr>mc_mac = m, mc_vid = vid, mc_index = mc_next_index vid 1 (mc_groups c),
                  l2_interface = {|l2_group_id env port vid|}, disabled_l2_interface = {||}\<rparr>])
      else mc_groups c)"
  by (simp add: l2_multicast_group_join_def with_dpt_def try_catch_def Let_def frame
      mc_join_entry_def del: send_all.simps split: option.split)

text \<open>Leaving with \<open>disable_only\<close> changes at most the entry in place.\<close>

lemma mc_groups_leave_disable:
  "mc_groups (snd (l2_multicast_group_leave env port vid m True c)) =
     (case mc_find (m, vid) (mc_groups c) of
        Some e \<Rightarrow>
          (if dpt_found env (dptid c) \<and> l2_group_id env port vid |\<in>| l2_interface e
           then mc_replace (m, vid) (mc_disable_entry (l2_group_id env port vid) e) (mc_groups c)
           else mc_groups c)
      | None \<Rightarrow> mc_groups c)"
proof (cases "dpt_found env (dptid c)")
  case True
  let ?g = "l2_group_id env port vid"
  have erase: "fcard (finsert ?g S) \<noteq> 0" for S by simp
  show ?thesis using True erase
    by (auto simp: l2_multicast_group_leave_def with_dpt_def try_catch_def Let_def frame
        case_send_all mc_disable_entry_def simp del: send_all.simps split: option.split sum.split)
qed (auto simp: l2_multicast_group_leave_def with_dpt_def try_catch_def split: option.split)

subsection \<open>The invariant of the multicast groups\<close>

text \<open>No two entries for a group in a VLAN; no interface both enabled and disabled.\<close>

definition mc_inv :: "mc_entry list \<Rightarrow> bool" where
  "mc_inv es \<longleftrightarrow> distinct (map mc_key es) \<and>
     (\<forall>e \<in> set es. l2_interface e |\<inter>| disabled_l2_interface e = {||})"

lemma mc_inv_replace:
  "mc_inv es \<Longrightarrow> mc_key e = k \<Longrightarrow> l2_interface e |\<inter>| disabled_l2_interface e = {||} \<Longrightarrow>
     mc_inv (mc_replace k e es)"
  using set_mc_replace [of k e es] by (auto simp: mc_inv_def)

lemma mc_inv_erase: "mc_inv es \<Longrightarrow> mc_inv (mc_erase k es)"
  using set_mc_erase [of k es] by (auto simp: mc_inv_def)

lemma mc_inv_snoc:
  "mc_inv es \<Longrightarrow> mc_key e \<notin> mc_key ` set es \<Longrightarrow> disabled_l2_interface e = {||} \<Longrightarrow> mc_inv (es @ [e])"
  by (auto simp: mc_inv_def)

lemma mc_inv_entry: "mc_inv es \<Longrightarrow> mc_find k es = Some e \<Longrightarrow>
    mc_key e = k \<and> l2_interface e |\<inter>| disabled_l2_interface e = {||}"
  by (auto simp: mc_inv_def dest: mc_find_Some)

lemma mc_inv_join:
  "mc_inv (mc_groups c) \<Longrightarrow> mc_inv (mc_groups (snd (l2_multicast_group_join env port vid m c)))"
  unfolding mc_groups_join
  by (auto split: option.split intro!: mc_inv_replace mc_inv_snoc dest: mc_inv_entry
      simp: mc_find_None mc_join_entry_def) (auto simp: mc_key_def dest!: mc_inv_entry)

lemma mc_inv_leave:
  assumes "mc_inv (mc_groups c)"
  shows "mc_inv (mc_groups (snd (l2_multicast_group_leave env port vid m d c)))"
proof (cases "mc_find (m, vid) (mc_groups c)")
  case (Some e)
  let ?g = "l2_group_id env port vid"
  let ?leave = "mc_replace (m, vid) (e\<lparr>l2_interface := l2_interface e |-| {|?g|}\<rparr>) (mc_groups c)"
  let ?disable = "mc_replace (m, vid) (mc_disable_entry ?g e) (mc_groups c)"
  let ?undo = "mc_replace (m, vid)
    (e\<lparr>disabled_l2_interface := disabled_l2_interface e |-| {|?g|}\<rparr>) (mc_groups c)"
  note e = mc_inv_entry [OF assms Some]
  have "mc_groups (snd (l2_multicast_group_leave env port vid m d c)) \<in>
    {mc_groups c, mc_erase (m, vid) (mc_groups c), ?undo, ?disable, ?leave, mc_erase (m, vid) ?leave}"
    by (cases e, cases d) (simp_all add: l2_multicast_group_leave_def with_dpt_def try_catch_def
        Let_def frame Some case_send_all mc_disable_entry_def del: send_all.simps split: sum.split)
  moreover have "mc_inv ?undo" "mc_inv ?disable" "mc_inv ?leave"
    using e by (auto simp: mc_disable_entry_def intro!: mc_inv_replace [OF assms])
  ultimately show ?thesis using assms by (auto simp: mc_inv_erase)
qed (use assms in \<open>simp add: l2_multicast_group_leave_def with_dpt_def try_catch_def\<close>)

lemma mc_walk_inv:
  assumes "P c" and "\<And>m c. P c \<Longrightarrow> P (snd (act m c))"
  shows "P (snd (mc_walk sel act is (rv, c)))"
  using assms(1)
proof (induction "is" arbitrary: rv c)
  case (Cons i "is")
  then show ?case using assms(2) [OF Cons.prems, of "mc_mac (mc_groups c ! i)"]
    by (cases "act (mc_mac (mc_groups c ! i)) c") auto
qed simp

text \<open>The commands a client can give, and running them in order.\<close>

datatype mc_cmd =
    Mc_join u32 u16 mac
  | Mc_leave u32 u16 mac bool
  | Mc_rejoin_all u32 u16
  | Mc_leave_all u32 u16

fun mc_exec :: "ofenv \<Rightarrow> mc_cmd \<Rightarrow> controller \<Rightarrow> controller" where
  "mc_exec env (Mc_join port vid m) c = snd (l2_multicast_group_join env port vid m c)"
| "mc_exec env (Mc_leave port vid m d) c = snd (l2_multicast_group_leave env port vid m d c)"
| "mc_exec env (Mc_rejoin_all port vid) c = snd (l2_multicast_group_rejoin_all_in_vlan env port vid c)"
| "mc_exec env (Mc_leave_all port vid) c = snd (l2_multicast_group_leave_all_in_vlan env port vid c)"

lemma mc_inv_exec: "mc_inv (mc_groups c) \<Longrightarrow> mc_inv (mc_groups (mc_exec env cmd c))"
  by (cases cmd) (auto simp: l2_multicast_group_rejoin_all_in_vlan_def
      l2_multicast_group_leave_all_in_vlan_def Let_def mc_inv_join mc_inv_leave
      intro!: mc_walk_inv [where P = "\<lambda>c. mc_inv (mc_groups c)"])

text \<open>
  whatever the switch and the network do, after any sequence of multicast commands there is
  at most one entry for a group address in a VLAN, and no interface of an entry is both enabled
  and disabled.
\<close>

theorem mc_groups_invariant:
  "mc_inv (mc_groups (fold (mc_exec env) cmds controller_init))"
proof -
  have "mc_inv (mc_groups c) \<Longrightarrow> mc_inv (mc_groups (fold (mc_exec env) cmds c))" for c
    by (induction cmds arbitrary: c) (auto simp: mc_inv_exec)
  moreover have "mc_inv (mc_groups controller_init)" by (simp add: controller_init_def mc_inv_def)
  ultimately show ?thesis by blast
qed

subsection \<open>Walking over the groups of a VLAN\<close>

text \<open>
  One step that changes the entry under the iterator to \<open>f e\<close>, repeated over all positions,
  changes exactly the selected entries.
\<close>

lemma mc_walk_map:
  assumes step: "\<And>c i. distinct (map mc_key (mc_groups c)) \<Longrightarrow> i < length (mc_groups c) \<Longrightarrow>
      sel (mc_groups c ! i) \<Longrightarrow> Q c \<Longrightarrow>
      mc_groups (snd (act (mc_mac (mc_groups c ! i)) c)) = (mc_groups c)[i := f (mc_groups c ! i)] \<and>
      Q (snd (act (mc_mac (mc_groups c ! i)) c))"
    and key: "\<And>e. mc_key (f e) = mc_key e"
    and "distinct (map mc_key (mc_groups c))" and "distinct ps"
    and "\<forall>i \<in> set ps. i < length (mc_groups c)" and "Q c"
  shows "length (mc_groups (snd (mc_walk sel act ps (rv, c)))) = length (mc_groups c) \<and>
    (\<forall>j < length (mc_groups c). mc_groups (snd (mc_walk sel act ps (rv, c))) ! j =
       (if j \<in> set ps \<and> sel (mc_groups c ! j) then f (mc_groups c ! j) else mc_groups c ! j))"
  using assms(3-)
proof (induction ps arbitrary: rv c)
  case (Cons i ps)
  let ?es = "mc_groups c"
  show ?case
  proof (cases "sel (?es ! i)")
    case True
    obtain r c' where c': "act (mc_mac (?es ! i)) c = (r, c')" by fastforce
    have es': "mc_groups c' = ?es[i := f (?es ! i)]" and "Q c'"
      using step [of c i] True Cons.prems c' by auto
    have keys: "map mc_key (mc_groups c') = map mc_key ?es"
      using Cons.prems(3) by (auto simp: es' key nth_list_update intro!: nth_equalityI)
    have "distinct (map mc_key (mc_groups c'))" using Cons.prems(1) keys by simp
    from Cons.IH [OF this, of r] show ?thesis
      using Cons.prems \<open>Q c'\<close> True by (auto simp: c' es' nth_list_update)
  next
    case False
    then show ?thesis using Cons.IH [OF Cons.prems(1), of rv] Cons.prems by auto
  qed
qed simp

corollary mc_walk_all:
  assumes "\<And>c i. distinct (map mc_key (mc_groups c)) \<Longrightarrow> i < length (mc_groups c) \<Longrightarrow>
      sel (mc_groups c ! i) \<Longrightarrow> Q c \<Longrightarrow>
      mc_groups (snd (act (mc_mac (mc_groups c ! i)) c)) = (mc_groups c)[i := f (mc_groups c ! i)] \<and>
      Q (snd (act (mc_mac (mc_groups c ! i)) c))"
    and "\<And>e. mc_key (f e) = mc_key e" and "distinct (map mc_key (mc_groups c))" and "Q c"
  shows "mc_groups (snd (mc_walk sel act [0..<length (mc_groups c)] (rv, c))) =
           map (\<lambda>e. if sel e then f e else e) (mc_groups c)"
  using mc_walk_map [where sel = sel and act = act and f = f and Q = Q and c = c and rv = rv
      and ps = "[0..<length (mc_groups c)]", OF assms(1,2,3)] assms(4)
  by (auto intro!: nth_equalityI)

lemma dptid_multicast [frame]:
  "dptid (snd (l2_multicast_group_join env port vid m c)) = dptid c"
  "dptid (snd (l2_multicast_group_leave env port vid m d c)) = dptid c"
proof -
  have send: "dptid (snd (send_all env ms c)) = dptid c" for ms c
    by (subst snd_send_all) simp
  show "dptid (snd (l2_multicast_group_join env port vid m c)) = dptid c"
    by (simp add: l2_multicast_group_join_def with_dpt_def try_catch_def Let_def send
        del: send_all.simps split: option.split)
  show "dptid (snd (l2_multicast_group_leave env port vid m d c)) = dptid c"
    by (simp add: l2_multicast_group_leave_def with_dpt_def try_catch_def Let_def send
        case_send_all del: send_all.simps split: option.split sum.split)
qed

lemma mc_groups_leave_all:
  assumes "distinct (map mc_key (mc_groups c))" and "dpt_found env (dptid c)"
    and "g = l2_group_id env port vid"
  shows "mc_groups (snd (l2_multicast_group_leave_all_in_vlan env port vid c)) =
    map (\<lambda>e. if mc_vid e = vid \<and> g |\<in>| l2_interface e then mc_disable_entry g e else e) (mc_groups c)"
  unfolding l2_multicast_group_leave_all_in_vlan_def Let_def assms(3)
proof (rule mc_walk_all [where Q = "\<lambda>c. dpt_found env (dptid c)"])
  fix c :: controller and i
  let ?e = "mc_groups c ! i" and ?g = "l2_group_id env port vid"
  assume "distinct (map mc_key (mc_groups c))" "i < length (mc_groups c)"
    and sel: "mc_vid ?e = vid \<and> ?g |\<in>| l2_interface ?e" and "dpt_found env (dptid c)"
  moreover from sel have "(mc_mac ?e, vid) = mc_key ?e" by (simp add: mc_key_def)
  ultimately show "mc_groups (snd (l2_multicast_group_leave env port vid (mc_mac ?e) True c)) =
        (mc_groups c)[i := mc_disable_entry ?g ?e] \<and>
      dpt_found env (dptid (snd (l2_multicast_group_leave env port vid (mc_mac ?e) True c)))"
    by (simp add: mc_groups_leave_disable mc_at_position frame)
qed (use assms in auto)

lemma mc_groups_rejoin_all:
  assumes "distinct (map mc_key (mc_groups c))" and "dpt_found env (dptid c)"
    and "g = l2_group_id env port vid"
  shows "mc_groups (snd (l2_multicast_group_rejoin_all_in_vlan env port vid c)) =
    map (\<lambda>e. if mc_vid e = vid \<and> g |\<in>| disabled_l2_interface e then mc_join_entry g e else e)
      (mc_groups c)"
  unfolding l2_multicast_group_rejoin_all_in_vlan_def Let_def assms(3)
proof (rule mc_walk_all [where Q = "\<lambda>c. dpt_found env (dptid c)"])
  fix c :: controller and i
  let ?e = "mc_groups c ! i" and ?g = "l2_group_id env port vid"
  assume "distinct (map mc_key (mc_groups c))" "i < length (mc_groups c)"
    and sel: "mc_vid ?e = vid \<and> ?g |\<in>| disabled_l2_interface ?e" and "dpt_found env (dptid c)"
  moreover from sel have "(mc_mac ?e, vid) = mc_key ?e" by (simp add: mc_key_def)
  ultimately show "mc_groups (snd (l2_multicast_group_join env port vid (mc_mac ?e) c)) =
        (mc_groups c)[i := mc_join_entry ?g ?e] \<and>
      dpt_found env (dptid (snd (l2_multicast_group_join env port vid (mc_mac ?e) c)))"
    by (simp add: mc_groups_join mc_at_position frame)
qed (use assms in auto)

text \<open>
  the iterators of the two loops over \<open>mc_groups\<close> stay valid. Neither loop adds, removes or
  reorders an entry, although both call methods that can: leaving with \<open>disable_only\<close> keeps the
  interface as disabled, so the entry is never erased, and rejoining finds the entry it stands on.
  This needs no assumption on switch and network.
\<close>

theorem mc_loops_keep_entries:
  assumes "mc_inv (mc_groups c)"
  shows "map mc_key (mc_groups (snd (l2_multicast_group_leave_all_in_vlan env port vid c))) =
           map mc_key (mc_groups c) \<and>
         map mc_key (mc_groups (snd (l2_multicast_group_rejoin_all_in_vlan env port vid c))) =
           map mc_key (mc_groups c)"
proof (cases "dpt_found env (dptid c)")
  case True
  have "distinct (map mc_key (mc_groups c))" using assms by (simp add: mc_inv_def)
  from mc_groups_leave_all [OF this True refl] mc_groups_rejoin_all [OF this True refl]
  show ?thesis by simp
next
  case False
  have "mc_groups (snd (mc_walk sel act ps (rv, c))) = mc_groups c"
    if "\<And>m c. \<not> dpt_found env (dptid c) \<Longrightarrow> snd (act m c) = c" for sel act ps rv
    using mc_walk_inv [where P = "\<lambda>c'. c' = c" and c = c, of act sel ps rv] that False by simp
  then show ?thesis
    by (simp add: l2_multicast_group_leave_all_in_vlan_def l2_multicast_group_rejoin_all_in_vlan_def
        l2_multicast_group_join_def l2_multicast_group_leave_def with_dpt_def try_catch_def Let_def)
qed

definition mc_example :: controller where
  "mc_example = fold (mc_exec ideal_env) [Mc_join 1 10 0x01005e000001, Mc_join 2 10 0x01005e000001,
     Mc_join 1 10 0x01005e000002] controller_init"

lemma mc_inv_example: "mc_inv (mc_groups mc_example)"
  unfolding mc_example_def
  by (simp add: mc_inv_exec del: mc_exec.simps)
    (intro mc_inv_exec, simp add: controller_init_def mc_inv_def)

theorem mc_loops_keep_entries_witness:
  "map mc_key (mc_groups (snd (l2_multicast_group_leave_all_in_vlan ideal_env 1 10 mc_example))) =
     map mc_key (mc_groups mc_example) \<and>
   map mc_key (mc_groups (snd (l2_multicast_group_rejoin_all_in_vlan ideal_env 1 10 mc_example))) =
     map mc_key (mc_groups mc_example)"
  by (rule mc_loops_keep_entries) (rule mc_inv_example)

text \<open>
  C35: disabling a port in all multicast groups of a VLAN and enabling it again restores the
  recorded groups, whatever the switch answers, when the groups are consistent, the datapath is found and
  the port was not disabled in any of them before.
\<close>

theorem mc_leave_all_rejoin_all:
  assumes "mc_inv (mc_groups c)" and "dpt_found env (dptid c)"
    and "\<forall>e \<in> set (mc_groups c). mc_vid e = vid \<longrightarrow>
           l2_group_id env port vid |\<notin>| disabled_l2_interface e"
    and "c1 = snd (l2_multicast_group_leave_all_in_vlan env port vid c)"
    and "dpt_found env (dptid c1)"
  shows "mc_groups (snd (l2_multicast_group_rejoin_all_in_vlan env port vid c1)) = mc_groups c"
proof -
  let ?g = "l2_group_id env port vid"
  have d: "distinct (map mc_key (mc_groups c))" using assms(1) by (simp add: mc_inv_def)
  have c1: "mc_groups c1 = map (\<lambda>e. if mc_vid e = vid \<and> ?g |\<in>| l2_interface e
      then mc_disable_entry ?g e else e) (mc_groups c)"
    using mc_groups_leave_all [OF d assms(2) refl] assms(4) by simp
  have "map mc_key (mc_groups c1) = map mc_key (mc_groups c)" by (simp add: c1)
  then have "distinct (map mc_key (mc_groups c1))" using d by simp
  note restored = mc_groups_rejoin_all [OF this assms(5) refl]
  have undo: "mc_join_entry ?g (mc_disable_entry ?g e) = e"
    if "?g |\<in>| l2_interface e" "?g |\<notin>| disabled_l2_interface e" for e
    using that by (cases e) (auto simp: mc_join_entry_def mc_disable_entry_def)
  show ?thesis unfolding restored c1 using assms(3)
    by (auto simp: undo intro!: map_idI)
qed

theorem mc_leave_all_rejoin_all_witness:
  "mc_groups (snd (l2_multicast_group_rejoin_all_in_vlan ideal_env 1 10
     (snd (l2_multicast_group_leave_all_in_vlan ideal_env 1 10 mc_example)))) = mc_groups mc_example"
proof (rule mc_leave_all_rejoin_all [OF mc_inv_example _ _ refl])
  show "\<forall>e \<in> set (mc_groups mc_example). mc_vid e = 10 \<longrightarrow>
          l2_group_id ideal_env 1 10 |\<notin>| disabled_l2_interface e"
    by code_simp
qed (simp_all add: ideal_env_def)

subsection \<open>Group indices\<close>

text \<open>The indices used in a VLAN, in list order.\<close>

definition vlan_indices :: "u16 \<Rightarrow> mc_entry list \<Rightarrow> int list" where
  "vlan_indices vid es = map mc_index (filter (\<lambda>e. mc_vid e = vid) es)"

lemma mc_next_index_unused:
  "index \<notin> set (vlan_indices vid es) \<Longrightarrow> mc_next_index vid index es = index"
  by (induction es) (auto simp: vlan_indices_def split: if_splits)

lemma mc_next_index_fresh:
  assumes "sorted_wrt (<) (vlan_indices vid es)"
  shows "index \<le> mc_next_index vid index es \<and> mc_next_index vid index es \<notin> set (vlan_indices vid es)"
  using assms
proof (induction es arbitrary: index)
  case (Cons e es)
  have sorted: "sorted_wrt (<) (vlan_indices vid es)"
    using Cons.prems by (auto simp: vlan_indices_def split: if_splits)
  note IH = Cons.IH [OF sorted]
  consider (other) "mc_vid e \<noteq> vid" | (below) "mc_vid e = vid" "index < mc_index e"
    | (here) "mc_vid e = vid" "index = mc_index e" | (above) "mc_vid e = vid" "mc_index e < index"
    by linarith
  then show ?case
  proof cases
    case below
    then have "index \<notin> set (vlan_indices vid (e # es))"
      using Cons.prems by (auto simp: vlan_indices_def)
    with mc_next_index_unused [OF this] show ?thesis by (simp del: mc_next_index.simps)
  qed (use IH [of index] IH [of "index + 1"] in \<open>auto simp: vlan_indices_def\<close>)
qed (simp add: vlan_indices_def)

text \<open>
  when the groups of a VLAN are listed in ascending index order, as they are until a group is
  removed, the index chosen for a new group is not in use.
\<close>

theorem mc_join_index_fresh:
  assumes "dpt_found env (dptid c)" and "mc_find (m, vid) (mc_groups c) = None"
    and "sorted_wrt (<) (vlan_indices vid (mc_groups c))"
  shows "\<exists>i. vlan_indices vid (mc_groups (snd (l2_multicast_group_join env port vid m c))) =
               vlan_indices vid (mc_groups c) @ [i] \<and> i \<notin> set (vlan_indices vid (mc_groups c))"
  using mc_next_index_fresh [OF assms(3), of 1] assms(1,2)
  by (simp add: mc_groups_join) (simp add: vlan_indices_def)

theorem mc_join_index_fresh_witness:
  "\<exists>i. vlan_indices 10 (mc_groups (snd (l2_multicast_group_join ideal_env 3 10 0x01005e000003 mc_example)))
         = vlan_indices 10 (mc_groups mc_example) @ [i] \<and>
       i \<notin> set (vlan_indices 10 (mc_groups mc_example))"
proof (rule mc_join_index_fresh)
  show "mc_find (0x01005e000003, 10) (mc_groups mc_example) = None" by code_simp
  show "sorted_wrt (<) (vlan_indices 10 (mc_groups mc_example))" by code_simp
qed (simp add: ideal_env_def)

text \<open>
  after a removal the order is lost and the single pass over the list can choose an index
  that is in use. Join groups 1 and 2, leave group 1, join groups 3 and 4: group 4 gets index 2,
  which group 2 still has, so both write the same group of the switch.
\<close>

theorem mc_index_collision:
  "vlan_indices 10 (mc_groups (fold (mc_exec ideal_env)
     [Mc_join 1 10 0x01005e000001, Mc_join 1 10 0x01005e000002,
      Mc_leave 1 10 0x01005e000001 False,
      Mc_join 1 10 0x01005e000003, Mc_join 1 10 0x01005e000004] controller_init)) = [2, 1, 2]"
  by code_simp

subsection \<open>Ports, policies and statistics\<close>

abbreviation (input) OFPPC_PORT_DOWN :: u32 where "OFPPC_PORT_DOWN \<equiv> 1"

definition port_set_config :: "ofenv \<Rightarrow> u32 \<Rightarrow> mac \<Rightarrow> bool \<Rightarrow> controller \<Rightarrow> int \<times> controller" where
  "port_set_config env port mac up =
     of_send env [Port_mod port mac (if up then 0 else OFPPC_PORT_DOWN) OFPPC_PORT_DOWN]"

definition in6_of_bytes :: "u8 list \<Rightarrow> in6" where
  "in6_of_bytes = foldl (\<lambda>acc b. push_bit 8 acc OR ucast b) 0"

abbreviation (input) SWIF_ARP :: u32 where "SWIF_ARP \<equiv> 1"
abbreviation (input) ETH_P_IP :: u16 where "ETH_P_IP \<equiv> 0x0800"
abbreviation (input) ETH_P_IPV6 :: u16 where "ETH_P_IPV6 \<equiv> 0x86dd"

definition subscribe_to :: "ofenv \<Rightarrow> u32 \<Rightarrow> controller \<Rightarrow> int \<times> controller" where
  "subscribe_to env flags c =
     of_send env
       ((if flags AND SWIF_ARP \<noteq> 0 then [Flow Enable_policy_arp] else []) @
        [Flow (Enable_tmac_bpdu_multicast_mac 0x0180c2000000 0xfffffffffff0),
         Flow (Enable_tmac_bpdu_multicast_mac 0x0180c2000014 0xfffffffffffe),
         Flow (Enable_tmac_bpdu_multicast_mac 0x09002b000004 0xfffffffffffe),
         Flow (Enable_policy_ipv6_multicast (push_bit 112 0xff02)
                 (in6_of_bytes (the (build_mask_in6 16)))),
         Flow (Enable_policy_ipv4_multicast (push_bit 24 224) (build_mask_in4 4)),
         Flow (Enable_policy_udp ETH_P_IP 67 68),
         Flow (Enable_policy_udp ETH_P_IP 68 67),
         Flow (Enable_policy_udp ETH_P_IPV6 546 547),
         Flow (Enable_policy_udp ETH_P_IPV6 547 546)])
       (c\<lparr>swi_flags := swi_flags c OR flags\<rparr>)"

datatype sai_port_stat_t =
    SAI_PORT_STAT_RX_PACKETS | SAI_PORT_STAT_TX_PACKETS | SAI_PORT_STAT_RX_BYTES
  | SAI_PORT_STAT_TX_BYTES | SAI_PORT_STAT_RX_DROPPED | SAI_PORT_STAT_TX_DROPPED
  | SAI_PORT_STAT_RX_ERRORS | SAI_PORT_STAT_TX_ERRORS | SAI_PORT_STAT_RX_FRAME_ERR
  | SAI_PORT_STAT_RX_OVER_ERR | SAI_PORT_STAT_RX_CRC_ERR | SAI_PORT_STAT_COLLISIONS

fun stat_value :: "port_stats \<Rightarrow> sai_port_stat_t \<Rightarrow> u64" where
  "stat_value st SAI_PORT_STAT_RX_PACKETS = rx_packets st"
| "stat_value st SAI_PORT_STAT_TX_PACKETS = tx_packets st"
| "stat_value st SAI_PORT_STAT_RX_BYTES = rx_bytes st"
| "stat_value st SAI_PORT_STAT_TX_BYTES = tx_bytes st"
| "stat_value st SAI_PORT_STAT_RX_DROPPED = rx_dropped st"
| "stat_value st SAI_PORT_STAT_TX_DROPPED = tx_dropped st"
| "stat_value st SAI_PORT_STAT_RX_ERRORS = rx_errors st"
| "stat_value st SAI_PORT_STAT_TX_ERRORS = 0"
| "stat_value st SAI_PORT_STAT_RX_FRAME_ERR = rx_frame_err st"
| "stat_value st SAI_PORT_STAT_RX_OVER_ERR = rx_over_err st"
| "stat_value st SAI_PORT_STAT_RX_CRC_ERR = rx_crc_err st"
| "stat_value st SAI_PORT_STAT_COLLISIONS = collisions st"

text \<open>
  The counters are the array the caller passes and gets back; a null pointer is \<open>None\<close>. The
  array has the length the caller announces.
\<close>

definition get_statistics ::
  "u64 \<Rightarrow> sai_port_stat_t list option \<Rightarrow> u64 list option \<Rightarrow> controller \<Rightarrow> int \<times> u64 list option" where
  "get_statistics port_no counter_ids counters c =
     (case (counter_ids, counters) of
        (Some ids, Some cs) \<Rightarrow>
          (if port_no = 0 then (-1, counters)
           else case fmlookup (stats_array c) (ucast port_no) of
               None \<Rightarrow> (-1, counters)
             | Some st \<Rightarrow> (0, Some (map (stat_value st) ids @ drop (length ids) cs)))
      | _ \<Rightarrow> (-1, counters))"

text \<open>\<open>handle_port_stats_reply\<close> replaces the table.\<close>

definition handle_port_stats_reply :: "(u32, port_stats) fmap \<Rightarrow> controller \<Rightarrow> controller" where
  "handle_port_stats_reply stats c = c\<lparr>stats_array := stats\<rparr>"

definition get_duplex :: "u32 \<Rightarrow> u8" where
  "get_duplex current = (if bit current 0 \<or> bit current 2 \<or> bit current 4 then 0 else 1)"

lemmas ctl_l2_send_defs [op_defs] =
  overlay_tunnel_add_def overlay_tunnel_remove_def l2_addr_remove_all_in_vlan_def
  l2_addr_add_def l2_addr_remove_def l2_overlay_addr_add_def l2_overlay_addr_remove_def
  port_set_config_def subscribe_to_def

text \<open>
  replacing a forwarding entry removes the old entry before adding the new one, with a barrier
  in between, and the new entry ages exactly when it is not permanent and ageing is enabled.
\<close>

theorem l2_addr_add_replaces:
  assumes "sends_ok env"
  shows "sent (trace (snd (l2_addr_add env port vid mac filtered permanent True c))) =
    sent (trace c) @
      [Flow (Remove_bridging_unicast_vlan 0 vid mac), Barrier,
       Flow (Add_bridging_unicast_vlan port vid mac filtered (get_port_type port = port_type_lag)
         (if permanent \<or> default_idle_timeout c = 0 then None else Some (default_idle_timeout c)))]"
  using assms by (auto simp: l2_addr_add_def entry_timeout_def word_gt_0)

theorem l2_addr_add_replaces_witness:
  "sent (trace (snd (l2_addr_add ideal_env 5 10 0x020000000001 True False True controller_init))) =
     [Flow (Remove_bridging_unicast_vlan 0 10 0x020000000001), Barrier,
      Flow (Add_bridging_unicast_vlan 5 10 0x020000000001 True False (Some 300))]"
  using l2_addr_add_replaces [OF sends_ok_ideal, of 5 10 "0x020000000001" True False controller_init]
  by (simp add: controller_init_def get_port_type_def)

end
