(* ===== verification/Ctl_Lag.thy ===== *)
theory Ctl_Lag
  imports Ofdpa_Client
begin

text \<open>
  Link aggregation in class \<open>controller\<close> (\<open>src/src/of-dpa/controller.cc\<close>): the map \<open>lag\<close> from
  LAG numbers to member ports, and the counter that numbers them. \<open>lag_create\<close> returns the
  identifier through an out parameter, \<open>None\<close> when it is not written.
\<close>

definition lag_create ::
  "ofenv \<Rightarrow> string \<Rightarrow> u8 \<Rightarrow> controller \<Rightarrow> (int \<times> u32 option) \<times> controller" where
  "lag_create env name mode c =
     (if \<not> connected c then ((- EAGAIN, None), c)
      else if fmlookup (lag c) (lag_id_next c) \<noteq> None then ((- EINVAL, None), c)
      else (let lag_id = combine_port_type (lag_id_next c) port_type_lag;
                (rv, c1) = OfdpaTrunkCreate env lag_id name mode
                  (c\<lparr>lag := fmupd (lag_id_next c) {||} (lag c), lag_id_next := lag_id_next c + 1\<rparr>)
            in ((rv, Some lag_id), c1)))"

definition lag_remove :: "ofenv \<Rightarrow> u32 \<Rightarrow> controller \<Rightarrow> int \<times> controller" where
  "lag_remove env lag_id c =
     (if \<not> connected c then (- EAGAIN, c)
      else OfdpaTrunkDelete env lag_id (c\<lparr>lag := fmdrop (get_port_num lag_id) (lag c)\<rparr>))"

definition lag_add_member :: "ofenv \<Rightarrow> u32 \<Rightarrow> u32 \<Rightarrow> controller \<Rightarrow> int \<times> controller" where
  "lag_add_member env lag_id port_id c =
     (if \<not> connected c then (- EAGAIN, c)
      else if \<not> is_lag lag_id then (- EINVAL, c)
      else case fmlookup (lag c) (get_port_num lag_id) of
          None \<Rightarrow> (- ENODATA, c)
        | Some S \<Rightarrow> OfdpaPortTrunkGroupSet env port_id lag_id
            (c\<lparr>lag := fmupd (get_port_num lag_id) (finsert port_id S) (lag c)\<rparr>))"

definition lag_remove_member :: "ofenv \<Rightarrow> u32 \<Rightarrow> u32 \<Rightarrow> controller \<Rightarrow> int \<times> controller" where
  "lag_remove_member env lag_id port_id c =
     (if \<not> connected c then (- EAGAIN, c)
      else if \<not> is_lag lag_id then (- EINVAL, c)
      else case fmlookup (lag c) (get_port_num lag_id) of
          None \<Rightarrow> (- ENODATA, c)
        | Some S \<Rightarrow>
            if port_id |\<notin>| S then (- EINVAL, c)
            else OfdpaPortTrunkGroupSet env port_id 0
              (c\<lparr>lag := fmupd (get_port_num lag_id) (S |-| {|port_id|}) (lag c)\<rparr>))"

definition lag_set_member_active ::
  "ofenv \<Rightarrow> u32 \<Rightarrow> u32 \<Rightarrow> u8 \<Rightarrow> controller \<Rightarrow> int \<times> controller" where
  "lag_set_member_active env lag_id port_id active c =
     (if \<not> connected c then (- EAGAIN, c)
      else if lag_id = 0 then (- EINVAL, c)
      else if port_id = 0 then (- EINVAL, c)
      else OfdpaTrunkPortMemberActiveSet env port_id lag_id (ucast active) c)"

definition lag_set_mode :: "ofenv \<Rightarrow> u32 \<Rightarrow> u8 \<Rightarrow> controller \<Rightarrow> int \<times> controller" where
  "lag_set_mode env lag_id mode c =
     (if \<not> connected c then (- EAGAIN, c) else ofdpaTrunkPortPSCSet env lag_id mode c)"

lemmas lag_op_defs [op_defs] =
  lag_create_def lag_remove_def lag_add_member_def lag_remove_member_def
  lag_set_member_active_def lag_set_mode_def

lemma rpc_lag_fields [frame]:
  "lag (snd (rpc_call env r c)) = lag c" "lag_id_next (snd (rpc_call env r c)) = lag_id_next c"
  "connected (snd (rpc_call env r c)) = connected c"
  by (subst snd_rpc_call; simp)+

subsection \<open>The number of LAGs\<close>

datatype lag_cmd =
    Lag_create string u8
  | Lag_remove u32
  | Lag_add_member u32 u32
  | Lag_remove_member u32 u32
  | Lag_set_member_active u32 u32 u8
  | Lag_set_mode u32 u8

fun lag_exec :: "ofenv \<Rightarrow> lag_cmd \<Rightarrow> controller \<Rightarrow> controller" where
  "lag_exec env (Lag_create name mode) c = snd (lag_create env name mode c)"
| "lag_exec env (Lag_remove i) c = snd (lag_remove env i c)"
| "lag_exec env (Lag_add_member i p) c = snd (lag_add_member env i p c)"
| "lag_exec env (Lag_remove_member i p) c = snd (lag_remove_member env i p c)"
| "lag_exec env (Lag_set_member_active i p a) c = snd (lag_set_member_active env i p a c)"
| "lag_exec env (Lag_set_mode i m) c = snd (lag_set_mode env i m c)"

fun lag_creates :: "lag_cmd list \<Rightarrow> nat" where
  "lag_creates [] = 0"
| "lag_creates (Lag_create name mode # cs) = Suc (lag_creates cs)"
| "lag_creates (cmd # cs) = lag_creates cs"

text \<open>All LAG numbers are below the counter, which has not wrapped.\<close>

definition lag_inv :: "nat \<Rightarrow> controller \<Rightarrow> bool" where
  "lag_inv n c \<longleftrightarrow> connected c \<and> unat (lag_id_next c) \<le> n + 1 \<and>
     (\<forall>k. k |\<in>| fmdom (lag c) \<longrightarrow> unat k < unat (lag_id_next c))"

lemma lag_inv_next_free: "lag_inv n c \<Longrightarrow> fmlookup (lag c) (lag_id_next c) = None"
  unfolding lag_inv_def by (metis fmdom_notD less_irrefl)

lemma lag_inv_create:
  assumes "lag_inv n c" and "n < 2 ^ 16 - 2"
  shows "lag_inv (Suc n) (snd (lag_create env name mode c))"
proof -
  have "unat (lag_id_next c + 1) = unat (lag_id_next c) + 1"
    using assms by (simp add: lag_inv_def unat_word_ariths)
  then show ?thesis using assms lag_inv_next_free [OF assms(1)]
    by (auto simp: lag_create_def lag_inv_def split_beta Let_def ofdpa_defs frame less_Suc_eq)
qed

lemma lag_inv_other:
  assumes "lag_inv n c"
  shows "lag_inv n (snd (lag_remove env i c))" "lag_inv n (snd (lag_add_member env i p c))"
    "lag_inv n (snd (lag_remove_member env i p c))"
    "lag_inv n (snd (lag_set_member_active env i p a c))" "lag_inv n (snd (lag_set_mode env i m c))"
  using assms by (auto simp: op_defs lag_inv_def frame fmlookup_dom_iff split: option.split)

lemma lag_inv_exec:
  assumes "lag_inv n c" and "n + lag_creates cmds \<le> 2 ^ 16 - 2"
  shows "lag_inv (n + lag_creates cmds) (fold (lag_exec env) cmds c)"
  using assms
proof (induction cmds arbitrary: n c rule: lag_creates.induct)
  case (2 name mode cs)
  then show ?case using lag_inv_create [of n c env name mode]
      "2.IH" [of "Suc n" "snd (lag_create env name mode c)"] by simp
qed (auto simp: lag_inv_other)

text \<open>
  the first 65535 creations after start-up find a fresh LAG number, whatever other LAG
  operations run in between and whatever the switch answers: the creation is never refused
  locally, the identifier has the LAG type, its number was not in use, and it is recorded with no
  members.
\<close>

theorem lag_create_fresh:
  assumes "lag_creates cmds \<le> 2 ^ 16 - 2"
    and "c = fold (lag_exec env) cmds (controller_init\<lparr>connected := True\<rparr>)"
  shows "\<exists>rv i c'. lag_create env name mode c = ((rv, Some i), c') \<and> is_lag i \<and>
           fmlookup (lag c) (get_port_num i) = None \<and> fmlookup (lag c') (get_port_num i) = Some {||}"
proof -
  have "lag_inv 0 (controller_init\<lparr>connected := True\<rparr>)" by (simp add: lag_inv_def controller_init_def)
  from lag_inv_exec [OF this] have inv: "lag_inv (lag_creates cmds) c" using assms by simp
  have "get_port_type (combine_port_type (lag_id_next c) port_type_lag) = port_type_lag"
    by (simp add: get_port_type_combine take_bit_16_port_type)
  with lag_inv_next_free [OF inv] inv show ?thesis
    by (simp add: lag_create_def lag_inv_def split_beta Let_def ofdpa_defs frame get_port_num_combine)
qed

theorem lag_create_fresh_witness:
  "\<exists>rv i c'. lag_create ideal_env ''bond1'' 1 (fold (lag_exec ideal_env)
      [Lag_create ''bond0'' 1, Lag_add_member 0x20001 5] (controller_init\<lparr>connected := True\<rparr>)) =
        ((rv, Some i), c') \<and> is_lag i \<and>
     fmlookup (lag (fold (lag_exec ideal_env)
       [Lag_create ''bond0'' 1, Lag_add_member 0x20001 5] (controller_init\<lparr>connected := True\<rparr>)))
       (get_port_num i) = None \<and>
     fmlookup (lag c') (get_port_num i) = Some {||}"
  by (rule lag_create_fresh [OF _ refl]) simp

lemma lag_blocked_exec:
  assumes "connected c" and "fmlookup (lag c) (lag_id_next c) \<noteq> None"
    and "\<forall>i. cmd = Lag_remove i \<longrightarrow> get_port_num i \<noteq> lag_id_next c"
  shows "connected (lag_exec env cmd c) \<and> lag_id_next (lag_exec env cmd c) = lag_id_next c \<and>
    fmlookup (lag (lag_exec env cmd c)) (lag_id_next c) \<noteq> None"
  using assms by (cases cmd) (auto simp: op_defs frame split: option.split)

text \<open>
  once the counter stands on a number in use, which can happen after it has wrapped,
  \<open>lag_create\<close> refuses every further creation until exactly that LAG is removed, however many
  other numbers are free: LAG operations that do not remove it leave the refusal in place.
\<close>

theorem lag_create_blocked:
  assumes "connected c" and "fmlookup (lag c) (lag_id_next c) \<noteq> None"
    and "\<forall>i. Lag_remove i \<in> set cmds \<longrightarrow> get_port_num i \<noteq> lag_id_next c"
  shows "fst (lag_create env name mode (fold (lag_exec env) cmds c)) = (- EINVAL, None)"
  using assms
proof (induction cmds arbitrary: c)
  case (Cons cmd cmds)
  then show ?case using lag_blocked_exec [of c cmd env] by simp
qed (simp add: lag_create_def)

theorem lag_create_blocked_witness:
  "fst (lag_create ideal_env ''bond'' 1 (fold (lag_exec ideal_env) [Lag_remove 0x20001]
     (controller_init\<lparr>connected := True, lag_id_next := 7, lag := fmupd 1 {||} (fmupd 7 {||} fmempty)\<rparr>)))
   = (- EINVAL, None)"
  by (rule lag_create_blocked) (simp_all add: get_port_num_def)

text \<open>
  adding a port to a LAG that does not have it and removing it again restores the member sets,
  and the requests name the LAG first and no LAG (0) then.
\<close>

theorem lag_member_roundtrip:
  assumes "connected c" and "is_lag i" and "fmlookup (lag c) (get_port_num i) = Some S"
    and "p |\<notin>| S" and "c1 = snd (lag_add_member env i p c)"
    and "c2 = snd (lag_remove_member env i p c1)"
  shows "lag c2 = lag c \<and> fmlookup (lag c1) (get_port_num i) = Some (finsert p S) \<and>
    (\<exists>r1 r2. trace c2 = trace c @
       [Rpc_done (Rpc_PortTrunkGroupSet i p) r1, Rpc_done (Rpc_PortTrunkGroupSet 0 p) r2])"
proof -
  have "fmupd k (finsert p S |-| {|p|}) (fmupd k (finsert p S) m) = m" if "fmlookup m k = Some S" for k m
    using that assms(4) by (intro fmap_ext) auto
  then show ?thesis using assms by (simp add: op_defs frame)
qed

theorem lag_member_roundtrip_witness:
  "\<exists>c. lag (snd (lag_remove_member ideal_env 0x20001 5 (snd (lag_add_member ideal_env 0x20001 5 c)))) =
         lag c \<and> lag c = fmupd 1 {|3|} fmempty"
proof (intro exI conjI)
  let ?c = "controller_init\<lparr>connected := True, lag := fmupd 1 {|3|} fmempty\<rparr>"
  show "lag (snd (lag_remove_member ideal_env 0x20001 5
      (snd (lag_add_member ideal_env 0x20001 5 ?c)))) = lag ?c"
    by (rule lag_member_roundtrip [where S = "{|3|}", OF _ _ _ _ refl refl, THEN conjunct1])
      (simp_all add: get_port_type_def get_port_num_def)
qed simp

end
