(* ===== verification/Ctl_Stg.thy ===== *)
theory Ctl_Stg
  imports Ofdpa_Client "HOL-Library.While_Combinator"
begin

text \<open>
  Spanning tree groups in class \<open>controller\<close> (\<open>src/src/of-dpa/controller.cc\<close>): one group per VLAN,
  taken from the identifiers 2 to 511. The search for a free identifier is an unbounded
  \<open>while\<close> loop; a call that does not return is \<open>None\<close>.
\<close>

definition lookup_stpid :: "u32 \<Rightarrow> controller \<Rightarrow> u32" where
  "lookup_stpid vlan_id c =
     (case fmlookup (vlan_to_stg c) (ucast vlan_id) of None \<Rightarrow> 0 | Some stg \<Rightarrow> stg)"

definition next_stg :: "u32 \<Rightarrow> u32" where
  "next_stg i = (if i + 1 = 512 then 2 else i + 1)"

definition find_free_stgid :: "controller \<Rightarrow> (int \<times> controller) option" where
  "find_free_stgid c =
     (if fcard (fmdom (vlan_to_stg c)) = 512 - 2 then Some (- ENOSPC, c)
      else map_option (\<lambda>i. (uint i, c\<lparr>current_stg := i\<rparr>))
             (while_option (\<lambda>i. i |\<in>| stg_in_use c) next_stg (current_stg c)))"

definition ofdpa_stg_destroy :: "ofenv \<Rightarrow> u16 \<Rightarrow> controller \<Rightarrow> int \<times> controller" where
  "ofdpa_stg_destroy env vlan_id c =
     (let stg_id = lookup_stpid (ucast vlan_id) c
      in if stg_id = 0 then (0, c)
         else (let (rv, c1) = ofdpaStgDestroy env (ucast stg_id) c
               in if rv < 0 then (rv, c1)
                  else (rv, c1\<lparr>vlan_to_stg := fmdrop vlan_id (vlan_to_stg c1),
                               stg_in_use := stg_in_use c1 |-| {|stg_id|}\<rparr>)))"

text \<open>The states of \<open>linux/if_bridge.h\<close>.\<close>

definition bcm_state :: "u8 \<Rightarrow> string option" where
  "bcm_state state =
     (if state = 3 then Some ''forward''
      else if state = 4 then Some ''block''
      else if state = 0 then Some ''disable''
      else if state = 1 then Some ''listen''
      else if state = 2 then Some ''learn''
      else None)"

definition ofdpa_stg_state_port_set ::
  "ofenv \<Rightarrow> u32 \<Rightarrow> u16 \<Rightarrow> u8 \<Rightarrow> controller \<Rightarrow> int \<times> controller" where
  "ofdpa_stg_state_port_set env port_id vlan_id state c =
     (let stg_id = lookup_stpid (ucast vlan_id) c;
          stg_id = (if stg_id = 0 then 1 else stg_id)
      in case bcm_state state of
           None \<Rightarrow> (- EINVAL, c)
         | Some s \<Rightarrow> ofdpaStgStatePortSet env port_id s stg_id c)"

definition ofdpa_stg_create :: "ofenv \<Rightarrow> u16 \<Rightarrow> controller \<Rightarrow> (int \<times> controller) option" where
  "ofdpa_stg_create env vlan_id c =
     (let stg_id = lookup_stpid (ucast vlan_id) c
      in if stg_id \<noteq> 0 then Some (uint stg_id, c)
         else case find_free_stgid c of
             None \<Rightarrow> None
           | Some (stg_id, c1) \<Rightarrow>
               if stg_id < 0 then Some (stg_id, c1)
               else (let (rv, c2) = ofdpaStgCreate env (word_of_int stg_id) c1
                     in if rv < 0 then Some (rv, c2)
                        else (let (rv, c3) = ofdpaStgVlanAdd env vlan_id (word_of_int stg_id) c2
                              in if rv < 0 then Some (rv, c3)
                                 else Some (rv, c3\<lparr>
                                   vlan_to_stg := fm_emplace vlan_id (word_of_int stg_id) (vlan_to_stg c3),
                                   stg_in_use := finsert (current_stg c3) (stg_in_use c3)\<rparr>))))"

subsection \<open>The invariant\<close>

text \<open>
  The used bits are exactly the groups recorded for VLANs, no group is recorded twice, and the
  identifiers and the search position are in range.
\<close>

definition stg_inv :: "controller \<Rightarrow> bool" where
  "stg_inv c \<longleftrightarrow>
     stg_in_use c = fmran (vlan_to_stg c) \<and>
     (\<forall>v w i. fmlookup (vlan_to_stg c) v = Some i \<longrightarrow> fmlookup (vlan_to_stg c) w = Some i \<longrightarrow> v = w) \<and>
     (\<forall>i. i |\<in>| stg_in_use c \<longrightarrow> 2 \<le> unat i \<and> unat i < 512) \<and>
     2 \<le> unat (current_stg c) \<and> unat (current_stg c) < 512"

lemma stg_inv_init: "stg_inv controller_init"
  by (simp add: stg_inv_def controller_init_def)

lemma fcard_stg_in_use: "stg_inv c \<Longrightarrow> fcard (stg_in_use c) = fcard (fmdom (vlan_to_stg c))"
proof -
  assume inv: "stg_inv c"
  let ?m = "vlan_to_stg c"
  have "stg_in_use c = (\<lambda>v. the (fmlookup ?m v)) |`| fmdom ?m"
    using inv by (force simp: stg_inv_def fmlookup_ran_iff fmlookup_dom_iff)
  moreover have "inj_on (\<lambda>v. the (fmlookup ?m v)) (fset (fmdom ?m))"
    using inv by (auto simp: stg_inv_def inj_on_def fmlookup_dom_iff)
  ultimately show ?thesis by (simp add: fcard.rep_eq card_image)
qed

text \<open>Pigeonhole: fewer than 510 used identifiers leave one of 2 to 511 free.\<close>

lemma free_stg_exists:
  assumes "\<forall>i. i |\<in>| S \<longrightarrow> 2 \<le> unat i \<and> unat i < 512" and "fcard S \<noteq> 510"
  shows "\<exists>j :: u32. 2 \<le> unat j \<and> unat j < 512 \<and> j |\<notin>| S"
proof (rule ccontr)
  assume "\<not> ?thesis"
  then have S: "fset S = {j :: u32. 2 \<le> unat j \<and> unat j < 512}" using assms(1) by auto
  have "bij_betw unat {j :: u32. 2 \<le> unat j \<and> unat j < 512} {2..<512}"
    by (rule bij_betw_byWitness [where f' = of_nat]) (auto simp: unat_of_nat)
  then have "card (fset S) = 510" unfolding S by (simp add: bij_betw_same_card)
  then show False using assms(2) by (simp add: fcard.rep_eq)
qed

lemma unat_next_stg:
  "unat i < 512 \<Longrightarrow> unat (next_stg i) = (if unat i = 511 then 2 else unat i + 1)"
proof -
  assume "unat i < 512"
  then have "unat (i + 1) = unat i + 1" by (simp add: unat_word_ariths)
  moreover have "i + 1 = 512 \<longleftrightarrow> unat (i + 1) = 512" by (simp add: word_unat_eq_iff)
  ultimately show ?thesis by (simp add: next_stg_def)
qed

text \<open>The search walks the cycle 2, \<dots>, 511, 2 and gets closer to any free identifier.\<close>

lemma stg_search_ends:
  assumes "2 \<le> unat i0" "unat i0 < 512" and "2 \<le> unat j" "unat j < 512" "j |\<notin>| S"
  shows "\<exists>i. while_option (\<lambda>i. i |\<in>| S) next_stg i0 = Some i \<and>
             2 \<le> unat i \<and> unat i < 512 \<and> i |\<notin>| S"
proof -
  let ?P = "\<lambda>i :: u32. 2 \<le> unat i \<and> unat i < 512"
  let ?dist = "\<lambda>i :: u32. if unat i \<le> unat j then unat j - unat i else unat j + 510 - unat i"
  have step: "?P (next_stg i) \<and> ?dist (next_stg i) < ?dist i" if "?P i" "i |\<in>| S" for i
  proof -
    have "i \<noteq> j" using that assms(5) by blast
    then have "unat i \<noteq> unat j" by (metis word_unat_eq_iff)
    then show ?thesis using that(1) assms(3,4) by (auto simp: unat_next_stg)
  qed
  obtain i where i: "while_option (\<lambda>i. i |\<in>| S) next_stg i0 = Some i"
    using measure_while_option_Some [of ?P "\<lambda>i. i |\<in>| S" next_stg ?dist i0] step assms(1,2) by blast
  have "?P i" using while_option_rule [of ?P "\<lambda>i. i |\<in>| S" next_stg i0 i] step i assms(1,2) by blast
  moreover have "i |\<notin>| S" using while_option_stop [OF i] .
  ultimately show ?thesis using i by blast
qed

lemma find_free_stgid_inv:
  assumes "stg_inv c" and "fcard (fmdom (vlan_to_stg c)) \<noteq> 510"
  shows "\<exists>i. find_free_stgid c = Some (uint i, c\<lparr>current_stg := i\<rparr>) \<and>
             2 \<le> unat i \<and> unat i < 512 \<and> i |\<notin>| stg_in_use c"
proof -
  have range: "\<forall>i. i |\<in>| stg_in_use c \<longrightarrow> 2 \<le> unat i \<and> unat i < 512"
    and cur: "2 \<le> unat (current_stg c)" "unat (current_stg c) < 512"
    using assms(1) by (auto simp: stg_inv_def)
  have "fcard (stg_in_use c) \<noteq> 510" using assms fcard_stg_in_use by simp
  from free_stg_exists [OF range this] obtain j :: u32
    where "2 \<le> unat j" "unat j < 512" "j |\<notin>| stg_in_use c" by blast
  from stg_search_ends [OF cur this] show ?thesis
    using assms(2) by (auto simp: find_free_stgid_def)
qed

lemma rpc_stg_fields [frame]:
  "vlan_to_stg (snd (rpc_call env r c)) = vlan_to_stg c"
  "stg_in_use (snd (rpc_call env r c)) = stg_in_use c"
  "current_stg (snd (rpc_call env r c)) = current_stg c"
  by (subst snd_rpc_call; simp)+

text \<open>The invariant reads three fields only.\<close>

lemma stg_inv_same_fields:
  "stg_inv c \<Longrightarrow> vlan_to_stg c' = vlan_to_stg c \<Longrightarrow> stg_in_use c' = stg_in_use c \<Longrightarrow>
     current_stg c' = current_stg c \<Longrightarrow> stg_inv c'"
  unfolding stg_inv_def by metis

lemma stg_inv_rpc [simp]: "stg_inv (snd (rpc_call env r c)) = stg_inv c"
  by (simp add: stg_inv_def frame)

lemma stg_inv_record:
  assumes "stg_inv c" and "fmlookup (vlan_to_stg c) v = None" and "i |\<notin>| stg_in_use c"
    and "2 \<le> unat i" "unat i < 512"
  shows "stg_inv (c\<lparr>current_stg := i, vlan_to_stg := fmupd v i (vlan_to_stg c),
                    stg_in_use := finsert i (stg_in_use c)\<rparr>)"
proof -
  have unused: "fmlookup (vlan_to_stg c) w \<noteq> Some i" for w
    using assms(1,3) by (auto simp: stg_inv_def fmlookup_ran_iff)
  show ?thesis using assms unused
    by (simp add: stg_inv_def fmran_fmupd_absent)
qed

lemma stg_inv_forget:
  assumes "stg_inv c" and "fmlookup (vlan_to_stg c) v = Some i"
  shows "stg_inv (c\<lparr>vlan_to_stg := fmdrop v (vlan_to_stg c), stg_in_use := stg_in_use c |-| {|i|}\<rparr>)"
proof -
  have "fmran (fmdrop v (vlan_to_stg c)) = fmran (vlan_to_stg c) |-| {|i|}"
    using assms by (intro fset_eqI) (auto simp: stg_inv_def fmlookup_ran_iff simp del: fmran_drop)
  then show ?thesis using assms by (simp add: stg_inv_def)
qed

lemma lookup_stpid_cases:
  assumes "stg_inv c"
  obtains (none) "fmlookup (vlan_to_stg c) v = None" "lookup_stpid (ucast v) c = 0"
  | (some) i where "fmlookup (vlan_to_stg c) v = Some i" "lookup_stpid (ucast v) c = i" "i \<noteq> 0"
proof (cases "fmlookup (vlan_to_stg c) v")
  case None
  then show ?thesis by (intro none) (simp_all add: lookup_stpid_def)
next
  case (Some i)
  then have "i |\<in>| stg_in_use c" using assms by (auto simp: stg_inv_def fmlookup_ran_iff)
  then have "i \<noteq> 0" using assms by (auto simp: stg_inv_def)
  with Some show ?thesis by (intro some) (simp_all add: lookup_stpid_def)
qed

lemma stg_inv_destroy:
  assumes "stg_inv c"
  shows "stg_inv (snd (ofdpa_stg_destroy env v c))"
  using assms
proof (cases rule: lookup_stpid_cases [of c v])
  case (some i)
  have "stg_inv ((snd (rpc_call env r c))\<lparr>vlan_to_stg := fmdrop v (vlan_to_stg c),
      stg_in_use := stg_in_use c |-| {|i|}\<rparr>)" for r
    by (rule stg_inv_same_fields [OF stg_inv_forget [OF assms some(1)]]) (simp_all add: frame)
  then show ?thesis using assms some
    by (simp add: ofdpa_stg_destroy_def Let_def split_beta ofdpa_defs frame)
qed (use assms in \<open>simp_all add: ofdpa_stg_destroy_def\<close>)

text \<open>What a creation does when the VLAN has no group and an identifier is free.\<close>

lemma ofdpa_stg_create_new:
  assumes "stg_inv c" and "fmlookup (vlan_to_stg c) v = None" and "fcard (fmdom (vlan_to_stg c)) \<noteq> 510"
  obtains i where "2 \<le> unat i" "unat i < 512" "i |\<notin>| stg_in_use c"
    "ofdpa_stg_create env v c =
       (let (rv, c2) = ofdpaStgCreate env (ucast i) (c\<lparr>current_stg := i\<rparr>)
        in if rv < 0 then Some (rv, c2)
           else let (rv, c3) = ofdpaStgVlanAdd env v i c2
                in if rv < 0 then Some (rv, c3)
                   else Some (rv, c3\<lparr>vlan_to_stg := fmupd v i (vlan_to_stg c),
                                     stg_in_use := finsert i (stg_in_use c)\<rparr>))"
proof -
  obtain i where i: "find_free_stgid c = Some (uint i, c\<lparr>current_stg := i\<rparr>)"
    "2 \<le> unat i" "unat i < 512" "i |\<notin>| stg_in_use c"
    using find_free_stgid_inv [OF assms(1,3)] by blast
  have "lookup_stpid (ucast v) c = 0" using assms(2) by (simp add: lookup_stpid_def)
  with i(1) assms(2) show thesis
    by (intro that [OF i(2-4)])
      (simp add: ofdpa_stg_create_def Let_def split_beta ofdpa_defs frame)
qed

lemma ofdpa_stg_create_inv:
  assumes "stg_inv c"
  shows "\<exists>rv c'. ofdpa_stg_create env v c = Some (rv, c') \<and> stg_inv c'"
  using assms
proof (cases rule: lookup_stpid_cases [of c v])
  case (some i)
  then show ?thesis using assms by (simp add: ofdpa_stg_create_def)
next
  case none
  show ?thesis
  proof (cases "fcard (fmdom (vlan_to_stg c)) = 510")
    case True
    then show ?thesis using assms none by (simp add: ofdpa_stg_create_def find_free_stgid_def)
  next
    case False
    from assms none(1) False obtain i where i: "2 \<le> unat i" "unat i < 512" "i |\<notin>| stg_in_use c"
      and eq: "ofdpa_stg_create env v c =
        (let (rv, c2) = ofdpaStgCreate env (ucast i) (c\<lparr>current_stg := i\<rparr>)
         in if rv < 0 then Some (rv, c2)
            else let (rv, c3) = ofdpaStgVlanAdd env v i c2
                 in if rv < 0 then Some (rv, c3)
                    else Some (rv, c3\<lparr>vlan_to_stg := fmupd v i (vlan_to_stg c),
                                      stg_in_use := finsert i (stg_in_use c)\<rparr>))"
      by (rule ofdpa_stg_create_new)
    have "stg_inv (c\<lparr>current_stg := i\<rparr>)" using assms i by (simp add: stg_inv_def)
    moreover have "stg_inv ((snd (rpc_call env r2 (snd (rpc_call env r1 (c\<lparr>current_stg := i\<rparr>)))))
        \<lparr>vlan_to_stg := fmupd v i (vlan_to_stg c), stg_in_use := finsert i (stg_in_use c)\<rparr>)" for r1 r2
      by (rule stg_inv_same_fields [OF stg_inv_record [OF assms none(1) i(3,1,2)]]) (simp_all add: frame)
    ultimately show ?thesis by (simp add: eq Let_def split_beta ofdpa_defs ex_result_iff)
  qed
qed

subsection \<open>Properties\<close>

datatype stg_cmd = Stg_create u16 | Stg_destroy u16 | Stg_state_port_set u32 u16 u8

fun stg_run :: "ofenv \<Rightarrow> stg_cmd list \<Rightarrow> controller \<Rightarrow> controller option" where
  "stg_run env [] c = Some c"
| "stg_run env (Stg_create v # cs) c =
     (case ofdpa_stg_create env v c of None \<Rightarrow> None | Some (rv, c') \<Rightarrow> stg_run env cs c')"
| "stg_run env (Stg_destroy v # cs) c = stg_run env cs (snd (ofdpa_stg_destroy env v c))"
| "stg_run env (Stg_state_port_set p v s # cs) c =
     stg_run env cs (snd (ofdpa_stg_state_port_set env p v s c))"

lemma stg_inv_state_port_set: "stg_inv c \<Longrightarrow> stg_inv (snd (ofdpa_stg_state_port_set env p v s c))"
  by (simp add: ofdpa_stg_state_port_set_def Let_def ofdpa_defs split: option.split)

text \<open>
  C33: the search for a free spanning tree group always ends: any sequence of creations,
  destructions and state changes from the initial state returns, whatever the switch answers, and
  afterwards the used bits are exactly the groups recorded for VLANs, no two VLANs share a group,
  and all identifiers lie between 2 and 511.
\<close>

theorem stg_operations_terminate:
  "\<exists>c. stg_run env cmds controller_init = Some c \<and> stg_inv c"
proof -
  have "\<exists>c'. stg_run env cmds c = Some c' \<and> stg_inv c'" if "stg_inv c" for c
    using that
  proof (induction env cmds c rule: stg_run.induct)
    case (2 env v cs c)
    then show ?case using ofdpa_stg_create_inv [of c env v] by force
  qed (auto simp: stg_inv_destroy stg_inv_state_port_set)
  then show ?thesis using stg_inv_init by blast
qed

text \<open>
  creating a group for a VLAN without one takes an unused identifier between 2 and 511 and
  records it, when the switch accepts both requests and fewer than 510 groups exist; with 510
  groups the creation returns \<open>-ENOSPC\<close> and changes nothing.
\<close>

theorem stg_create_functional:
  assumes "stg_inv c" and "fmlookup (vlan_to_stg c) v = None"
    and "\<forall>h r. \<exists>st. rpc_outcome env h r = Some st \<and> 0 \<le> st"
  shows "if fcard (fmdom (vlan_to_stg c)) = 510 then ofdpa_stg_create env v c = Some (- ENOSPC, c)
         else \<exists>i rv c'. ofdpa_stg_create env v c = Some (rv, c') \<and> 0 \<le> rv \<and> 2 \<le> unat i \<and> unat i < 512 \<and>
           i |\<notin>| stg_in_use c \<and> vlan_to_stg c' = fmupd v i (vlan_to_stg c) \<and>
           stg_in_use c' = finsert i (stg_in_use c)"
proof (cases "fcard (fmdom (vlan_to_stg c)) = 510")
  case True
  then show ?thesis using assms(2) by (simp add: ofdpa_stg_create_def find_free_stgid_def lookup_stpid_def)
next
  case False
  have ok: "0 \<le> fst (rpc_call env r c)" for r c
    using assms(3) by (simp add: fst_rpc_call) (metis option.simps(5))
  then have no_error: "fst (rpc_call env r c) < 0 \<longleftrightarrow> False" for r c by (simp add: not_less)
  obtain i where i: "2 \<le> unat i" "unat i < 512" "i |\<notin>| stg_in_use c"
    and eq: "ofdpa_stg_create env v c =
      (let (rv, c2) = ofdpaStgCreate env (ucast i) (c\<lparr>current_stg := i\<rparr>)
       in if rv < 0 then Some (rv, c2)
          else let (rv, c3) = ofdpaStgVlanAdd env v i c2
               in if rv < 0 then Some (rv, c3)
                  else Some (rv, c3\<lparr>vlan_to_stg := fmupd v i (vlan_to_stg c),
                                    stg_in_use := finsert i (stg_in_use c)\<rparr>))"
    by (rule ofdpa_stg_create_new [OF assms(1,2) False])
  show ?thesis using False i
    by (auto simp: eq Let_def split_beta ofdpa_defs ok no_error intro!: exI [of _ i])
qed

theorem stg_create_functional_witness:
  "\<exists>i rv c'. ofdpa_stg_create ideal_env 10 controller_init = Some (rv, c') \<and> 0 \<le> rv \<and>
     2 \<le> unat i \<and> unat i < 512 \<and> i |\<notin>| stg_in_use controller_init \<and>
     vlan_to_stg c' = fmupd 10 i (vlan_to_stg controller_init) \<and>
     stg_in_use c' = finsert i (stg_in_use controller_init)"
proof -
  have "fmlookup (vlan_to_stg controller_init) 10 = None"
    and "fcard (fmdom (vlan_to_stg controller_init)) \<noteq> 510"
    by (simp_all add: controller_init_def)
  moreover have "\<forall>h r. \<exists>st. rpc_outcome ideal_env h r = Some st \<and> 0 \<le> st"
    by (simp add: ideal_env_def)
  ultimately show ?thesis
    using stg_create_functional [OF stg_inv_init, of 10 ideal_env] by (simp only: if_False simp_thms)
qed

text \<open>
  when the switch creates the group but refuses to add the VLAN to it, the creation fails
  without destroying the group and without recording it: the switch keeps a group that
  \<open>ofdpa_stg_destroy\<close> will never be asked to remove.
\<close>

theorem stg_create_leaks_group:
  assumes "stg_inv c" and "fmlookup (vlan_to_stg c) v = None"
    and "fcard (fmdom (vlan_to_stg c)) \<noteq> 510"
    and "\<forall>h i. rpc_outcome env h (Rpc_StgCreate i) = Some 0"
    and "\<forall>h i. rpc_outcome env h (Rpc_StgVlanAdd v i) = Some e" and "e < 0"
  shows "\<exists>i c'. ofdpa_stg_create env v c = Some (e, c') \<and>
    vlan_to_stg c' = vlan_to_stg c \<and> stg_in_use c' = stg_in_use c \<and>
    trace c' = trace c @ [Rpc_done (Rpc_StgCreate (ucast i)) (Some 0),
                          Rpc_done (Rpc_StgVlanAdd v i) (Some e)]"
proof (rule ofdpa_stg_create_new [OF assms(1-3), of env])
  fix i
  assume "ofdpa_stg_create env v c =
      (let (rv, c2) = ofdpaStgCreate env (ucast i) (c\<lparr>current_stg := i\<rparr>)
       in if rv < 0 then Some (rv, c2)
          else let (rv, c3) = ofdpaStgVlanAdd env v i c2
               in if rv < 0 then Some (rv, c3)
                  else Some (rv, c3\<lparr>vlan_to_stg := fmupd v i (vlan_to_stg c),
                                    stg_in_use := finsert i (stg_in_use c)\<rparr>))"
  then show ?thesis using assms(4-6)
    by (auto simp: Let_def split_beta ofdpa_defs frame fst_rpc_call)
qed

theorem stg_create_leaks_group_witness:
  "\<exists>env i c'. ofdpa_stg_create env 10 controller_init = Some (-1, c') \<and>
    vlan_to_stg c' = fmempty \<and> stg_in_use c' = {||} \<and>
    trace c' = [Rpc_done (Rpc_StgCreate (ucast i)) (Some 0), Rpc_done (Rpc_StgVlanAdd 10 i) (Some (-1))]"
proof -
  let ?env = "ideal_env\<lparr>rpc_outcome := \<lambda>h r. Some (case r of Rpc_StgVlanAdd v i \<Rightarrow> -1 | _ \<Rightarrow> 0)\<rparr>"
  have "\<exists>i c'. ofdpa_stg_create ?env 10 controller_init = Some (-1, c') \<and>
    vlan_to_stg c' = vlan_to_stg controller_init \<and> stg_in_use c' = stg_in_use controller_init \<and>
    trace c' = trace controller_init @ [Rpc_done (Rpc_StgCreate (ucast i)) (Some 0),
      Rpc_done (Rpc_StgVlanAdd 10 i) (Some (-1))]"
    by (rule stg_create_leaks_group [OF stg_inv_init]) (simp_all add: controller_init_def)
  then show ?thesis unfolding controller_init_def by (intro exI [of _ ?env]) simp
qed

end
