(* ===== verification/Ctl_Tunnel.thy ===== *)
theory Ctl_Tunnel
  imports Ctl_Vlan
begin

text \<open>
  Overlay tunnels in class \<open>controller\<close> (\<open>src/src/of-dpa/controller.cc\<close>): the flooding group of a
  tunnel, whose members are recorded in \<open>tunnel_dlf_flood\<close>, and the tunnel objects managed
  through the gRPC client.

  The key of \<open>tunnel_dlf_flood\<close> is a \<open>uint16_t\<close> while tunnel ids are \<open>uint32_t\<close>: the lookup
  truncates, the group on the switch does not.
\<close>

subsection \<open>The flooding group of a tunnel\<close>

definition add_l2_overlay_flood :: "ofenv \<Rightarrow> u32 \<Rightarrow> u32 \<Rightarrow> controller \<Rightarrow> int \<times> controller" where
  "add_l2_overlay_flood env tunnel_id lport_id c =
     (let k = ucast tunnel_id;
          S = finsert lport_id (members_of (tunnel_dlf_flood c) k)
      in of_send env
           [Group (Enable_group_l2_overlay_flood tunnel_id tunnel_id S (fcard S > 1)),
            Barrier,
            Flow (Add_bridging_dlf_overlay tunnel_id (group_id_l2_overlay_flood env tunnel_id tunnel_id))]
           (c\<lparr>tunnel_dlf_flood := fmupd k S (tunnel_dlf_flood c)\<rparr>))"

definition del_l2_overlay_flood :: "ofenv \<Rightarrow> u32 \<Rightarrow> u32 \<Rightarrow> controller \<Rightarrow> int \<times> controller" where
  "del_l2_overlay_flood env tunnel_id lport_id c =
     (case fmlookup (tunnel_dlf_flood c) (ucast tunnel_id) of
        None \<Rightarrow> (0, c)
      | Some S0 \<Rightarrow>
          if lport_id |\<notin>| S0 then (0, c)
          else
            (let S = S0 |-| {|lport_id|}
             in of_send env
                  (if fcard S \<noteq> 0
                   then [Group (Enable_group_l2_overlay_flood tunnel_id tunnel_id S True)]
                   else [Flow (Remove_bridging_dlf_overlay tunnel_id), Barrier,
                         Group (Disable_group_l2_overlay_flood tunnel_id tunnel_id)])
                  (c\<lparr>tunnel_dlf_flood := fmupd (ucast tunnel_id) S (tunnel_dlf_flood c)\<rparr>)))"

subsection \<open>Tunnel objects\<close>

definition tunnel_tenant_create :: "ofenv \<Rightarrow> u32 \<Rightarrow> u32 \<Rightarrow> controller \<Rightarrow> int \<times> controller" where
  "tunnel_tenant_create env tunnel_id vni = ofdpaTunnelTenantCreate env tunnel_id vni"

definition tunnel_tenant_delete :: "ofenv \<Rightarrow> u32 \<Rightarrow> controller \<Rightarrow> int \<times> controller" where
  "tunnel_tenant_delete env tunnel_id = ofdpaTunnelTenantDelete env tunnel_id"

definition tunnel_next_hop_create ::
  "ofenv \<Rightarrow> u32 \<Rightarrow> u64 \<Rightarrow> u64 \<Rightarrow> u32 \<Rightarrow> u16 \<Rightarrow> controller \<Rightarrow> int \<times> controller" where
  "tunnel_next_hop_create env next_hop_id src_mac dst_mac physical_port vlan_id =
     ofdpaTunnelNextHopCreate env next_hop_id src_mac dst_mac physical_port vlan_id"

definition tunnel_next_hop_modify ::
  "ofenv \<Rightarrow> u32 \<Rightarrow> u64 \<Rightarrow> u64 \<Rightarrow> u32 \<Rightarrow> u16 \<Rightarrow> controller \<Rightarrow> int \<times> controller" where
  "tunnel_next_hop_modify env next_hop_id src_mac dst_mac physical_port vlan_id =
     ofdpaTunnelNextHopModify env next_hop_id src_mac dst_mac physical_port vlan_id"

definition tunnel_next_hop_delete :: "ofenv \<Rightarrow> u32 \<Rightarrow> controller \<Rightarrow> int \<times> controller" where
  "tunnel_next_hop_delete env next_hop_id = ofdpaTunnelNextHopDelete env next_hop_id"

definition tunnel_access_port_create ::
  "ofenv \<Rightarrow> u32 \<Rightarrow> string \<Rightarrow> u32 \<Rightarrow> u16 \<Rightarrow> bool \<Rightarrow> controller \<Rightarrow> int \<times> controller" where
  "tunnel_access_port_create env port_id port_name physical_port vlan_id untagged =
     ofdpaTunnelAccessPortCreate env port_id port_name physical_port vlan_id untagged"

definition tunnel_enpoint_create ::
  "ofenv \<Rightarrow> u32 \<Rightarrow> string \<Rightarrow> u32 \<Rightarrow> u32 \<Rightarrow> u32 \<Rightarrow> u32 \<Rightarrow> u32 \<Rightarrow> u32 \<Rightarrow> u32 \<Rightarrow> bool \<Rightarrow>
   controller \<Rightarrow> int \<times> controller" where
  "tunnel_enpoint_create env port_id port_name remote_ipv4 local_ipv4 ttl next_hop_id
     term_udp_dst_port init_udp_dst_port udp_src_port entropy =
     ofdpaTunnelEndpointPortCreate env port_id port_name remote_ipv4 local_ipv4 ttl next_hop_id
       term_udp_dst_port init_udp_dst_port udp_src_port entropy"

definition tunnel_port_delete :: "ofenv \<Rightarrow> u32 \<Rightarrow> controller \<Rightarrow> int \<times> controller" where
  "tunnel_port_delete env port_id = ofdpaTunnelPortDelete env port_id"

definition tunnel_port_tenant_add :: "ofenv \<Rightarrow> u32 \<Rightarrow> u32 \<Rightarrow> controller \<Rightarrow> int \<times> controller" where
  "tunnel_port_tenant_add env lport_id tunnel_id = ofdpaTunnelPortTenantAdd env lport_id tunnel_id"

text \<open>
  \<open>do { rv = delete; cnt++; } while (rv < 0 && cnt < 50)\<close>: \<open>n\<close> is the number of tries left after
  this one. The \<open>assert(rv == 0)\<close> after the loop aborts the program, which is \<open>None\<close>.
\<close>

fun tenant_delete_loop :: "ofenv \<Rightarrow> u32 \<Rightarrow> u32 \<Rightarrow> nat \<Rightarrow> controller \<Rightarrow> int \<times> controller" where
  "tenant_delete_loop env lport_id tunnel_id 0 c = ofdpaTunnelPortTenantDelete env lport_id tunnel_id c"
| "tenant_delete_loop env lport_id tunnel_id (Suc n) c =
     (let (rv, c1) = ofdpaTunnelPortTenantDelete env lport_id tunnel_id c
      in if rv < 0 then tenant_delete_loop env lport_id tunnel_id n c1 else (rv, c1))"

definition tunnel_port_tenant_remove ::
  "ofenv \<Rightarrow> u32 \<Rightarrow> u32 \<Rightarrow> controller \<Rightarrow> (int \<times> controller) option" where
  "tunnel_port_tenant_remove env lport_id tunnel_id c =
     (let (rv, c1) = tenant_delete_loop env lport_id tunnel_id 49 c
      in if rv = 0 then Some (rv, c1) else None)"

definition port_knet_create :: "ofenv \<Rightarrow> u32 \<Rightarrow> controller \<Rightarrow> int \<times> controller" where
  "port_knet_create env port_id = ofdpaPortKnetCreate env port_id"

definition port_knet_delete :: "ofenv \<Rightarrow> u32 \<Rightarrow> controller \<Rightarrow> int \<times> controller" where
  "port_knet_delete env port_id = ofdpaPortKnetDelete env port_id"

lemmas ctl_tunnel_defs [op_defs] =
  tunnel_tenant_create_def tunnel_tenant_delete_def tunnel_next_hop_create_def
  tunnel_next_hop_modify_def tunnel_next_hop_delete_def tunnel_access_port_create_def
  tunnel_enpoint_create_def tunnel_port_delete_def tunnel_port_tenant_add_def
  port_knet_create_def port_knet_delete_def

subsection \<open>The group on the switch follows \<open>tunnel_dlf_flood\<close>\<close>

text \<open>The overlay flooding commands that reached the switch, by truncated tunnel id.\<close>

fun overlay_gops :: "ofmsg list \<Rightarrow> (u16, u32) gop list" where
  "overlay_gops [] = []"
| "overlay_gops (Group (Enable_group_l2_overlay_flood t i S update) # ms) =
     (if update then GModify (ucast t) S else GCreate (ucast t) S) # overlay_gops ms"
| "overlay_gops (Group (Disable_group_l2_overlay_flood t i) # ms) = GDelete (ucast t) # overlay_gops ms"
| "overlay_gops (m # ms) = overlay_gops ms"

lemma overlay_gops_append [simp]: "overlay_gops (xs @ ys) = overlay_gops xs @ overlay_gops ys"
  by (induction xs rule: overlay_gops.induct) auto

lemma fcard_finsert_gt_1: "x |\<notin>| S \<Longrightarrow> 1 < fcard (finsert x S) \<longleftrightarrow> S \<noteq> {||}"
  by (simp add: fcard_finsert_disjoint fcard_pos_iff)

interpretation overlay_flood: group_family "sends_ok env" "\<lambda>lport. True" "\<lambda>k lport. lport"
    "\<lambda>k lport c. snd (add_l2_overlay_flood env (ucast k) lport c)"
    "\<lambda>k lport c. snd (del_l2_overlay_flood env (ucast k) lport c)"
    "\<lambda>c. members_of (tunnel_dlf_flood c)" "\<lambda>c. overlay_gops (sent (trace c))"
  for env :: ofenv
proof unfold_locales
  fix lport :: u32 and k :: u16 and c :: controller
  assume ok: "sends_ok env"
  let ?M = "members_of (tunnel_dlf_flood c)"
  show "members_of (tunnel_dlf_flood (snd (add_l2_overlay_flood env (ucast k) lport c))) =
        ?M(k := finsert lport (?M k))"
    using ok by (simp add: add_l2_overlay_flood_def Let_def fun_eq_iff)
  show "overlay_gops (sent (trace (snd (add_l2_overlay_flood env (ucast k) lport c)))) =
        overlay_gops (sent (trace c)) @
          [if ?M k = {||} then GCreate k {|lport|} else GModify k (finsert lport (?M k))]"
    if "lport |\<notin>| ?M k"
    using ok that by (simp add: add_l2_overlay_flood_def Let_def fcard_finsert_disjoint fcard_pos_iff)
  assume mem: "lport |\<in>| ?M k"
  then obtain S0 where S0: "fmlookup (tunnel_dlf_flood c) k = Some S0"
    by (auto simp: members_of_def split: option.splits)
  show "members_of (tunnel_dlf_flood (snd (del_l2_overlay_flood env (ucast k) lport c))) =
        ?M(k := ?M k |-| {|lport|})"
    using ok S0 mem by (simp add: del_l2_overlay_flood_def Let_def fun_eq_iff members_of_def)
  show "overlay_gops (sent (trace (snd (del_l2_overlay_flood env (ucast k) lport c)))) =
        overlay_gops (sent (trace c)) @
          [if ?M k |-| {|lport|} = {||} then GDelete k else GModify k (?M k |-| {|lport|})]"
    using ok S0 mem by (simp add: del_l2_overlay_flood_def Let_def members_of_def)
qed

text \<open>
  C34: the flooding groups of tunnels follow \<open>tunnel_dlf_flood\<close> as those of VLANs follow
  \<open>l2_domain\<close>, for tunnel ids below \<open>2^16\<close>: as long as sends succeed, and ports are added only when they are not in the
  flooding domain of the tunnel and removed only when they are.
\<close>

theorem overlay_groups_follow_tunnel_dlf_flood:
  assumes "sends_ok env"
    and "disciplined (\<lambda>_. True) (\<lambda>k lport. lport) cmds (members_of (tunnel_dlf_flood c))"
    and "greplay (overlay_gops (sent (trace c))) Map.empty =
           Some (table_of (members_of (tunnel_dlf_flood c)))"
    and "c' = grun (\<lambda>k lport c. snd (add_l2_overlay_flood env (ucast k) lport c))
                  (\<lambda>k lport c. snd (del_l2_overlay_flood env (ucast k) lport c)) cmds c"
  shows "greplay (overlay_gops (sent (trace c'))) Map.empty =
           Some (table_of (members_of (tunnel_dlf_flood c')))"
  using overlay_flood.in_sync_run [OF assms(1,2)] assms(3,4) by (simp add: overlay_flood.in_sync_def)

lemma init_overlay_groups_in_sync:
  "greplay (overlay_gops (sent (trace controller_init))) Map.empty =
   Some (table_of (members_of (tunnel_dlf_flood controller_init)))"
  by (simp add: controller_init_def table_of_def members_of_def fun_eq_iff)

theorem overlay_groups_follow_tunnel_dlf_flood_witness:
  "\<exists>c'. greplay (overlay_gops (sent (trace c'))) Map.empty =
         Some (table_of (members_of (tunnel_dlf_flood c'))) \<and>
        c' = grun (\<lambda>k lport c. snd (add_l2_overlay_flood ideal_env (ucast k) lport c))
               (\<lambda>k lport c. snd (del_l2_overlay_flood ideal_env (ucast k) lport c))
               [GAdd (1::u16) 0x10001, GAdd 1 0x10002, GAdd 2 0x10003, GDel 2 0x10003] controller_init"
proof -
  have "disciplined (\<lambda>_. True) (\<lambda>k lport. lport)
      [GAdd (1::u16) (0x10001::u32), GAdd 1 0x10002, GAdd 2 0x10003, GDel 2 0x10003]
      (members_of (tunnel_dlf_flood controller_init))"
    by (simp add: controller_init_def members_of_def)
  from overlay_groups_follow_tunnel_dlf_flood [OF sends_ok_ideal this init_overlay_groups_in_sync refl]
  show ?thesis by blast
qed

text \<open>
  tunnel ids that agree in their low 16 bits share one member set. With a port in the first
  tunnel, adding a port to the second sends a group modification for a group that was never
  created, with the first tunnel's port among its members.
\<close>

theorem overlay_flood_id_collision:
  assumes "sends_ok env" and "t1 \<noteq> t2" and "(ucast t1 :: u16) = ucast t2" and "p \<noteq> q"
    and "tunnel_dlf_flood c = fmempty" and "trace c = []"
    and "c' = snd (add_l2_overlay_flood env t2 q (snd (add_l2_overlay_flood env t1 p c)))"
  shows "Group (Enable_group_l2_overlay_flood t2 t2 {|p, q|} True) \<in> set (sent (trace c')) \<and>
    (\<forall>S. Group (Enable_group_l2_overlay_flood t2 t2 S False) \<notin> set (sent (trace c')))"
  using assms
  by (auto simp: add_l2_overlay_flood_def Let_def members_of_def fcard_finsert_disjoint)

theorem overlay_flood_id_collision_witness:
  "Group (Enable_group_l2_overlay_flood 0x10001 0x10001 {|7, 8|} True) \<in> set (sent (trace
     (snd (add_l2_overlay_flood ideal_env 0x10001 8
       (snd (add_l2_overlay_flood ideal_env 1 7 controller_init))))))"
  by (rule overlay_flood_id_collision [THEN conjunct1, OF sends_ok_ideal _ _ _ _ _ refl])
    (simp_all add: controller_init_def)

subsection \<open>Retrying the removal of a tenant\<close>

text \<open>The state before the \<open>k\<close>-th try (from 0) and the status it returns.\<close>

definition tenant_try :: "ofenv \<Rightarrow> u32 \<Rightarrow> u32 \<Rightarrow> controller \<Rightarrow> nat \<Rightarrow> controller" where
  "tenant_try env l t c k = ((\<lambda>c. snd (ofdpaTunnelPortTenantDelete env l t c)) ^^ k) c"

definition tenant_status :: "ofenv \<Rightarrow> u32 \<Rightarrow> u32 \<Rightarrow> controller \<Rightarrow> nat \<Rightarrow> int" where
  "tenant_status env l t c k = fst (ofdpaTunnelPortTenantDelete env l t (tenant_try env l t c k))"

lemma tenant_try_Suc:
  "tenant_try env l t (snd (ofdpaTunnelPortTenantDelete env l t c)) k = tenant_try env l t c (Suc k)"
  by (simp add: tenant_try_def funpow_Suc_right del: funpow.simps)

lemma tenant_try_0 [simp]: "tenant_try env l t c 0 = c"
  by (simp add: tenant_try_def)

text \<open>The loop stops at the first status that is not negative, or at its last try.\<close>

lemma tenant_delete_loop_first:
  "\<exists>k \<le> n. tenant_delete_loop env l t n c =
       (tenant_status env l t c k, tenant_try env l t c (Suc k)) \<and>
     (\<forall>j < k. tenant_status env l t c j < 0) \<and> (tenant_status env l t c k < 0 \<longrightarrow> k = n)"
proof (induction n arbitrary: c)
  case 0
  show ?case by (simp add: tenant_status_def tenant_try_def)
next
  case (Suc n)
  let ?d = "ofdpaTunnelPortTenantDelete env l t c"
  show ?case
  proof (cases "fst ?d < 0")
    case True
    from Suc.IH [of "snd ?d"] obtain k where k: "k \<le> n"
      "tenant_delete_loop env l t n (snd ?d) =
         (tenant_status env l t (snd ?d) k, tenant_try env l t (snd ?d) (Suc k))"
      "\<forall>j < k. tenant_status env l t (snd ?d) j < 0"
      "tenant_status env l t (snd ?d) k < 0 \<longrightarrow> k = n" by blast
    have shift: "tenant_status env l t (snd ?d) j = tenant_status env l t c (Suc j)" for j
      by (simp add: tenant_status_def tenant_try_Suc)
    have first: "tenant_status env l t c 0 < 0" using True by (simp add: tenant_status_def)
    show ?thesis
      by (rule exI [of _ "Suc k"])
        (use k True first in \<open>auto simp: shift split_beta Let_def tenant_try_Suc less_Suc_eq_0_disj\<close>)
  next
    case False
    then show ?thesis
      by (intro exI [of _ 0]) (simp add: tenant_status_def tenant_try_def split_beta Let_def)
  qed
qed

lemma trace_tenant_try:
  "\<exists>outs. length outs = k \<and> trace (tenant_try env l t c k) =
     trace c @ map (Rpc_done (Rpc_TunnelPortTenantDelete l t)) outs"
proof (induction k)
  case (Suc k)
  then obtain outs where "length outs = k" "trace (tenant_try env l t c k) =
     trace c @ map (Rpc_done (Rpc_TunnelPortTenantDelete l t)) outs" by blast
  then show ?case
    by (intro exI [of _ "outs @ [rpc_outcome env (trace (tenant_try env l t c k))
        (Rpc_TunnelPortTenantDelete l t)]"])
      (simp add: tenant_try_def ofdpa_defs)
qed simp

text \<open>
  C36: removing a port from a tenant asks the switch until it succeeds, at most 50 times. The call
  returns 0 exactly when one of the first 50 answers is 0 and all before it are negative; in every
  other case the assertion after the loop aborts the program.
\<close>

theorem tenant_remove_retries:
  "(case tunnel_port_tenant_remove env l t c of
      Some (rv, c') \<Rightarrow> rv = 0 \<and> (\<exists>k < 50. tenant_status env l t c k = 0 \<and>
        (\<forall>j < k. tenant_status env l t c j < 0) \<and> c' = tenant_try env l t c (Suc k) \<and>
        (\<exists>outs. length outs = Suc k \<and>
           trace c' = trace c @ map (Rpc_done (Rpc_TunnelPortTenantDelete l t)) outs))
    | None \<Rightarrow> (\<exists>k < 50. (\<forall>j < k. tenant_status env l t c j < 0) \<and>
        (0 < tenant_status env l t c k \<or> k = 49 \<and> tenant_status env l t c k < 0)))"
proof -
  obtain k where k: "k \<le> 49" "tenant_delete_loop env l t 49 c =
       (tenant_status env l t c k, tenant_try env l t c (Suc k))"
     "\<forall>j < k. tenant_status env l t c j < 0" "tenant_status env l t c k < 0 \<longrightarrow> k = 49"
    using tenant_delete_loop_first [of 49 env l t c] by blast
  have "k < 50" using k(1) by simp
  show ?thesis
  proof (cases "tenant_status env l t c k = 0")
    case True
    then show ?thesis using k \<open>k < 50\<close> trace_tenant_try [of "Suc k" env l t c]
      by (auto simp: tunnel_port_tenant_remove_def)
  next
    case False
    then have "0 < tenant_status env l t c k \<or> k = 49 \<and> tenant_status env l t c k < 0"
      using k(4) by linarith
    with False k(2,3) \<open>k < 50\<close> show ?thesis
      by (simp add: tunnel_port_tenant_remove_def) blast
  qed
qed

theorem tenant_remove_retries_witness:
  "\<exists>c'. tunnel_port_tenant_remove ideal_env 0x10001 1 controller_init = Some (0, c') \<and>
        (\<exists>outs. trace c' = map (Rpc_done (Rpc_TunnelPortTenantDelete 0x10001 1)) outs)"
proof -
  have "tenant_status ideal_env l t c k = 0" for l t c k
    by (simp add: tenant_status_def ofdpa_defs fst_rpc_call ideal_env_def)
  then show ?thesis using tenant_remove_retries [of ideal_env "0x10001" 1 controller_init]
    by (auto simp: controller_init_def split: option.splits)
qed

end
