(* ===== verification/Ctl_Session.thy ===== *)
theory Ctl_Session
  imports Ctl_Vlan Ctl_L2 Ctl_Stg Ctl_Tunnel Ctl_Lag
begin

text \<open>
  The session with the switch in class \<open>controller\<close> (\<open>src/src/of-dpa/controller.cc\<close>): opening and
  closing the datapath, and the asynchronous messages the switch sends. A handler returns the new
  state and the calls it makes on the northbound interface (\<open>class nbi\<close> of \<open>src/src/sai.h\<close>), in
  order. Handlers have no exception handler of their own where none is modelled; an exception that
  leaves them is \<open>Inl\<close>.
\<close>

subsection \<open>The northbound interface\<close>

datatype port_event = PORT_EVENT_ADD | PORT_EVENT_DEL | PORT_EVENT_MODIFY | PORT_EVENT_TABLE

datatype switch_state =
  SWITCH_STATE_UNKNOWN | SWITCH_STATE_UP | SWITCH_STATE_DOWN | SWITCH_STATE_FAILED

text \<open>
  In the deletion notices of \<open>handle_dpt_close\<close> the last three members are not given and are
  value-initialised.
\<close>

record port_notification_data =
  ntf_ev :: port_event
  ntf_port_id :: u32
  ntf_hwaddr :: mac
  ntf_name :: string
  ntf_status :: bool
  ntf_speed :: u32
  ntf_duplex :: u8

datatype nbi_call =
    Port_notification "port_notification_data list"
  | Switch_state_notification switch_state
  | Resend_state
  | Nb_enqueue u32 "u8 list"
  | Fdb_timeout u32 u16 mac

text \<open>A port as the switch describes it.\<close>

record of_port =
  of_port_no :: u32
  of_hwaddr :: mac
  of_name :: string
  of_config :: u32
  of_state :: u32
  of_curr_speed :: u32
  of_curr :: u32

abbreviation (input) OFPPS_LINK_DOWN :: u32 where "OFPPS_LINK_DOWN \<equiv> 1"

definition port_data :: "port_event \<Rightarrow> of_port \<Rightarrow> port_notification_data" where
  "port_data ev p = \<lparr>ntf_ev = ev, ntf_port_id = of_port_no p, ntf_hwaddr = of_hwaddr p,
     ntf_name = of_name p,
     ntf_status = (of_config p AND OFPPC_PORT_DOWN = 0 \<and> of_state p AND OFPPS_LINK_DOWN = 0),
     ntf_speed = of_curr_speed p, ntf_duplex = get_duplex (of_curr p)\<rparr>"

subsection \<open>Opening and closing\<close>

text \<open>The command line flags that matter here, and what is known of a new datapath.\<close>

record ctl_flags =
  clear_switch_configuration :: bool
  use_knet :: bool
  rx_rate_limit :: int

record dpt_info =
  di_dptid :: nat
  di_version :: nat
  di_family :: int \<comment> \<open>address family of the remote socket address\<close>

abbreviation (input) OFP13_VERSION :: nat where "OFP13_VERSION \<equiv> 4"
abbreviation (input) AF_INET :: int where "AF_INET \<equiv> 2"
abbreviation (input) AF_INET6 :: int where "AF_INET6 \<equiv> 10"

definition rx_rate :: "ctl_flags \<Rightarrow> int" where
  "rx_rate fl = (if rx_rate_limit fl < 0 then (if use_knet fl then 0 else 1024) else rx_rate_limit fl)"

definition handle_dpt_open ::
  "ofenv \<Rightarrow> ctl_flags \<Rightarrow> dpt_info \<Rightarrow> controller \<Rightarrow> (exn + int) \<times> controller" where
  "handle_dpt_open env fl dpt c =
     (let c = c\<lparr>dptid := di_dptid dpt\<rparr>
      in if di_version dpt \<noteq> OFP13_VERSION then (Inr 0, c)
         else if di_family dpt \<noteq> AF_INET \<and> di_family dpt \<noteq> AF_INET6 then (Inr 0, c)
         else
           (let c = emit Client_created c;
                reset =
                  (if clear_switch_configuration fl
                   then (case send_all env [Flow_mod_reset, Barrier, Group_mod_reset, Barrier] c of
                           (Inl e, c1) \<Rightarrow> (Inl e, c1)
                         | (Inr _, c1) \<Rightarrow> (Inr (0::int), snd (ofdpaStgReset env (snd (ofdpaTunnelReset env c1)))))
                   else (Inr 0, c))
            in case reset of
                 (Inl e, c2) \<Rightarrow> (Inl e, c2)
               | (Inr _, c2) \<Rightarrow>
                   (case send_all env [Features_request, Desc_stats_request]
                          (snd (ofdpaRxRateSet env (rx_rate fl) c2)) of
                      (Inl e, c3) \<Rightarrow> (Inl e, c3)
                    | (Inr _, c3) \<Rightarrow>
                        (let c4 = (if swi_flags c3 \<noteq> 0 then snd (subscribe_to env (swi_flags c3) c3) else c3)
                         in (Inr 0, c4\<lparr>connected := True\<rparr>)))))"

definition handle_dpt_close ::
  "ofenv \<Rightarrow> nat \<Rightarrow> of_port list \<Rightarrow> controller \<Rightarrow> controller \<times> nbi_call list" where
  "handle_dpt_close env dpt_id ports c =
     (let c1 = c\<lparr>connected := False, l2_domain := fmempty, lag := fmempty\<rparr>;
          dels = map (\<lambda>p. \<lparr>ntf_ev = PORT_EVENT_DEL, ntf_port_id = of_port_no p,
                    ntf_hwaddr = of_hwaddr p, ntf_name = of_name p, ntf_status = False,
                    ntf_speed = 0, ntf_duplex = 0\<rparr>) ports
      in (c1\<lparr>dptid := 0\<rparr>,
          (if dpt_found env dpt_id then [Port_notification dels] else []) @
          [Switch_state_notification SWITCH_STATE_DOWN]))"

subsection \<open>Messages from the switch\<close>

definition handle_desc_stats_reply ::
  "ofenv \<Rightarrow> controller \<Rightarrow> (exn + int) \<times> controller \<times> nbi_call list" where
  "handle_desc_stats_reply env c =
     (let (r, c1) = send env Port_desc_stats_request c
      in (r, c1, [Switch_state_notification SWITCH_STATE_UP]))"

definition handle_port_status :: "port_event \<Rightarrow> of_port \<Rightarrow> controller \<Rightarrow> controller \<times> nbi_call list" where
  "handle_port_status reason port c = (c, [Port_notification [port_data reason port]])"

text \<open>The loop over the ports: LAGs left over from before are deleted, tunnels are ignored.\<close>

fun port_desc_loop :: "ofenv \<Rightarrow> of_port list \<Rightarrow> port_notification_data list \<Rightarrow> controller \<Rightarrow>
    controller \<times> port_notification_data list" where
  "port_desc_loop env [] ntfs c = (c, ntfs)"
| "port_desc_loop env (p # ps) ntfs c =
     (if get_port_type (of_port_no p) = port_type_lag
      then port_desc_loop env ps ntfs (snd (OfdpaTrunkDelete env (of_port_no p) c))
      else if get_port_type (of_port_no p) = port_type_vxlan then port_desc_loop env ps ntfs c
      else port_desc_loop env ps (ntfs @ [port_data PORT_EVENT_TABLE p]) c)"

definition handle_port_desc_stats_reply ::
  "ofenv \<Rightarrow> of_port list \<Rightarrow> controller \<Rightarrow> controller \<times> nbi_call list" where
  "handle_port_desc_stats_reply env ports c =
     (let (c1, ntfs) = port_desc_loop env ports [] c in (c1, [Port_notification ntfs]))"

text \<open>A removed flow: the fields of the match that are present, and the cookie.\<close>

record flow_removed =
  fr_table_id :: u8
  fr_reason :: u8
  fr_eth_dst :: "mac option"
  fr_vlan_vid :: "u16 option"
  fr_cookie :: u64

abbreviation (input) OFPRR_IDLE_TIMEOUT :: u8 where "OFPRR_IDLE_TIMEOUT \<equiv> 0"
abbreviation (input) OFDPA_FLOW_TABLE_ID_BRIDGING :: u8 where "OFDPA_FLOW_TABLE_ID_BRIDGING \<equiv> 50"

definition handle_bridging_table_rm :: "flow_removed \<Rightarrow> nbi_call list" where
  "handle_bridging_table_rm msg =
     (if fr_reason msg \<noteq> OFPRR_IDLE_TIMEOUT then []
      else case (fr_eth_dst msg, fr_vlan_vid msg) of
          (Some eth_dst, Some vlan_vid) \<Rightarrow>
            [Fdb_timeout (ucast (fr_cookie msg AND 0xffffffff)) (vlan_vid AND 0xfff) eth_dst]
        | _ \<Rightarrow> [])"

definition handle_flow_removed :: "flow_removed \<Rightarrow> controller \<Rightarrow> controller \<times> nbi_call list" where
  "handle_flow_removed msg c =
     (c, if fr_table_id msg = OFDPA_FLOW_TABLE_ID_BRIDGING then handle_bridging_table_rm msg else [])"

abbreviation (input) BISDN :: u32 where "BISDN \<equiv> 0xFF0000B0"
abbreviation (input) QUERY_FLOW_ENTRIES :: u32 where "QUERY_FLOW_ENTRIES \<equiv> 0"
abbreviation (input) RECEIVED_FLOW_ENTRIES_QUERY :: u32 where "RECEIVED_FLOW_ENTRIES_QUERY \<equiv> 1"

definition handle_experimenter_message ::
  "ofenv \<Rightarrow> u32 \<Rightarrow> u32 \<Rightarrow> u32 \<Rightarrow> controller \<Rightarrow> (exn + int) \<times> controller \<times> nbi_call list" where
  "handle_experimenter_message env exp_id exp_type xid c =
     (if exp_id = BISDN \<and> exp_type = QUERY_FLOW_ENTRIES
      then (case send env (Experimenter xid exp_id RECEIVED_FLOW_ENTRIES_QUERY) c of
              (Inl e, c1) \<Rightarrow> (Inl e, c1, [])
            | (Inr r, c1) \<Rightarrow> (Inr r, c1, [Resend_state]))
      else (Inr 0, c, []))"

text \<open>The port a packet came in on, resolved among the known ports, \<open>None\<close> when unknown.\<close>

definition send_packet_in_to_cpu ::
  "u32 option \<Rightarrow> u8 list \<Rightarrow> controller \<Rightarrow> controller \<times> nbi_call list" where
  "send_packet_in_to_cpu in_port pkt c =
     (c, case in_port of None \<Rightarrow> [] | Some port_id \<Rightarrow> [Nb_enqueue port_id pkt])"

definition handle_packet_in ::
  "u32 option \<Rightarrow> u8 list \<Rightarrow> controller \<Rightarrow> controller \<times> nbi_call list" where
  "handle_packet_in in_port pkt c = send_packet_in_to_cpu in_port pkt c"

definition request_port_stats :: "ofenv \<Rightarrow> controller \<Rightarrow> (exn + int) \<times> controller" where
  "request_port_stats env c = with_dpt env c (send env Port_stats_request c)"

text \<open>The timer of the port statistics; \<open>handle_timeout\<close> catches every exception.\<close>

definition handle_timeout :: "ofenv \<Rightarrow> u32 \<Rightarrow> controller \<Rightarrow> controller" where
  "handle_timeout env timer_id c =
     (if timer_id = 10 \<and> connected c then snd (request_port_stats env c) else c)"

subsection \<open>Properties\<close>

lemma port_desc_loop_eq:
  "snd (port_desc_loop env ps ntfs c) = ntfs @ map (port_data PORT_EVENT_TABLE)
     (filter (\<lambda>p. get_port_type (of_port_no p) \<notin> {port_type_lag, port_type_vxlan}) ps) \<and>
   (\<exists>outs. length outs = length (filter (\<lambda>p. is_lag (of_port_no p)) ps) \<and>
      trace (fst (port_desc_loop env ps ntfs c)) = trace c @
        map2 (\<lambda>p. Rpc_done (Rpc_TrunkDelete (of_port_no p))) (filter (\<lambda>p. is_lag (of_port_no p)) ps) outs)"
proof (induction env ps ntfs c rule: port_desc_loop.induct)
  case (2 env p ps ntfs c)
  show ?case
  proof (cases "is_lag (of_port_no p)")
    case True
    with "2.IH"(1) obtain outs where outs: "length outs = length (filter (\<lambda>p. is_lag (of_port_no p)) ps)"
      "trace (fst (port_desc_loop env ps ntfs (snd (OfdpaTrunkDelete env (of_port_no p) c)))) =
       trace (snd (OfdpaTrunkDelete env (of_port_no p) c)) @
         map2 (\<lambda>p. Rpc_done (Rpc_TrunkDelete (of_port_no p))) (filter (\<lambda>p. is_lag (of_port_no p)) ps) outs"
      by blast
    let ?o = "rpc_outcome env (trace c) (Rpc_TrunkDelete (of_port_no p))"
    show ?thesis using True "2.IH"(1) outs
      by (simp add: ofdpa_defs) (rule exI [of _ "?o # outs"], simp)
  qed (use 2 in \<open>auto simp: ofdpa_defs\<close>)
qed simp

text \<open>
  when the switch lists its ports, the northbound side is told exactly the physical ports, in
  order, each with its status, and exactly the LAG ports, in order, are deleted from the switch.
\<close>

theorem port_desc_notifies_physical_ports:
  "\<exists>c' outs. handle_port_desc_stats_reply env ports c =
     (c', [Port_notification (map (port_data PORT_EVENT_TABLE)
        (filter (\<lambda>p. get_port_type (of_port_no p) \<notin> {port_type_lag, port_type_vxlan}) ports))]) \<and>
     length outs = length (filter (\<lambda>p. is_lag (of_port_no p)) ports) \<and>
     trace c' = trace c @ map2 (\<lambda>p. Rpc_done (Rpc_TrunkDelete (of_port_no p)))
                            (filter (\<lambda>p. is_lag (of_port_no p)) ports) outs"
  using port_desc_loop_eq [of env ports "[]" c]
  by (auto simp: handle_port_desc_stats_reply_def split_beta)

text \<open>
  a reconnect with \<open>clear_switch_configuration\<close> resets the spanning tree groups of the switch but
  not the controller's record of them: creating a group for a VLAN that had one before the
  reconnect returns its old identifier without sending anything.
\<close>

theorem stale_stg_after_reconnect:
  assumes "fmlookup (vlan_to_stg c) v = Some i" and "i \<noteq> 0"
    and "clear_switch_configuration fl" and "di_version dpt = OFP13_VERSION" "di_family dpt = AF_INET"
    and "c1 = fst (handle_dpt_close env d ports c)"
    and "handle_dpt_open env fl dpt c1 = (Inr 0, c2)" and "connected c2"
  shows "(\<exists>out. Rpc_done Rpc_StgReset out \<in> set (trace c2)) \<and>
         ofdpa_stg_create env v c2 = Some (uint i, c2)"
proof -
  have c1: "vlan_to_stg c1 = vlan_to_stg c" "\<not> connected c1"
    by (simp_all add: assms(6) handle_dpt_close_def Let_def)
  have fields: "vlan_to_stg (snd (send_all env ms c)) = vlan_to_stg c"
      "connected (snd (send_all env ms c)) = connected c" for ms c
    by (subst snd_send_all; simp)+
  have of_send: "vlan_to_stg (snd (of_send env ms c)) = vlan_to_stg c" for ms c
    by (subst snd_of_send) simp
  have "vlan_to_stg (snd (handle_dpt_open env fl dpt c1)) = vlan_to_stg c1"
    by (auto simp: handle_dpt_open_def Let_def case_send_all ofdpa_defs frame fields of_send
        subscribe_to_def emit_def simp del: send_all.simps split: sum.split)
  then have "fmlookup (vlan_to_stg c2) v = Some i" using assms(1,7) c1 by simp
  moreover have "connected (snd (handle_dpt_open env fl dpt c1)) \<longrightarrow>
      (\<exists>out. Rpc_done Rpc_StgReset out \<in> set (trace (snd (handle_dpt_open env fl dpt c1))))"
    using assms(3-5) c1(2)
    by (auto simp: handle_dpt_open_def Let_def case_send_all ofdpa_defs frame fields
        subscribe_to_def emit_def simp del: send_all.simps split: sum.split
        intro!: exI trace_send_all_mono [THEN subsetD] trace_of_send_mono [THEN subsetD])
  ultimately show ?thesis using assms(2,7,8) by (simp add: ofdpa_stg_create_def lookup_stpid_def)
qed

text \<open>
  A tunnel that is created before the first connection of the switch, from a link that the kernel already has, uses the client
  while its pointer is still null; opening the connection first avoids it.
\<close>

lemma null_client_append: "null_client_used (xs @ ys) \<longleftrightarrow> null_client_used xs \<or> (Client_created \<notin> set xs \<and> null_client_used ys)"
  by (induction xs rule: null_client_used.induct) auto

theorem tunnel_before_connection_uses_null_client:
  "null_client_used (trace (snd (tunnel_tenant_create env t vni controller_init)))"
  "di_version dpt = OFP13_VERSION \<Longrightarrow> di_family dpt = AF_INET \<Longrightarrow>
    \<not> null_client_used (trace (snd (tunnel_tenant_create env t vni (snd (handle_dpt_open ideal_env fl dpt controller_init)))))"
  by (simp_all add: tunnel_tenant_create_def ofdpa_defs controller_init_def null_client_append handle_dpt_open_def Let_def
      sends_ok_send_all subscribe_to_def emit_def)

definition knet_flags :: ctl_flags where
  "knet_flags = \<lparr>clear_switch_configuration = True, use_knet = True, rx_rate_limit = -1\<rparr>"

definition dpt_v4 :: dpt_info where
  "dpt_v4 = \<lparr>di_dptid = 1, di_version = OFP13_VERSION, di_family = AF_INET\<rparr>"

theorem stale_stg_after_reconnect_witness:
  "\<exists>c c2. c2 = snd (handle_dpt_open ideal_env knet_flags dpt_v4 (fst (handle_dpt_close ideal_env 1 [] c))) \<and>
     fmlookup (vlan_to_stg c) 10 = Some 2 \<and> ofdpa_stg_create ideal_env 10 c2 = Some (2, c2)"
proof -
  let ?c = "controller_init\<lparr>vlan_to_stg := fmupd 10 2 fmempty, stg_in_use := {|2|}\<rparr>"
  let ?c2 = "snd (handle_dpt_open ideal_env knet_flags dpt_v4 (fst (handle_dpt_close ideal_env 1 [] ?c)))"
  have run: "handle_dpt_open ideal_env knet_flags dpt_v4 (fst (handle_dpt_close ideal_env 1 [] ?c)) =
      (Inr 0, ?c2) \<and> connected ?c2"
    by (simp add: handle_dpt_open_def knet_flags_def dpt_v4_def Let_def sends_ok_send_all)
  have "ofdpa_stg_create ideal_env 10 ?c2 = Some (uint (2 :: u32), ?c2)"
    by (rule stale_stg_after_reconnect [THEN conjunct2, OF _ _ _ _ _ refl run [THEN conjunct1]])
      (use run in \<open>simp_all add: knet_flags_def dpt_v4_def\<close>)
  then show ?thesis by (intro exI [of _ ?c] exI [of _ ?c2]) simp
qed

end
