(* ===== verification/Port_Manager.thy ===== *)
theory Port_Manager
  imports Net_Utils
begin

text \<open>
  The base class \<open>port_manager\<close> (\<open>src/src/netlink/port_manager.h\<close>) and the contract its two
  implementations share: they keep two maps between kernel interface indices and port ids, and
  these are inverse to each other at all times. The contract is the locale \<open>port_index\<close>,
  interpreted on the tap manager and on the KNET manager.
\<close>

record port_manager =
  port_names2id :: "(string, u32) fmap"
  ifindex_to_id :: "(int, u32) fmap"
  id_to_ifindex :: "(u32, int) fmap"
  id_to_hwaddr :: "(u32, mac) fmap"
  port_deleted :: "u32 list"

definition get_port_id :: "int \<Rightarrow> 'a port_manager_scheme \<Rightarrow> u32" where
  "get_port_id ifindex s = (case fmlookup (ifindex_to_id s) ifindex of None \<Rightarrow> 0 | Some i \<Rightarrow> i)"

definition get_ifindex :: "u32 \<Rightarrow> 'a port_manager_scheme \<Rightarrow> int" where
  "get_ifindex port_id s = (case fmlookup (id_to_ifindex s) port_id of None \<Rightarrow> 0 | Some i \<Rightarrow> i)"

definition get_hwaddr :: "u32 \<Rightarrow> 'a port_manager_scheme \<Rightarrow> mac" where
  "get_hwaddr port_id s = (case fmlookup (id_to_hwaddr s) port_id of None \<Rightarrow> 0 | Some a \<Rightarrow> a)"

definition get_registered_ports :: "'a port_manager_scheme \<Rightarrow> (string, u32) fmap" where
  "get_registered_ports s = port_names2id s"

definition pm_clear :: "'a port_manager_scheme \<Rightarrow> 'a port_manager_scheme" where
  "pm_clear s = s\<lparr>ifindex_to_id := fmempty, id_to_ifindex := fmempty, id_to_hwaddr := fmempty\<rparr>"

subsection \<open>The two maps\<close>

text \<open>
  The part of \<open>portdev_ready\<close> under \<open>update maps\<close>, the same in both implementations: enter
  the pair, and when the port had another interface before, forget that one.
\<close>

definition update_maps :: "u32 \<Rightarrow> int \<Rightarrow> (int, u32) fmap \<times> (u32, int) fmap \<Rightarrow>
    (int, u32) fmap \<times> (u32, int) fmap" where
  "update_maps port_id ifindex m =
     (let (to_id, to_ifindex) = m;
          (to_id1, to_ifindex1) =
            (case fmlookup to_ifindex port_id of
               None \<Rightarrow> (to_id, fmupd port_id ifindex to_ifindex)
             | Some old \<Rightarrow>
                 if old \<noteq> ifindex then (fmdrop old to_id, fmupd port_id ifindex to_ifindex)
                 else (to_id, to_ifindex))
      in (fmupd ifindex port_id to_id1, to_ifindex1))"

definition inverse_maps :: "(int, u32) fmap \<times> (u32, int) fmap \<Rightarrow> bool" where
  "inverse_maps m \<longleftrightarrow> (\<forall>i p. fmlookup (fst m) i = Some p \<longleftrightarrow> fmlookup (snd m) p = Some i)"

lemma inverse_maps_empty [simp]: "inverse_maps (fmempty, fmempty)"
  by (simp add: inverse_maps_def)

lemma inverse_update_maps:
  assumes "inverse_maps m" and "fmlookup (fst m) ifindex = None"
  shows "inverse_maps (update_maps port_id ifindex m)"
proof (cases "fmlookup (snd m) port_id")
  case None
  then show ?thesis using assms
    by (cases m) (auto simp: inverse_maps_def update_maps_def Let_def; metis option.distinct(1))
next
  case (Some old)
  then have "old \<noteq> ifindex" using assms unfolding inverse_maps_def by (metis option.distinct(1))
  then show ?thesis using assms Some
    by (cases m) (auto simp: inverse_maps_def update_maps_def Let_def; metis option.inject option.distinct(1))
qed

lemma inverse_drop_maps:
  assumes "inverse_maps (a, b)" and "fmlookup a ifindex = Some port_id"
  shows "inverse_maps (fmdrop ifindex a, fmdrop port_id b)"
  using assms by (auto simp: inverse_maps_def) (metis option.inject)

locale port_index =
  fixes maps :: "'s \<Rightarrow> (int, u32) fmap \<times> (u32, int) fmap"
    and ready :: "rtnl_link \<Rightarrow> 's \<Rightarrow> (bool \<times> 's) option"
    and removed :: "rtnl_link \<Rightarrow> 's \<Rightarrow> (bool \<times> 's) option"
    and other :: "'c \<Rightarrow> 's \<Rightarrow> 's option" \<comment> \<open>creation and destruction of port devices\<close>
  assumes ready_false: "ready l s = Some (False, s') \<Longrightarrow> maps s' = maps s"
    and ready_true: "ready l s = Some (True, s') \<Longrightarrow>
      fmlookup (fst (maps s)) (ln_ifindex l) = None \<and>
      (\<exists>p. maps s' = update_maps p (ln_ifindex l) (maps s))"
    and removed_false: "removed l s = Some (False, s') \<Longrightarrow> maps s' = maps s"
    and removed_true: "inverse_maps (maps s) \<Longrightarrow> removed l s = Some (True, s') \<Longrightarrow>
      (\<exists>p. fmlookup (fst (maps s)) (ln_ifindex l) = Some p \<and>
           maps s' = (fmdrop (ln_ifindex l) (fst (maps s)), fmdrop p (snd (maps s))))"
    and other_maps: "other c s = Some s' \<Longrightarrow> maps s' = maps s"
begin

lemma ready_inverse:
  "inverse_maps (maps s) \<Longrightarrow> ready l s = Some (b, s') \<Longrightarrow> inverse_maps (maps s')"
  using ready_false [of l s s'] ready_true [of l s s'] by (cases b) (auto simp: inverse_update_maps)

lemma removed_inverse:
  "inverse_maps (maps s) \<Longrightarrow> removed l s = Some (b, s') \<Longrightarrow> inverse_maps (maps s')"
  using removed_false [of l s s'] removed_true [of s l s']
  by (cases b) (auto simp: inverse_drop_maps)

text \<open>A port that became ready is found by its interface and the interface by its port.\<close>

lemma ready_lookup:
  assumes "ready l s = Some (True, s')"
  shows "\<exists>p. fmlookup (fst (maps s')) (ln_ifindex l) = Some p \<and>
             fmlookup (snd (maps s')) p = Some (ln_ifindex l)"
  using ready_true [OF assms]
  by (cases "maps s") (auto simp: update_maps_def Let_def split: option.splits)

text \<open>A removed interface is not found any more.\<close>

lemma removed_lookup:
  assumes "inverse_maps (maps s)" and "removed l s = Some (True, s')"
  shows "fmlookup (fst (maps s')) (ln_ifindex l) = None \<and>
         (\<forall>p. fmlookup (snd (maps s')) p \<noteq> Some (ln_ifindex l))"
  using removed_true [OF assms] assms(1)
  by (auto simp: inverse_maps_def split: if_splits) (metis option.inject)

end

subsection \<open>Commands\<close>

text \<open>What the rest of the program asks a port manager to do; \<open>'c\<close> are the device commands.\<close>

datatype 'c pm_cmd = Pm_ready rtnl_link | Pm_removed rtnl_link | Pm_other 'c

fun pm_exec :: "(rtnl_link \<Rightarrow> 's \<Rightarrow> (bool \<times> 's) option) \<Rightarrow> (rtnl_link \<Rightarrow> 's \<Rightarrow> (bool \<times> 's) option) \<Rightarrow>
    ('c \<Rightarrow> 's \<Rightarrow> 's option) \<Rightarrow> 'c pm_cmd \<Rightarrow> 's \<Rightarrow> 's option" where
  "pm_exec ready removed other (Pm_ready l) s = map_option snd (ready l s)"
| "pm_exec ready removed other (Pm_removed l) s = map_option snd (removed l s)"
| "pm_exec ready removed other (Pm_other c) s = other c s"

fun pm_run :: "('c pm_cmd \<Rightarrow> 's \<Rightarrow> 's option) \<Rightarrow> 'c pm_cmd list \<Rightarrow> 's \<Rightarrow> 's option" where
  "pm_run exec [] s = Some s"
| "pm_run exec (c # cs) s = (case exec c s of None \<Rightarrow> None | Some s' \<Rightarrow> pm_run exec cs s')"

lemma pm_run_inv:
  assumes "\<And>c s s'. P s \<Longrightarrow> exec c s = Some s' \<Longrightarrow> P s'" and "P s" and "pm_run exec cs s = Some s'"
  shows "P s'"
  using assms(2,3)
  by (induction cs arbitrary: s) (auto split: option.splits intro: assms(1))

context port_index
begin

lemma exec_inverse:
  "inverse_maps (maps s) \<Longrightarrow> pm_exec ready removed other c s = Some s' \<Longrightarrow> inverse_maps (maps s')"
  by (cases c) (auto simp: other_maps dest: ready_inverse removed_inverse)

lemma run_inverse:
  "inverse_maps (maps s) \<Longrightarrow> pm_run (pm_exec ready removed other) cs s = Some s' \<Longrightarrow>
     inverse_maps (maps s')"
  by (rule pm_run_inv [where P = "\<lambda>s. inverse_maps (maps s)"]) (auto intro: exec_inverse)

end

end
