(* ===== verification/Tap_Manager.thy ===== *)
theory Tap_Manager
  imports Port_Manager
begin

text \<open>
  The tap manager (\<open>src/src/netlink/tap_manager.cc\<close>, with \<open>ctapdev\<close> of
  \<open>src/src/netlink/ctapdev.cc\<close>): it creates a tap device for each port of the switch and keeps the
  maps of the base class up to date as the kernel announces interfaces.

  A step that ends the program (\<open>LOG(FATAL)\<close>) or dereferences an end iterator is \<open>None\<close>.
  Opening a tap device is the kernel's: \<open>tun_open\<close> yields the file descriptor for a device name, a
  negative number when opening or \<open>TUNSETIFF\<close> fails. The packet thread \<open>tap_io\<close> that reads the
  descriptors is the theory \<open>Tap_Io\<close>.
\<close>

record tapdev =
  td_fd :: int
  td_devname :: string
  td_hwaddr :: mac

record tap_manager = port_manager +
  tap_names2fds :: "(string, int) fmap"
  tap_devs :: "(u32, tapdev) fmap"

definition tap_manager_init :: tap_manager where
  "tap_manager_init = \<lparr>port_names2id = fmempty, ifindex_to_id = fmempty, id_to_ifindex = fmempty,
     id_to_hwaddr = fmempty, port_deleted = [], tap_names2fds = fmempty, tap_devs = fmempty\<rparr>"

abbreviation (input) IFNAMSIZ :: nat where "IFNAMSIZ \<equiv> 16"

text \<open>The constructor throws on a name that is empty or too long.\<close>

definition ctapdev :: "string \<Rightarrow> mac \<Rightarrow> tapdev option" where
  "ctapdev devname hwaddr =
     (if length devname \<ge> IFNAMSIZ \<or> length devname = 0 then None
      else Some \<lparr>td_fd = -1, td_devname = devname, td_hwaddr = hwaddr\<rparr>)"

text \<open>\<open>tap_open\<close>: \<open>None\<close> when the kernel refuses, which ends the program.\<close>

definition tap_open :: "(string \<Rightarrow> int) \<Rightarrow> tapdev \<Rightarrow> tapdev option" where
  "tap_open tun_open dev =
     (if td_fd dev \<noteq> -1 then Some dev
      else if tun_open (td_devname dev) < 0 then None
      else Some (dev\<lparr>td_fd := tun_open (td_devname dev)\<rparr>))"

definition tap_create_portdev ::
  "(string \<Rightarrow> int) \<Rightarrow> u32 \<Rightarrow> string \<Rightarrow> mac \<Rightarrow> tap_manager \<Rightarrow> (int \<times> tap_manager) option" where
  "tap_create_portdev tun_open port_id port_name hwaddr s =
     (if fmlookup (tap_devs s) port_id = None \<and> fmlookup (port_names2id s) port_name = None
      then (case ctapdev port_name hwaddr of
              None \<Rightarrow> Some (- EINVAL, s)
            | Some dev \<Rightarrow>
                if fmlookup (id_to_hwaddr s) port_id \<noteq> None then None
                else (case tap_open tun_open dev of
                        None \<Rightarrow> None
                      | Some dev1 \<Rightarrow>
                          Some (0, s\<lparr>tap_devs := fmupd port_id dev1 (tap_devs s),
                                     port_names2id := fmupd port_name port_id (port_names2id s),
                                     id_to_hwaddr := fmupd port_id hwaddr (id_to_hwaddr s),
                                     tap_names2fds := fm_emplace port_name (td_fd dev1) (tap_names2fds s)\<rparr>)))
      else Some (0, s))"

definition tap_destroy_portdev :: "u32 \<Rightarrow> string \<Rightarrow> tap_manager \<Rightarrow> int \<times> tap_manager" where
  "tap_destroy_portdev port_id port_name s =
     (if fmlookup (tap_devs s) port_id = None then (0, s)
      else (0, s\<lparr>port_deleted := port_deleted s @ [port_id],
                 id_to_hwaddr := fmdrop port_id (id_to_hwaddr s),
                 port_names2id := fmdrop port_name (port_names2id s),
                 tap_names2fds := fmdrop port_name (tap_names2fds s),
                 tap_devs := fmdrop port_id (tap_devs s)\<rparr>))"

definition tap_get_fd :: "u32 \<Rightarrow> tap_manager \<Rightarrow> int" where
  "tap_get_fd port_id s = (case fmlookup (tap_devs s) port_id of None \<Rightarrow> - EINVAL | Some dev \<Rightarrow> td_fd dev)"

text \<open>\<open>update_mtu\<close> only hands the MTU to the event loop; a descriptor of -1 ends the program.\<close>

definition tap_update_mtu :: "rtnl_link \<Rightarrow> tap_manager \<Rightarrow> (int \<times> tap_manager) option" where
  "tap_update_mtu link s =
     (case fmlookup (tap_names2fds s) (ln_name link) of
        None \<Rightarrow> Some (- EINVAL, s)
      | Some fd \<Rightarrow> if fd = -1 then None else Some (0, s))"

definition tap_portdev_ready :: "rtnl_link \<Rightarrow> tap_manager \<Rightarrow> (bool \<times> tap_manager) option" where
  "tap_portdev_ready link s =
     (if get_link_type link \<noteq> LT_TUN then Some (False, s)
      else if fmlookup (ifindex_to_id s) (ln_ifindex link) \<noteq> None then Some (False, s)
      else case fmlookup (port_names2id s) (ln_name link) of
          None \<Rightarrow> Some (False, s)
        | Some port_id \<Rightarrow>
            (let (to_id, to_ifindex) =
                   update_maps port_id (ln_ifindex link) (ifindex_to_id s, id_to_ifindex s)
             in map_option (\<lambda>(rv, s'). (True, s'))
                  (tap_update_mtu link (s\<lparr>ifindex_to_id := to_id, id_to_ifindex := to_ifindex\<rparr>))))"

text \<open>
  \<open>recreate_tapdev\<close> is called for a registered interface, so the iterator it looks up is valid. The
  old device object is dropped without being closed.
\<close>

definition recreate_tapdev ::
  "(string \<Rightarrow> int) \<Rightarrow> int \<Rightarrow> string \<Rightarrow> mac \<Rightarrow> tap_manager \<Rightarrow> (int \<times> tap_manager) option" where
  "recreate_tapdev tun_open ifindex portname hwaddr s =
     (case ctapdev portname hwaddr of
        None \<Rightarrow> Some (- EINVAL, s)
      | Some dev \<Rightarrow>
          (case fmlookup (ifindex_to_id s) ifindex of
             None \<Rightarrow> None
           | Some port_id \<Rightarrow>
               (case tap_open tun_open dev of
                  None \<Rightarrow> None
                | Some dev1 \<Rightarrow>
                    Some (0, s\<lparr>tap_devs := fmupd port_id dev1 (fmdrop port_id (tap_devs s)),
                               tap_names2fds := fm_emplace portname (td_fd dev1) (tap_names2fds s),
                               port_names2id := fm_emplace portname port_id (port_names2id s)\<rparr>))))"

definition tap_portdev_removed ::
  "(string \<Rightarrow> int) \<Rightarrow> rtnl_link \<Rightarrow> tap_manager \<Rightarrow> (bool \<times> tap_manager) option" where
  "tap_portdev_removed tun_open link s =
     (if get_link_type link \<noteq> LT_TUN then Some (False, s)
      else case fmlookup (ifindex_to_id s) (ln_ifindex link) of
          None \<Rightarrow> Some (False, s)
        | Some port_id \<Rightarrow>
            (let scheduled = (port_id \<in> set (port_deleted s));
                 known = (fmlookup (id_to_ifindex s) port_id \<noteq> None);
                 recreated =
                   (if scheduled \<and> known then Some s
                    else case fmlookup (tap_devs s) port_id of
                        None \<Rightarrow> None
                      | Some dev \<Rightarrow> map_option snd
                          (recreate_tapdev tun_open (ln_ifindex link) (ln_name link) (td_hwaddr dev) s))
             in map_option (\<lambda>s1. (True,
                  s1\<lparr>ifindex_to_id := fmdrop (ln_ifindex link) (ifindex_to_id s1),
                     id_to_ifindex := fmdrop port_id (id_to_ifindex s1),
                     port_deleted := remove1 port_id (port_deleted s1)\<rparr>)) recreated))"

text \<open>Setting the carrier is an ioctl on the recorded descriptor; \<open>ioctl\<close> yields its result.\<close>

definition tap_change_port_status ::
  "(int \<Rightarrow> bool \<Rightarrow> int) \<Rightarrow> string \<Rightarrow> bool \<Rightarrow> tap_manager \<Rightarrow> int option" where
  "tap_change_port_status set_carrier name status s =
     (case fmlookup (tap_names2fds s) name of
        None \<Rightarrow> Some (- EINVAL)
      | Some fd \<Rightarrow> if fd = -1 then None else Some (set_carrier fd status))"

subsection \<open>The interface maps\<close>

datatype tap_cmd = Tap_create u32 string mac | Tap_destroy u32 string

fun tap_other :: "(string \<Rightarrow> int) \<Rightarrow> tap_cmd \<Rightarrow> tap_manager \<Rightarrow> tap_manager option" where
  "tap_other tun_open (Tap_create p n a) s = map_option snd (tap_create_portdev tun_open p n a s)"
| "tap_other tun_open (Tap_destroy p n) s = Some (snd (tap_destroy_portdev p n s))"

abbreviation tap_exec :: "(string \<Rightarrow> int) \<Rightarrow> tap_cmd pm_cmd \<Rightarrow> tap_manager \<Rightarrow> tap_manager option" where
  "tap_exec tun_open \<equiv> pm_exec tap_portdev_ready (tap_portdev_removed tun_open) (tap_other tun_open)"

lemma recreate_maps:
  "recreate_tapdev tun_open i n a s = Some (rv, s') \<Longrightarrow>
     ifindex_to_id s' = ifindex_to_id s \<and> id_to_ifindex s' = id_to_ifindex s \<and>
     port_deleted s' = port_deleted s"
  by (auto simp: recreate_tapdev_def split: option.splits)

interpretation tap_index: port_index "\<lambda>s :: tap_manager. (ifindex_to_id s, id_to_ifindex s)"
    tap_portdev_ready "tap_portdev_removed tun_open" "tap_other tun_open"
  for tun_open :: "string \<Rightarrow> int"
proof unfold_locales
  fix l and s s' :: tap_manager and c
  show "(ifindex_to_id s', id_to_ifindex s') = (ifindex_to_id s, id_to_ifindex s)"
    if "tap_portdev_ready l s = Some (False, s')"
    using that by (auto simp: tap_portdev_ready_def split_beta Let_def split: if_splits option.splits)
  show "fmlookup (fst (ifindex_to_id s, id_to_ifindex s)) (ln_ifindex l) = None \<and>
      (\<exists>p. (ifindex_to_id s', id_to_ifindex s') =
            update_maps p (ln_ifindex l) (ifindex_to_id s, id_to_ifindex s))"
    if "tap_portdev_ready l s = Some (True, s')"
    using that by (auto simp: tap_portdev_ready_def tap_update_mtu_def split_beta Let_def
        split: if_splits option.splits)
  show "(ifindex_to_id s', id_to_ifindex s') = (ifindex_to_id s, id_to_ifindex s)"
    if "tap_portdev_removed tun_open l s = Some (False, s')"
    using that by (auto simp: tap_portdev_removed_def Let_def split: if_splits option.splits)
  show "\<exists>p. fmlookup (fst (ifindex_to_id s, id_to_ifindex s)) (ln_ifindex l) = Some p \<and>
      (ifindex_to_id s', id_to_ifindex s') =
        (fmdrop (ln_ifindex l) (fst (ifindex_to_id s, id_to_ifindex s)),
         fmdrop p (snd (ifindex_to_id s, id_to_ifindex s)))"
    if "tap_portdev_removed tun_open l s = Some (True, s')"
    using that by (auto simp: tap_portdev_removed_def Let_def dest: recreate_maps
        split: if_splits option.splits)
  show "(ifindex_to_id s', id_to_ifindex s') = (ifindex_to_id s, id_to_ifindex s)"
    if "tap_other tun_open c s = Some s'"
    using that by (cases c) (auto simp: tap_create_portdev_def tap_destroy_portdev_def
        split: if_splits option.splits)
qed

lemma inverse_maps_lookup:
  assumes "inverse_maps (ifindex_to_id s, id_to_ifindex s)" and "p \<noteq> 0" and "i \<noteq> 0"
  shows "get_port_id i s = p \<longleftrightarrow> get_ifindex p s = i"
proof -
  have "fmlookup (ifindex_to_id s) i = Some p \<longleftrightarrow> fmlookup (id_to_ifindex s) p = Some i"
    using assms(1) by (simp add: inverse_maps_def)
  moreover have "get_port_id i s = p \<longleftrightarrow> fmlookup (ifindex_to_id s) i = Some p"
    using assms(2) by (auto simp: get_port_id_def split: option.split)
  moreover have "get_ifindex p s = i \<longleftrightarrow> fmlookup (id_to_ifindex s) p = Some i"
    using assms(3) by (auto simp: get_ifindex_def split: option.split)
  ultimately show ?thesis by simp
qed

text \<open>
  C31: after any sequence of device creations and destructions and interface announcements that
  does not end the program, the tap manager's two lookups are inverse to each other: an interface
  belongs to a port exactly when the port has that interface.
\<close>

theorem tap_lookups_inverse:
  assumes "pm_run (tap_exec tun_open) cmds tap_manager_init = Some s" and "p \<noteq> 0" and "i \<noteq> 0"
  shows "get_port_id i s = p \<longleftrightarrow> get_ifindex p s = i"
  using tap_index.run_inverse [OF _ assms(1)] assms(2,3)
  by (intro inverse_maps_lookup) (simp_all add: tap_manager_init_def)

definition tap_link :: "int \<Rightarrow> string \<Rightarrow> rtnl_link" where
  "tap_link i n = (plain_link i)\<lparr>ln_name := n, ln_type := Some ''tun''\<rparr>"

lemma tap_link_type [simp]: "get_link_type (tap_link i n) = LT_TUN"
  by (simp add: tap_link_def plain_link_def get_link_type_def Let_def)

lemma tap_link_fields [simp]: "ln_ifindex (tap_link i n) = i" "ln_name (tap_link i n) = n"
  by (simp_all add: tap_link_def plain_link_def)

theorem tap_lookups_inverse_witness:
  "\<exists>s. pm_run (tap_exec (\<lambda>_. 5)) [Pm_other (Tap_create 1 ''port1'' 7), Pm_ready (tap_link 12 ''port1'')]
         tap_manager_init = Some s \<and>
       get_port_id 12 s = 1 \<and> (get_port_id 12 s = 1 \<longleftrightarrow> get_ifindex 1 s = 12)"
proof -
  let ?cmds = "[Pm_other (Tap_create 1 ''port1'' 7), Pm_ready (tap_link 12 ''port1'')]"
  have "\<exists>s. pm_run (tap_exec (\<lambda>_. 5)) ?cmds tap_manager_init = Some s \<and> get_port_id 12 s = 1"
    by (simp add: tap_create_portdev_def tap_manager_init_def ctapdev_def tap_open_def
        tap_portdev_ready_def tap_update_mtu_def update_maps_def Let_def get_port_id_def fm_emplace_def)
  then obtain s where "pm_run (tap_exec (\<lambda>_. 5)) ?cmds tap_manager_init = Some s" "get_port_id 12 s = 1"
    by blast
  then show ?thesis using tap_lookups_inverse [of "\<lambda>_. 5" ?cmds s 1 12] by auto
qed

subsection \<open>No step ends the program\<close>

text \<open>
  A registered name belongs to the device of its port and the other way round, a device has a
  hardware address entry, the descriptors are open, and a port that has an interface has a device
  or is scheduled for deletion.
\<close>

definition tap_inv :: "tap_manager \<Rightarrow> bool" where
  "tap_inv s \<longleftrightarrow>
     inverse_maps (ifindex_to_id s, id_to_ifindex s) \<and>
     (\<forall>n p. fmlookup (port_names2id s) n = Some p \<longleftrightarrow>
        (\<exists>d. fmlookup (tap_devs s) p = Some d \<and> td_devname d = n)) \<and>
     fmdom (id_to_hwaddr s) = fmdom (tap_devs s) \<and>
     (\<forall>n fd. fmlookup (tap_names2fds s) n = Some fd \<longrightarrow> 0 \<le> fd) \<and>
     (\<forall>i p. fmlookup (ifindex_to_id s) i = Some p \<longrightarrow>
        fmlookup (tap_devs s) p \<noteq> None \<or> p \<in> set (port_deleted s))"

text \<open>
  The names used in commands are the names of the devices: a port is destroyed under its name, and
  an interface that is removed without being scheduled has the name of its port's device.
\<close>

fun tap_names_ok :: "tap_cmd pm_cmd \<Rightarrow> tap_manager \<Rightarrow> bool" where
  "tap_names_ok (Pm_other (Tap_destroy p n)) s =
     (case fmlookup (tap_devs s) p of None \<Rightarrow> True | Some d \<Rightarrow> td_devname d = n)"
| "tap_names_ok (Pm_removed l) s =
     (case fmlookup (ifindex_to_id s) (ln_ifindex l) of
        None \<Rightarrow> True
      | Some p \<Rightarrow> (case fmlookup (tap_devs s) p of None \<Rightarrow> True | Some d \<Rightarrow> td_devname d = ln_name l))"
| "tap_names_ok c s = True"

lemma tap_inv_init: "tap_inv tap_manager_init"
  by (simp add: tap_inv_def tap_manager_init_def)

lemma ctapdev_Some:
  "ctapdev n a = Some d \<Longrightarrow> td_devname d = n \<and> td_hwaddr d = a \<and> td_fd d = -1"
  by (auto simp: ctapdev_def split: if_splits)

lemma tap_open_ok:
  assumes "\<And>n. 0 \<le> tun_open n" and "td_fd d = -1"
  shows "tap_open tun_open d = Some (d\<lparr>td_fd := tun_open (td_devname d)\<rparr>)"
  using assms(1) [of "td_devname d"] assms(2) by (simp add: tap_open_def)

lemma tap_create_ok:
  assumes "tap_inv s" and "\<And>n. 0 \<le> tun_open n"
  shows "\<exists>rv s'. tap_create_portdev tun_open p n a s = Some (rv, s') \<and> tap_inv s'"
proof (cases "fmlookup (tap_devs s) p = None \<and> fmlookup (port_names2id s) n = None \<and> ctapdev n a \<noteq> None")
  case True
  then obtain d where d: "ctapdev n a = Some d" by blast
  note dev = ctapdev_Some [OF d] and opened = tap_open_ok [OF assms(2), of d]
  let ?s = "s\<lparr>tap_devs := fmupd p (d\<lparr>td_fd := tun_open n\<rparr>) (tap_devs s),
      port_names2id := fmupd n p (port_names2id s), id_to_hwaddr := fmupd p a (id_to_hwaddr s),
      tap_names2fds := fm_emplace n (tun_open n) (tap_names2fds s)\<rparr>"
  have hw: "fmlookup (id_to_hwaddr s) p = None"
    using assms(1) True by (metis fmdom_notD fmdom_notI tap_inv_def)
  have "tap_create_portdev tun_open p n a s = Some (0, ?s)"
    using True d dev opened hw by (simp add: tap_create_portdev_def)
  moreover have "tap_inv ?s"
    using assms True dev unfolding tap_inv_def
    by (auto simp: fmlookup_fm_emplace split: if_splits) (metis option.distinct(1))
  ultimately show ?thesis by blast
next
  case False
  then show ?thesis using assms(1) by (auto simp: tap_create_portdev_def)
qed

lemma tap_destroy_ok:
  assumes "tap_inv s" and "tap_names_ok (Pm_other (Tap_destroy p n)) s"
  shows "tap_inv (snd (tap_destroy_portdev p n s))"
proof (cases "fmlookup (tap_devs s) p")
  case (Some d)
  then have name: "td_devname d = n" using assms(2) by simp
  then have only: "fmlookup (port_names2id s) n = Some p" using assms(1) Some by (auto simp: tap_inv_def)
  have "fmdom (fmdrop p (id_to_hwaddr s)) = fmdom (fmdrop p (tap_devs s))"
    using assms(1) by (simp add: tap_inv_def)
  then show ?thesis using assms(1) Some name only unfolding tap_inv_def
    by (auto simp: tap_destroy_portdev_def simp del: fmdom_drop split: if_splits; metis option.inject)
qed (use assms in \<open>simp add: tap_destroy_portdev_def\<close>)

lemma update_maps_range:
  "fmlookup (fst (update_maps p i m)) j = Some q \<Longrightarrow> q = p \<or> fmlookup (fst m) j = Some q"
  by (auto simp: update_maps_def Let_def split_beta split: if_splits option.splits)

lemma tap_ready_ok:
  assumes "tap_inv s"
  shows "\<exists>b s'. tap_portdev_ready l s = Some (b, s') \<and> tap_inv s'"
proof (cases "get_link_type l = LT_TUN \<and> fmlookup (ifindex_to_id s) (ln_ifindex l) = None \<and>
    fmlookup (port_names2id s) (ln_name l) \<noteq> None")
  case True
  then obtain p where p: "fmlookup (port_names2id s) (ln_name l) = Some p" by blast
  then obtain d where d: "fmlookup (tap_devs s) p = Some d" using assms by (auto simp: tap_inv_def)
  let ?m = "update_maps p (ln_ifindex l) (ifindex_to_id s, id_to_ifindex s)"
  let ?s = "s\<lparr>ifindex_to_id := fst ?m, id_to_ifindex := snd ?m\<rparr>"
  have "inverse_maps ?m" using assms True by (intro inverse_update_maps) (auto simp: tap_inv_def)
  moreover have "fmlookup (tap_devs s) q \<noteq> None \<or> q \<in> set (port_deleted s)"
    if "fmlookup (fst ?m) j = Some q" for j q
    using assms d update_maps_range [OF that] by (auto simp: tap_inv_def)
  ultimately have "tap_inv ?s" using assms by (simp add: tap_inv_def)
  moreover have "fmlookup (tap_names2fds s) (ln_name l) \<noteq> Some (-1)"
    using assms unfolding tap_inv_def by force
  then have "\<exists>rv. tap_update_mtu l ?s = Some (rv, ?s)"
    by (auto simp: tap_update_mtu_def split: option.split)
  ultimately show ?thesis using True p by (auto simp: tap_portdev_ready_def split_beta Let_def)
next
  case False
  then show ?thesis using assms by (auto simp: tap_portdev_ready_def)
qed

lemma recreate_ok:
  assumes "tap_inv s" and "\<And>n. 0 \<le> tun_open n" and "fmlookup (ifindex_to_id s) i = Some p"
    and "fmlookup (tap_devs s) p = Some d" and "td_devname d = n"
  shows "\<exists>rv s'. recreate_tapdev tun_open i n (td_hwaddr d) s = Some (rv, s') \<and> tap_inv s'"
proof (cases "ctapdev n (td_hwaddr d)")
  case None
  then show ?thesis using assms(1) by (simp add: recreate_tapdev_def)
next
  case (Some d')
  note dev = ctapdev_Some [OF Some] and opened = tap_open_ok [OF assms(2), of d']
  have name: "fmlookup (port_names2id s) n = Some p" using assms by (auto simp: tap_inv_def)
  let ?s = "s\<lparr>tap_devs := fmupd p (d'\<lparr>td_fd := tun_open n\<rparr>) (fmdrop p (tap_devs s)),
      tap_names2fds := fm_emplace n (tun_open n) (tap_names2fds s)\<rparr>"
  have "recreate_tapdev tun_open i n (td_hwaddr d) s = Some (0, ?s)"
    using Some dev opened assms(3) name by (simp add: recreate_tapdev_def)
  moreover have "fmdom (id_to_hwaddr s) = fmdom (fmupd p (d'\<lparr>td_fd := tun_open n\<rparr>) (fmdrop p (tap_devs s)))"
    using assms(1,4) by (auto simp: tap_inv_def fmlookup_dom_iff)
  then have "tap_inv ?s" using assms dev name unfolding tap_inv_def
    by (auto simp: fmlookup_fm_emplace simp del: fmdom_fmupd fmdom_drop split: if_splits; metis option.inject)
  ultimately show ?thesis by blast
qed

lemma tap_removed_ok:
  assumes "tap_inv s" and "\<And>n. 0 \<le> tun_open n" and "tap_names_ok (Pm_removed l) s"
  shows "\<exists>b s'. tap_portdev_removed tun_open l s = Some (b, s') \<and> tap_inv s'"
proof (cases "get_link_type l = LT_TUN \<and> fmlookup (ifindex_to_id s) (ln_ifindex l) \<noteq> None")
  case True
  then obtain p where p: "fmlookup (ifindex_to_id s) (ln_ifindex l) = Some p" by blast
  then have known: "fmlookup (id_to_ifindex s) p = Some (ln_ifindex l)"
    using assms(1) by (auto simp: tap_inv_def inverse_maps_def)
  have forget: "tap_inv (s1\<lparr>ifindex_to_id := fmdrop (ln_ifindex l) (ifindex_to_id s1),
      id_to_ifindex := fmdrop p (id_to_ifindex s1), port_deleted := remove1 p (port_deleted s1)\<rparr>)"
    if "tap_inv s1" "ifindex_to_id s1 = ifindex_to_id s" for s1
  proof -
    have "inverse_maps (fmdrop (ln_ifindex l) (ifindex_to_id s1), fmdrop p (id_to_ifindex s1))"
      using that p by (intro inverse_drop_maps) (auto simp: tap_inv_def)
    moreover have "q \<noteq> p" if "fmlookup (ifindex_to_id s1) i = Some q" "i \<noteq> ln_ifindex l" for i q
      using \<open>tap_inv s1\<close> \<open>ifindex_to_id s1 = ifindex_to_id s\<close> that p
      unfolding tap_inv_def inverse_maps_def by (metis fst_conv option.inject snd_conv)
    ultimately show ?thesis using that(1) unfolding tap_inv_def
      by (auto split: if_splits)
  qed
  show ?thesis
  proof (cases "p \<in> set (port_deleted s)")
    case True
    then show ?thesis using \<open>get_link_type l = LT_TUN \<and> _\<close> p known forget [OF assms(1)]
      by (auto simp: tap_portdev_removed_def Let_def)
  next
    case False
    then have "fmlookup (tap_devs s) p \<noteq> None" using assms(1) p unfolding tap_inv_def by blast
    then obtain d where d: "fmlookup (tap_devs s) p = Some d" by blast
    then have "td_devname d = ln_name l" using assms(3) p by simp
    from recreate_ok [where tun_open = tun_open, OF assms(1,2) p d this] obtain rv s1
      where s1: "recreate_tapdev tun_open (ln_ifindex l) (ln_name l) (td_hwaddr d) s = Some (rv, s1)"
        "tap_inv s1" by blast
    then show ?thesis using True False p d forget [OF s1(2)] recreate_maps [OF s1(1)]
      by (auto simp: tap_portdev_removed_def Let_def)
  qed
next
  case False
  then show ?thesis using assms(1) by (auto simp: tap_portdev_removed_def)
qed

fun tap_run_ok :: "(string \<Rightarrow> int) \<Rightarrow> tap_cmd pm_cmd list \<Rightarrow> tap_manager \<Rightarrow> bool" where
  "tap_run_ok tun_open [] s = True"
| "tap_run_ok tun_open (c # cs) s =
     (tap_names_ok c s \<and> (case tap_exec tun_open c s of None \<Rightarrow> True | Some s' \<Rightarrow> tap_run_ok tun_open cs s'))"

lemma tap_exec_ok:
  assumes "tap_inv s" and "\<And>n. 0 \<le> tun_open n" and "tap_names_ok c s"
  shows "\<exists>s'. tap_exec tun_open c s = Some s' \<and> tap_inv s'"
proof (cases c)
  case (Pm_ready l)
  then show ?thesis using tap_ready_ok [OF assms(1), of l] by auto
next
  case (Pm_removed l)
  then show ?thesis using tap_removed_ok [where tun_open = tun_open and l = l, OF assms(1,2)] assms(3) by auto
next
  case (Pm_other t)
  then show ?thesis
    using tap_create_ok [where tun_open = tun_open, OF assms(1,2)] tap_destroy_ok [OF assms(1)] assms(3)
    by (cases t) fastforce+
qed

text \<open>
  C32: as long as the kernel opens the tap devices and the names in destructions and removals are
  the names of the devices, no sequence of operations ends the program: no fatal error is logged, no
  end iterator is dereferenced. Afterwards every registered name has its device.
\<close>

theorem tap_manager_never_aborts:
  assumes "\<forall>n. 0 \<le> tun_open n" and "tap_run_ok tun_open cmds tap_manager_init"
  shows "\<exists>s. pm_run (tap_exec tun_open) cmds tap_manager_init = Some s \<and>
    (\<forall>n p. fmlookup (port_names2id s) n = Some p \<longleftrightarrow>
       (\<exists>d. fmlookup (tap_devs s) p = Some d \<and> td_devname d = n))"
proof -
  have "\<exists>s'. pm_run (tap_exec tun_open) cmds s = Some s' \<and> tap_inv s'"
    if "tap_inv s" "tap_run_ok tun_open cmds s" for s
    using that
  proof (induction cmds arbitrary: s)
    case (Cons c cs)
    then obtain s' where "tap_exec tun_open c s = Some s'" "tap_inv s'"
      using tap_exec_ok [where tun_open = tun_open and c = c, OF Cons.prems(1)] assms(1) by auto
    then show ?case using Cons by simp
  qed simp
  from this [OF tap_inv_init assms(2)] show ?thesis by (auto simp: tap_inv_def)
qed

theorem tap_manager_never_aborts_witness:
  "\<exists>s. pm_run (tap_exec (\<lambda>_. 5)) [Pm_other (Tap_create 1 ''port1'' 7), Pm_other (Tap_destroy 1 ''port1'')]
         tap_manager_init = Some s \<and>
    (\<forall>n p. fmlookup (port_names2id s) n = Some p \<longleftrightarrow>
       (\<exists>d. fmlookup (tap_devs s) p = Some d \<and> td_devname d = n))"
  by (rule tap_manager_never_aborts)
    (simp_all add: tap_create_portdev_def tap_manager_init_def ctapdev_def tap_open_def)

text \<open>
  when an interface disappears without being scheduled, the tap device is opened again, but
  the descriptor recorded under its name stays the old one: the name map is only extended, not
  updated. Later status and MTU changes then go to the old descriptor.
\<close>

theorem recreate_keeps_stale_fd:
  assumes "get_link_type l = LT_TUN" and "fmlookup (ifindex_to_id s) (ln_ifindex l) = Some p"
    and "p \<notin> set (port_deleted s)" and "fmlookup (tap_devs s) p = Some d"
    and "fmlookup (tap_names2fds s) (ln_name l) = Some old" and "tun_open (ln_name l) \<noteq> old"
    and "0 < length (ln_name l)" "length (ln_name l) < IFNAMSIZ"
    and "tap_portdev_removed tun_open l s = Some (b, s')"
  shows "tap_get_fd p s' = tun_open (ln_name l) \<and> fmlookup (tap_names2fds s') (ln_name l) = Some old"
  using assms
  by (auto simp: tap_portdev_removed_def recreate_tapdev_def ctapdev_def tap_open_def tap_get_fd_def
      Let_def split: if_splits)

theorem recreate_keeps_stale_fd_witness:
  "\<exists>s s'. tap_portdev_removed (\<lambda>_. 6) (tap_link 12 ''port1'') s = Some (True, s') \<and>
     tap_get_fd 1 s' = 6 \<and> fmlookup (tap_names2fds s') ''port1'' = Some 5"
proof -
  let ?s = "tap_manager_init\<lparr>ifindex_to_id := fmupd 12 1 fmempty, id_to_ifindex := fmupd 1 12 fmempty,
    tap_devs := fmupd 1 \<lparr>td_fd = 5, td_devname = ''port1'', td_hwaddr = 7\<rparr> fmempty,
    tap_names2fds := fmupd ''port1'' 5 fmempty, port_names2id := fmupd ''port1'' 1 fmempty\<rparr>"
  have "\<exists>s'. tap_portdev_removed (\<lambda>_. 6) (tap_link 12 ''port1'') ?s = Some (True, s')"
    by (simp add: tap_portdev_removed_def recreate_tapdev_def ctapdev_def tap_open_def Let_def
        tap_manager_init_def)
  then obtain s' where s': "tap_portdev_removed (\<lambda>_. 6) (tap_link 12 ''port1'') ?s = Some (True, s')" by blast
  have "tap_get_fd 1 s' = (\<lambda>_. 6) (ln_name (tap_link 12 ''port1'')) \<and>
      fmlookup (tap_names2fds s') (ln_name (tap_link 12 ''port1'')) = Some 5"
    by (rule recreate_keeps_stale_fd [OF _ _ _ _ _ _ _ _ s']) (simp_all add: tap_manager_init_def)
  with s' show ?thesis by (intro exI [of _ ?s] exI [of _ s']) simp
qed

end
