(* ===== verification/Knet_Manager.thy ===== *)
theory Knet_Manager
  imports Port_Manager
begin

text \<open>
  The KNET manager (\<open>src/src/netlink/knet_manager.cc\<close>): ports are network interfaces of the
  switch's kernel module, created and deleted through the switch interface (the parameters
  \<open>knet_create\<close> and \<open>knet_delete\<close>, the results of \<open>port_knet_create\<close> and \<open>port_knet_delete\<close>). The
  link state goes to a file of the module: a line written to it is part of the state, the
  parameter \<open>link_file\<close> says whether the file can be opened. Fatal errors are \<open>None\<close>.

  \<open>knet_devs\<close> and \<open>netif_ids_in_use\<close> are members of the class that no method fills.
\<close>

record knet_manager = port_manager +
  knet_devs :: "(u32, u32) fmap"
  netif_ids_in_use :: "nat fset"
  link_lines :: "string list" \<comment> \<open>lines written to \<open>/proc/bcm/knet/link\<close>, oldest first\<close>

definition knet_manager_init :: knet_manager where
  "knet_manager_init = \<lparr>port_names2id = fmempty, ifindex_to_id = fmempty, id_to_ifindex = fmempty,
     id_to_hwaddr = fmempty, port_deleted = [], knet_devs = fmempty, netif_ids_in_use = {||},
     link_lines = []\<rparr>"

definition get_next_netif_id :: "knet_manager \<Rightarrow> int" where
  "get_next_netif_id s =
     (case find (\<lambda>i. i |\<notin>| netif_ids_in_use s) [1..<128] of Some i \<Rightarrow> int i | None \<Rightarrow> - ENOSPC)"

definition write_link :: "bool \<Rightarrow> string \<Rightarrow> knet_manager \<Rightarrow> int \<times> knet_manager" where
  "write_link link_file line s =
     (if link_file then (0, s\<lparr>link_lines := link_lines s @ [line]\<rparr>) else (1, s))"

definition change_port_status_unlocked :: "bool \<Rightarrow> string \<Rightarrow> bool \<Rightarrow> knet_manager \<Rightarrow> int \<times> knet_manager" where
  "change_port_status_unlocked link_file name status s =
     write_link link_file (name @ ''='' @ (if status then ''up'' else ''down'')) s"

definition knet_create_portdev ::
  "bool \<Rightarrow> (u32 \<Rightarrow> int) \<Rightarrow> u32 \<Rightarrow> string \<Rightarrow> mac \<Rightarrow> knet_manager \<Rightarrow> (int \<times> knet_manager) option" where
  "knet_create_portdev link_file knet_create port_id port_name hwaddr s =
     (if fmlookup (knet_devs s) port_id = None \<and> fmlookup (port_names2id s) port_name = None
      then (if fmlookup (id_to_hwaddr s) port_id \<noteq> None then None
            else if knet_create port_id \<noteq> 0 then None
            else Some (0, snd (change_port_status_unlocked link_file port_name False
                   (s\<lparr>port_names2id := fmupd port_name port_id (port_names2id s),
                      id_to_hwaddr := fmupd port_id hwaddr (id_to_hwaddr s)\<rparr>))))
      else Some (0, s))"

definition knet_destroy_portdev :: "u32 \<Rightarrow> string \<Rightarrow> knet_manager \<Rightarrow> int \<times> knet_manager" where
  "knet_destroy_portdev port_id port_name s =
     (0, s\<lparr>port_deleted := port_deleted s @ [port_id],
           id_to_hwaddr := fmdrop port_id (id_to_hwaddr s),
           port_names2id := fmdrop port_name (port_names2id s)\<rparr>)"

definition knet_portdev_ready :: "rtnl_link \<Rightarrow> knet_manager \<Rightarrow> (bool \<times> knet_manager) option" where
  "knet_portdev_ready link s =
     (if fmlookup (ifindex_to_id s) (ln_ifindex link) \<noteq> None then Some (False, s)
      else case fmlookup (port_names2id s) (ln_name link) of
          None \<Rightarrow> Some (False, s)
        | Some port_id \<Rightarrow>
            (let (to_id, to_ifindex) =
                   update_maps port_id (ln_ifindex link) (ifindex_to_id s, id_to_ifindex s)
             in Some (True, s\<lparr>ifindex_to_id := to_id, id_to_ifindex := to_ifindex\<rparr>)))"

definition knet_portdev_removed :: "rtnl_link \<Rightarrow> knet_manager \<Rightarrow> (bool \<times> knet_manager) option" where
  "knet_portdev_removed link s =
     (case fmlookup (ifindex_to_id s) (ln_ifindex link) of
        None \<Rightarrow> Some (False, s)
      | Some port_id \<Rightarrow>
          if port_id \<notin> set (port_deleted s) then None
          else if fmlookup (id_to_ifindex s) port_id = None then None
          else Some (True, s\<lparr>ifindex_to_id := fmdrop (ln_ifindex link) (ifindex_to_id s),
                             id_to_ifindex := fmdrop port_id (id_to_ifindex s),
                             port_deleted := remove1 port_id (port_deleted s)\<rparr>))"

definition knet_change_port_status ::
  "bool \<Rightarrow> string \<Rightarrow> bool \<Rightarrow> knet_manager \<Rightarrow> int \<times> knet_manager" where
  "knet_change_port_status link_file name status s =
     (if fmlookup (port_names2id s) name = None then (- EINVAL, s)
      else change_port_status_unlocked link_file name status s)"

text \<open>\<open>std::to_string\<close> of the speed in Mbit is the parameter \<open>to_string\<close>.\<close>

definition knet_set_port_speed ::
  "bool \<Rightarrow> (u32 \<Rightarrow> string) \<Rightarrow> string \<Rightarrow> u32 \<Rightarrow> u8 \<Rightarrow> knet_manager \<Rightarrow> int \<times> knet_manager" where
  "knet_set_port_speed link_file to_string name speed duplex s =
     (if fmlookup (port_names2id s) name = None then (- EINVAL, s)
      else write_link link_file
        (name @ ''='' @ to_string (speed div 1000) @ '','' @ (if duplex \<noteq> 0 then ''fd'' else ''hd'')) s)"

definition knet_set_offloaded :: "bool \<Rightarrow> rtnl_link \<Rightarrow> bool \<Rightarrow> knet_manager \<Rightarrow> int \<times> knet_manager" where
  "knet_set_offloaded link_file link offloaded s =
     (0, snd (write_link link_file
       (ln_name link @ (if offloaded then ''=offload'' else ''=no-offload'')) s))"

subsection \<open>The interface maps\<close>

datatype knet_cmd =
    Knet_create u32 string mac
  | Knet_destroy u32 string
  | Knet_status string bool
  | Knet_speed string u32 u8

fun knet_other :: "bool \<Rightarrow> (u32 \<Rightarrow> int) \<Rightarrow> (u32 \<Rightarrow> string) \<Rightarrow> knet_cmd \<Rightarrow> knet_manager \<Rightarrow> knet_manager option" where
  "knet_other lf kc ts (Knet_create p n a) s = map_option snd (knet_create_portdev lf kc p n a s)"
| "knet_other lf kc ts (Knet_destroy p n) s = Some (snd (knet_destroy_portdev p n s))"
| "knet_other lf kc ts (Knet_status n b) s = Some (snd (knet_change_port_status lf n b s))"
| "knet_other lf kc ts (Knet_speed n v d) s = Some (snd (knet_set_port_speed lf ts n v d s))"

abbreviation knet_exec where
  "knet_exec lf kc ts \<equiv> pm_exec knet_portdev_ready knet_portdev_removed (knet_other lf kc ts)"

lemma write_link_fields [simp]:
  "ifindex_to_id (snd (write_link lf x s)) = ifindex_to_id s"
  "id_to_ifindex (snd (write_link lf x s)) = id_to_ifindex s"
  "port_names2id (snd (write_link lf x s)) = port_names2id s"
  "id_to_hwaddr (snd (write_link lf x s)) = id_to_hwaddr s"
  "knet_devs (snd (write_link lf x s)) = knet_devs s"
  "port_deleted (snd (write_link lf x s)) = port_deleted s"
  by (simp_all add: write_link_def)

interpretation knet_index: port_index "\<lambda>s :: knet_manager. (ifindex_to_id s, id_to_ifindex s)"
    knet_portdev_ready knet_portdev_removed "knet_other lf kc ts"
  for lf :: bool and kc :: "u32 \<Rightarrow> int" and ts :: "u32 \<Rightarrow> string"
proof unfold_locales
  fix l and s s' :: knet_manager and c
  show "(ifindex_to_id s', id_to_ifindex s') = (ifindex_to_id s, id_to_ifindex s)"
    if "knet_portdev_ready l s = Some (False, s')"
    using that by (auto simp: knet_portdev_ready_def split_beta Let_def split: if_splits option.splits)
  show "fmlookup (fst (ifindex_to_id s, id_to_ifindex s)) (ln_ifindex l) = None \<and>
      (\<exists>p. (ifindex_to_id s', id_to_ifindex s') =
            update_maps p (ln_ifindex l) (ifindex_to_id s, id_to_ifindex s))"
    if "knet_portdev_ready l s = Some (True, s')"
    using that by (auto simp: knet_portdev_ready_def split_beta Let_def split: if_splits option.splits)
  show "(ifindex_to_id s', id_to_ifindex s') = (ifindex_to_id s, id_to_ifindex s)"
    if "knet_portdev_removed l s = Some (False, s')"
    using that by (auto simp: knet_portdev_removed_def split: if_splits option.splits)
  show "\<exists>p. fmlookup (fst (ifindex_to_id s, id_to_ifindex s)) (ln_ifindex l) = Some p \<and>
      (ifindex_to_id s', id_to_ifindex s') =
        (fmdrop (ln_ifindex l) (fst (ifindex_to_id s, id_to_ifindex s)),
         fmdrop p (snd (ifindex_to_id s, id_to_ifindex s)))"
    if "knet_portdev_removed l s = Some (True, s')"
    using that by (auto simp: knet_portdev_removed_def split: if_splits option.splits)
  show "(ifindex_to_id s', id_to_ifindex s') = (ifindex_to_id s, id_to_ifindex s)"
    if "knet_other lf kc ts c s = Some s'"
    using that by (cases c) (auto simp: knet_create_portdev_def knet_destroy_portdev_def
        change_port_status_unlocked_def knet_change_port_status_def knet_set_port_speed_def
        split: if_splits)
qed

text \<open>
  a port announced ready is found under its interface and the interface under its port, and
  the KNET manager's lookups are inverse to each other after any run that does not end the
  program.
\<close>

theorem knet_lookups_inverse:
  assumes "pm_run (knet_exec lf kc ts) cmds knet_manager_init = Some s"
  shows "inverse_maps (ifindex_to_id s, id_to_ifindex s) \<and>
    (\<forall>l s'. knet_portdev_ready l s = Some (True, s') \<longrightarrow>
       (\<exists>p. fmlookup (ifindex_to_id s') (ln_ifindex l) = Some p \<and>
            fmlookup (id_to_ifindex s') p = Some (ln_ifindex l)))"
  using knet_index.run_inverse [OF _ assms] knet_index.ready_lookup [of _ s]
  by (simp add: knet_manager_init_def)

theorem knet_lookups_inverse_witness:
  "\<exists>s. pm_run (knet_exec True (\<lambda>_. 0) (\<lambda>_. ''1000''))
         [Pm_other (Knet_create 1 ''port1'' 7), Pm_ready ((plain_link 12)\<lparr>ln_name := ''port1''\<rparr>)]
         knet_manager_init = Some s \<and>
       inverse_maps (ifindex_to_id s, id_to_ifindex s) \<and> fmlookup (ifindex_to_id s) 12 = Some 1"
proof -
  let ?cmds = "[Pm_other (Knet_create 1 ''port1'' 7), Pm_ready ((plain_link 12)\<lparr>ln_name := ''port1''\<rparr>)]"
  have "\<exists>s. pm_run (knet_exec True (\<lambda>_. 0) (\<lambda>_. ''1000'')) ?cmds knet_manager_init = Some s \<and>
      fmlookup (ifindex_to_id s) 12 = Some 1"
    by (simp add: knet_create_portdev_def knet_manager_init_def change_port_status_unlocked_def
        write_link_def knet_portdev_ready_def plain_link_def update_maps_def Let_def)
  then show ?thesis using knet_lookups_inverse by blast
qed

text \<open>
  the KNET manager ends the program when an interface it knows disappears although its port
  was not scheduled for deletion; when the port was scheduled, the removal succeeds and uses up one
  scheduled deletion.
\<close>

theorem knet_removal:
  assumes "inverse_maps (ifindex_to_id s, id_to_ifindex s)"
    and "fmlookup (ifindex_to_id s) (ln_ifindex l) = Some p"
  shows "(p \<notin> set (port_deleted s) \<longrightarrow> knet_portdev_removed l s = None) \<and>
    (p \<in> set (port_deleted s) \<longrightarrow>
       (\<exists>s'. knet_portdev_removed l s = Some (True, s') \<and>
             count_list (port_deleted s') p + 1 = count_list (port_deleted s) p \<and>
             get_port_id (ln_ifindex l) s' = 0 \<and> get_ifindex p s' = 0))"
proof -
  have known: "fmlookup (id_to_ifindex s) p = Some (ln_ifindex l)"
    using assms by (auto simp: inverse_maps_def)
  have "x \<in> set xs \<Longrightarrow> count_list (remove1 x xs) x + 1 = count_list xs x" for x :: u32 and xs
    by (induction xs) auto
  then show ?thesis using assms(2) known
    by (auto simp: knet_portdev_removed_def get_port_id_def get_ifindex_def)
qed

definition knet_example :: knet_manager where
  "knet_example = knet_manager_init\<lparr>ifindex_to_id := fmupd 12 1 fmempty,
     id_to_ifindex := fmupd 1 12 fmempty, port_deleted := [1]\<rparr>"

theorem knet_removal_witness:
  "\<exists>s'. knet_portdev_removed (plain_link 12) knet_example = Some (True, s') \<and> get_port_id 12 s' = 0"
proof -
  have "inverse_maps (ifindex_to_id knet_example, id_to_ifindex knet_example)"
    by (auto simp: inverse_maps_def knet_example_def split: if_splits)
  moreover have "fmlookup (ifindex_to_id knet_example) (ln_ifindex (plain_link 12)) = Some 1"
    and "1 \<in> set (port_deleted knet_example)" and "ln_ifindex (plain_link 12) = 12"
    by (simp_all add: knet_example_def plain_link_def)
  ultimately show ?thesis using knet_removal [of knet_example "plain_link 12" 1] by auto
qed

end
