(* ===== verification/Ctl_Packet.thy ===== *)
theory Ctl_Packet
  imports Controller_Base
begin

text \<open>
  Packets to the switch: \<open>struct packet\<close> (\<open>src/src/utils/utils.h\<close>) and \<open>enqueue\<close> of class
  \<open>controller\<close> (\<open>src/src/of-dpa/controller.cc\<close>). The record holds the length field and the bytes that are
  allocated behind it. The method takes \<open>len\<close> bytes from there, and it is \<open>noexcept\<close>: an exception it does not
  catch ends the program. As everywhere in the class, a datapath that is not found is \<open>eRofBaseNotFound\<close>. Both an uncaught exception and a length beyond the allocated bytes are \<open>None\<close>.
\<close>

record packet =
  pk_len :: u64
  pk_data :: "u8 list"

definition enqueue :: "ofenv \<Rightarrow> u32 \<Rightarrow> packet \<Rightarrow> controller \<Rightarrow> (int \<times> controller) option" where
  "enqueue env port_id pkt c =
     (if \<not> dpt_found env (dptid c) then Some (- EINVAL, c)
      else if \<not> dpt_established env then Some (- ENOTCONN, c)
      else if \<not> dpt_has_port env port_id then Some (0, c)
      else if length (pk_data pkt) < unat (pk_len pkt) then None
      else
        (case send env (Packet_out port_id (take (unat (pk_len pkt)) (pk_data pkt))) c of
           (Inr _, c1) \<Rightarrow> Some (0, c1)
         | (Inl RofBaseNotFound, c1) \<Rightarrow> Some (- EINVAL, c1)
         | (Inl _, c1) \<Rightarrow> None))"

text \<open>A packet whose length field is right is sent unchanged, once.\<close>

lemma enqueue_sends:
  assumes "dpt_found env (dptid c)" "dpt_established env" "dpt_has_port env port_id"
    and "unat (pk_len pkt) = length (pk_data pkt)"
    and "send_outcome env (trace c) (Packet_out port_id (pk_data pkt)) = Inr r"
  shows "enqueue env port_id pkt c = Some (0, emit (Sent (Packet_out port_id (pk_data pkt))) c)"
  using assms by (simp add: enqueue_def send_def)

text \<open>
  When the connection goes down between the check and the send, the exception is not caught, unlike in
  every other method of the class, and the program ends.
\<close>

theorem packet_out_lost_connection_aborts:
  assumes "dpt_found env (dptid c)" "dpt_established env" "dpt_has_port env port_id"
    and "send_outcome env (trace c) (Packet_out port_id (take (unat (pk_len pkt)) (pk_data pkt))) = Inl RofConnNotConnected"
  shows "enqueue env port_id pkt c = None"
  using assms by (simp add: enqueue_def send_def)

end
