(* ===== verification/Switch_Interface.thy ===== *)
theory Switch_Interface
  imports Ctl_L2 Ctl_Lag Ctl_Vlan Ctl_L3 Ctl_Tunnel Ctl_Stg Ctl_Packet
begin

text \<open>
  The abstract class \<open>switch_interface\<close> (\<open>src/src/sai.h\<close>): the netlink side calls the switch only
  through it. The class is a record of operations on an arbitrary switch state, one field for each
  virtual method the netlink components call; \<open>controller_swi\<close> is the implementation by class
  \<open>controller\<close>. An out parameter is part of the result; methods that can abort or run forever
  return an option.
\<close>

record 's switch_interface =
  sw_port_set_learn :: "u32 \<Rightarrow> sai_bridge_port_fdb_learning_t \<Rightarrow> 's \<Rightarrow> int \<times> 's"
  sw_port_set_move_learn :: "u32 \<Rightarrow> sai_bridge_port_fdb_learning_t \<Rightarrow> 's \<Rightarrow> int \<times> 's"
  sw_lag_create :: "string \<Rightarrow> u8 \<Rightarrow> 's \<Rightarrow> (int \<times> u32 option) \<times> 's"
  sw_lag_remove :: "u32 \<Rightarrow> 's \<Rightarrow> int \<times> 's"
  sw_lag_add_member :: "u32 \<Rightarrow> u32 \<Rightarrow> 's \<Rightarrow> int \<times> 's"
  sw_lag_remove_member :: "u32 \<Rightarrow> u32 \<Rightarrow> 's \<Rightarrow> int \<times> 's"
  sw_lag_set_member_active :: "u32 \<Rightarrow> u32 \<Rightarrow> u8 \<Rightarrow> 's \<Rightarrow> int \<times> 's"
  sw_lag_set_mode :: "u32 \<Rightarrow> u8 \<Rightarrow> 's \<Rightarrow> int \<times> 's"
  sw_overlay_tunnel_add :: "u32 \<Rightarrow> 's \<Rightarrow> int \<times> 's"
  sw_overlay_tunnel_remove :: "u32 \<Rightarrow> 's \<Rightarrow> int \<times> 's"
  sw_l2_set_idle_timeout :: "u16 \<Rightarrow> 's \<Rightarrow> int \<times> 's"
  sw_l2_addr_remove_all_in_vlan :: "u32 \<Rightarrow> u16 \<Rightarrow> 's \<Rightarrow> int \<times> 's"
  sw_l2_addr_add :: "u32 \<Rightarrow> u16 \<Rightarrow> mac \<Rightarrow> bool \<Rightarrow> bool \<Rightarrow> bool \<Rightarrow> 's \<Rightarrow> int \<times> 's"
  sw_l2_addr_remove :: "u32 \<Rightarrow> u16 \<Rightarrow> mac \<Rightarrow> 's \<Rightarrow> int \<times> 's"
  sw_l2_overlay_addr_add :: "u32 \<Rightarrow> u32 \<Rightarrow> mac \<Rightarrow> bool \<Rightarrow> 's \<Rightarrow> int \<times> 's"
  sw_l2_overlay_addr_remove :: "u32 \<Rightarrow> u32 \<Rightarrow> mac \<Rightarrow> 's \<Rightarrow> int \<times> 's"
  sw_l2_multicast_group_join :: "u32 \<Rightarrow> u16 \<Rightarrow> mac \<Rightarrow> 's \<Rightarrow> int \<times> 's"
  sw_l2_multicast_group_leave :: "u32 \<Rightarrow> u16 \<Rightarrow> mac \<Rightarrow> bool \<Rightarrow> 's \<Rightarrow> int \<times> 's"
  sw_l2_multicast_group_rejoin_all_in_vlan :: "u32 \<Rightarrow> u16 \<Rightarrow> 's \<Rightarrow> int \<times> 's"
  sw_l2_multicast_group_leave_all_in_vlan :: "u32 \<Rightarrow> u16 \<Rightarrow> 's \<Rightarrow> int \<times> 's"
  sw_l3_termination_add :: "u32 \<Rightarrow> u16 \<Rightarrow> mac \<Rightarrow> 's \<Rightarrow> int \<times> 's"
  sw_l3_termination_add_v6 :: "u32 \<Rightarrow> u16 \<Rightarrow> mac \<Rightarrow> 's \<Rightarrow> int \<times> 's"
  sw_l3_termination_remove :: "u32 \<Rightarrow> u16 \<Rightarrow> mac \<Rightarrow> 's \<Rightarrow> int \<times> 's"
  sw_l3_termination_remove_v6 :: "u32 \<Rightarrow> u16 \<Rightarrow> mac \<Rightarrow> 's \<Rightarrow> int \<times> 's"
  sw_l3_egress_create :: "u32 \<Rightarrow> u16 \<Rightarrow> mac \<Rightarrow> mac \<Rightarrow> 's \<Rightarrow> (int \<times> u32) \<times> 's"
  sw_l3_egress_update :: "u32 \<Rightarrow> u16 \<Rightarrow> mac \<Rightarrow> mac \<Rightarrow> u32 \<Rightarrow> 's \<Rightarrow> int \<times> 's"
  sw_l3_egress_remove :: "u32 \<Rightarrow> 's \<Rightarrow> int \<times> 's"
  sw_l3_unicast_host_add_in4 :: "in4 \<Rightarrow> u32 \<Rightarrow> bool \<Rightarrow> bool \<Rightarrow> u16 \<Rightarrow> 's \<Rightarrow> int \<times> 's"
  sw_l3_unicast_host_remove_in4 :: "in4 \<Rightarrow> u16 \<Rightarrow> 's \<Rightarrow> int \<times> 's"
  sw_l3_unicast_route_add_in4 :: "in4 \<Rightarrow> in4 \<Rightarrow> u32 \<Rightarrow> bool \<Rightarrow> bool \<Rightarrow> u16 \<Rightarrow> 's \<Rightarrow> int \<times> 's"
  sw_l3_unicast_route_remove_in4 :: "in4 \<Rightarrow> in4 \<Rightarrow> u16 \<Rightarrow> 's \<Rightarrow> int \<times> 's"
  sw_l3_unicast_host_add_in6 :: "in6 \<Rightarrow> u32 \<Rightarrow> bool \<Rightarrow> bool \<Rightarrow> u16 \<Rightarrow> 's \<Rightarrow> int \<times> 's"
  sw_l3_unicast_host_remove_in6 :: "in6 \<Rightarrow> u16 \<Rightarrow> 's \<Rightarrow> int \<times> 's"
  sw_l3_unicast_route_add_in6 :: "in6 \<Rightarrow> in6 \<Rightarrow> u32 \<Rightarrow> bool \<Rightarrow> bool \<Rightarrow> u16 \<Rightarrow> 's \<Rightarrow> int \<times> 's"
  sw_l3_unicast_route_remove_in6 :: "in6 \<Rightarrow> in6 \<Rightarrow> u16 \<Rightarrow> 's \<Rightarrow> int \<times> 's"
  sw_l3_ecmp_add :: "u32 fset \<Rightarrow> 's \<Rightarrow> (int \<times> u32) \<times> 's"
  sw_l3_ecmp_update :: "u32 \<Rightarrow> u32 fset \<Rightarrow> 's \<Rightarrow> int \<times> 's"
  sw_l3_ecmp_remove :: "u32 \<Rightarrow> 's \<Rightarrow> int \<times> 's"
  sw_ingress_port_vlan_accept_all :: "u32 \<Rightarrow> 's \<Rightarrow> int \<times> 's"
  sw_ingress_port_vlan_drop_accept_all :: "u32 \<Rightarrow> 's \<Rightarrow> int \<times> 's"
  sw_ingress_port_vlan_add :: "u32 \<Rightarrow> u16 \<Rightarrow> bool \<Rightarrow> u16 \<Rightarrow> 's \<Rightarrow> int \<times> 's"
  sw_ingress_port_vlan_remove :: "u32 \<Rightarrow> u16 \<Rightarrow> bool \<Rightarrow> u16 \<Rightarrow> 's \<Rightarrow> int \<times> 's"
  sw_ingress_port_pvid_add :: "u32 \<Rightarrow> u16 \<Rightarrow> 's \<Rightarrow> int \<times> 's"
  sw_ingress_port_pvid_remove :: "u32 \<Rightarrow> u16 \<Rightarrow> 's \<Rightarrow> int \<times> 's"
  sw_egress_port_vlan_accept_all :: "u32 \<Rightarrow> 's \<Rightarrow> int \<times> 's"
  sw_egress_port_vlan_drop_accept_all :: "u32 \<Rightarrow> 's \<Rightarrow> int \<times> 's"
  sw_egress_port_vlan_add :: "u32 \<Rightarrow> u16 \<Rightarrow> bool \<Rightarrow> bool \<Rightarrow> 's \<Rightarrow> int \<times> 's"
  sw_egress_port_vlan_remove :: "u32 \<Rightarrow> u16 \<Rightarrow> 's \<Rightarrow> int \<times> 's"
  sw_egress_bridge_port_vlan_add :: "u32 \<Rightarrow> u16 \<Rightarrow> bool \<Rightarrow> 's \<Rightarrow> int \<times> 's"
  sw_egress_bridge_port_vlan_remove :: "u32 \<Rightarrow> u16 \<Rightarrow> 's \<Rightarrow> int \<times> 's"
  sw_add_l2_overlay_flood :: "u32 \<Rightarrow> u32 \<Rightarrow> 's \<Rightarrow> int \<times> 's"
  sw_del_l2_overlay_flood :: "u32 \<Rightarrow> u32 \<Rightarrow> 's \<Rightarrow> int \<times> 's"
  sw_ingress_port_stacked_vlan_enable :: "u32 \<Rightarrow> u16 \<Rightarrow> 's \<Rightarrow> int \<times> 's"
  sw_ingress_port_stacked_vlan_disable :: "u32 \<Rightarrow> u16 \<Rightarrow> 's \<Rightarrow> int \<times> 's"
  sw_ingress_port_pop_vlan_add :: "u32 \<Rightarrow> u16 \<Rightarrow> u16 \<Rightarrow> u16 \<Rightarrow> 's \<Rightarrow> int \<times> 's"
  sw_ingress_port_pop_vlan_remove :: "u32 \<Rightarrow> u16 \<Rightarrow> u16 \<Rightarrow> u16 \<Rightarrow> 's \<Rightarrow> int \<times> 's"
  sw_egress_port_push_vlan_add :: "u32 \<Rightarrow> u16 \<Rightarrow> u16 \<Rightarrow> 's \<Rightarrow> int \<times> 's"
  sw_egress_port_push_vlan_remove :: "u32 \<Rightarrow> u16 \<Rightarrow> u16 \<Rightarrow> 's \<Rightarrow> int \<times> 's"
  sw_set_egress_tpid :: "u32 \<Rightarrow> 's \<Rightarrow> int \<times> 's"
  sw_delete_egress_tpid :: "u32 \<Rightarrow> 's \<Rightarrow> int \<times> 's"
  sw_tunnel_tenant_create :: "u32 \<Rightarrow> u32 \<Rightarrow> 's \<Rightarrow> int \<times> 's"
  sw_tunnel_tenant_delete :: "u32 \<Rightarrow> 's \<Rightarrow> int \<times> 's"
  sw_tunnel_next_hop_create :: "u32 \<Rightarrow> u64 \<Rightarrow> u64 \<Rightarrow> u32 \<Rightarrow> u16 \<Rightarrow> 's \<Rightarrow> int \<times> 's"
  sw_tunnel_next_hop_modify :: "u32 \<Rightarrow> u64 \<Rightarrow> u64 \<Rightarrow> u32 \<Rightarrow> u16 \<Rightarrow> 's \<Rightarrow> int \<times> 's"
  sw_tunnel_next_hop_delete :: "u32 \<Rightarrow> 's \<Rightarrow> int \<times> 's"
  sw_tunnel_access_port_create :: "u32 \<Rightarrow> string \<Rightarrow> u32 \<Rightarrow> u16 \<Rightarrow> bool \<Rightarrow> 's \<Rightarrow> int \<times> 's"
  sw_tunnel_enpoint_create :: "u32 \<Rightarrow> string \<Rightarrow> u32 \<Rightarrow> u32 \<Rightarrow> u32 \<Rightarrow> u32 \<Rightarrow> u32 \<Rightarrow> u32 \<Rightarrow> u32 \<Rightarrow> bool \<Rightarrow> 's \<Rightarrow> int \<times> 's"
  sw_tunnel_port_delete :: "u32 \<Rightarrow> 's \<Rightarrow> int \<times> 's"
  sw_tunnel_port_tenant_add :: "u32 \<Rightarrow> u32 \<Rightarrow> 's \<Rightarrow> int \<times> 's"
  sw_tunnel_port_tenant_remove :: "u32 \<Rightarrow> u32 \<Rightarrow> 's \<Rightarrow> (int \<times> 's) option"
  sw_ofdpa_stg_create :: "u16 \<Rightarrow> 's \<Rightarrow> (int \<times> 's) option"
  sw_ofdpa_stg_destroy :: "u16 \<Rightarrow> 's \<Rightarrow> int \<times> 's"
  sw_ofdpa_stg_state_port_set :: "u32 \<Rightarrow> u16 \<Rightarrow> u8 \<Rightarrow> 's \<Rightarrow> int \<times> 's"
  sw_port_set_config :: "u32 \<Rightarrow> mac \<Rightarrow> bool \<Rightarrow> 's \<Rightarrow> int \<times> 's"
  sw_subscribe_to :: "u32 \<Rightarrow> 's \<Rightarrow> int \<times> 's"
  sw_enqueue :: "u32 \<Rightarrow> packet \<Rightarrow> 's \<Rightarrow> (int \<times> 's) option"
  sw_get_statistics :: "u64 \<Rightarrow> sai_port_stat_t list option \<Rightarrow> u64 list option \<Rightarrow> 's \<Rightarrow> int \<times> u64 list option"

definition controller_swi :: "ofenv \<Rightarrow> controller switch_interface" where
  "controller_swi env = \<lparr>
     sw_port_set_learn = port_set_learn env,
     sw_port_set_move_learn = port_set_move_learn env,
     sw_lag_create = lag_create env,
     sw_lag_remove = lag_remove env,
     sw_lag_add_member = lag_add_member env,
     sw_lag_remove_member = lag_remove_member env,
     sw_lag_set_member_active = lag_set_member_active env,
     sw_lag_set_mode = lag_set_mode env,
     sw_overlay_tunnel_add = overlay_tunnel_add env,
     sw_overlay_tunnel_remove = overlay_tunnel_remove env,
     sw_l2_set_idle_timeout = l2_set_idle_timeout,
     sw_l2_addr_remove_all_in_vlan = l2_addr_remove_all_in_vlan env,
     sw_l2_addr_add = l2_addr_add env,
     sw_l2_addr_remove = l2_addr_remove env,
     sw_l2_overlay_addr_add = l2_overlay_addr_add env,
     sw_l2_overlay_addr_remove = l2_overlay_addr_remove env,
     sw_l2_multicast_group_join = l2_multicast_group_join env,
     sw_l2_multicast_group_leave = l2_multicast_group_leave env,
     sw_l2_multicast_group_rejoin_all_in_vlan = l2_multicast_group_rejoin_all_in_vlan env,
     sw_l2_multicast_group_leave_all_in_vlan = l2_multicast_group_leave_all_in_vlan env,
     sw_l3_termination_add = l3_termination_add env,
     sw_l3_termination_add_v6 = l3_termination_add_v6 env,
     sw_l3_termination_remove = l3_termination_remove env,
     sw_l3_termination_remove_v6 = l3_termination_remove_v6 env,
     sw_l3_egress_create = l3_egress_create env,
     sw_l3_egress_update = l3_egress_update env,
     sw_l3_egress_remove = l3_egress_remove env,
     sw_l3_unicast_host_add_in4 = l3_unicast_host_add_in4 env,
     sw_l3_unicast_host_remove_in4 = l3_unicast_host_remove_in4 env,
     sw_l3_unicast_route_add_in4 = l3_unicast_route_add_in4 env,
     sw_l3_unicast_route_remove_in4 = l3_unicast_route_remove_in4 env,
     sw_l3_unicast_host_add_in6 = l3_unicast_host_add_in6 env,
     sw_l3_unicast_host_remove_in6 = l3_unicast_host_remove_in6 env,
     sw_l3_unicast_route_add_in6 = l3_unicast_route_add_in6 env,
     sw_l3_unicast_route_remove_in6 = l3_unicast_route_remove_in6 env,
     sw_l3_ecmp_add = l3_ecmp_add env,
     sw_l3_ecmp_update = l3_ecmp_update env,
     sw_l3_ecmp_remove = l3_ecmp_remove env,
     sw_ingress_port_vlan_accept_all = ingress_port_vlan_accept_all env,
     sw_ingress_port_vlan_drop_accept_all = ingress_port_vlan_drop_accept_all env,
     sw_ingress_port_vlan_add = ingress_port_vlan_add env,
     sw_ingress_port_vlan_remove = ingress_port_vlan_remove env,
     sw_ingress_port_pvid_add = ingress_port_pvid_add env,
     sw_ingress_port_pvid_remove = ingress_port_pvid_remove env,
     sw_egress_port_vlan_accept_all = egress_port_vlan_accept_all env,
     sw_egress_port_vlan_drop_accept_all = egress_port_vlan_drop_accept_all env,
     sw_egress_port_vlan_add = egress_port_vlan_add env,
     sw_egress_port_vlan_remove = egress_port_vlan_remove env,
     sw_egress_bridge_port_vlan_add = egress_bridge_port_vlan_add env,
     sw_egress_bridge_port_vlan_remove = egress_bridge_port_vlan_remove env,
     sw_add_l2_overlay_flood = add_l2_overlay_flood env,
     sw_del_l2_overlay_flood = del_l2_overlay_flood env,
     sw_ingress_port_stacked_vlan_enable = ingress_port_stacked_vlan_enable env,
     sw_ingress_port_stacked_vlan_disable = ingress_port_stacked_vlan_disable env,
     sw_ingress_port_pop_vlan_add = ingress_port_pop_vlan_add env,
     sw_ingress_port_pop_vlan_remove = ingress_port_pop_vlan_remove env,
     sw_egress_port_push_vlan_add = egress_port_push_vlan_add env,
     sw_egress_port_push_vlan_remove = egress_port_push_vlan_remove env,
     sw_set_egress_tpid = set_egress_tpid env,
     sw_delete_egress_tpid = delete_egress_tpid env,
     sw_tunnel_tenant_create = tunnel_tenant_create env,
     sw_tunnel_tenant_delete = tunnel_tenant_delete env,
     sw_tunnel_next_hop_create = tunnel_next_hop_create env,
     sw_tunnel_next_hop_modify = tunnel_next_hop_modify env,
     sw_tunnel_next_hop_delete = tunnel_next_hop_delete env,
     sw_tunnel_access_port_create = tunnel_access_port_create env,
     sw_tunnel_enpoint_create = tunnel_enpoint_create env,
     sw_tunnel_port_delete = tunnel_port_delete env,
     sw_tunnel_port_tenant_add = tunnel_port_tenant_add env,
     sw_tunnel_port_tenant_remove = tunnel_port_tenant_remove env,
     sw_ofdpa_stg_create = ofdpa_stg_create env,
     sw_ofdpa_stg_destroy = ofdpa_stg_destroy env,
     sw_ofdpa_stg_state_port_set = ofdpa_stg_state_port_set env,
     sw_port_set_config = port_set_config env,
     sw_subscribe_to = subscribe_to env,
     sw_enqueue = enqueue env,
     sw_get_statistics = get_statistics\<rparr>"

lemma controller_swi_sel [simp]:
  "sw_port_set_learn (controller_swi env) = port_set_learn env"
  "sw_port_set_move_learn (controller_swi env) = port_set_move_learn env"
  "sw_lag_create (controller_swi env) = lag_create env"
  "sw_lag_remove (controller_swi env) = lag_remove env"
  "sw_lag_add_member (controller_swi env) = lag_add_member env"
  "sw_lag_remove_member (controller_swi env) = lag_remove_member env"
  "sw_lag_set_member_active (controller_swi env) = lag_set_member_active env"
  "sw_lag_set_mode (controller_swi env) = lag_set_mode env"
  "sw_overlay_tunnel_add (controller_swi env) = overlay_tunnel_add env"
  "sw_overlay_tunnel_remove (controller_swi env) = overlay_tunnel_remove env"
  "sw_l2_set_idle_timeout (controller_swi env) = l2_set_idle_timeout"
  "sw_port_set_config (controller_swi env) = port_set_config env"
  "sw_subscribe_to (controller_swi env) = subscribe_to env"
  "sw_enqueue (controller_swi env) = enqueue env"
  "sw_get_statistics (controller_swi env) = get_statistics"
  "sw_l2_addr_remove_all_in_vlan (controller_swi env) = l2_addr_remove_all_in_vlan env"
  "sw_l2_addr_add (controller_swi env) = l2_addr_add env"
  "sw_l2_addr_remove (controller_swi env) = l2_addr_remove env"
  "sw_l2_overlay_addr_add (controller_swi env) = l2_overlay_addr_add env"
  "sw_l2_overlay_addr_remove (controller_swi env) = l2_overlay_addr_remove env"
  "sw_l2_multicast_group_join (controller_swi env) = l2_multicast_group_join env"
  "sw_l2_multicast_group_leave (controller_swi env) = l2_multicast_group_leave env"
  "sw_l2_multicast_group_rejoin_all_in_vlan (controller_swi env) = l2_multicast_group_rejoin_all_in_vlan env"
  "sw_l2_multicast_group_leave_all_in_vlan (controller_swi env) = l2_multicast_group_leave_all_in_vlan env"
  "sw_l3_termination_add (controller_swi env) = l3_termination_add env"
  "sw_l3_termination_add_v6 (controller_swi env) = l3_termination_add_v6 env"
  "sw_l3_termination_remove (controller_swi env) = l3_termination_remove env"
  "sw_l3_termination_remove_v6 (controller_swi env) = l3_termination_remove_v6 env"
  "sw_l3_egress_create (controller_swi env) = l3_egress_create env"
  "sw_l3_egress_update (controller_swi env) = l3_egress_update env"
  "sw_l3_egress_remove (controller_swi env) = l3_egress_remove env"
  "sw_l3_unicast_host_add_in4 (controller_swi env) = l3_unicast_host_add_in4 env"
  "sw_l3_unicast_host_remove_in4 (controller_swi env) = l3_unicast_host_remove_in4 env"
  "sw_l3_unicast_route_add_in4 (controller_swi env) = l3_unicast_route_add_in4 env"
  "sw_l3_unicast_route_remove_in4 (controller_swi env) = l3_unicast_route_remove_in4 env"
  "sw_l3_unicast_host_add_in6 (controller_swi env) = l3_unicast_host_add_in6 env"
  "sw_l3_unicast_host_remove_in6 (controller_swi env) = l3_unicast_host_remove_in6 env"
  "sw_l3_unicast_route_add_in6 (controller_swi env) = l3_unicast_route_add_in6 env"
  "sw_l3_unicast_route_remove_in6 (controller_swi env) = l3_unicast_route_remove_in6 env"
  "sw_l3_ecmp_add (controller_swi env) = l3_ecmp_add env"
  "sw_l3_ecmp_update (controller_swi env) = l3_ecmp_update env"
  "sw_l3_ecmp_remove (controller_swi env) = l3_ecmp_remove env"
  "sw_ingress_port_vlan_accept_all (controller_swi env) = ingress_port_vlan_accept_all env"
  "sw_ingress_port_vlan_drop_accept_all (controller_swi env) = ingress_port_vlan_drop_accept_all env"
  "sw_ingress_port_vlan_add (controller_swi env) = ingress_port_vlan_add env"
  "sw_ingress_port_vlan_remove (controller_swi env) = ingress_port_vlan_remove env"
  "sw_ingress_port_pvid_add (controller_swi env) = ingress_port_pvid_add env"
  "sw_ingress_port_pvid_remove (controller_swi env) = ingress_port_pvid_remove env"
  "sw_egress_port_vlan_accept_all (controller_swi env) = egress_port_vlan_accept_all env"
  "sw_egress_port_vlan_drop_accept_all (controller_swi env) = egress_port_vlan_drop_accept_all env"
  "sw_egress_port_vlan_add (controller_swi env) = egress_port_vlan_add env"
  "sw_egress_port_vlan_remove (controller_swi env) = egress_port_vlan_remove env"
  "sw_egress_bridge_port_vlan_add (controller_swi env) = egress_bridge_port_vlan_add env"
  "sw_egress_bridge_port_vlan_remove (controller_swi env) = egress_bridge_port_vlan_remove env"
  "sw_add_l2_overlay_flood (controller_swi env) = add_l2_overlay_flood env"
  "sw_del_l2_overlay_flood (controller_swi env) = del_l2_overlay_flood env"
  "sw_ingress_port_stacked_vlan_enable (controller_swi env) = ingress_port_stacked_vlan_enable env"
  "sw_ingress_port_stacked_vlan_disable (controller_swi env) = ingress_port_stacked_vlan_disable env"
  "sw_ingress_port_pop_vlan_add (controller_swi env) = ingress_port_pop_vlan_add env"
  "sw_ingress_port_pop_vlan_remove (controller_swi env) = ingress_port_pop_vlan_remove env"
  "sw_egress_port_push_vlan_add (controller_swi env) = egress_port_push_vlan_add env"
  "sw_egress_port_push_vlan_remove (controller_swi env) = egress_port_push_vlan_remove env"
  "sw_set_egress_tpid (controller_swi env) = set_egress_tpid env"
  "sw_delete_egress_tpid (controller_swi env) = delete_egress_tpid env"
  "sw_tunnel_tenant_create (controller_swi env) = tunnel_tenant_create env"
  "sw_tunnel_tenant_delete (controller_swi env) = tunnel_tenant_delete env"
  "sw_tunnel_next_hop_create (controller_swi env) = tunnel_next_hop_create env"
  "sw_tunnel_next_hop_modify (controller_swi env) = tunnel_next_hop_modify env"
  "sw_tunnel_next_hop_delete (controller_swi env) = tunnel_next_hop_delete env"
  "sw_tunnel_access_port_create (controller_swi env) = tunnel_access_port_create env"
  "sw_tunnel_enpoint_create (controller_swi env) = tunnel_enpoint_create env"
  "sw_tunnel_port_delete (controller_swi env) = tunnel_port_delete env"
  "sw_tunnel_port_tenant_add (controller_swi env) = tunnel_port_tenant_add env"
  "sw_tunnel_port_tenant_remove (controller_swi env) = tunnel_port_tenant_remove env"
  "sw_ofdpa_stg_create (controller_swi env) = ofdpa_stg_create env"
  "sw_ofdpa_stg_destroy (controller_swi env) = ofdpa_stg_destroy env"
  "sw_ofdpa_stg_state_port_set (controller_swi env) = ofdpa_stg_state_port_set env"
  by (simp_all add: controller_swi_def)

end
