(* ===== verification/Nl_View.thy ===== *)
theory Nl_View
  imports Port_Manager Port_Ids
begin

text \<open>
  What the netlink components ask class \<open>cnetlink\<close> (\<open>src/src/netlink/cnetlink.cc\<close>) and the read-only
  methods of \<open>nl_bond\<close>, \<open>nl_bridge\<close> and \<open>nl_vxlan\<close> it forwards to. The view holds the libnl caches as
  lists in cache order, the links of pending deletions (the objects of \<open>nl_objs\<close> with action
  \<open>NL_ACT_DEL\<close>), and the maps of the components the queries read.

  A libnl filter matches an object when all attributes set in the filter are equal.
\<close>

abbreviation (input) AF_UNSPEC :: int where "AF_UNSPEC \<equiv> 0"
abbreviation (input) AF_INET :: int where "AF_INET \<equiv> 2"
abbreviation (input) AF_INET6 :: int where "AF_INET6 \<equiv> 10"

text \<open>The VLAN of a neighbour is \<open>-1\<close> when it has none.\<close>

record rtnl_neigh =
  nb_ifindex :: int
  nb_master :: int
  nb_family :: int
  nb_vlan :: int
  nb_lladdr :: "mac option"
  nb_dst :: "nl_addr option"
  nb_state :: u16
  nb_flags :: u8
  nb_ext_flags :: "u32 option"

record rtnl_addr =
  ad_ifindex :: int
  ad_family :: int
  ad_local :: nl_addr
  ad_prefixlen :: nat

record rtnl_nexthop =
  nx_ifindex :: int
  nx_gateway :: "nl_addr option"
  nx_via :: "nl_addr option"

record rtnl_route =
  rt_type :: int
  rt_family :: int
  rt_table :: u32
  rt_priority :: u32
  rt_protocol :: int
  rt_dst :: nl_addr
  rt_nexthops :: "rtnl_nexthop list"
  rt_nhid :: u32

text \<open>A next hop object; a group has the ids of its members.\<close>

record rtnl_nh =
  nho_id :: u32
  nho_group :: "u32 list"
  nho_oif :: int
  nho_gateway :: "nl_addr option"

text \<open>A VLAN of a bridge port with its spanning tree state.\<close>

record rtnl_bridge_vlan =
  bvl_ifindex :: u32
  bvl_vlan_id :: u16
  bvl_state :: u8

record nl_view =
  nv_links :: "rtnl_link list"
  nv_deleted :: "rtnl_link list"
  nv_neighs :: "rtnl_neigh list"
  nv_deleted_neighs :: "rtnl_neigh list"
  nv_addrs :: "rtnl_addr list"
  nv_routes :: "rtnl_route list"
  nv_old_routes :: "rtnl_route list" \<comment> \<open>old objects of pending events other than \<open>NL_ACT_NEW\<close>\<close>
  nv_nhs :: "rtnl_nh list"
  nv_bvlans :: "rtnl_bridge_vlan list"
  nv_ports :: port_manager
  nv_ifi2lag :: "(int, u32) fmap"
  nv_lag_members :: "(int, u32 fset) fmap"
  nv_bridge :: "rtnl_link option"
  nv_vni2tunnel :: "(u32, u32) fmap"

definition rtnl_link_is_vlan :: "rtnl_link \<Rightarrow> bool" where
  "rtnl_link_is_vlan l \<longleftrightarrow> ln_type l = Some ''vlan''"

definition rtnl_link_is_vxlan :: "rtnl_link \<Rightarrow> bool" where
  "rtnl_link_is_vxlan l \<longleftrightarrow> ln_type l = Some ''vxlan''"

definition rtnl_link_is_vrf :: "rtnl_link \<Rightarrow> bool" where
  "rtnl_link_is_vrf l \<longleftrightarrow> ln_type l = Some ''vrf''"

subsection \<open>Links\<close>

text \<open>The callback overwrites its result, so the last match in the cache wins.\<close>

definition last_match :: "('a \<Rightarrow> bool) \<Rightarrow> 'a list \<Rightarrow> 'a option" where
  "last_match P xs = find P (rev xs)"

definition get_link_by_ifindex :: "nl_view \<Rightarrow> int \<Rightarrow> rtnl_link option" where
  "get_link_by_ifindex nl ifindex =
     (case last_match (\<lambda>l. ln_ifindex l = ifindex \<and> ln_family l \<noteq> 10) (nv_links nl) of
        Some l \<Rightarrow> Some l
      | None \<Rightarrow> find (\<lambda>l. ln_ifindex l = ifindex) (nv_deleted nl))"

definition get_link :: "nl_view \<Rightarrow> int \<Rightarrow> int \<Rightarrow> rtnl_link option" where
  "get_link nl ifindex family =
     (case last_match (\<lambda>l. ln_ifindex l = ifindex \<and> ln_family l = family) (nv_links nl) of
        Some l \<Rightarrow> Some l
      | None \<Rightarrow> find (\<lambda>l. ln_ifindex l = ifindex \<and> ln_family l = family) (nv_deleted nl))"

definition get_bridge_ports :: "nl_view \<Rightarrow> int \<Rightarrow> rtnl_link list" where
  "get_bridge_ports nl br_ifindex =
     (case nv_bridge nl of
        None \<Rightarrow> []
      | Some _ \<Rightarrow> filter (\<lambda>l. ln_family l = AF_BRIDGE \<and> ln_master l = br_ifindex) (nv_links nl @ nv_deleted nl))"

definition get_vlans :: "nl_view \<Rightarrow> int \<Rightarrow> u16 list" where
  "get_vlans nl ifindex =
     map ln_vlan_id (filter (\<lambda>l. ln_family l = 0 \<and> rtnl_link_is_vlan l \<and> ln_link l = ifindex) (nv_links nl))"

subsection \<open>LAGs, tunnels and the bridge\<close>

definition get_lag_id :: "nl_view \<Rightarrow> int \<Rightarrow> u32" where
  "get_lag_id nl ifindex = (case fmlookup (nv_ifi2lag nl) ifindex of None \<Rightarrow> 0 | Some i \<Rightarrow> i)"

definition get_members_by_port_id :: "nl_view \<Rightarrow> u32 \<Rightarrow> u32 fset" where
  "get_members_by_port_id nl port_id =
     (case fmlookup (nv_lag_members nl) (sint port_id) of None \<Rightarrow> {||} | Some S \<Rightarrow> S)"

definition get_members :: "nl_view \<Rightarrow> rtnl_link \<Rightarrow> u32 fset" where
  "get_members nl bond =
     (case fmlookup (nv_ifi2lag nl) (ln_ifindex bond) of
        None \<Rightarrow> {||}
      | Some lag_id \<Rightarrow> get_members_by_port_id nl lag_id)"

definition get_tunnel_id :: "nl_view \<Rightarrow> rtnl_link \<Rightarrow> int \<times> u32 option" where
  "get_tunnel_id nl vxlan_link =
     (case ln_vxlan_id vxlan_link of
        None \<Rightarrow> (- EINVAL, None)
      | Some vni \<Rightarrow>
          (case fmlookup (nv_vni2tunnel nl) vni of None \<Rightarrow> (- EINVAL, None) | Some t \<Rightarrow> (0, Some t)))"

text \<open>\<open>nl_bridge::is_bridge_interface\<close>.\<close>

definition bridge_is_interface :: "rtnl_link \<Rightarrow> rtnl_link \<Rightarrow> bool" where
  "bridge_is_interface bridge link \<longleftrightarrow> ln_ifindex link = ln_ifindex bridge"

subsection \<open>Ports\<close>

definition get_port_id_ifindex :: "nl_view \<Rightarrow> int \<Rightarrow> u32" where
  "get_port_id_ifindex nl ifindex =
     (if ifindex = 0 then 0
      else (let port_id = Port_Manager.get_port_id ifindex (nv_ports nl)
            in if 0 < sint port_id then port_id else get_lag_id nl ifindex))"

definition get_port_id_link :: "nl_view \<Rightarrow> rtnl_link option \<Rightarrow> u32" where
  "get_port_id_link nl link =
     (case link of
        None \<Rightarrow> 0
      | Some l \<Rightarrow> get_port_id_ifindex nl (if rtnl_link_is_vlan l then ln_link l else ln_ifindex l))"

definition get_ifindex_by_port_id :: "nl_view \<Rightarrow> u32 \<Rightarrow> int" where
  "get_ifindex_by_port_id nl port_id = Port_Manager.get_ifindex port_id (nv_ports nl)"

definition is_switch_interface :: "nl_view \<Rightarrow> rtnl_link \<Rightarrow> bool" where
  "is_switch_interface nl l =
     (case (if rtnl_link_is_vlan l then get_link_by_ifindex nl (ln_link l) else Some l) of
        None \<Rightarrow> False
      | Some link \<Rightarrow>
          if 0 < sint (get_port_id_link nl (Some link)) then True
          else if rtnl_link_is_vxlan link \<and> fst (get_tunnel_id nl link) = 0 then True
          else (case nv_bridge nl of None \<Rightarrow> False | Some br \<Rightarrow> bridge_is_interface br link))"

definition is_bridge_interface :: "nl_view \<Rightarrow> rtnl_link \<Rightarrow> bool" where
  "is_bridge_interface nl l =
     (if (case nv_bridge nl of None \<Rightarrow> False | Some br \<Rightarrow> ln_master l = ln_ifindex br) then True
      else if rtnl_link_is_vlan l
      then (case get_link_by_ifindex nl (ln_link l) of
              None \<Rightarrow> False
            | Some lower \<Rightarrow>
                if get_link_type lower = LT_BRIDGE
                then (\<exists>p \<in> set (get_bridge_ports nl (ln_ifindex lower)). is_switch_interface nl p)
                else get_link_type lower = LT_BRIDGE_SLAVE)
      else False)"

definition is_bridge_configured :: "nl_view \<Rightarrow> rtnl_link \<Rightarrow> bool" where
  "is_bridge_configured nl l =
     (case nv_bridge nl of
        None \<Rightarrow> False
      | Some br \<Rightarrow> if rtnl_link_is_vlan l then is_bridge_interface nl l else bridge_is_interface br l)"

text \<open>The result is narrowed to 16 bits by the return type.\<close>

definition get_vrf_table_id :: "nl_view \<Rightarrow> rtnl_link \<Rightarrow> u16" where
  "get_vrf_table_id nl link =
     (case get_link_by_ifindex nl (ln_master link) of
        None \<Rightarrow> 0
      | Some vrf \<Rightarrow>
          if \<not> rtnl_link_is_vrf link \<and> rtnl_link_is_vrf vrf
          then (case ln_vrf_table vrf of None \<Rightarrow> 0 | Some t \<Rightarrow> ucast t)
          else 0)"

subsection \<open>Forwarding entries of the bridge\<close>

definition get_fdb_entries_of_port ::
  "nl_view \<Rightarrow> rtnl_link \<Rightarrow> rtnl_link \<Rightarrow> u16 \<Rightarrow> mac option \<Rightarrow> rtnl_neigh list" where
  "get_fdb_entries_of_port nl bridge br_port vid lladdr =
     filter (\<lambda>n. nb_ifindex n = ln_ifindex br_port \<and> nb_master n = ln_ifindex bridge \<and>
                 nb_family n = AF_BRIDGE \<and> (vid \<noteq> 0 \<longrightarrow> nb_vlan n = uint vid) \<and>
                 (case lladdr of None \<Rightarrow> True | Some a \<Rightarrow> nb_lladdr n = Some a)) (nv_neighs nl)"

definition search_fdb :: "nl_view \<Rightarrow> u16 \<Rightarrow> mac option \<Rightarrow> rtnl_neigh list" where
  "search_fdb nl vid lladdr =
     (case nv_bridge nl of
        None \<Rightarrow> []
      | Some br \<Rightarrow>
          concat (map (\<lambda>p. get_fdb_entries_of_port nl br p vid lladdr)
                      (get_bridge_ports nl (ln_ifindex br))))"

subsection \<open>VLAN devices, neighbours, addresses and routes\<close>

definition get_vlan_links :: "nl_view \<Rightarrow> int \<Rightarrow> rtnl_link list" where
  "get_vlan_links nl ifindex =
     filter (\<lambda>l. ln_family l = 0 \<and> rtnl_link_is_vlan l \<and> ln_link l = ifindex) (nv_links nl)"

definition get_vlan_link :: "nl_view \<Rightarrow> int \<Rightarrow> u16 \<Rightarrow> rtnl_link option" where
  "get_vlan_link nl ifindex vid =
     find (\<lambda>l. ln_family l = 0 \<and> rtnl_link_is_vlan l \<and> ln_link l = ifindex \<and> ln_vlan_id l = vid) (nv_links nl)"

text \<open>
  \<open>get_neighbour\<close> asserts that it is given an interface and an address: \<open>None\<close> is the abort. \<open>cmp\<close> is
  \<open>nl_addr_cmp\<close>.
\<close>

definition get_neighbour :: "(nl_addr option \<Rightarrow> nl_addr option \<Rightarrow> int) \<Rightarrow> nl_view \<Rightarrow> int \<Rightarrow> nl_addr option \<Rightarrow>
    rtnl_neigh option option" where
  "get_neighbour cmp nl ifindex a =
     (if ifindex = 0 then None
      else case a of
          None \<Rightarrow> None
        | Some addr \<Rightarrow>
            (let is_it = (\<lambda>n. nb_ifindex n = ifindex \<and> nb_family n = na_family addr \<and> cmp (nb_dst n) a = 0)
             in Some (case find is_it (nv_neighs nl) of
                        Some n \<Rightarrow> Some n
                      | None \<Rightarrow> find is_it (nv_deleted_neighs nl))))"

definition get_nh_by_id :: "nl_view \<Rightarrow> u32 \<Rightarrow> rtnl_nh option" where
  "get_nh_by_id nl nhid = find (\<lambda>h. nho_id h = nhid) (nv_nhs nl)"

definition get_l3_addrs :: "nl_view \<Rightarrow> rtnl_link \<Rightarrow> int \<Rightarrow> rtnl_addr list" where
  "get_l3_addrs nl link af =
     filter (\<lambda>a. ad_ifindex a = ln_ifindex link \<and> (af \<noteq> AF_UNSPEC \<longrightarrow> ad_family a = af)) (nv_addrs nl)"

definition get_l3_routes :: "nl_view \<Rightarrow> rtnl_link \<Rightarrow> rtnl_route list" where
  "get_l3_routes nl link =
     filter (\<lambda>r. rt_type r = 1 \<and> (\<exists>h \<in> set (rt_nexthops r). nx_ifindex h = ln_ifindex link)) (nv_routes nl)"

subsection \<open>A concrete view\<close>

text \<open>Two ports with interfaces 3 and 4, and a bond with interface 9, for the examples.\<close>

definition bond_view :: "nl_view" where
  "bond_view = \<lparr>nv_links = [], nv_deleted = [], nv_neighs = [], nv_deleted_neighs = [],
     nv_addrs = [], nv_routes = [], nv_old_routes = [], nv_nhs = [], nv_bvlans = [],
     nv_ports = \<lparr>port_names2id = fmempty, ifindex_to_id = fmupd 3 1 (fmupd 4 2 fmempty),
       id_to_ifindex = fmupd 1 3 (fmupd 2 4 fmempty), id_to_hwaddr = fmempty, port_deleted = []\<rparr>,
     nv_ifi2lag = fmupd 9 0x20001 fmempty, nv_lag_members = fmempty, nv_bridge = None,
     nv_vni2tunnel = fmempty\<rparr>"

lemma bond_view_port [simp]:
  "get_port_id_link bond_view (Some (plain_link 3)) = 1"
  "get_port_id_link bond_view (Some (plain_link 4)) = 2"
  "get_port_id_link bond_view (Some (plain_link 9)) = 0x20001"
  "is_bridge_interface bond_view (plain_link i) = False"
  by (simp_all add: bond_view_def get_port_id_link_def get_port_id_ifindex_def plain_link_def
      rtnl_link_is_vlan_def get_port_id_def get_lag_id_def Let_def is_bridge_interface_def)

end
