(* ===== verification/Nl_Vlan.thy ===== *)
theory Nl_Vlan
  imports Switch_Interface Nl_View
begin

text \<open>
  VLANs of ports (\<open>src/src/netlink/nl_vlan.cc\<close>): reference counts of the VLANs of a port, the VLANs
  of bridge ports, port VLAN ids and the VRF of a VLAN, and the calls that configure the switch.
  Methods that touch the switch only have the switch state as their state; the others a pair of the
  object and the switch state. The view \<open>nl\<close> is what \<open>cnetlink\<close> answers; \<open>untagged_vid\<close> is the flag
  \<open>port_untagged_vid\<close>.
\<close>

record nl_vlan =
  port_vlan :: "(u32 \<times> u16, u32) fmap" \<comment> \<open>reference counts\<close>
  vlan_vrf :: "(u16, u16) fmap"
  bridge_vlan :: "(u32, (u16, u16 \<times> bool) fmap) fmap" \<comment> \<open>outer vid, tagged\<close>
  port_pvid :: "(u32, u16) fmap"

definition nl_vlan_init :: nl_vlan where
  "nl_vlan_init = \<lparr>port_vlan = fmempty, vlan_vrf = fmempty, bridge_vlan = fmempty, port_pvid = fmempty\<rparr>"

definition is_vid_valid :: "u16 \<Rightarrow> bool" where
  "is_vid_valid vid = (\<not> (vid < 1 \<or> vid > 0xfff))"

definition get_vrf_id :: "u16 \<Rightarrow> nl_vlan \<Rightarrow> u16" where
  "get_vrf_id vid v = (case fmlookup (vlan_vrf v) vid of None \<Rightarrow> 0 | Some vrf \<Rightarrow> vrf)"

text \<open>The member ports a loop visits, ascending; none unless the port is a LAG.\<close>

definition lag_ports :: "nl_view \<Rightarrow> u32 \<Rightarrow> u32 list" where
  "lag_ports nl port_id =
     (if is_lag port_id then sorted_list_of_fset (get_members_by_port_id nl port_id) else [])"

text \<open>The set of the members and the port itself.\<close>

definition bridge_ports_of :: "nl_view \<Rightarrow> u32 \<Rightarrow> u32 list" where
  "bridge_ports_of nl port_id =
     sorted_list_of_fset (finsert port_id
       (if is_lag port_id then get_members_by_port_id nl port_id else {||}))"

subsection \<open>Ingress and egress\<close>

definition remove_ingress_vlan ::
  "nl_view \<Rightarrow> 's switch_interface \<Rightarrow> u32 \<Rightarrow> u16 \<Rightarrow> bool \<Rightarrow> u16 \<Rightarrow> 's \<Rightarrow> int \<times> 's" where
  "remove_ingress_vlan nl swi port_id vid pvid vrf_id s =
     sw_ingress_port_vlan_remove swi port_id vid (\<not> pvid) vrf_id
       (foreach_ignore (\<lambda>mem. sw_ingress_port_vlan_remove swi mem vid (\<not> pvid) vrf_id)
          (lag_ports nl port_id) s)"

definition add_ingress_vlan ::
  "nl_view \<Rightarrow> 's switch_interface \<Rightarrow> u32 \<Rightarrow> u16 \<Rightarrow> bool \<Rightarrow> u16 \<Rightarrow> 's \<Rightarrow> int \<times> 's" where
  "add_ingress_vlan nl swi port_id vid tagged vrf_id s =
     (let (rv, s1) = sw_ingress_port_vlan_add swi port_id vid (\<not> tagged) vrf_id s
      in if rv < 0 then (rv, s1)
         else (let (rv, s2) = foreach_break (\<lambda>mem. sw_ingress_port_vlan_add swi mem vid (\<not> tagged) vrf_id)
                     (lag_ports nl port_id) rv s1
               in if rv < 0 then (rv, snd (remove_ingress_vlan nl swi port_id vid tagged vrf_id s2))
                  else (rv, s2)))"

definition add_ingress_vlan_link ::
  "nl_view \<Rightarrow> 's switch_interface \<Rightarrow> rtnl_link \<Rightarrow> u16 \<Rightarrow> bool \<Rightarrow> nl_vlan \<Rightarrow> 's \<Rightarrow> int \<times> 's" where
  "add_ingress_vlan_link nl swi link vid tagged v =
     add_ingress_vlan nl swi (get_port_id_link nl (Some link)) vid tagged (get_vrf_id vid v)"

definition remove_ingress_vlan_link ::
  "nl_view \<Rightarrow> 's switch_interface \<Rightarrow> rtnl_link \<Rightarrow> u16 \<Rightarrow> bool \<Rightarrow> 's \<Rightarrow> int \<times> 's" where
  "remove_ingress_vlan_link nl swi link vid pvid =
     remove_ingress_vlan nl swi (get_port_id_link nl (Some link)) vid pvid 0"

definition enable_vlan ::
  "nl_view \<Rightarrow> 's switch_interface \<Rightarrow> u32 \<Rightarrow> u16 \<Rightarrow> bool \<Rightarrow> u16 \<Rightarrow> 's \<Rightarrow> int \<times> 's" where
  "enable_vlan nl swi port_id vid tagged vrf_id s =
     (let (rv, s1) = add_ingress_vlan nl swi port_id vid tagged vrf_id s
      in if rv < 0 then (rv, s1)
         else (let (rv, s2) = sw_egress_port_vlan_add swi port_id vid (\<not> tagged) False s1
               in if rv < 0 then (rv, snd (remove_ingress_vlan nl swi port_id vid tagged vrf_id s2))
                  else (let (rv, s3) = foreach_break
                              (\<lambda>mem. sw_egress_port_vlan_add swi mem vid (\<not> tagged) False)
                              (lag_ports nl port_id) rv s2
                        in if rv < 0
                           then (let s4 = foreach_ignore (\<lambda>mem. sw_egress_port_vlan_remove swi mem vid)
                                       (lag_ports nl port_id) s3;
                                     s5 = snd (sw_egress_port_vlan_remove swi port_id vid s4)
                                 in (rv, snd (remove_ingress_vlan nl swi port_id vid tagged vrf_id s5)))
                           else (rv, s3))))"

definition disable_vlan ::
  "nl_view \<Rightarrow> 's switch_interface \<Rightarrow> u32 \<Rightarrow> u16 \<Rightarrow> bool \<Rightarrow> u16 \<Rightarrow> 's \<Rightarrow> int \<times> 's" where
  "disable_vlan nl swi port_id vid tagged vrf_id s =
     (let (rv, s1) = remove_ingress_vlan nl swi port_id vid tagged vrf_id s
      in if rv < 0 then (rv, s1)
         else (let (rv, s2) = sw_l2_addr_remove_all_in_vlan swi port_id vid s1
               in if rv < 0 then (rv, s2)
                  else sw_egress_port_vlan_remove swi port_id vid
                         (foreach_ignore (\<lambda>mem. sw_egress_port_vlan_remove swi mem vid)
                            (lag_ports nl port_id) s2)))"

subsection \<open>Reference-counted VLANs of a port\<close>

definition add_vlan :: "nl_view \<Rightarrow> 's switch_interface \<Rightarrow> rtnl_link \<Rightarrow> u16 \<Rightarrow> bool \<Rightarrow>
    nl_vlan \<times> 's \<Rightarrow> int \<times> (nl_vlan \<times> 's)" where
  "add_vlan nl swi link vid tagged st =
     (let (v, s) = st
      in if \<not> is_vid_valid vid then (- EINVAL, st)
         else
           (let vrf_id = get_vrf_id vid v;
                port_id = get_port_id_link nl (Some link)
            in if port_id = 0 then (- EINVAL, st)
               else case fmlookup (port_vlan v) (port_id, vid) of
                   Some n \<Rightarrow> (0, v\<lparr>port_vlan := fmupd (port_id, vid) (n + 1) (port_vlan v)\<rparr>, s)
                 | None \<Rightarrow>
                     if is_bridge_interface nl link then (0, st)
                     else (let (rv, s1) = enable_vlan nl swi port_id vid tagged vrf_id s
                           in if rv < 0 then (rv, v, s1)
                              else (rv, v\<lparr>port_vlan := fmupd (port_id, vid) 1 (port_vlan v)\<rparr>, s1))))"

definition remove_vlan :: "nl_view \<Rightarrow> 's switch_interface \<Rightarrow> rtnl_link \<Rightarrow> u16 \<Rightarrow> bool \<Rightarrow>
    nl_vlan \<times> 's \<Rightarrow> int \<times> (nl_vlan \<times> 's)" where
  "remove_vlan nl swi link vid tagged st =
     (let (v, s) = st;
          vrf_id = get_vrf_id vid v
      in if \<not> is_vid_valid vid then (- EINVAL, st)
         else
           (let port_id = get_port_id_link nl (Some link)
            in if port_id = 0 then (- EINVAL, st)
               else case fmlookup (port_vlan v) (port_id, vid) of
                   None \<Rightarrow> (- EINVAL, st)
                 | Some n \<Rightarrow>
                     if n - 1 > 0
                     then (0, v\<lparr>port_vlan := fmupd (port_id, vid) (n - 1) (port_vlan v)\<rparr>, s)
                     else (let v1 = v\<lparr>port_vlan := fmdrop (port_id, vid) (port_vlan v)\<rparr>
                           in if is_bridge_interface nl link then (0, v1, s)
                              else (let (rv, s1) = disable_vlan nl swi port_id vid tagged vrf_id s
                                    in (rv, v1, s1)))))"

text \<open>The VLANs of one port, ascending; the loops run over all of \<open>port_vlan\<close> and skip the others.\<close>

definition vlans_of_port :: "nl_vlan \<Rightarrow> u32 \<Rightarrow> u16 list" where
  "vlans_of_port v port_id =
     map snd (filter (\<lambda>k. fst k = port_id) (sorted_list_of_fset (fmdom (port_vlan v))))"

definition enable_vlans :: "nl_view \<Rightarrow> 's switch_interface \<Rightarrow> int \<Rightarrow> rtnl_link \<Rightarrow>
    nl_vlan \<times> 's \<Rightarrow> int \<times> (nl_vlan \<times> 's)" where
  "enable_vlans nl swi untagged_vid link st =
     (let (v, s) = st;
          port_id = get_port_id_link nl (Some link)
      in if port_id = 0 then (- EINVAL, st)
         else (0, v, foreach_ignore
                (\<lambda>vid. enable_vlan nl swi port_id vid (uint vid \<noteq> untagged_vid) (get_vrf_id vid v))
                (vlans_of_port v port_id) s))"

definition disable_vlans :: "nl_view \<Rightarrow> 's switch_interface \<Rightarrow> int \<Rightarrow> rtnl_link \<Rightarrow>
    nl_vlan \<times> 's \<Rightarrow> int \<times> (nl_vlan \<times> 's)" where
  "disable_vlans nl swi untagged_vid link st =
     (let (v, s) = st;
          port_id = get_port_id_link nl (Some link)
      in if port_id = 0 then (- EINVAL, st)
         else (0, v, foreach_ignore
                (\<lambda>vid. disable_vlan nl swi port_id vid (uint vid \<noteq> untagged_vid) (get_vrf_id vid v))
                (vlans_of_port v port_id) s))"

subsection \<open>Port VLAN ids\<close>

definition add_ingress_pvid :: "nl_view \<Rightarrow> 's switch_interface \<Rightarrow> rtnl_link \<Rightarrow> u16 \<Rightarrow>
    nl_vlan \<times> 's \<Rightarrow> int \<times> (nl_vlan \<times> 's)" where
  "add_ingress_pvid nl swi link pvid st =
     (let (v, s) = st;
          port_id = get_port_id_link nl (Some link)
      in if fmlookup (port_pvid v) port_id \<noteq> None then (- EINVAL, st)
         else (let v1 = v\<lparr>port_pvid := fmupd port_id pvid (port_pvid v)\<rparr>;
                   s1 = snd (foreach_break (\<lambda>mem. sw_ingress_port_pvid_add swi mem pvid)
                               (lag_ports nl port_id) 0 s);
                   (rv, s2) = sw_ingress_port_pvid_add swi port_id pvid s1
               in (rv, v1, s2)))"

definition remove_ingress_pvid :: "nl_view \<Rightarrow> 's switch_interface \<Rightarrow> rtnl_link \<Rightarrow> u16 \<Rightarrow>
    nl_vlan \<times> 's \<Rightarrow> int \<times> (nl_vlan \<times> 's)" where
  "remove_ingress_pvid nl swi link pvid st =
     (let (v, s) = st;
          port_id = get_port_id_link nl (Some link)
      in case fmlookup (port_pvid v) port_id of
           None \<Rightarrow> (- EINVAL, st)
         | Some configured \<Rightarrow>
             if configured \<noteq> pvid then (- EINVAL, st)
             else (let v1 = v\<lparr>port_pvid := fmdrop port_id (port_pvid v)\<rparr>;
                       s1 = snd (foreach_break (\<lambda>mem. sw_ingress_port_pvid_remove swi mem pvid)
                                   (lag_ports nl port_id) 0 s);
                       (rv, s2) = sw_ingress_port_pvid_remove swi port_id pvid s1
                   in (rv, v1, s2)))"

subsection \<open>VLANs of bridge ports\<close>

text \<open>The outer VLAN id of a VLAN device, 0 for other links.\<close>

definition outer_vid_of :: "rtnl_link \<Rightarrow> u16" where
  "outer_vid_of link = (if ln_type link = Some ''vlan'' then ln_vlan_id link else 0)"

definition bridge_vlan_forget :: "u32 \<Rightarrow> u16 \<Rightarrow> nl_vlan \<Rightarrow> nl_vlan" where
  "bridge_vlan_forget port_id vid v =
     (case fmlookup (bridge_vlan v) port_id of
        None \<Rightarrow> v
      | Some m \<Rightarrow>
          (let m1 = fmdrop vid m
           in v\<lparr>bridge_vlan := (if m1 = fmempty then fmdrop port_id (bridge_vlan v)
                                else fmupd port_id m1 (bridge_vlan v))\<rparr>))"

definition remove_bridge_vlan :: "nl_view \<Rightarrow> 's switch_interface \<Rightarrow> rtnl_link \<Rightarrow> u16 \<Rightarrow> bool \<Rightarrow> bool \<Rightarrow>
    nl_vlan \<times> 's \<Rightarrow> nl_vlan \<times> 's" where
  "remove_bridge_vlan nl swi link vid pvid tagged st =
     (let (v, s) = st;
          vrf_id = get_vrf_id vid v
      in if \<not> is_vid_valid vid then st
         else
           (let port_id = get_port_id_link nl (Some link)
            in if port_id = 0 then st
               else
                 (let outer_vid = outer_vid_of link;
                      v1 = bridge_vlan_forget port_id vid v;
                      v2 = (if pvid then v1\<lparr>port_pvid := fmdrop port_id (port_pvid v1)\<rparr> else v1)
                  in (v2, foreach_ignore
                        (\<lambda>port s.
                           let s1 = snd (sw_egress_bridge_port_vlan_remove swi port vid s)
                           in if outer_vid > 0
                              then sw_egress_port_push_vlan_remove swi port vid outer_vid
                                     (snd (sw_ingress_port_pop_vlan_remove swi port outer_vid vid vrf_id s1))
                              else sw_ingress_port_vlan_remove swi port vid pvid vrf_id s1)
                        (bridge_ports_of nl port_id) s))))"

definition bridge_vlan_record :: "u32 \<Rightarrow> u16 \<Rightarrow> u16 \<Rightarrow> bool \<Rightarrow> nl_vlan \<Rightarrow> nl_vlan" where
  "bridge_vlan_record port_id vid outer_vid tagged v =
     (case fmlookup (bridge_vlan v) port_id of
        None \<Rightarrow> v\<lparr>bridge_vlan := fmupd port_id (fmupd vid (outer_vid, tagged) fmempty) (bridge_vlan v)\<rparr>
      | Some m \<Rightarrow> v\<lparr>bridge_vlan := fmupd port_id (fm_emplace vid (outer_vid, tagged) m) (bridge_vlan v)\<rparr>)"

definition add_bridge_vlan :: "nl_view \<Rightarrow> 's switch_interface \<Rightarrow> rtnl_link \<Rightarrow> u16 \<Rightarrow> bool \<Rightarrow> bool \<Rightarrow>
    nl_vlan \<times> 's \<Rightarrow> int \<times> (nl_vlan \<times> 's)" where
  "add_bridge_vlan nl swi link vid pvid tagged st =
     (let (v, s) = st;
          vrf_id = get_vrf_id vid v
      in if \<not> is_vid_valid vid then (- EINVAL, st)
         else
           (let port_id = get_port_id_link nl (Some link)
            in if port_id = 0 then (- EINVAL, st)
               else
                 (let outer_vid = outer_vid_of link;
                      v1 = bridge_vlan_record port_id vid outer_vid tagged v;
                      v2 = (if pvid then v1\<lparr>port_pvid := fm_emplace port_id vid (port_pvid v1)\<rparr> else v1);
                      (rv, s1) = foreach_break
                        (\<lambda>port s.
                           let (rv, s1) = sw_egress_bridge_port_vlan_add swi port vid (\<not> tagged) s
                           in if rv < 0 then (rv, s1)
                              else if outer_vid > 0
                              then (let (rv, s2) = sw_egress_port_push_vlan_add swi port vid outer_vid s1
                                    in if rv < 0 then (rv, s2)
                                       else sw_ingress_port_pop_vlan_add swi port outer_vid vid vrf_id s2)
                              else sw_ingress_port_vlan_add swi port vid pvid vrf_id s1)
                        (bridge_ports_of nl port_id) 0 s
                  in if rv < 0 then (rv, remove_bridge_vlan nl swi link vid pvid tagged (v2, s1))
                     else (rv, v2, s1))))"

definition update_egress_bridge_vlan :: "nl_view \<Rightarrow> 's switch_interface \<Rightarrow> rtnl_link \<Rightarrow> u16 \<Rightarrow> bool \<Rightarrow>
    nl_vlan \<times> 's \<Rightarrow> int \<times> (nl_vlan \<times> 's)" where
  "update_egress_bridge_vlan nl swi link vid untagged st =
     (let (v, s) = st
      in if \<not> is_vid_valid vid then (- EINVAL, st)
         else
           (let port_id = get_port_id_link nl (Some link)
            in if port_id = 0 then (- EINVAL, st)
               else case fmlookup (bridge_vlan v) port_id of
                   None \<Rightarrow> (- EINVAL, st)
                 | Some m \<Rightarrow>
                     (case fmlookup m vid of
                        None \<Rightarrow> (- EINVAL, st)
                      | Some (outer_vid, _) \<Rightarrow>
                          (let v1 = v\<lparr>bridge_vlan :=
                                 fmupd port_id (fmupd vid (outer_vid, \<not> untagged) m) (bridge_vlan v)\<rparr>;
                               (rv, s1) = foreach_break
                                 (\<lambda>port. sw_egress_port_vlan_add swi port vid untagged True)
                                 (bridge_ports_of nl port_id) 0 s
                           in (rv, v1, s1)))))"

subsection \<open>VRFs\<close>

definition get_vid :: "nl_view \<Rightarrow> int \<Rightarrow> rtnl_link \<Rightarrow> u16" where
  "get_vid nl untagged_vid link =
     (if \<not> is_bridge_interface nl link \<and> get_port_id_link nl (Some link) = 0 then 0
      else if ln_family link = AF_BRIDGE then word_of_int untagged_vid
      else if rtnl_link_is_vlan link then ln_vlan_id link
      else word_of_int untagged_vid)"

definition port_of_neigh :: "nl_view \<Rightarrow> rtnl_neigh \<Rightarrow> u32" where
  "port_of_neigh nl n = get_port_id_link nl (get_link_by_ifindex nl (nb_ifindex n))"

definition vrf_attach :: "nl_view \<Rightarrow> 's switch_interface \<Rightarrow> int \<Rightarrow> rtnl_link \<Rightarrow> nl_vlan \<times> 's \<Rightarrow> nl_vlan \<times> 's" where
  "vrf_attach nl swi untagged_vid new_link st =
     (let (v, s) = st;
          vid = get_vid nl untagged_vid new_link
      in if vid = 0 then st
         else
           (let vrf0 = get_vrf_id vid v;
                vrf = (if vrf0 = 0 then get_vrf_table_id nl new_link else vrf0);
                v1 = (if vrf0 = 0 then v\<lparr>vlan_vrf := fm_emplace vid vrf (vlan_vrf v)\<rparr> else v);
                fdb_entries = search_fdb nl vid None;
                s1 = foreach_ignore (\<lambda>entry. remove_ingress_vlan nl swi (port_of_neigh nl entry) vid True 0)
                       fdb_entries s;
                s2 = foreach_ignore (\<lambda>entry. add_ingress_vlan nl swi (port_of_neigh nl entry) vid True vrf)
                       fdb_entries s1
            in (v1, s2)))"

definition vrf_detach :: "nl_view \<Rightarrow> 's switch_interface \<Rightarrow> int \<Rightarrow> rtnl_link \<Rightarrow> nl_vlan \<times> 's \<Rightarrow> nl_vlan \<times> 's" where
  "vrf_detach nl swi untagged_vid new_link st =
     (let (v, s) = st;
          vid = get_vid nl untagged_vid new_link
      in if vid = 0 then st
         else case fmlookup (vlan_vrf v) vid of
             None \<Rightarrow> st
           | Some vrf \<Rightarrow>
               (let fdb_entries = search_fdb nl vid None;
                    s1 = foreach_ignore (\<lambda>entry. remove_ingress_vlan nl swi (port_of_neigh nl entry) vid True vrf)
                           fdb_entries s;
                    s2 = foreach_ignore (\<lambda>entry. add_ingress_vlan nl swi (port_of_neigh nl entry) vid True 0)
                           fdb_entries s1
                in (v\<lparr>vlan_vrf := fmdrop vid (vlan_vrf v)\<rparr>, s2)))"

subsection \<open>Members joining and leaving a bond\<close>

definition bond_on_bridge :: "nl_view \<Rightarrow> rtnl_link \<Rightarrow> bool" where
  "bond_on_bridge nl bond \<longleftrightarrow> ln_master bond \<noteq> 0 \<and> get_link nl (ln_ifindex bond) AF_BRIDGE \<noteq> None"

definition pvid_of :: "nl_vlan \<Rightarrow> u32 \<Rightarrow> u16" where
  "pvid_of v port_id = (case fmlookup (port_pvid v) port_id of None \<Rightarrow> 0 | Some p \<Rightarrow> p)"

text \<open>
  The last \<open>ingress_port_vlan_add\<close> and the \<open>ingress_port_vlan_remove\<close> pass the number \<open>pvid\<close> for a
  flag, so any port VLAN id other than 0 counts as true.
\<close>

definition bond_member_attached :: "nl_view \<Rightarrow> 's switch_interface \<Rightarrow> int \<Rightarrow> rtnl_link \<Rightarrow> rtnl_link \<Rightarrow>
    nl_vlan \<Rightarrow> 's \<Rightarrow> int \<times> 's" where
  "bond_member_attached nl swi untagged_vid bond member v s =
     (let bond_id = get_port_id_link nl (Some bond);
          port_id = get_port_id_link nl (Some member)
      in if bond_id = 0 then (- EINVAL, s)
         else if port_id = 0 then (- EINVAL, s)
         else if bond_on_bridge nl bond
         then (case fmlookup (bridge_vlan v) bond_id of
                 None \<Rightarrow> (0, s)
               | Some vlans \<Rightarrow>
                   (let pvid = pvid_of v bond_id
                    in (0, foreach_ignore
                          (\<lambda>(vid, outer_vid, tagged) s.
                             let vrf_id = get_vrf_id vid v;
                                 s1 = snd (sw_egress_bridge_port_vlan_add swi port_id vid (\<not> tagged) s);
                                 s2 = snd (sw_ingress_port_vlan_add swi port_id vid (vid = pvid) vrf_id s1)
                             in if outer_vid > 0
                                then sw_ingress_port_pop_vlan_add swi port_id outer_vid vid vrf_id
                                       (snd (sw_egress_port_push_vlan_add swi port_id vid outer_vid s2))
                                else sw_ingress_port_vlan_add swi port_id vid (pvid \<noteq> 0) vrf_id s2)
                          (sorted_list_of_fmap vlans) s)))
         else (0, foreach_ignore
                (\<lambda>vid. enable_vlan nl swi port_id vid (uint vid \<noteq> untagged_vid) (get_vrf_id vid v))
                (vlans_of_port v bond_id) s))"

definition bond_member_detached :: "nl_view \<Rightarrow> 's switch_interface \<Rightarrow> int \<Rightarrow> rtnl_link \<Rightarrow> rtnl_link \<Rightarrow>
    nl_vlan \<Rightarrow> 's \<Rightarrow> int \<times> 's" where
  "bond_member_detached nl swi untagged_vid bond member v s =
     (let bond_id = get_port_id_link nl (Some bond);
          port_id = get_port_id_link nl (Some member)
      in if bond_id = 0 then (- EINVAL, s)
         else if port_id = 0 then (- EINVAL, s)
         else if bond_on_bridge nl bond
         then (case fmlookup (bridge_vlan v) bond_id of
                 None \<Rightarrow> (0, s)
               | Some vlans \<Rightarrow>
                   (let pvid = pvid_of v bond_id
                    in (0, foreach_ignore
                          (\<lambda>(vid, outer_vid, tagged) s.
                             let vrf_id = get_vrf_id vid v;
                                 s1 = snd (sw_egress_bridge_port_vlan_remove swi port_id vid s)
                             in if outer_vid > 0
                                then sw_egress_port_push_vlan_remove swi port_id vid outer_vid
                                       (snd (sw_ingress_port_pop_vlan_remove swi port_id outer_vid vid vrf_id s1))
                                else sw_ingress_port_vlan_remove swi port_id vid (pvid \<noteq> 0) vrf_id s1)
                          (sorted_list_of_fmap vlans) s)))
         else (0, foreach_ignore
                (\<lambda>vid. disable_vlan nl swi port_id vid (uint vid \<noteq> untagged_vid) (get_vrf_id vid v))
                (vlans_of_port v bond_id) s))"

end
