(* ===== verification/Vlan_Table.thy ===== *)
theory Vlan_Table
  imports Switch_Interface
begin

text \<open>
  What the netlink side may rely on when it changes the VLAN membership of ports: the contract
  \<open>vlan_table\<close> between \<open>nl_vlan\<close> and the switch interface, and its proof for class \<open>controller\<close>.

  The switch has an ingress table (VLAN flows) and egress interface groups; both are sets of pairs
  of port and VLAN here, computed by replaying the messages that reached the switch. A disable message
  removes the pair whatever the VRF it names. The laws speak about every outcome: a call may fail
  before or after the switch took the change.
\<close>

type_synonym membership = "(u32 \<times> u16) set"

definition ing_step :: "ofmsg \<Rightarrow> membership \<Rightarrow> membership" where
  "ing_step m S =
     (case m of
        Flow (Enable_port_vid_ingress p v vrf stacked) \<Rightarrow> if stacked then S else insert (p, v) S
      | Flow (Disable_port_vid_ingress p v vrf stacked) \<Rightarrow> if stacked then S else S - {(p, v)}
      | _ \<Rightarrow> S)"

definition egr_step :: "ofmsg \<Rightarrow> membership \<Rightarrow> membership" where
  "egr_step m S =
     (case m of
        Group (Enable_group_l2_interface p v untagged update) \<Rightarrow> insert (p, v) S
      | Group (Enable_group_l2_trunk_interface p v untagged update) \<Rightarrow> insert (p, v) S
      | Group (Disable_group_l2_interface p v) \<Rightarrow> S - {(p, v)}
      | Group (Disable_group_l2_trunk_interface p v) \<Rightarrow> S - {(p, v)}
      | _ \<Rightarrow> S)"

definition ing_members :: "controller \<Rightarrow> membership" where
  "ing_members c = fold ing_step (sent (trace c)) {}"

definition egr_members :: "controller \<Rightarrow> membership" where
  "egr_members c = fold egr_step (sent (trace c)) {}"

definition is_vlan_removal :: "ofmsg \<Rightarrow> bool" where
  "is_vlan_removal m =
     (case m of
        Flow (Disable_port_vid_ingress p v vrf stacked) \<Rightarrow> True
      | Flow (Disable_port_pvid_ingress p v) \<Rightarrow> True
      | Group (Disable_group_l2_interface p v) \<Rightarrow> True
      | Group (Disable_group_l2_trunk_interface p v) \<Rightarrow> True
      | Barrier \<Rightarrow> True
      | _ \<Rightarrow> False)"

subsection \<open>The contract\<close>

text \<open>
  \<open>settles\<close>: the call leads from \<open>old\<close> to \<open>new\<close> when it reports success and to one of them when it
  reports a failure.
\<close>

definition settles :: "int \<Rightarrow> 'a \<Rightarrow> 'a \<Rightarrow> 'a \<Rightarrow> bool" where
  "settles rv old new actual \<longleftrightarrow> (actual = new \<or> rv < 0 \<and> actual = old)"

locale vlan_table =
  fixes swi :: "'s switch_interface"
    and ing :: "'s \<Rightarrow> membership"
    and egr :: "'s \<Rightarrow> membership"
  assumes ing_add: "settles (fst (sw_ingress_port_vlan_add swi p v pvid vrf s)) (ing s)
        (insert (p, v) (ing s)) (ing (snd (sw_ingress_port_vlan_add swi p v pvid vrf s)))"
    and ing_add_egr: "egr (snd (sw_ingress_port_vlan_add swi p v pvid vrf s)) = egr s"
    and ing_remove: "settles (fst (sw_ingress_port_vlan_remove swi p v pvid vrf s)) (ing s)
        (ing s - {(p, v)}) (ing (snd (sw_ingress_port_vlan_remove swi p v pvid vrf s)))"
    and ing_remove_egr: "egr (snd (sw_ingress_port_vlan_remove swi p v pvid vrf s)) = egr s"
    and egr_add: "settles (fst (sw_egress_port_vlan_add swi p v untagged update s)) (egr s)
        (insert (p, v) (egr s)) (egr (snd (sw_egress_port_vlan_add swi p v untagged update s)))"
    and egr_add_ing: "ing (snd (sw_egress_port_vlan_add swi p v untagged update s)) = ing s"
    and egr_remove: "settles (fst (sw_egress_port_vlan_remove swi p v s)) (egr s)
        (egr s - {(p, v)}) (egr (snd (sw_egress_port_vlan_remove swi p v s)))"
    and egr_remove_ing: "ing (snd (sw_egress_port_vlan_remove swi p v s)) = ing s"
    and flush_ing: "ing (snd (sw_l2_addr_remove_all_in_vlan swi p v s)) = ing s"
    and flush_egr: "egr (snd (sw_l2_addr_remove_all_in_vlan swi p v s)) = egr s"

text \<open>
  A switch that takes every removal while it is attached; without a datapath nothing is done.
\<close>

locale vlan_table_removing = vlan_table +
  fixes attached :: "'s \<Rightarrow> bool"
  assumes detached_ing_add:
      "\<not> attached s \<Longrightarrow> fst (sw_ingress_port_vlan_add swi p v pvid vrf s) < 0 \<and>
         snd (sw_ingress_port_vlan_add swi p v pvid vrf s) = s"
    and attached_ing_add: "attached (snd (sw_ingress_port_vlan_add swi p v pvid vrf s)) = attached s"
    and attached_ing_remove: "attached (snd (sw_ingress_port_vlan_remove swi p v pvid vrf s)) = attached s"
    and attached_egr_add: "attached (snd (sw_egress_port_vlan_add swi p v untagged update s)) = attached s"
    and attached_egr_remove: "attached (snd (sw_egress_port_vlan_remove swi p v s)) = attached s"
    and ing_remove_ok: "attached s \<Longrightarrow> fst (sw_ingress_port_vlan_remove swi p v pvid vrf s) \<ge> 0"
    and egr_remove_ok: "attached s \<Longrightarrow> fst (sw_egress_port_vlan_remove swi p v s) \<ge> 0"
    and ing_add_failed: "fst (sw_ingress_port_vlan_add swi p v False vrf s) < 0 \<Longrightarrow>
         ing (snd (sw_ingress_port_vlan_add swi p v False vrf s)) = ing s"
    and egr_add_failed: "fst (sw_egress_port_vlan_add swi p v untagged update s) < 0 \<Longrightarrow>
         egr (snd (sw_egress_port_vlan_add swi p v untagged update s)) = egr s"

subsection \<open>Class \<open>controller\<close> keeps it\<close>

lemma ing_step_simps [simp]:
  "ing_step (Flow (Enable_port_vid_ingress p v vrf stacked)) S = (if stacked then S else insert (p, v) S)"
  "ing_step (Flow (Disable_port_vid_ingress p v vrf stacked)) S = (if stacked then S else S - {(p, v)})"
  "ing_step (Flow (Enable_port_pvid_ingress p v)) S = S"
  "ing_step (Flow (Disable_port_pvid_ingress p v)) S = S"
  "ing_step (Flow (Remove_bridging_unicast_vlan_all p v)) S = S"
  "ing_step (Group g) S = S"
  "ing_step Barrier S = S"
  by (simp_all add: ing_step_def)

lemma egr_step_simps [simp]:
  "egr_step (Group (Enable_group_l2_interface p v untagged update)) S = insert (p, v) S"
  "egr_step (Group (Enable_group_l2_trunk_interface p v untagged update)) S = insert (p, v) S"
  "egr_step (Group (Disable_group_l2_interface p v)) S = S - {(p, v)}"
  "egr_step (Group (Disable_group_l2_trunk_interface p v)) S = S - {(p, v)}"
  "egr_step (Flow f) S = S"
  "egr_step Barrier S = S"
  by (simp_all add: egr_step_def)

lemma egr_step_if [simp]:
  "egr_step (Group (if b then Enable_group_l2_trunk_interface p v u d else Enable_group_l2_interface p v u d)) S =
     insert (p, v) S"
  "egr_step (Group (if b then Disable_group_l2_trunk_interface p v else Disable_group_l2_interface p v)) S =
     S - {(p, v)}"
  by simp_all

lemma is_vlan_removal_simps [simp]:
  "is_vlan_removal (Flow (Disable_port_vid_ingress p v vrf stacked))"
  "is_vlan_removal (Flow (Disable_port_pvid_ingress p v))"
  "is_vlan_removal (Group (if b then Disable_group_l2_trunk_interface p v else Disable_group_l2_interface p v))"
  "is_vlan_removal Barrier"
  by (simp_all add: is_vlan_removal_def)

text \<open>
  Replaying the messages of one call. A call that fails has sent a proper prefix of them.
\<close>

lemma replay_settles:
  assumes f: "\<And>c. f c = fold step (sent (trace c)) {}"
    and new: "fold step ms (f c) = new"
    and prefixes: "\<And>ms1 m ms2. ms = ms1 @ m # ms2 \<Longrightarrow> fold step ms1 (f c) = f c \<or> fold step ms1 (f c) = new"
  shows "settles (fst (of_send env ms c)) (f c) new (f (snd (of_send env ms c)))"
proof (rule of_send_cases [of env ms c])
  fix e ms1 m ms2
  assume "ms = ms1 @ m # ms2" "fst (of_send env ms c) = catch_rv e"
    "trace (snd (of_send env ms c)) = trace c @ map Sent ms1 @ [Send_failed m e]"
  then show ?thesis using prefixes [of ms1 m ms2] by (auto simp: settles_def f)
qed (use new in \<open>auto simp: settles_def f\<close>)

lemma replay_frame:
  assumes f: "\<And>c. f c = fold step (sent (trace c)) {}"
    and idle: "\<And>m S. m \<in> set ms \<Longrightarrow> step m S = S"
  shows "f (snd (of_send env ms c)) = f c"
proof -
  have idle_fold: "set ms1 \<subseteq> set ms \<Longrightarrow> fold step ms1 S = S" for ms1 S
    by (induction ms1) (auto simp: idle)
  obtain ms1 ms2 where "ms = ms1 @ ms2" "sent (trace (snd (of_send env ms c))) = sent (trace c) @ ms1"
    using sent_of_send_prefix [of ms env c] by blast
  then show ?thesis by (simp add: f idle_fold)
qed

lemmas ing_settles = replay_settles [OF ing_members_def]
  and egr_settles = replay_settles [OF egr_members_def]
  and ing_frame = replay_frame [OF ing_members_def]
  and egr_frame = replay_frame [OF egr_members_def]

lemma proper_prefix:
  "[a] = ms1 @ m # ms2 \<longleftrightarrow> ms1 = [] \<and> m = a \<and> ms2 = []"
  "[a, b] = ms1 @ m # ms2 \<longleftrightarrow> ms1 = [] \<and> m = a \<and> ms2 = [b] \<or> ms1 = [a] \<and> m = b \<and> ms2 = []"
  "[a, b, c] = ms1 @ m # ms2 \<longleftrightarrow> ms1 = [] \<and> m = a \<and> ms2 = [b, c] \<or>
     ms1 = [a] \<and> m = b \<and> ms2 = [c] \<or> ms1 = [a, b] \<and> m = c \<and> ms2 = []"
  by (auto simp: append_eq_Cons_conv Cons_eq_append_conv)

interpretation ctl_vlans: vlan_table "controller_swi env" ing_members egr_members
  for env
proof (unfold_locales, unfold controller_swi_sel)
  fix p v pvid vrf c untagged update
  show "settles (fst (ingress_port_vlan_add env p v pvid vrf c)) (ing_members c)
      (insert (p, v) (ing_members c)) (ing_members (snd (ingress_port_vlan_add env p v pvid vrf c)))"
    unfolding ingress_port_vlan_add_def by (rule ing_settles) (auto simp: proper_prefix split: if_splits)
  show "egr_members (snd (ingress_port_vlan_add env p v pvid vrf c)) = egr_members c"
    unfolding ingress_port_vlan_add_def by (rule egr_frame) (auto split: if_splits)
  show "settles (fst (ingress_port_vlan_remove env p v pvid vrf c)) (ing_members c)
      (ing_members c - {(p, v)}) (ing_members (snd (ingress_port_vlan_remove env p v pvid vrf c)))"
    unfolding ingress_port_vlan_remove_def by (rule ing_settles) (auto simp: proper_prefix split: if_splits)
  show "egr_members (snd (ingress_port_vlan_remove env p v pvid vrf c)) = egr_members c"
    unfolding ingress_port_vlan_remove_def by (rule egr_frame) (auto split: if_splits)
  show "settles (fst (egress_port_vlan_add env p v untagged update c)) (egr_members c)
      (insert (p, v) (egr_members c)) (egr_members (snd (egress_port_vlan_add env p v untagged update c)))"
    unfolding egress_port_vlan_add_def by (rule egr_settles) (auto simp: proper_prefix)
  show "ing_members (snd (egress_port_vlan_add env p v untagged update c)) = ing_members c"
    unfolding egress_port_vlan_add_def by (rule ing_frame) auto
  show "settles (fst (egress_port_vlan_remove env p v c)) (egr_members c)
      (egr_members c - {(p, v)}) (egr_members (snd (egress_port_vlan_remove env p v c)))"
    unfolding egress_port_vlan_remove_def by (rule egr_settles) (auto simp: proper_prefix)
  show "ing_members (snd (egress_port_vlan_remove env p v c)) = ing_members c"
    unfolding egress_port_vlan_remove_def by (rule ing_frame) auto
  show "ing_members (snd (l2_addr_remove_all_in_vlan env p v c)) = ing_members c"
    unfolding l2_addr_remove_all_in_vlan_def by (rule ing_frame) auto
  show "egr_members (snd (l2_addr_remove_all_in_vlan env p v c)) = egr_members c"
    unfolding l2_addr_remove_all_in_vlan_def by (rule egr_frame) auto
qed

text \<open>
  The environment with every removal and every barrier made to succeed; an environment in which they
  succeed anyway is unchanged.
\<close>

definition removing_env :: "ofenv \<Rightarrow> ofenv" where
  "removing_env env = env\<lparr>send_outcome := (\<lambda>h m.
     case send_outcome env h m of
       Inr r \<Rightarrow> Inr r
     | Inl e \<Rightarrow> if is_vlan_removal m then Inr 0 else Inl e)\<rparr>"

lemma removing_env_id:
  assumes "\<And>h m. is_vlan_removal m \<Longrightarrow> \<exists>r. send_outcome env h m = Inr r"
  shows "removing_env env = env"
proof -
  have "(case send_outcome env h m of Inr r \<Rightarrow> Inr r
     | Inl e \<Rightarrow> if is_vlan_removal m then Inr 0 else Inl e) = send_outcome env h m" for h m
    using assms [of m h] by (auto split: sum.split)
  then show ?thesis by (simp add: removing_env_def)
qed

lemma removing_env_simps [simp]:
  "is_vlan_removal m \<Longrightarrow> \<exists>r. send_outcome (removing_env env) h m = Inr r"
  "dpt_found (removing_env env) = dpt_found env"
  by (auto simp: removing_env_def split: sum.split)

lemma removal_send_all:
  assumes "\<And>m. m \<in> set ms \<Longrightarrow> is_vlan_removal m"
  shows "fst (send_all (removing_env env) ms c) = Inr 0"
  using assms
proof (induction ms arbitrary: c)
  case (Cons m ms)
  then obtain r where "send_outcome (removing_env env) (trace c) m = Inr r"
    by (meson list.set_intros(1) removing_env_simps(1))
  then show ?case using Cons by (simp add: send_def)
qed simp

lemma removal_of_send:
  assumes "\<And>m. m \<in> set ms \<Longrightarrow> is_vlan_removal m" and "dpt_found env (dptid c)"
  shows "fst (of_send (removing_env env) ms c) \<ge> 0"
proof -
  obtain c' where "send_all (removing_env env) ms c = (Inr 0, c')"
    using removal_send_all [OF assms(1)] by (metis prod.collapse)
  then show ?thesis using assms(2) by (simp add: of_send_def with_dpt_def)
qed

lemma replay_single_failed:
  assumes "fst (of_send env [m] c) < 0"
  shows "ing_members (snd (of_send env [m] c)) = ing_members c"
    and "egr_members (snd (of_send env [m] c)) = egr_members c"
  by (rule of_send_cases [of env "[m]" c],
      use assms in \<open>auto simp: ing_members_def egr_members_def proper_prefix\<close>)+

lemma dptid_send_all [frame]: "dptid (snd (send_all env ms c)) = dptid c"
  by (induction ms arbitrary: c) (auto simp: send_def emit_def split: sum.split)

lemma dptid_of_send [frame]: "dptid (snd (of_send env ms c)) = dptid c"
  using dptid_send_all [of env ms c]
  by (auto simp: of_send_def with_dpt_def try_catch_def split: prod.split sum.split)

interpretation ctl_vlans_removing: vlan_table_removing "controller_swi (removing_env env)"
    ing_members egr_members "\<lambda>c. dpt_found env (dptid c)"
  for env
proof (unfold_locales, unfold controller_swi_sel)
  fix p v pvid vrf c untagged update
  let ?e = "removing_env env"
  show "\<not> dpt_found env (dptid c) \<Longrightarrow> fst (ingress_port_vlan_add ?e p v pvid vrf c) < 0 \<and>
      snd (ingress_port_vlan_add ?e p v pvid vrf c) = c"
    by (simp add: ingress_port_vlan_add_def of_send_def with_dpt_def try_catch_def)
  show "dpt_found env (dptid (snd (ingress_port_vlan_add ?e p v pvid vrf c))) = dpt_found env (dptid c)"
    "dpt_found env (dptid (snd (ingress_port_vlan_remove ?e p v pvid vrf c))) = dpt_found env (dptid c)"
    "dpt_found env (dptid (snd (egress_port_vlan_add ?e p v untagged update c))) = dpt_found env (dptid c)"
    "dpt_found env (dptid (snd (egress_port_vlan_remove ?e p v c))) = dpt_found env (dptid c)"
    by (simp_all add: ctl_vlan_send_defs frame)
  show "0 \<le> fst (ingress_port_vlan_remove ?e p v pvid vrf c)" if "dpt_found env (dptid c)"
    unfolding ingress_port_vlan_remove_def
    by (rule removal_of_send) (use that in \<open>auto split: if_splits\<close>)
  show "0 \<le> fst (egress_port_vlan_remove ?e p v c)" if "dpt_found env (dptid c)"
    unfolding egress_port_vlan_remove_def
    by (rule removal_of_send) (use that in auto)
  show "ing_members (snd (ingress_port_vlan_add ?e p v False vrf c)) = ing_members c"
    if "fst (ingress_port_vlan_add ?e p v False vrf c) < 0"
    using that replay_single_failed(1) [of ?e "Flow (Enable_port_vid_ingress p v vrf False)" c]
    by (simp add: ingress_port_vlan_add_def)
  show "egr_members (snd (egress_port_vlan_add ?e p v untagged update c)) = egr_members c"
    if "fst (egress_port_vlan_add ?e p v untagged update c) < 0"
    using that unfolding egress_port_vlan_add_def by (rule replay_single_failed(2))
qed

end
