(* ===== verification/Nl_Vlan_Table.thy ===== *)
theory Nl_Vlan_Table
  imports Nl_Vlan Vlan_Table
begin

text \<open>
  \<open>nl_vlan\<close> on top of the contract \<open>vlan_table\<close>: what its reference counts say about the switch. The
  lemmas are proved once in the contract and reach the controller through its interpretations.
\<close>

subsection \<open>Footprints\<close>

definition same_outside ::
  "('s \<Rightarrow> membership) \<Rightarrow> ('s \<Rightarrow> membership) \<Rightarrow> membership \<Rightarrow> 's \<Rightarrow> 's \<Rightarrow> bool" where
  "same_outside ing egr T s s' \<longleftrightarrow>
     (\<forall>x. x \<notin> T \<longrightarrow> (x \<in> ing s' \<longleftrightarrow> x \<in> ing s) \<and> (x \<in> egr s' \<longleftrightarrow> x \<in> egr s))"

lemma same_outside_refl [simp]: "same_outside ing egr T s s"
  by (simp add: same_outside_def)

lemma same_outside_trans:
  "same_outside ing egr T s s' \<Longrightarrow> same_outside ing egr T s' s'' \<Longrightarrow> same_outside ing egr T s s''"
  by (simp add: same_outside_def)

lemma same_outside_ignore:
  assumes "same_outside ing egr T s s'"
    and "\<And>x s. x \<in> set xs \<Longrightarrow> same_outside ing egr T s (snd (f x s))"
  shows "same_outside ing egr T s (foreach_ignore f xs s')"
  by (rule foreach_ignore_inv [where P = "same_outside ing egr T s"])
     (auto intro: same_outside_trans assms)

lemma same_outside_break:
  assumes "same_outside ing egr T s s'"
    and "\<And>x s. x \<in> set xs \<Longrightarrow> same_outside ing egr T s (snd (f x s))"
  shows "same_outside ing egr T s (snd (foreach_break f xs rv s'))"
  by (rule foreach_break_inv [where P = "same_outside ing egr T s"])
     (auto intro: same_outside_trans assms)

lemma settlesD:
  "settles rv A (insert x A) B \<Longrightarrow> B - {x} = A - {x}"
  "settles rv A (A - {x}) B \<Longrightarrow> B - {x} = A - {x}"
  by (auto simp: settles_def)

lemma same_outside_settles:
  "ing s' - {x} = ing s - {x} \<Longrightarrow> egr s' - {x} = egr s - {x} \<Longrightarrow> x \<in> T \<Longrightarrow>
     same_outside ing egr T s s'"
  unfolding same_outside_def by blast

definition touched :: "nl_view \<Rightarrow> u32 \<Rightarrow> u16 \<Rightarrow> membership" where
  "touched nl p v = {(q, v) |q. q = p \<or> q \<in> set (lag_ports nl p)}"

lemma touched_self [simp]: "(p, v) \<in> touched nl p v"
  and touched_member [simp]: "q \<in> set (lag_ports nl p) \<Longrightarrow> (q, v) \<in> touched nl p v"
  by (auto simp: touched_def)

subsection \<open>Enabling and disabling a VLAN\<close>

context vlan_table
begin

lemma call_outside:
  "(p, v) \<in> T \<Longrightarrow> same_outside ing egr T s (snd (sw_ingress_port_vlan_add swi p v pvid vrf s))"
  "(p, v) \<in> T \<Longrightarrow> same_outside ing egr T s (snd (sw_ingress_port_vlan_remove swi p v pvid vrf s))"
  "(p, v) \<in> T \<Longrightarrow> same_outside ing egr T s (snd (sw_egress_port_vlan_add swi p v untagged update s))"
  "(p, v) \<in> T \<Longrightarrow> same_outside ing egr T s (snd (sw_egress_port_vlan_remove swi p v s))"
  "same_outside ing egr T s (snd (sw_l2_addr_remove_all_in_vlan swi p v s))"
proof -
  note outside = same_outside_settles [where x = "(p, v)" and T = T and s = s and ing = ing and egr = egr]
  show "(p, v) \<in> T \<Longrightarrow> same_outside ing egr T s (snd (sw_ingress_port_vlan_add swi p v pvid vrf s))"
    by (rule outside) (simp_all add: settlesD(1) [OF ing_add] ing_add_egr)
  show "(p, v) \<in> T \<Longrightarrow> same_outside ing egr T s (snd (sw_ingress_port_vlan_remove swi p v pvid vrf s))"
    by (rule outside) (simp_all add: settlesD(2) [OF ing_remove] ing_remove_egr)
  show "(p, v) \<in> T \<Longrightarrow> same_outside ing egr T s (snd (sw_egress_port_vlan_add swi p v untagged update s))"
    by (rule outside) (simp_all add: settlesD(1) [OF egr_add] egr_add_ing)
  show "(p, v) \<in> T \<Longrightarrow> same_outside ing egr T s (snd (sw_egress_port_vlan_remove swi p v s))"
    by (rule outside) (simp_all add: settlesD(2) [OF egr_remove] egr_remove_ing)
qed (simp add: same_outside_def flush_ing flush_egr)

lemma ingress_removed:
  "0 \<le> fst (sw_ingress_port_vlan_remove swi p v pvid vrf s) \<Longrightarrow>
     (p, v) \<notin> ing (snd (sw_ingress_port_vlan_remove swi p v pvid vrf s))"
  using ing_remove [of p v pvid vrf s] by (auto simp: settles_def)

lemma egress_removed:
  "0 \<le> fst (sw_egress_port_vlan_remove swi p v s) \<Longrightarrow>
     (p, v) \<notin> egr (snd (sw_egress_port_vlan_remove swi p v s))"
  using egr_remove [of p v s] by (auto simp: settles_def)

lemmas call_outside_trans = same_outside_trans [OF _ call_outside(1)] same_outside_trans [OF _ call_outside(2)]
  same_outside_trans [OF _ call_outside(3)] same_outside_trans [OF _ call_outside(4)]
  same_outside_trans [OF _ call_outside(5)]

lemma remove_ingress_outside:
  assumes "same_outside ing egr (touched nl p v) s s'"
  shows "same_outside ing egr (touched nl p v) s (snd (remove_ingress_vlan nl swi p v t vrf s'))"
  unfolding remove_ingress_vlan_def
  by (intro call_outside_trans(2) same_outside_ignore assms) (simp_all add: call_outside)

lemma add_ingress_outside:
  "same_outside ing egr (touched nl p v) s (snd (add_ingress_vlan nl swi p v t vrf s))"
  unfolding add_ingress_vlan_def
  by (auto simp: Let_def split_beta
      intro!: same_outside_break remove_ingress_outside call_outside)

lemma enable_outside:
  "same_outside ing egr (touched nl p v) s (snd (enable_vlan nl swi p v t vrf s))"
  unfolding enable_vlan_def
  by (auto simp: Let_def split_beta
      intro!: same_outside_break same_outside_ignore remove_ingress_outside call_outside
        call_outside_trans(3,4) add_ingress_outside)

lemma disable_outside:
  "same_outside ing egr (touched nl p v) s (snd (disable_vlan nl swi p v t vrf s))"
  unfolding disable_vlan_def
  by (auto simp: Let_def split_beta
      intro!: same_outside_ignore remove_ingress_outside call_outside call_outside_trans(4,5))

text \<open>Success means that the port is a member on both sides, or on neither.\<close>

lemma add_ingress_ok:
  assumes "0 \<le> fst (add_ingress_vlan nl swi p v t vrf s)"
  shows "(p, v) \<in> ing (snd (add_ingress_vlan nl swi p v t vrf s))"
proof -
  let ?r = "sw_ingress_port_vlan_add swi p v (\<not> t) vrf s"
  have ok: "0 \<le> fst ?r" using assms by (auto simp: add_ingress_vlan_def Let_def split_beta split: if_splits)
  then have "(p, v) \<in> ing (snd ?r)" using ing_add [of p v "\<not> t" vrf s] by (auto simp: settles_def)
  moreover have "(p, v) \<in> ing s \<Longrightarrow> (p, v) \<in> ing (snd (sw_ingress_port_vlan_add swi q v (\<not> t) vrf s))" for q s
    using ing_add [of q v "\<not> t" vrf s] by (auto simp: settles_def)
  ultimately have "(p, v) \<in> ing (snd (foreach_break (\<lambda>mem. sw_ingress_port_vlan_add swi mem v (\<not> t) vrf)
      (lag_ports nl p) (fst ?r) (snd ?r)))"
    by (intro foreach_break_inv [where P = "\<lambda>s. (p, v) \<in> ing s"])
  then show ?thesis using assms ok
    by (auto simp: add_ingress_vlan_def Let_def split_beta split: if_splits)
qed

lemma enable_ok:
  assumes "0 \<le> fst (enable_vlan nl swi p v t vrf s)"
  shows "(p, v) \<in> ing (snd (enable_vlan nl swi p v t vrf s)) \<inter> egr (snd (enable_vlan nl swi p v t vrf s))"
proof -
  let ?r1 = "add_ingress_vlan nl swi p v t vrf s"
  let ?r2 = "sw_egress_port_vlan_add swi p v (\<not> t) False (snd ?r1)"
  let ?r3 = "foreach_break (\<lambda>mem. sw_egress_port_vlan_add swi mem v (\<not> t) False) (lag_ports nl p) (fst ?r2) (snd ?r2)"
  have ok: "0 \<le> fst ?r1" "0 \<le> fst ?r2" and res: "enable_vlan nl swi p v t vrf s = ?r3"
    using assms by (auto simp: enable_vlan_def Let_def split_beta split: if_splits)
  have "(p, v) \<in> ing (snd ?r2) \<inter> egr (snd ?r2)"
    using add_ingress_ok [OF ok(1)] ok(2) egr_add [of p v "\<not> t" False "snd ?r1"]
    by (auto simp: settles_def egr_add_ing)
  moreover have "(p, v) \<in> ing s \<inter> egr s \<Longrightarrow> (p, v) \<in> ing (snd (sw_egress_port_vlan_add swi q v (\<not> t) False s)) \<inter>
      egr (snd (sw_egress_port_vlan_add swi q v (\<not> t) False s))" for q s
    using egr_add [of q v "\<not> t" False s] by (auto simp: settles_def egr_add_ing)
  ultimately show ?thesis unfolding res
    by (intro foreach_break_inv [where P = "\<lambda>s. (p, v) \<in> ing s \<inter> egr s"])
qed

lemma disable_ok:
  assumes "0 \<le> fst (disable_vlan nl swi p v t vrf s)"
  shows "(p, v) \<notin> ing (snd (disable_vlan nl swi p v t vrf s)) \<union> egr (snd (disable_vlan nl swi p v t vrf s))"
proof -
  let ?r1 = "remove_ingress_vlan nl swi p v t vrf s"
  let ?r2 = "sw_l2_addr_remove_all_in_vlan swi p v (snd ?r1)"
  let ?s3 = "foreach_ignore (\<lambda>mem. sw_egress_port_vlan_remove swi mem v) (lag_ports nl p) (snd ?r2)"
  have ok: "0 \<le> fst ?r1" and res: "disable_vlan nl swi p v t vrf s = sw_egress_port_vlan_remove swi p v ?s3"
    using assms by (auto simp: disable_vlan_def Let_def split_beta split: if_splits)
  from ok have "(p, v) \<notin> ing (snd ?r1)"
    unfolding remove_ingress_vlan_def by (rule ingress_removed)
  then have "(p, v) \<notin> ing ?s3"
    by (intro foreach_ignore_inv [where P = "\<lambda>s. (p, v) \<notin> ing s"]) (simp_all add: flush_ing egr_remove_ing)
  then show ?thesis using assms egress_removed [of p v ?s3] unfolding res by (auto simp: egr_remove_ing)
qed

end

subsection \<open>Sequences of \<open>add_vlan\<close> and \<open>remove_vlan\<close>\<close>

text \<open>Every command has its own view: links, bonds and the bridge may change in between.\<close>

datatype vlan_cmd =
    Add_vlan (cmd_view: nl_view) (cmd_link: rtnl_link) (cmd_vid: u16) bool
  | Remove_vlan (cmd_view: nl_view) (cmd_link: rtnl_link) (cmd_vid: u16) bool

fun vlan_exec :: "'s switch_interface \<Rightarrow> vlan_cmd \<Rightarrow> nl_vlan \<times> 's \<Rightarrow> int \<times> (nl_vlan \<times> 's)" where
  "vlan_exec swi (Add_vlan nl link vid tagged) st = add_vlan nl swi link vid tagged st"
| "vlan_exec swi (Remove_vlan nl link vid tagged) st = remove_vlan nl swi link vid tagged st"

fun vlan_run :: "'s switch_interface \<Rightarrow> vlan_cmd list \<Rightarrow> nl_vlan \<times> 's \<Rightarrow> nl_vlan \<times> 's" where
  "vlan_run swi [] st = st"
| "vlan_run swi (cmd # cmds) st = vlan_run swi cmds (snd (vlan_exec swi cmd st))"

fun vlan_run_ok :: "'s switch_interface \<Rightarrow> vlan_cmd list \<Rightarrow> nl_vlan \<times> 's \<Rightarrow> bool" where
  "vlan_run_ok swi [] st = True"
| "vlan_run_ok swi (cmd # cmds) st =
     (0 \<le> fst (vlan_exec swi cmd st) \<and> vlan_run_ok swi cmds (snd (vlan_exec swi cmd st)))"

definition cmd_key :: "vlan_cmd \<Rightarrow> u32 \<times> u16" where
  "cmd_key cmd = (get_port_id_link (cmd_view cmd) (Some (cmd_link cmd)), cmd_vid cmd)"

definition lag_member :: "nl_view \<Rightarrow> u32 \<Rightarrow> bool" where
  "lag_member nl p = fBex (fmran (nv_lag_members nl)) (\<lambda>S. p |\<in>| S)"

lemma lag_ports_members: "q \<in> set (lag_ports nl p) \<Longrightarrow> lag_member nl q"
  by (auto simp: lag_ports_def get_members_by_port_id_def lag_member_def
      split: if_splits option.splits intro: fmranI)

lemma untouched:
  "\<not> lag_member nl q \<Longrightarrow> (q, w) \<noteq> (p, v) \<Longrightarrow> (q, w) \<notin> touched nl p v"
  by (auto simp: touched_def dest: lag_ports_members)

lemma same_outsideD:
  "same_outside ing egr T s s' \<Longrightarrow> x \<notin> T \<Longrightarrow> x \<in> ing s' \<longleftrightarrow> x \<in> ing s"
  "same_outside ing egr T s s' \<Longrightarrow> x \<notin> T \<Longrightarrow> x \<in> egr s' \<longleftrightarrow> x \<in> egr s"
  unfolding same_outside_def by blast+

text \<open>What a reference count says about a pair of port and VLAN.\<close>

definition counted_is_member :: "('s \<Rightarrow> membership) \<Rightarrow> ('s \<Rightarrow> membership) \<Rightarrow> u32 \<times> u16 \<Rightarrow> nl_vlan \<times> 's \<Rightarrow> bool" where
  "counted_is_member ing egr x st \<longleftrightarrow>
     (x |\<in>| fmdom (port_vlan (fst st)) \<longrightarrow> x \<in> ing (snd st) \<and> x \<in> egr (snd st))"

context vlan_table
begin

lemma add_vlan_counted:
  assumes inv: "counted_is_member ing egr (p, v) st" and free: "\<not> lag_member nl p"
  shows "counted_is_member ing egr (p, v) (snd (add_vlan nl swi link w tagged st))"
proof -
  let ?q = "get_port_id_link nl (Some link)"
  let ?r = "enable_vlan nl swi ?q w tagged (get_vrf_id w (fst st)) (snd st)"
  have same: "(p, v) \<noteq> (?q, w) \<Longrightarrow> ((p, v) \<in> ing (snd ?r) \<longleftrightarrow> (p, v) \<in> ing (snd st)) \<and>
      ((p, v) \<in> egr (snd ?r) \<longleftrightarrow> (p, v) \<in> egr (snd st))"
    using same_outsideD [OF enable_outside untouched [OF free]] by blast
  have ok: "0 \<le> fst ?r \<Longrightarrow> (?q, w) \<in> ing (snd ?r) \<and> (?q, w) \<in> egr (snd ?r)"
    using enable_ok by blast
  show ?thesis
    using inv same ok
    by (cases st) (auto simp: add_vlan_def counted_is_member_def Let_def split_beta not_less fmlookup_dom_iff
        split: option.splits if_splits)
qed

lemma remove_vlan_counted:
  assumes inv: "counted_is_member ing egr (p, v) st" and free: "\<not> lag_member nl p"
  shows "counted_is_member ing egr (p, v) (snd (remove_vlan nl swi link w tagged st))"
proof -
  let ?q = "get_port_id_link nl (Some link)"
  let ?r = "disable_vlan nl swi ?q w tagged (get_vrf_id w (fst st)) (snd st)"
  have same: "(p, v) \<noteq> (?q, w) \<Longrightarrow> ((p, v) \<in> ing (snd ?r) \<longleftrightarrow> (p, v) \<in> ing (snd st)) \<and>
      ((p, v) \<in> egr (snd ?r) \<longleftrightarrow> (p, v) \<in> egr (snd st))"
    using same_outsideD [OF disable_outside untouched [OF free]] by blast
  show ?thesis
    using inv same
    by (cases st) (auto simp: remove_vlan_def counted_is_member_def Let_def split_beta fmlookup_dom_iff
        split: option.splits if_splits)
qed

lemma vlan_run_counted:
  assumes "counted_is_member ing egr (p, v) st"
    and "\<And>cmd. cmd \<in> set cmds \<Longrightarrow> \<not> lag_member (cmd_view cmd) p"
  shows "counted_is_member ing egr (p, v) (vlan_run swi cmds st)"
  using assms
proof (induction cmds arbitrary: st)
  case (Cons cmd cmds)
  have "\<not> lag_member (cmd_view cmd) p" using Cons.prems(2) by simp
  with Cons.prems(1) have "counted_is_member ing egr (p, v) (snd (vlan_exec swi cmd st))"
    by (cases cmd) (simp_all add: add_vlan_counted remove_vlan_counted)
  then show ?case using Cons by simp
qed simp

end

text \<open>
  C28: Whatever the network and the switch do, after any sequence of \<open>add_vlan\<close> and \<open>remove_vlan\<close> each VLAN
  counted for a port that is not a bond member is installed on the switch: the port is in the
  ingress VLAN table and has its egress group.
\<close>

theorem counted_vlans_installed:
  assumes "\<forall>cmd \<in> set cmds. \<not> lag_member (cmd_view cmd) p"
    and "(v', c') = vlan_run (controller_swi env) cmds (nl_vlan_init, c)"
    and "(p, vid) |\<in>| fmdom (port_vlan v')"
  shows "(p, vid) \<in> ing_members c' \<and> (p, vid) \<in> egr_members c'"
proof -
  have "counted_is_member ing_members egr_members (p, vid) (nl_vlan_init, c)"
    by (simp add: counted_is_member_def nl_vlan_init_def)
  from ctl_vlans.vlan_run_counted [OF this, of cmds env] assms(1)
  have "counted_is_member ing_members egr_members (p, vid) (v', c')"
    unfolding assms(2) by blast
  then show ?thesis using assms(3) by (simp add: counted_is_member_def)
qed

lemma bond_view_no_member [simp]: "\<not> lag_member bond_view p" "lag_ports bond_view p = []"
  by (simp_all add: lag_member_def lag_ports_def bond_view_def get_members_by_port_id_def)

lemma enable_vlan_ideal:
  "lag_ports nl p = [] \<Longrightarrow> enable_vlan nl (controller_swi ideal_env) p v True vrf c =
     (0, c\<lparr>trace := trace c @ map Sent [Flow (Enable_port_vid_ingress p v vrf False),
        Group (if is_lag p then Enable_group_l2_trunk_interface p v False False
               else Enable_group_l2_interface p v False False)]\<rparr>)"
  by (simp add: enable_vlan_def add_ingress_vlan_def ctl_vlan_send_defs)

lemma vlan_valid_5 [simp]: "is_vid_valid 5"
  by (simp add: is_vid_valid_def)

lemma add_vlan_example:
  "add_vlan bond_view (controller_swi ideal_env) (plain_link 3) 5 True (nl_vlan_init, controller_init) =
     (0, nl_vlan_init\<lparr>port_vlan := fmupd (1, 5) 1 fmempty\<rparr>,
      controller_init\<lparr>trace := [Sent (Flow (Enable_port_vid_ingress 1 5 0 False)),
        Sent (Group (Enable_group_l2_interface 1 5 False False))]\<rparr>)"
  by (simp add: add_vlan_def enable_vlan_ideal Let_def nl_vlan_init_def get_vrf_id_def get_port_type_def
      controller_init_def)

theorem counted_vlans_installed_witness:
  "let (v', c') = vlan_run (controller_swi ideal_env) [Add_vlan bond_view (plain_link 3) 5 True]
         (nl_vlan_init, controller_init)
   in (1, 5) |\<in>| fmdom (port_vlan v') \<and> (1, 5) \<in> ing_members c' \<and> (1, 5) \<in> egr_members c'"
  using counted_vlans_installed [of "[Add_vlan bond_view (plain_link 3) 5 True]" 1 _ _ ideal_env controller_init 5]
  by (simp add: add_vlan_example)

subsection \<open>Well-formed keys\<close>

definition keys_valid :: "nl_vlan \<Rightarrow> bool" where
  "keys_valid v \<longleftrightarrow> fBall (fmdom (port_vlan v)) (\<lambda>(p, vid). p \<noteq> 0 \<and> is_vid_valid vid)"

lemma vlan_exec_keys: "keys_valid (fst st) \<Longrightarrow> keys_valid (fst (snd (vlan_exec swi cmd st)))"
  unfolding keys_valid_def
  by (cases cmd; cases st) (auto simp: add_vlan_def remove_vlan_def Let_def split_beta split: option.split)

lemma vlan_run_keys: "keys_valid (fst st) \<Longrightarrow> keys_valid (fst (vlan_run swi cmds st))"
  by (induction cmds arbitrary: st) (simp_all add: vlan_exec_keys)

text \<open>
  The table of reference counts is well formed: after any sequence of additions and removals, with any switch behind it,
  each of its keys is a port that exists and a VLAN identifier between 1 and 4095, although the key has 16 bits and the
  identifier comes from the kernel unchecked.
\<close>

theorem vlan_table_keys_valid:
  assumes "(p, vid) |\<in>| fmdom (port_vlan (fst (vlan_run swi cmds (nl_vlan_init, s))))"
  shows "p \<noteq> 0 \<and> 1 \<le> uint vid \<and> uint vid \<le> 4095"
proof -
  have "p \<noteq> 0 \<and> is_vid_valid vid"
    using assms vlan_run_keys [of "(nl_vlan_init, s)" swi cmds] by (auto simp: nl_vlan_init_def keys_valid_def)
  then show ?thesis by (simp add: is_vid_valid_def word_le_def word_less_def)
qed

theorem vlan_table_keys_valid_witness:
  "(1, 5) |\<in>| fmdom (port_vlan (fst (vlan_run (controller_swi ideal_env) [Add_vlan bond_view (plain_link 3) 5 True]
      (nl_vlan_init, controller_init)))) \<and> uint (5 :: u16) \<le> 4095"
  using vlan_table_keys_valid [of 1 5 "controller_swi ideal_env" "[Add_vlan bond_view (plain_link 3) 5 True]" controller_init]
  by (simp add: add_vlan_example)


subsection \<open>Reference counts\<close>

text \<open>The number of uses of a pair: the abstract reference count.\<close>

fun uses :: "u32 \<times> u16 \<Rightarrow> vlan_cmd list \<Rightarrow> nat \<Rightarrow> nat" where
  "uses x [] n = n"
| "uses x (Add_vlan nl link vid tagged # cmds) n =
     uses x cmds (if cmd_key (Add_vlan nl link vid tagged) = x then n + 1 else n)"
| "uses x (Remove_vlan nl link vid tagged # cmds) n =
     uses x cmds (if cmd_key (Remove_vlan nl link vid tagged) = x then n - 1 else n)"

definition counts_uses ::
  "('s \<Rightarrow> membership) \<Rightarrow> ('s \<Rightarrow> membership) \<Rightarrow> u32 \<times> u16 \<Rightarrow> nat \<Rightarrow> nl_vlan \<times> 's \<Rightarrow> bool" where
  "counts_uses ing egr x n st \<longleftrightarrow>
     fmlookup (port_vlan (fst st)) x = (if n = 0 then None else Some (of_nat n)) \<and>
     (x \<in> ing (snd st) \<longleftrightarrow> 0 < n) \<and> (x \<in> egr (snd st) \<longleftrightarrow> 0 < n)"

lemma of_nat_pred_pos:
  assumes "0 < n" "n < 2 ^ 32"
  shows "(of_nat n :: u32) - 1 = 0 \<longleftrightarrow> n = 1"
proof
  assume "(of_nat n :: u32) - 1 = 0"
  then have "unat (of_nat n :: u32) = unat (1 :: u32)" by simp
  then show "n = 1" using assms by (simp add: unat_of_nat)
qed simp

context vlan_table
begin

lemma add_vlan_counts:
  assumes inv: "counts_uses ing egr (p, v) n st" and free: "\<not> lag_member nl p"
    and ok: "0 \<le> fst (add_vlan nl swi link w tagged st)" and br: "\<not> is_bridge_interface nl link"
  shows "counts_uses ing egr (p, v) (if (get_port_id_link nl (Some link), w) = (p, v) then n + 1 else n)
           (snd (add_vlan nl swi link w tagged st))"
proof -
  let ?q = "get_port_id_link nl (Some link)"
  let ?r = "enable_vlan nl swi ?q w tagged (get_vrf_id w (fst st)) (snd st)"
  have same: "(p, v) \<noteq> (?q, w) \<Longrightarrow> ((p, v) \<in> ing (snd ?r) \<longleftrightarrow> (p, v) \<in> ing (snd st)) \<and>
      ((p, v) \<in> egr (snd ?r) \<longleftrightarrow> (p, v) \<in> egr (snd st))"
    using same_outsideD [OF enable_outside untouched [OF free]] by blast
  have en: "0 \<le> fst ?r \<Longrightarrow> (?q, w) \<in> ing (snd ?r) \<and> (?q, w) \<in> egr (snd ?r)"
    using enable_ok by blast
  show ?thesis
    using inv same en ok br
    by (cases st) (auto simp: add_vlan_def counts_uses_def Let_def split_beta not_less
        split: option.splits if_splits)
qed

lemma remove_vlan_counts:
  assumes inv: "counts_uses ing egr (p, v) n st" and free: "\<not> lag_member nl p" and n: "n < 2 ^ 32"
    and ok: "0 \<le> fst (remove_vlan nl swi link w tagged st)" and br: "\<not> is_bridge_interface nl link"
  shows "counts_uses ing egr (p, v) (if (get_port_id_link nl (Some link), w) = (p, v) then n - 1 else n)
           (snd (remove_vlan nl swi link w tagged st))"
proof -
  let ?q = "get_port_id_link nl (Some link)"
  let ?r = "disable_vlan nl swi ?q w tagged (get_vrf_id w (fst st)) (snd st)"
  have same: "(p, v) \<noteq> (?q, w) \<Longrightarrow> ((p, v) \<in> ing (snd ?r) \<longleftrightarrow> (p, v) \<in> ing (snd st)) \<and>
      ((p, v) \<in> egr (snd ?r) \<longleftrightarrow> (p, v) \<in> egr (snd st))"
    using same_outsideD [OF disable_outside untouched [OF free]] by blast
  have dis: "0 \<le> fst ?r \<Longrightarrow> (?q, w) \<notin> ing (snd ?r) \<and> (?q, w) \<notin> egr (snd ?r)"
    using disable_ok by blast
  show ?thesis
  proof (cases "(p, v) = (?q, w)")
    case False
    then show ?thesis using inv same
      by (cases st) (auto simp: remove_vlan_def counts_uses_def Let_def split_beta
          split: option.splits if_splits)
  next
    case True
    have pos: "0 < n" using ok inv True
      by (cases st) (auto simp: remove_vlan_def counts_uses_def Let_def split: if_splits)
    have look: "fmlookup (port_vlan (fst st)) (?q, w) = Some (of_nat n)" and pv: "p = ?q" "v = w"
      using inv True pos by (simp_all add: counts_uses_def)
    note pred = of_nat_pred_pos [OF pos n]
    show ?thesis
    proof (cases "1 < n")
      case more: True
      have "snd (remove_vlan nl swi link w tagged st) =
          ((fst st)\<lparr>port_vlan := fmupd (?q, w) (of_nat n - 1) (port_vlan (fst st))\<rparr>, snd st)"
        using ok look pred more
        by (cases st) (auto simp: remove_vlan_def Let_def word_gt_0 split: if_splits)
      then show ?thesis using inv more by (auto simp: counts_uses_def pv of_nat_diff)
    next
      case False
      then have "snd (remove_vlan nl swi link w tagged st) =
          ((fst st)\<lparr>port_vlan := fmdrop (?q, w) (port_vlan (fst st))\<rparr>, snd ?r) \<and> 0 \<le> fst ?r"
        using ok look pred br pos
        by (cases st) (auto simp: remove_vlan_def Let_def split_beta word_gt_0 split: if_splits)
      then show ?thesis using False pos dis by (auto simp: counts_uses_def pv)
    qed
  qed
qed

lemma vlan_run_counts:
  assumes "counts_uses ing egr x n st" and "n + length cmds < 2 ^ 32"
    and "vlan_run_ok swi cmds st"
    and "\<And>cmd. cmd \<in> set cmds \<Longrightarrow> \<not> lag_member (cmd_view cmd) (fst x)"
    and "\<And>cmd. cmd \<in> set cmds \<Longrightarrow> \<not> is_bridge_interface (cmd_view cmd) (cmd_link cmd)"
  shows "counts_uses ing egr x (uses x cmds n) (vlan_run swi cmds st)"
  using assms
proof (induction cmds arbitrary: st n)
  case (Cons cmd cmds)
  obtain p v where x: "x = (p, v)" by (cases x)
  let ?st = "snd (vlan_exec swi cmd st)"
  have hyps: "\<not> lag_member (cmd_view cmd) p" "\<not> is_bridge_interface (cmd_view cmd) (cmd_link cmd)"
    "0 \<le> fst (vlan_exec swi cmd st)" "vlan_run_ok swi cmds ?st" "n < 2 ^ 32"
    using Cons.prems x by auto
  show ?case
  proof (cases cmd)
    case (Add_vlan nl link w tagged)
    let ?n = "if cmd_key cmd = x then n + 1 else n"
    have "counts_uses ing egr x ?n ?st"
      using add_vlan_counts [of p v n st nl link w tagged] Cons.prems(1) hyps
      by (simp add: Add_vlan x cmd_key_def)
    then have "counts_uses ing egr x (uses x cmds ?n) (vlan_run swi cmds ?st)"
      by (rule Cons.IH) (use Cons.prems hyps in auto)
    then show ?thesis by (simp add: Add_vlan)
  next
    case (Remove_vlan nl link w tagged)
    let ?n = "if cmd_key cmd = x then n - 1 else n"
    have "counts_uses ing egr x ?n ?st"
      using remove_vlan_counts [of p v n st nl link w tagged] Cons.prems(1) hyps
      by (simp add: Remove_vlan x cmd_key_def)
    then have "counts_uses ing egr x (uses x cmds ?n) (vlan_run swi cmds ?st)"
      by (rule Cons.IH) (use Cons.prems hyps in auto)
    then show ?thesis by (simp add: Remove_vlan)
  qed
qed simp

end

text \<open>
  C29: As long as no call reports an error, the reference counts are exact: on ports that are neither
  bond members nor bridge ports, the count of a port and VLAN is the number of its additions less
  the removals, and the port is in the VLAN on the switch, at ingress and at egress, exactly while
  the count is positive.
\<close>

theorem vlan_refcounts_exact:
  assumes "vlan_run_ok (controller_swi env) cmds (nl_vlan_init, c)"
    and "\<forall>cmd \<in> set cmds. \<not> lag_member (cmd_view cmd) p \<and> \<not> is_bridge_interface (cmd_view cmd) (cmd_link cmd)"
    and "length cmds < 2 ^ 32"
    and "(p, vid) \<notin> ing_members c" and "(p, vid) \<notin> egr_members c"
    and "(v', c') = vlan_run (controller_swi env) cmds (nl_vlan_init, c)"
    and "n = uses (p, vid) cmds 0"
  shows "fmlookup (port_vlan v') (p, vid) = (if n = 0 then None else Some (of_nat n)) \<and>
         ((p, vid) \<in> ing_members c' \<longleftrightarrow> 0 < n) \<and> ((p, vid) \<in> egr_members c' \<longleftrightarrow> 0 < n)"
proof -
  have "counts_uses ing_members egr_members (p, vid) 0 (nl_vlan_init, c)"
    using assms(4,5) by (simp add: counts_uses_def nl_vlan_init_def)
  then have "counts_uses ing_members egr_members (p, vid) n (v', c')"
    unfolding assms(6,7) by (rule ctl_vlans.vlan_run_counts) (use assms(1-3) in auto)
  then show ?thesis by (simp add: counts_uses_def)
qed

lemma add_vlan_again:
  assumes "fmlookup (port_vlan v) (1, 5) = Some n"
  shows "add_vlan bond_view swi (plain_link 3) 5 True (v, s) =
           (0, v\<lparr>port_vlan := fmupd (1, 5) (n + 1) (port_vlan v)\<rparr>, s)"
  using assms by (simp add: add_vlan_def Let_def)

theorem vlan_refcounts_exact_witness:
  "let cmds = [Add_vlan bond_view (plain_link 3) 5 True, Add_vlan bond_view (plain_link 3) 5 True];
       (v', c') = vlan_run (controller_swi ideal_env) cmds (nl_vlan_init, controller_init)
   in fmlookup (port_vlan v') (1, 5) = Some 2 \<and> (1, 5) \<in> ing_members c' \<and> (1, 5) \<in> egr_members c'"
proof -
  let ?cmds = "[Add_vlan bond_view (plain_link 3) 5 True, Add_vlan bond_view (plain_link 3) 5 True]"
  let ?r = "vlan_run (controller_swi ideal_env) ?cmds (nl_vlan_init, controller_init)"
  have ok: "vlan_run_ok (controller_swi ideal_env) ?cmds (nl_vlan_init, controller_init)"
    by (simp add: add_vlan_example add_vlan_again)
  have n: "2 = uses (1, 5) ?cmds 0" by (simp add: cmd_key_def)
  have fresh: "(1, 5) \<notin> ing_members controller_init" "(1, 5) \<notin> egr_members controller_init"
    by (simp_all add: ing_members_def egr_members_def controller_init_def)
  have views: "\<forall>cmd \<in> set ?cmds. \<not> lag_member (cmd_view cmd) 1 \<and>
      \<not> is_bridge_interface (cmd_view cmd) (cmd_link cmd)" by simp
  have len: "length ?cmds < 2 ^ 32" by simp
  show ?thesis
    using vlan_refcounts_exact [OF ok views len fresh prod.collapse n] by (simp add: Let_def split_beta)
qed

subsection \<open>Rolling back\<close>

text \<open>No pair is gained, on neither side.\<close>

definition no_gain :: "('s \<Rightarrow> membership) \<Rightarrow> ('s \<Rightarrow> membership) \<Rightarrow> 's \<Rightarrow> 's \<Rightarrow> bool" where
  "no_gain ing egr s s' \<longleftrightarrow> ing s' \<subseteq> ing s \<and> egr s' \<subseteq> egr s"

context vlan_table_removing
begin

lemma attached_remove_ingress: "attached (snd (remove_ingress_vlan nl swi p v t vrf s)) = attached s"
  by (simp add: remove_ingress_vlan_def attached_ing_remove foreach_ignore_frame)

lemma attached_add_loops:
  "attached (snd (foreach_break (\<lambda>mem. sw_ingress_port_vlan_add swi mem v pvid vrf) xs rv s)) = attached s"
  "attached (snd (foreach_break (\<lambda>mem. sw_egress_port_vlan_add swi mem v untagged False) xs rv s)) = attached s"
  by (simp_all add: foreach_break_frame attached_ing_add attached_egr_add)

lemma ingress_cleared:
  assumes "attached s"
  shows "ing (foreach_ignore (\<lambda>mem. sw_ingress_port_vlan_remove swi mem v pvid vrf) xs s) =
           ing s - set xs \<times> {v}"
  using assms
proof (induction xs arbitrary: s)
  case (Cons q xs)
  then have "ing (snd (sw_ingress_port_vlan_remove swi q v pvid vrf s)) = ing s - {(q, v)}"
    using ing_remove [of q v pvid vrf s] ing_remove_ok [of s q v pvid vrf] by (auto simp: settles_def)
  then show ?case using Cons by (auto simp: attached_ing_remove)
qed simp

lemma egress_cleared:
  assumes "attached s"
  shows "egr (foreach_ignore (\<lambda>mem. sw_egress_port_vlan_remove swi mem v) xs s) = egr s - set xs \<times> {v}"
  using assms
proof (induction xs arbitrary: s)
  case (Cons q xs)
  then have "egr (snd (sw_egress_port_vlan_remove swi q v s)) = egr s - {(q, v)}"
    using egr_remove [of q v s] egr_remove_ok [of s q v] by (auto simp: settles_def)
  then show ?case using Cons by (auto simp: attached_egr_remove)
qed simp

lemma touched_Times: "touched nl p v = insert p (set (lag_ports nl p)) \<times> {v}"
  by (auto simp: touched_def)

lemma remove_ingress_clears:
  assumes "attached s"
  shows "ing (snd (remove_ingress_vlan nl swi p v t vrf s)) = ing s - touched nl p v"
    and "egr (snd (remove_ingress_vlan nl swi p v t vrf s)) = egr s"
proof -
  let ?s = "foreach_ignore (\<lambda>mem. sw_ingress_port_vlan_remove swi mem v (\<not> t) vrf) (lag_ports nl p) s"
  have "attached ?s" using assms by (simp add: foreach_ignore_frame attached_ing_remove)
  then have "ing (snd (remove_ingress_vlan nl swi p v t vrf s)) = ing ?s - {(p, v)}"
    using ing_remove [of p v "\<not> t" vrf ?s] ing_remove_ok [of ?s p v "\<not> t" vrf]
    by (auto simp: settles_def remove_ingress_vlan_def)
  then show "ing (snd (remove_ingress_vlan nl swi p v t vrf s)) = ing s - touched nl p v"
    by (auto simp: ingress_cleared [OF assms] touched_Times)
  show "egr (snd (remove_ingress_vlan nl swi p v t vrf s)) = egr s"
    by (simp add: remove_ingress_vlan_def ing_remove_egr foreach_ignore_frame)
qed

lemma no_gain_cleared:
  assumes "same_outside ing egr (touched nl p v) s s'" and "attached s'" and "egr s' \<subseteq> egr s"
  shows "no_gain ing egr s (snd (remove_ingress_vlan nl swi p v t vrf s'))"
  using assms(1,3) unfolding no_gain_def remove_ingress_clears [OF assms(2)]
  by (auto dest: same_outsideD)

lemma add_ingress_no_gain:
  assumes "fst (add_ingress_vlan nl swi p v True vrf s) < 0"
  shows "no_gain ing egr s (snd (add_ingress_vlan nl swi p v True vrf s))"
proof -
  let ?r = "sw_ingress_port_vlan_add swi p v False vrf s"
  let ?r2 = "foreach_break (\<lambda>mem. sw_ingress_port_vlan_add swi mem v False vrf) (lag_ports nl p) (fst ?r) (snd ?r)"
  show ?thesis
  proof (cases "fst ?r < 0")
    case True
    then show ?thesis using ing_add_failed [OF True]
      by (simp add: add_ingress_vlan_def Let_def split_beta no_gain_def ing_add_egr)
  next
    case False
    then have att: "attached (snd ?r2)"
      using detached_ing_add [of s p v False vrf] by (auto simp: attached_add_loops attached_ing_add)
    have fail: "fst ?r2 < 0" "snd (add_ingress_vlan nl swi p v True vrf s) =
        snd (remove_ingress_vlan nl swi p v True vrf (snd ?r2))"
      using assms False by (auto simp: add_ingress_vlan_def Let_def split_beta split: if_splits)
    have "same_outside ing egr (touched nl p v) s (snd ?r2)"
      by (intro same_outside_break call_outside) simp_all
    moreover have "egr (snd ?r2) = egr s" by (simp add: foreach_break_frame ing_add_egr)
    ultimately show ?thesis using att by (simp add: fail no_gain_cleared)
  qed
qed

lemma add_ingress_ok_attached:
  assumes "\<not> fst (add_ingress_vlan nl swi p v True vrf s) < 0"
  shows "attached (snd (add_ingress_vlan nl swi p v True vrf s))"
proof -
  have "attached s"
    using assms detached_ing_add [of s p v False vrf]
    by (auto simp: add_ingress_vlan_def Let_def split_beta split: if_splits)
  then show ?thesis
    by (simp add: add_ingress_vlan_def Let_def split_beta attached_ing_add attached_add_loops
        attached_remove_ingress)
qed

lemma add_ingress_egr: "egr (snd (add_ingress_vlan nl swi p v t vrf s)) = egr s"
proof -
  have "egr (snd (remove_ingress_vlan nl swi p v t vrf s)) = egr s" for s
    by (simp add: remove_ingress_vlan_def ing_remove_egr foreach_ignore_frame)
  then show ?thesis
    by (simp add: add_ingress_vlan_def Let_def split_beta ing_add_egr foreach_break_frame)
qed

lemma enable_no_gain:
  assumes "fst (enable_vlan nl swi p v True vrf s) < 0"
  shows "no_gain ing egr s (snd (enable_vlan nl swi p v True vrf s))"
proof -
  let ?r1 = "add_ingress_vlan nl swi p v True vrf s"
  let ?r2 = "sw_egress_port_vlan_add swi p v False False (snd ?r1)"
  let ?r3 = "foreach_break (\<lambda>mem. sw_egress_port_vlan_add swi mem v False False) (lag_ports nl p) (fst ?r2) (snd ?r2)"
  let ?s4 = "foreach_ignore (\<lambda>mem. sw_egress_port_vlan_remove swi mem v) (lag_ports nl p) (snd ?r3)"
  let ?s5 = "snd (sw_egress_port_vlan_remove swi p v ?s4)"
  have out1: "same_outside ing egr (touched nl p v) s (snd ?r1)" by (rule add_ingress_outside)
  then have out2: "same_outside ing egr (touched nl p v) s (snd ?r2)" by (simp add: call_outside_trans)
  consider (ingress) "fst ?r1 < 0" | (egress) "\<not> fst ?r1 < 0" "fst ?r2 < 0"
    | (member) "\<not> fst ?r1 < 0" "\<not> fst ?r2 < 0" "fst ?r3 < 0"
    using assms by (auto simp: enable_vlan_def Let_def split_beta split: if_splits)
  then show ?thesis
  proof cases
    case ingress
    then show ?thesis using add_ingress_no_gain [OF ingress] by (simp add: enable_vlan_def Let_def split_beta)
  next
    case egress
    have res: "snd (enable_vlan nl swi p v True vrf s) = snd (remove_ingress_vlan nl swi p v True vrf (snd ?r2))"
      using egress by (simp add: enable_vlan_def Let_def split_beta)
    show ?thesis unfolding res
      by (rule no_gain_cleared [OF out2])
         (use egress in \<open>simp_all add: attached_egr_add egr_add_failed add_ingress_ok_attached add_ingress_egr\<close>)
  next
    case member
    have res: "snd (enable_vlan nl swi p v True vrf s) = snd (remove_ingress_vlan nl swi p v True vrf ?s5)"
      using member by (simp add: enable_vlan_def Let_def split_beta)
    have att: "attached (snd ?r3)"
      using member by (simp add: attached_add_loops attached_egr_add add_ingress_ok_attached)
    have out3: "same_outside ing egr (touched nl p v) s (snd ?r3)"
      by (rule same_outside_break [OF out2]) (simp add: call_outside)
    have out5: "same_outside ing egr (touched nl p v) s ?s5"
      by (intro call_outside_trans(4) same_outside_ignore [OF out3]) (simp_all add: call_outside)
    have att4: "attached ?s4" using att by (simp add: foreach_ignore_frame attached_egr_remove)
    then have "egr ?s5 = egr ?s4 - {(p, v)}"
      using egr_remove [of p v ?s4] egr_remove_ok [of ?s4 p v] by (auto simp: settles_def)
    then have "egr ?s5 = egr (snd ?r3) - touched nl p v"
      by (auto simp: egress_cleared [OF att] touched_Times)
    then have "egr ?s5 \<subseteq> egr s" using out3 by (auto dest: same_outsideD)
    then show ?thesis unfolding res
      using att4 by (intro no_gain_cleared [OF out5]) (simp_all add: attached_egr_remove)
  qed
qed

end

text \<open>
  C30: When enabling a tagged VLAN fails, on a port or on a bond with any number of members, and the
  switch takes removals, no membership is left behind: every port and VLAN on the switch afterwards, at
  ingress or egress, was there before.
\<close>

theorem failed_enable_rolled_back:
  assumes "\<And>h m. is_vlan_removal m \<Longrightarrow> \<exists>r. send_outcome env h m = Inr r"
    and "enable_vlan nl (controller_swi env) port_id vid True vrf_id c = (rv, c')" and "rv < 0"
  shows "ing_members c' \<subseteq> ing_members c \<and> egr_members c' \<subseteq> egr_members c"
  using ctl_vlans_removing.enable_no_gain [where env = env and nl = nl and p = port_id and v = vid and vrf = vrf_id and s = c] assms(2,3)
  by (simp add: removing_env_id [OF assms(1)] no_gain_def)

lemma controller_init_fresh: "ing_members controller_init = {}" "egr_members controller_init = {}"
  by (simp_all add: ing_members_def egr_members_def controller_init_def)

text \<open>An environment in which exactly the egress groups are refused.\<close>

definition refusing_env :: "(ofmsg \<Rightarrow> bool) \<Rightarrow> ofenv" where
  "refusing_env refuse = ideal_env\<lparr>send_outcome := (\<lambda>h m. if refuse m then Inl StdException else Inr 0)\<rparr>"

definition is_egress_group :: "ofmsg \<Rightarrow> bool" where
  "is_egress_group m = (case m of Group (Enable_group_l2_interface p v untagged update) \<Rightarrow> True | _ \<Rightarrow> False)"

theorem failed_enable_rolled_back_witness:
  "let c' = snd (enable_vlan bond_view (controller_swi (refusing_env is_egress_group)) 1 5 True 0 controller_init)
   in ing_members c' \<subseteq> {} \<and> egr_members c' \<subseteq> {}"
proof -
  let ?r = "enable_vlan bond_view (controller_swi (refusing_env is_egress_group)) 1 5 True 0 controller_init"
  have "fst ?r < 0"
    by (simp add: enable_vlan_def add_ingress_vlan_def remove_ingress_vlan_def ctl_vlan_send_defs of_send_def
        with_dpt_def send_def refusing_env_def is_egress_group_def ideal_env_def get_port_type_def
        try_catch_def Let_def split_beta)
  moreover have "is_vlan_removal m \<Longrightarrow> \<exists>r. send_outcome (refusing_env is_egress_group) h m = Inr r" for h m
    by (auto simp: refusing_env_def is_egress_group_def is_vlan_removal_def
        split: ofmsg.splits group_mod.splits)
  ultimately show ?thesis
    using failed_enable_rolled_back [of "refusing_env is_egress_group" bond_view 1 5 0 controller_init]
    by (metis (no_types, lifting) controller_init_fresh prod.collapse)
qed

text \<open>
  For an untagged VLAN the roll-back is incomplete: when the switch takes the VLAN flow and refuses
  the flow of the port VLAN id, \<open>add_vlan\<close> reports the error and counts nothing, and the port stays
  in the VLAN at ingress.
\<close>

theorem failed_untagged_vlan_stays:
  assumes "dpt_found env (dptid c)"
    and "\<And>h. send_outcome env h (Flow (Enable_port_vid_ingress p vid vrf_id False)) = Inr 0"
    and "\<And>h. send_outcome env h (Flow (Enable_port_pvid_ingress p vid)) = Inl e"
  shows "\<exists>c'. enable_vlan nl (controller_swi env) p vid False vrf_id c = (catch_rv e, c') \<and>
           catch_rv e < 0 \<and> (p, vid) \<in> ing_members c'"
  using assms
  by (simp add: enable_vlan_def add_ingress_vlan_def ctl_vlan_send_defs of_send_def with_dpt_def
      send_def try_catch_def ing_members_def emit_def)

definition is_pvid_flow :: "ofmsg \<Rightarrow> bool" where
  "is_pvid_flow m = (case m of Flow (Enable_port_pvid_ingress p v) \<Rightarrow> True | _ \<Rightarrow> False)"

theorem failed_untagged_vlan_stays_witness:
  "\<exists>c'. enable_vlan bond_view (controller_swi (refusing_env is_pvid_flow)) 1 5 False 0 controller_init =
          (catch_rv StdException, c') \<and> catch_rv StdException < 0 \<and> (1, 5) \<in> ing_members c'"
  by (rule failed_untagged_vlan_stays) (simp_all add: refusing_env_def ideal_env_def is_pvid_flow_def)

end
