(* ===== verification/Nl_L3_Egress.thy ===== *)
theory Nl_L3_Egress
  imports Nl_Vlan "HOL-Library.Monad_Syntax"
begin

text \<open>
  Routing on the netlink side (\<open>src/src/netlink/nl_l3.cc\<close>), first part: the state of \<open>nl_l3\<close>, the
  reference-counted egress interfaces and ECMP groups, termination MACs, and interface addresses.

  What the class asks of libnl, the kernel and the standard library is the record \<open>l3_env\<close>: conversion
  and comparison of addresses, the route lookup of \<open>nl_route_query\<close>, the order in which a hash map
  is visited, and the values uninitialised variables happen to have. A failed assertion, a fatal
  log message or the use of a null pointer ends the program: such operations return \<open>None\<close>.
\<close>

abbreviation (input) ENETUNREACH :: int where "ENETUNREACH \<equiv> 101"
abbreviation (input) EHOSTUNREACH :: int where "EHOSTUNREACH \<equiv> 113"
abbreviation (input) ENOTSUP :: int where "ENOTSUP \<equiv> 95"

subsection \<open>State\<close>

text \<open>\<open>nh_stub\<close>, \<open>net_params\<close> and \<open>nh_params\<close> (\<open>nl_l3_interfaces.h\<close>).\<close>

record nh_stub =
  ns_nh :: "nl_addr option"
  ns_ifindex :: int
  ns_nhid :: u32

record net_params =
  np_addr :: nl_addr
  np_ifindex :: int

record nh_params =
  pp_np :: net_params
  pp_nh :: nh_stub

record l3_interface =
  l3_interface_id :: u32
  refcnt :: int

text \<open>Port, VLAN, source and destination address of an egress interface.\<close>

type_synonym l3_key = "u32 \<times> u16 \<times> mac \<times> mac"

datatype cb_owner = Cb_l3 | Cb_vxlan

record nl_l3 =
  l3_interface_mapping :: "(l3_key, l3_interface) fmap"
  termination_mac_entries :: "(u32 \<times> u16 \<times> mac \<times> u16) fset"
  nh_grp_to_l3_ecmp_mapping :: "(nh_stub list, l3_interface) fmap"
  net_callbacks :: "(cb_owner \<times> net_params) list"
  nh_callbacks :: "(cb_owner \<times> nh_params) list"
  nh_unreach_callbacks :: "(cb_owner \<times> nh_params) list"
  routable_l3_neighs :: "nh_stub list"
  unroutable_l3_neighs :: "nh_stub list"

definition nl_l3_init :: nl_l3 where
  "nl_l3_init = \<lparr>l3_interface_mapping = fmempty, termination_mac_entries = {||},
     nh_grp_to_l3_ecmp_mapping = fmempty, net_callbacks = [], nh_callbacks = [],
     nh_unreach_callbacks = [], routable_l3_neighs = [], unroutable_l3_neighs = []\<rparr>"

text \<open>The class, the VLAN object it shares and the switch.\<close>

record 's l3_state =
  st_l3 :: nl_l3
  st_vlan :: nl_vlan
  st_sw :: 's

record l3_env =
  fill_in4 :: "nl_addr \<Rightarrow> int \<times> in4" \<comment> \<open>\<open>libnl_in4addr_2_rofl\<close>: \<open>nl_addr_fill_sockaddr\<close>\<close>
  fill_in6 :: "nl_addr \<Rightarrow> int \<times> in6"
  addr_cmp :: "nl_addr option \<Rightarrow> nl_addr option \<Rightarrow> int" \<comment> \<open>\<open>nl_addr_cmp\<close>\<close>
  cmp_prefix :: "nl_addr \<Rightarrow> nl_addr \<Rightarrow> int" \<comment> \<open>\<open>nl_addr_cmp_prefix\<close>\<close>
  query_route :: "nl_addr \<Rightarrow> bool \<Rightarrow> rtnl_route option" \<comment> \<open>with \<open>RTM_F_FIB_MATCH\<close> or not\<close>
  guess_scope :: "rtnl_route \<Rightarrow> int"
  egress_order :: "l3_key fset \<Rightarrow> l3_key list"
  untagged_vid :: int
  junk_rv :: int
  junk_id :: u32

definition call_sw :: "('s \<Rightarrow> 'r \<times> 's) \<Rightarrow> ('s, 'm) l3_state_scheme \<Rightarrow> 'r \<times> ('s, 'm) l3_state_scheme" where
  "call_sw f st = (let (r, s) = f (st_sw st) in (r, st\<lparr>st_sw := s\<rparr>))"

definition call_vlan :: "(nl_vlan \<times> 's \<Rightarrow> 'r \<times> (nl_vlan \<times> 's)) \<Rightarrow> ('s, 'm) l3_state_scheme \<Rightarrow> 'r \<times> ('s, 'm) l3_state_scheme" where
  "call_vlan f st = (let (r, v, s) = f (st_vlan st, st_sw st) in (r, st\<lparr>st_vlan := v, st_sw := s\<rparr>))"

definition upd_l3 :: "(nl_l3 \<Rightarrow> nl_l3) \<Rightarrow> ('s, 'm) l3_state_scheme \<Rightarrow> ('s, 'm) l3_state_scheme" where
  "upd_l3 f st = st\<lparr>st_l3 := f (st_l3 st)\<rparr>"

text \<open>\<open>add_vlan\<close> and \<open>remove_vlan\<close> on a link that may be null: it has no port.\<close>

definition add_vlan_ptr where
  "add_vlan_ptr nl swi link vid tagged =
     (case link of None \<Rightarrow> Pair (- EINVAL) | Some l \<Rightarrow> call_vlan (add_vlan nl swi l vid tagged))"

definition remove_vlan_ptr where
  "remove_vlan_ptr nl swi link vid tagged =
     (case link of None \<Rightarrow> Pair (- EINVAL) | Some l \<Rightarrow> call_vlan (remove_vlan nl swi l vid tagged))"

subsection \<open>Ordered sets of next hops\<close>

definition nh_less :: "l3_env \<Rightarrow> nh_stub \<Rightarrow> nh_stub \<Rightarrow> bool" where
  "nh_less le a b =
     (let cmp = addr_cmp le (ns_nh a) (ns_nh b)
      in if cmp < 0 then True
         else if cmp > 0 then False
         else if ns_nhid a < ns_nhid b then True
         else if ns_nhid a > ns_nhid b then False
         else ns_ifindex a < ns_ifindex b)"

definition nh_eq :: "l3_env \<Rightarrow> nh_stub \<Rightarrow> nh_stub \<Rightarrow> bool" where
  "nh_eq le a b \<longleftrightarrow> addr_cmp le (ns_nh a) (ns_nh b) = 0 \<and> ns_nhid a = ns_nhid b \<and> ns_ifindex a = ns_ifindex b"

text \<open>\<open>std::set<nh_stub>\<close> as the list of its elements in ascending order.\<close>

fun nh_emplace :: "l3_env \<Rightarrow> nh_stub \<Rightarrow> nh_stub list \<Rightarrow> nh_stub list" where
  "nh_emplace le x [] = [x]"
| "nh_emplace le x (y # ys) =
     (if nh_less le x y then x # y # ys
      else if nh_less le y x then y # nh_emplace le x ys
      else y # ys)"

definition nh_same :: "l3_env \<Rightarrow> nh_stub \<Rightarrow> nh_stub \<Rightarrow> bool" where
  "nh_same le x y \<longleftrightarrow> \<not> nh_less le x y \<and> \<not> nh_less le y x"

definition nh_count :: "l3_env \<Rightarrow> nh_stub \<Rightarrow> nh_stub list \<Rightarrow> bool" where
  "nh_count le x S \<longleftrightarrow> (\<exists>y \<in> set S. nh_same le x y)"

definition nh_erase :: "l3_env \<Rightarrow> nh_stub \<Rightarrow> nh_stub list \<Rightarrow> nh_stub list" where
  "nh_erase le x S = filter (\<lambda>y. \<not> nh_same le x y) S"

subsection \<open>Egress interfaces\<close>

text \<open>
  The result has the return code and the out parameter, which keeps its value \<open>old\<close> unless it
  is assigned.
\<close>

definition add_l3_egress :: "nl_view \<Rightarrow> 's switch_interface \<Rightarrow> int \<Rightarrow> u16 \<Rightarrow> mac \<Rightarrow> mac \<Rightarrow> u32 \<Rightarrow>
    ('s, 'm) l3_state_scheme \<Rightarrow> (int \<times> u32) \<times> ('s, 'm) l3_state_scheme" where
  "add_l3_egress nl swi ifindex vid s_mac d_mac old st =
     (let port_id = get_port_id_ifindex nl ifindex
      in if port_id = 0 then ((- EINVAL, old), st)
         else case fmlookup (l3_interface_mapping (st_l3 st)) (port_id, vid, s_mac, d_mac) of
             None \<Rightarrow>
               (let ((rv, i), st1) = call_sw (sw_l3_egress_create swi port_id vid s_mac d_mac) st
                in if rv < 0 then ((rv, i), st1)
                   else ((rv, i), upd_l3 (l3_interface_mapping_update
                      (fmupd (port_id, vid, s_mac, d_mac) \<lparr>l3_interface_id = i, refcnt = 1\<rparr>)) st1))
           | Some e \<Rightarrow>
               ((0, l3_interface_id e), upd_l3 (l3_interface_mapping_update
                  (fmupd (port_id, vid, s_mac, d_mac) (e\<lparr>refcnt := refcnt e + 1\<rparr>))) st))"

definition del_l3_egress :: "nl_view \<Rightarrow> 's switch_interface \<Rightarrow> int \<Rightarrow> u16 \<Rightarrow> mac \<Rightarrow> mac \<Rightarrow>
    ('s, 'm) l3_state_scheme \<Rightarrow> int \<times> ('s, 'm) l3_state_scheme" where
  "del_l3_egress nl swi ifindex vid s_mac d_mac st =
     (let port_id = get_port_id_ifindex nl ifindex
      in if port_id = 0 then (- EINVAL, st)
         else case fmlookup (l3_interface_mapping (st_l3 st)) (port_id, vid, s_mac, d_mac) of
             None \<Rightarrow> (- ENODATA, st)
           | Some e \<Rightarrow>
               if refcnt e - 1 = 0
               then (let (rv, st1) = call_sw (sw_l3_egress_remove swi (l3_interface_id e)) st;
                         st2 = upd_l3 (l3_interface_mapping_update (fmdrop (port_id, vid, s_mac, d_mac))) st1
                     in (if rv < 0 then rv else - EEXIST, st2))
               else (- EEXIST, upd_l3 (l3_interface_mapping_update
                       (fmupd (port_id, vid, s_mac, d_mac) (e\<lparr>refcnt := refcnt e - 1\<rparr>))) st))"

text \<open>
  \<open>update_l3_egress\<close> works on a copy of the matching entries: the switch is told the port of the
  entry, the new key has the port that was passed in.
\<close>

definition update_l3_egress :: "l3_env \<Rightarrow> 's switch_interface \<Rightarrow> u32 \<Rightarrow> u16 \<Rightarrow> mac \<Rightarrow> mac \<Rightarrow>
    ('s, 'm) l3_state_scheme \<Rightarrow> int \<times> ('s, 'm) l3_state_scheme" where
  "update_l3_egress le swi port_id vid o_mac n_mac st =
     (let mapping = l3_interface_mapping (st_l3 st);
          keys = filter (\<lambda>(p, v, sm, dm). v = vid \<and> sm = o_mac) (egress_order le (fmdom mapping))
      in fold (\<lambda>(p, v, sm, dm) (rv, st).
            case fmlookup mapping (p, v, sm, dm) of
              None \<Rightarrow> (rv, st)
            | Some e \<Rightarrow>
                (let (rv, st1) = call_sw (sw_l3_egress_update swi p vid n_mac dm (l3_interface_id e)) st
                 in (rv, upd_l3 (l3_interface_mapping_update (\<lambda>m.
                       fm_emplace (port_id, vid, n_mac, dm) e (fmdrop (p, v, sm, dm) m))) st1)))
          keys (0, st))"

definition get_l3_interface_id_if :: "l3_env \<Rightarrow> nl_view \<Rightarrow> int \<Rightarrow> mac \<Rightarrow> mac \<Rightarrow> u16 \<Rightarrow> ('s, 'm) l3_state_scheme \<Rightarrow>
    int \<times> u32 option" where
  "get_l3_interface_id_if le nl ifindex s_mac d_mac vid st =
     (case get_link_by_ifindex nl ifindex of
        None \<Rightarrow> (- EINVAL, None)
      | Some link \<Rightarrow>
          (let vid = (if vid = 0 then get_vid nl (untagged_vid le) link else vid)
           in case fmlookup (l3_interface_mapping (st_l3 st))
                     (get_port_id_ifindex nl ifindex, vid, s_mac, d_mac) of
                None \<Rightarrow> (- ENODATA, None)
              | Some e \<Rightarrow> (0, Some (l3_interface_id e))))"

definition get_l3_interface_id_nh :: "l3_env \<Rightarrow> nl_view \<Rightarrow> nh_stub \<Rightarrow> ('s, 'm) l3_state_scheme \<Rightarrow> (int \<times> u32 option) option" where
  "get_l3_interface_id_nh le nl nh st =
     do {
       neigh \<leftarrow> get_neighbour (addr_cmp le) nl (ns_ifindex nh) (ns_nh nh);
       case Option.bind neigh nb_lladdr of
         None \<Rightarrow> Some (- EHOSTUNREACH, None)
       | Some d_mac \<Rightarrow>
           do {
             link \<leftarrow> get_link_by_ifindex nl (ns_ifindex nh);
             let vid = get_vid nl (untagged_vid le) link;
             if is_bridge_interface nl link
             then (case search_fdb nl vid (Some d_mac) of
                     [f] \<Rightarrow> Some (get_l3_interface_id_if le nl (nb_ifindex f) (ln_addr link) d_mac vid st)
                   | _ \<Rightarrow> None)
             else Some (get_l3_interface_id_if le nl (ns_ifindex nh) (ln_addr link) d_mac vid st)
           }
     }"

subsection \<open>ECMP groups\<close>

definition add_l3_ecmp_group :: "'s switch_interface \<Rightarrow> nh_stub list \<Rightarrow> ('s, 'm) l3_state_scheme \<Rightarrow> u32 \<times> ('s, 'm) l3_state_scheme" where
  "add_l3_ecmp_group swi nhs st =
     (case fmlookup (nh_grp_to_l3_ecmp_mapping (st_l3 st)) nhs of
        Some e \<Rightarrow>
          (l3_interface_id e, upd_l3 (nh_grp_to_l3_ecmp_mapping_update
             (fmupd nhs (e\<lparr>refcnt := refcnt e + 1\<rparr>))) st)
      | None \<Rightarrow>
          (let ((_, i), st1) = call_sw (sw_l3_ecmp_add swi {||}) st
           in (i, upd_l3 (nh_grp_to_l3_ecmp_mapping_update (fmupd nhs \<lparr>l3_interface_id = i, refcnt = 1\<rparr>)) st1)))"

definition get_l3_ecmp_group :: "nh_stub list \<Rightarrow> ('s, 'm) l3_state_scheme \<Rightarrow> int \<times> u32 option" where
  "get_l3_ecmp_group nhs st =
     (case fmlookup (nh_grp_to_l3_ecmp_mapping (st_l3 st)) nhs of
        Some e \<Rightarrow> (0, Some (l3_interface_id e))
      | None \<Rightarrow> (- EINVAL, None))"

definition del_l3_ecmp_group :: "'s switch_interface \<Rightarrow> nh_stub list \<Rightarrow> ('s, 'm) l3_state_scheme \<Rightarrow> int \<times> ('s, 'm) l3_state_scheme" where
  "del_l3_ecmp_group swi nhs st =
     (case fmlookup (nh_grp_to_l3_ecmp_mapping (st_l3 st)) nhs of
        None \<Rightarrow> (- EINVAL, st)
      | Some e \<Rightarrow>
          if refcnt e - 1 \<le> 0
          then (let (rv, st1) = call_sw (sw_l3_ecmp_remove swi (l3_interface_id e)) st
                in (rv, upd_l3 (nh_grp_to_l3_ecmp_mapping_update (fmdrop nhs)) st1))
          else (0, upd_l3 (nh_grp_to_l3_ecmp_mapping_update (fmupd nhs (e\<lparr>refcnt := refcnt e - 1\<rparr>))) st))"

subsection \<open>Termination MACs\<close>

definition add_l3_termination :: "'s switch_interface \<Rightarrow> u32 \<Rightarrow> u16 \<Rightarrow> mac \<Rightarrow> int \<Rightarrow> ('s, 'm) l3_state_scheme \<Rightarrow>
    (int \<times> ('s, 'm) l3_state_scheme) option" where
  "add_l3_termination swi port_id vid mac af st =
     (let needle = (port_id, vid, mac, word_of_int af);
          st1 = upd_l3 (termination_mac_entries_update (finsert needle)) st
      in if needle |\<in>| termination_mac_entries (st_l3 st) then Some (0, st)
         else if af = AF_INET then Some (call_sw (sw_l3_termination_add swi port_id vid mac) st1)
         else if af = AF_INET6 then Some (call_sw (sw_l3_termination_add_v6 swi port_id vid mac) st1)
         else None)"

definition del_l3_termination :: "'s switch_interface \<Rightarrow> u32 \<Rightarrow> u16 \<Rightarrow> mac \<Rightarrow> int \<Rightarrow> ('s, 'm) l3_state_scheme \<Rightarrow>
    (int \<times> ('s, 'm) l3_state_scheme) option" where
  "del_l3_termination swi port_id vid mac af st =
     (let needle = (port_id, vid, mac, word_of_int af);
          forget = upd_l3 (termination_mac_entries_update (\<lambda>S. S |-| {|needle|}))
      in if needle |\<notin>| termination_mac_entries (st_l3 st) then Some (- ENODATA, st)
         else if af = AF_INET
         then Some (apsnd forget (call_sw (sw_l3_termination_remove swi port_id vid mac) st))
         else if af = AF_INET6
         then Some (apsnd forget (call_sw (sw_l3_termination_remove_v6 swi port_id vid mac) st))
         else None)"

text \<open>
  One address family of \<open>update_l3_termination\<close>. The first component tells whether the function goes on;
  the code of a failed removal is overwritten.
\<close>

definition move_l3_termination :: "'s switch_interface \<Rightarrow> u32 \<Rightarrow> u16 \<Rightarrow> mac \<Rightarrow> mac \<Rightarrow> int \<Rightarrow>
    int \<times> ('s, 'm) l3_state_scheme \<Rightarrow> (bool \<times> int \<times> ('s, 'm) l3_state_scheme) option" where
  "move_l3_termination swi port_id vid o_mac n_mac af r =
     (if (port_id, vid, o_mac, word_of_int af) |\<in>| termination_mac_entries (st_l3 (snd r))
      then do {
        (_, st1) \<leftarrow> del_l3_termination swi port_id vid o_mac af (snd r);
        (rv, st2) \<leftarrow> add_l3_termination swi port_id vid n_mac af st1;
        Some (0 \<le> rv, rv, st2)
      }
      else Some (True, r))"

definition update_l3_termination :: "'s switch_interface \<Rightarrow> u32 \<Rightarrow> u16 \<Rightarrow> mac \<Rightarrow> mac \<Rightarrow> ('s, 'm) l3_state_scheme \<Rightarrow>
    (int \<times> ('s, 'm) l3_state_scheme) option" where
  "update_l3_termination swi port_id vid o_mac n_mac st =
     do {
       (go_on, r) \<leftarrow> move_l3_termination swi port_id vid o_mac n_mac AF_INET (0, st);
       if go_on
       then map_option snd (move_l3_termination swi port_id vid o_mac n_mac AF_INET6 r)
       else Some r
     }"

end
