(* ===== verification/Nl_L3.thy ===== *)
theory Nl_L3
  imports Nl_L3_Egress
begin

text \<open>
  Routing on the netlink side (\<open>src/src/netlink/nl_l3.cc\<close>), second part: interface addresses,
  neighbours and routes, and the notifications that tie them together. A route whose next hop is not
  resolved yet waits in \<open>nh_callbacks\<close>, a route with a resolved next hop in \<open>nh_unreach_callbacks\<close>;
  learning or losing the neighbour moves it from one list to the other. The notifications of
  \<open>nl_vxlan\<close>, which registers for the same events, are the parameters \<open>vx_nh\<close> and \<open>vx_net\<close>.
\<close>

abbreviation (input) NUD_INCOMPLETE :: u16 where "NUD_INCOMPLETE \<equiv> 1"
abbreviation (input) NUD_FAILED :: u16 where "NUD_FAILED \<equiv> 0x20"
abbreviation (input) RTN_UNICAST :: int where "RTN_UNICAST \<equiv> 1"
abbreviation (input) RTPROT_KERNEL :: int where "RTPROT_KERNEL \<equiv> 2"
abbreviation (input) RT_SCOPE_LINK :: int where "RT_SCOPE_LINK \<equiv> 253"
abbreviation (input) MAIN_ROUTING_TABLE :: u32 where "MAIN_ROUTING_TABLE \<equiv> 254"

definition ipv4_lo :: nl_addr where
  "ipv4_lo = \<lparr>na_family = AF_INET, na_prefixlen = 8, na_bits = 0x7f000000\<rparr>"

definition ipv6_lo :: nl_addr where
  "ipv6_lo = \<lparr>na_family = AF_INET6, na_prefixlen = 128, na_bits = 1\<rparr>"

definition ipv6_ll :: nl_addr where
  "ipv6_ll = \<lparr>na_family = AF_INET6, na_prefixlen = 10, na_bits = push_bit 112 0xfe80\<rparr>"

definition ipv6_mc :: nl_addr where
  "ipv6_mc = \<lparr>na_family = AF_INET6, na_prefixlen = 8, na_bits = push_bit 120 0xff\<rparr>"

definition is_ipv6_link_local_address :: "l3_env \<Rightarrow> nl_addr \<Rightarrow> bool" where
  "is_ipv6_link_local_address le addr \<longleftrightarrow> cmp_prefix le ipv6_ll addr = 0"

definition is_ipv6_multicast_address :: "l3_env \<Rightarrow> nl_addr \<Rightarrow> bool" where
  "is_ipv6_multicast_address le addr \<longleftrightarrow> cmp_prefix le ipv6_mc addr = 0"

text \<open>
  The mask of a prefix. For length 128 \<open>build_mask_in6\<close> writes one byte past the address, into the
  field behind it; all 16 bytes are 0xff then.
\<close>

definition mask_in6 :: "nat \<Rightarrow> in6" where
  "mask_in6 n = (case build_mask_in6 n of Some bs \<Rightarrow> in6_of_bytes bs | None \<Rightarrow> - 1)"

fun foreach_opt :: "('a \<Rightarrow> 's \<Rightarrow> 's option) \<Rightarrow> 'a list \<Rightarrow> 's \<Rightarrow> 's option" where
  "foreach_opt f [] s = Some s"
| "foreach_opt f (x # xs) s = Option.bind (f x s) (foreach_opt f xs)"

subsection \<open>Interface addresses\<close>

definition search_neigh_cache :: "l3_env \<Rightarrow> nl_view \<Rightarrow> int \<Rightarrow> nl_addr \<Rightarrow> int \<Rightarrow> rtnl_neigh list" where
  "search_neigh_cache le nl ifindex addr family =
     filter (\<lambda>n. nb_ifindex n = ifindex \<and> addr_cmp le (nb_dst n) (Some addr) = 0 \<and> nb_family n = family)
       (nv_neighs nl)"

definition add_l3_addr :: "l3_env \<Rightarrow> nl_view \<Rightarrow> 's switch_interface \<Rightarrow> rtnl_addr \<Rightarrow> ('s, 'm) l3_state_scheme \<Rightarrow>
    (int \<times> ('s, 'm) l3_state_scheme) option" where
  "add_l3_addr le nl swi a st =
     (case get_link_by_ifindex nl (ad_ifindex a) of
        None \<Rightarrow> Some (- EINVAL, st)
      | Some link \<Rightarrow>
          (let is_loopback = ln_loopback link;
               is_bridge = (ln_family link = AF_BRIDGE);
               vid = get_vid nl (untagged_vid le) link;
               vrf_id = get_vrf_id vid (st_vlan st)
           in if \<not> is_loopback \<and> \<not> is_switch_interface nl link then Some (- EINVAL, st)
              else if ln_master link \<noteq> 0 \<and> is_bridge
              then (case get_link nl (ln_master link) AF_BRIDGE of None \<Rightarrow> None | Some _ \<Rightarrow> Some (- EINVAL, st))
              else do {
                (rv, st1) \<leftarrow> (if \<not> is_loopback
                   then add_l3_termination swi (get_port_id_link nl (Some link)) vid (ln_addr link) AF_INET st
                   else Some (0, st));
                if rv < 0 then Some (rv, st1)
                else
                  (let prefixlen = ad_prefixlen a; addr = ad_local a; (rv, ipv4_dst) = fill_in4 le addr
                   in if rv < 0 then Some (rv, st1)
                      else if is_loopback
                      then (if cmp_prefix le addr ipv4_lo = 0 then Some (0, st1)
                            else if prefixlen = 32
                            then Some (call_sw (sw_l3_unicast_host_add_in4 swi ipv4_dst 0 False False 0) st1)
                            else Some (rv, st1))
                      else
                        (let update = (search_neigh_cache le nl (ad_ifindex a) addr AF_INET \<noteq> []);
                             (rv, st2) = (if prefixlen = 32
                                then call_sw (sw_l3_unicast_host_add_in4 swi ipv4_dst 0 False update vrf_id) st1
                                else (rv, st1))
                         in if \<not> is_bridge \<and> \<not> is_bridge_interface nl link
                            then Some (call_vlan (add_vlan nl swi link vid (rtnl_link_is_vlan link)) st2)
                            else Some (rv, st2)))
              }))"

definition add_lo_addr_v6 :: "l3_env \<Rightarrow> 's switch_interface \<Rightarrow> rtnl_addr \<Rightarrow> ('s, 'm) l3_state_scheme \<Rightarrow> int \<times> ('s, 'm) l3_state_scheme" where
  "add_lo_addr_v6 le swi a st =
     (let addr = ad_local a
      in if cmp_prefix le addr ipv6_lo = 0 then (- EINVAL, st)
         else (let (rv, ipv6_dst) = fill_in6 le addr
               in if rv < 0 then (rv, st)
                  else if ad_prefixlen a = 128
                  then call_sw (sw_l3_unicast_host_add_in6 swi ipv6_dst 0 False False 0) st
                  else (rv, st)))"

definition add_l3_addr_v6 :: "l3_env \<Rightarrow> nl_view \<Rightarrow> 's switch_interface \<Rightarrow> rtnl_addr \<Rightarrow> ('s, 'm) l3_state_scheme \<Rightarrow>
    (int \<times> ('s, 'm) l3_state_scheme) option" where
  "add_l3_addr_v6 le nl swi a st =
     (case get_link_by_ifindex nl (ad_ifindex a) of
        None \<Rightarrow> Some (- EINVAL, st)
      | Some link \<Rightarrow>
          (let is_loopback = ln_loopback link
           in if \<not> is_loopback \<and> \<not> is_switch_interface nl link then Some (- EINVAL, st)
              else
                (let vid = get_vid nl (untagged_vid le) link
                 in do {
                   (rv, st1) \<leftarrow> (if \<not> is_loopback
                      then add_l3_termination swi (get_port_id_link nl (Some link)) vid (ln_addr link) AF_INET6 st
                      else Some (0, st));
                   if rv < 0 then Some (rv, st1)
                   else if is_loopback then Some (add_lo_addr_v6 le swi a st1)
                   else
                     (let addr = ad_local a; prefixlen = ad_prefixlen a; (rv, ipv6_dst) = fill_in6 le addr
                      in if rv < 0 then Some (rv, st1)
                         else
                           (let update = (search_neigh_cache le nl (ad_ifindex a) addr AF_INET6 \<noteq> []);
                                (rv, st2) = (if prefixlen = 128
                                   then call_sw (sw_l3_unicast_host_add_in6 swi ipv6_dst 0 False update 0) st1
                                   else (rv, st1))
                            in if prefixlen = 128 \<and> rv < 0 then Some (rv, st2)
                               else if \<not> is_bridge_interface nl link
                               then Some (call_vlan (add_vlan nl swi link vid (rtnl_link_is_vlan link)) st2)
                               else Some (rv, st2)))
                 })))"

definition del_l3_addr :: "l3_env \<Rightarrow> nl_view \<Rightarrow> 's switch_interface \<Rightarrow> rtnl_addr \<Rightarrow> ('s, 'm) l3_state_scheme \<Rightarrow>
    (int \<times> ('s, 'm) l3_state_scheme) option" where
  "del_l3_addr le nl swi a st =
     (case get_link nl (ad_ifindex a) AF_UNSPEC of
        None \<Rightarrow> Some (- EINVAL, st)
      | Some link \<Rightarrow>
          (let family = ad_family a;
               vid = get_vid nl (untagged_vid le) link;
               vrf_id = get_vrf_id vid (st_vlan st);
               is_loopback = ln_loopback link;
               addr = ad_local a;
               prefixlen = na_prefixlen addr
           in if \<not> is_loopback \<and> \<not> is_switch_interface nl link then Some (- EINVAL, st)
              else if family \<noteq> AF_INET \<and> family \<noteq> AF_INET6 then None
              else
                (let parse = (if family = AF_INET then fst (fill_in4 le addr) else fst (fill_in6 le addr))
                 in if parse < 0 then Some (parse, st)
                    else
                      (let (rv, st1) =
                             (if family = AF_INET
                              then (if prefixlen = 32
                                    then call_sw (sw_l3_unicast_host_remove_in4 swi (snd (fill_in4 le addr)) vrf_id) st
                                    else (parse, st))
                              else (if prefixlen = 128
                                    then call_sw (sw_l3_unicast_host_remove_in6 swi (snd (fill_in6 le addr)) vrf_id) st
                                    else (parse, st)))
                       in if is_loopback then Some (0, st1)
                          else if rv < 0 then Some (rv, st1)
                          else
                            (let own = get_l3_addrs nl link family;
                                 other = (if rtnl_link_is_vlan link then get_link nl (ln_link link) AF_UNSPEC
                                          else get_vlan_link nl (ln_ifindex link) 1);
                                 addresses = (if uint vid = untagged_vid le \<and> own = []
                                    then (case other of None \<Rightarrow> [] | Some l \<Rightarrow> get_l3_addrs nl l family)
                                    else own)
                             in do {
                               (rv, st2) \<leftarrow> (if addresses = []
                                  then del_l3_termination swi (get_port_id_link nl (Some link)) vid (ln_addr link) family st1
                                  else Some (rv, st1));
                               if \<not> is_bridge_interface nl link
                               then Some (call_vlan (remove_vlan nl swi link vid (rtnl_link_is_vlan link)) st2)
                               else Some (rv, st2)
                             })))))"

definition l3_init :: "l3_env \<Rightarrow> nl_view \<Rightarrow> 's switch_interface \<Rightarrow> ('s, 'm) l3_state_scheme \<Rightarrow> (int \<times> ('s, 'm) l3_state_scheme) option" where
  "l3_init le nl swi st =
     foreach_opt (\<lambda>a (rv, st).
         if rv < 0 then Some (rv, st)
         else do {
           (rv, st1) \<leftarrow> add_l3_addr le nl swi a st;
           Some (if rv < 0 then - EINVAL else 0, st1)
         })
       (filter (\<lambda>a. ad_ifindex a = 1 \<and> ad_family a = AF_INET) (nv_addrs nl)) (0, st)"

subsection \<open>Egress interfaces of neighbours\<close>

text \<open>
  Result: return code, the out parameters for the interface and the VRF with their initial values
  \<open>out\<close>, and the state. Without a matching entry in the forwarding table of the bridge the variable
  \<open>rv\<close> is returned uninitialised.
\<close>

definition add_l3_neigh_egress :: "l3_env \<Rightarrow> nl_view \<Rightarrow> 's switch_interface \<Rightarrow> rtnl_neigh \<Rightarrow> u32 \<times> u16 \<Rightarrow>
    ('s, 'm) l3_state_scheme \<Rightarrow> (int \<times> (u32 \<times> u16) \<times> ('s, 'm) l3_state_scheme) option" where
  "add_l3_neigh_egress le nl swi n out st =
     (if nb_state n = NUD_FAILED then Some (- EINVAL, out, st)
      else if nb_state n = NUD_INCOMPLETE then Some (0, out, st)
      else case get_link_by_ifindex nl (nb_ifindex n) of
          None \<Rightarrow> Some (- EINVAL, out, st)
        | Some link \<Rightarrow>
            (let vid = get_vid nl (untagged_vid le) link;
                 tagged = rtnl_link_is_vlan link;
                 s_mac = ln_addr link
             in if is_bridge_interface nl link
                then
                  (let out1 = (fst out, get_vrf_id vid (st_vlan st))
                   in map_option snd (foreach_opt
                        (\<lambda>f (stop, rv, out, st).
                           if stop then Some (stop, rv, out, st)
                           else
                             (let (rv, st1) = add_vlan_ptr nl swi (get_link_by_ifindex nl (nb_ifindex f)) vid tagged st
                              in if rv < 0 then Some (True, rv, out, st1)
                                 else do {
                                   d_mac \<leftarrow> nb_lladdr n;
                                   let ((rv, i), st2) = add_l3_egress nl swi (nb_ifindex f) vid s_mac d_mac (fst out) st1;
                                   Some (False, rv, (i, snd out), st2)
                                 }))
                        (search_fdb nl vid (nb_lladdr n)) (False, junk_rv le, out1, st)))
                else
                  (let (rv, st1) = call_vlan (add_vlan nl swi link vid tagged) st
                   in if rv < 0 then Some (rv, out, st1)
                      else do {
                        d_mac \<leftarrow> nb_lladdr n;
                        let ((rv, i), st2) = add_l3_egress nl swi (nb_ifindex n) vid s_mac d_mac (fst out) st1;
                        Some (rv, (i, snd out), st2)
                      })))"

definition del_l3_neigh_egress :: "l3_env \<Rightarrow> nl_view \<Rightarrow> 's switch_interface \<Rightarrow> rtnl_neigh \<Rightarrow> ('s, 'm) l3_state_scheme \<Rightarrow>
    (int \<times> ('s, 'm) l3_state_scheme) option" where
  "del_l3_neigh_egress le nl swi n st =
     (case get_link_by_ifindex nl (nb_ifindex n) of
        None \<Rightarrow> Some (- EINVAL, st)
      | Some link \<Rightarrow>
          (let vid = get_vid nl (untagged_vid le) link;
               tagged = rtnl_link_is_vlan link;
               s_mac = ln_addr link;
               finish = (\<lambda>ifindex link' d_mac.
                  let (_, st1) = del_l3_egress nl swi ifindex vid s_mac d_mac st
                  in remove_vlan_ptr nl swi link' vid tagged st1)
           in if is_bridge_interface nl link
              then (case search_fdb nl vid (nb_lladdr n) of
                      [f] \<Rightarrow> map_option (finish (nb_ifindex f) (Some link)) (nb_lladdr n)
                    | [] \<Rightarrow>
                        do {
                          d_mac \<leftarrow> nb_lladdr n;
                          case find (\<lambda>(p, v, sm, dm). v = vid \<and> sm = s_mac \<and> dm = d_mac)
                                 (egress_order le (fmdom (l3_interface_mapping (st_l3 st)))) of
                            None \<Rightarrow> Some (- ENODATA, st)
                          | Some (portid, _) \<Rightarrow>
                              if portid = 0 then Some (- ENODATA, st)
                              else
                                (let ifindex = get_ifindex_by_port_id nl portid
                                 in Some (finish ifindex (get_link_by_ifindex nl ifindex) d_mac))
                        }
                    | _ \<Rightarrow> None)
              else map_option (finish (nb_ifindex n) (Some link)) (nb_lladdr n)))"

subsection \<open>Routes on the switch\<close>

definition add_l3_unicast_route_addr :: "l3_env \<Rightarrow> 's switch_interface \<Rightarrow> nl_addr \<Rightarrow> u32 \<Rightarrow> bool \<Rightarrow> bool \<Rightarrow> u16 \<Rightarrow>
    ('s, 'm) l3_state_scheme \<Rightarrow> (int \<times> ('s, 'm) l3_state_scheme) option" where
  "add_l3_unicast_route_addr le swi dst l3_id is_ecmp update_route vrf_id st =
     (let prefixlen = na_prefixlen dst
      in if na_family dst = AF_INET
         then (let ipv4_dst = snd (fill_in4 le dst)
               in Some (if prefixlen = 32
                        then call_sw (sw_l3_unicast_host_add_in4 swi ipv4_dst l3_id is_ecmp update_route vrf_id) st
                        else call_sw (sw_l3_unicast_route_add_in4 swi ipv4_dst (build_mask_in4 prefixlen) l3_id
                               is_ecmp update_route vrf_id) st))
         else if na_family dst = AF_INET6
         then (let ipv6_dst = snd (fill_in6 le dst)
               in Some (if prefixlen = 128
                        then call_sw (sw_l3_unicast_host_add_in6 swi ipv6_dst l3_id is_ecmp update_route vrf_id) st
                        else call_sw (sw_l3_unicast_route_add_in6 swi ipv6_dst (mask_in6 prefixlen) l3_id
                               is_ecmp update_route vrf_id) st))
         else None)"

definition del_l3_unicast_route_addr :: "l3_env \<Rightarrow> 's switch_interface \<Rightarrow> nl_addr \<Rightarrow> u16 \<Rightarrow>
    ('s, 'm) l3_state_scheme \<Rightarrow> int \<times> ('s, 'm) l3_state_scheme" where
  "del_l3_unicast_route_addr le swi dst vrf_id st =
     (let prefixlen = na_prefixlen dst
      in if na_family dst = AF_INET
         then (let ipv4_dst = snd (fill_in4 le dst)
               in if prefixlen = 32 then call_sw (sw_l3_unicast_host_remove_in4 swi ipv4_dst vrf_id) st
                  else call_sw (sw_l3_unicast_route_remove_in4 swi ipv4_dst (build_mask_in4 prefixlen) vrf_id) st)
         else (let ipv6_dst = snd (fill_in6 le dst)
               in if prefixlen = 128 then call_sw (sw_l3_unicast_host_remove_in6 swi ipv6_dst vrf_id) st
                  else call_sw (sw_l3_unicast_route_remove_in6 swi ipv6_dst (mask_in6 prefixlen) vrf_id) st))"

subsection \<open>Next hops of routes\<close>

definition get_nexthops_of_route :: "nl_view \<Rightarrow> rtnl_route \<Rightarrow> rtnl_nexthop list" where
  "get_nexthops_of_route nl route =
     filter (\<lambda>h. case get_link_by_ifindex nl (nx_ifindex h) of None \<Rightarrow> False | Some l \<Rightarrow> is_switch_interface nl l)
       (rt_nexthops route)"

definition supported_family :: "nl_addr \<Rightarrow> bool" where
  "supported_family a \<longleftrightarrow> na_family a = AF_INET \<or> na_family a = AF_INET6"

definition get_neighbours_of_route :: "l3_env \<Rightarrow> nl_view \<Rightarrow> rtnl_route \<Rightarrow> int \<times> nh_stub list" where
  "get_neighbours_of_route le nl route =
     (let nhid = rt_nhid route;
          emplace = (\<lambda>stubs. let nhs = fold (nh_emplace le) stubs [] in (int (length nhs), nhs))
      in if rt_nexthops route \<noteq> []
         then (let rnhs = get_nexthops_of_route nl route
               in if rnhs = [] then (- ENETUNREACH, [])
                  else emplace (List.map_filter (\<lambda>h.
                     case (case nx_gateway h of Some a \<Rightarrow> Some a | None \<Rightarrow> nx_via h) of
                       None \<Rightarrow> None
                     | Some a \<Rightarrow> if supported_family a
                         then Some \<lparr>ns_nh = Some a, ns_ifindex = nx_ifindex h, ns_nhid = nhid\<rparr> else None) rnhs))
         else if nhid = 0 then (- EINVAL, [])
         else case get_nh_by_id nl nhid of
             None \<Rightarrow> (- EINVAL, [])
           | Some route_nh \<Rightarrow>
               (let rnhs = (if nho_group route_nh \<noteq> [] then List.map_filter (get_nh_by_id nl) (nho_group route_nh)
                            else [route_nh])
                in emplace (List.map_filter (\<lambda>h.
                     case get_link_by_ifindex nl (nho_oif h) of
                       None \<Rightarrow> None
                     | Some l \<Rightarrow>
                         if is_switch_interface nl l \<and>
                            (case nho_gateway h of None \<Rightarrow> True | Some a \<Rightarrow> supported_family a)
                         then Some \<lparr>ns_nh = nho_gateway h, ns_ifindex = nho_oif h, ns_nhid = nhid\<rparr> else None) rnhs)))"

text \<open>
  \<open>cnetlink::get_route_by_nh_params\<close>: the first match in the cache, then among the old objects of
  pending events.
\<close>

definition get_route_by_nh_params :: "l3_env \<Rightarrow> nl_view \<Rightarrow> nh_params \<Rightarrow> rtnl_route option" where
  "get_route_by_nh_params le nl p =
     (let is_it = (\<lambda>r. rt_type r = RTN_UNICAST \<and> addr_cmp le (Some (rt_dst r)) (Some (np_addr (pp_np p))) = 0 \<and>
            (if 0 < ns_nhid (pp_nh p) then rt_nhid r = ns_nhid (pp_nh p)
             else \<exists>h \<in> set (rt_nexthops r). nx_ifindex h = ns_ifindex (pp_nh p)))
      in case find is_it (nv_routes nl) of
           Some r \<Rightarrow> Some r
         | None \<Rightarrow> find is_it (nv_old_routes nl))"

definition route_vrf :: "rtnl_route \<Rightarrow> u16" where
  "route_vrf r = (if rt_table r = MAIN_ROUTING_TABLE then 0 else ucast (rt_table r))"

subsection \<open>Notifications\<close>

definition notify_on_net_reachable :: "cb_owner \<Rightarrow> net_params \<Rightarrow> ('s, 'm) l3_state_scheme \<Rightarrow> ('s, 'm) l3_state_scheme" where
  "notify_on_net_reachable f p = upd_l3 (net_callbacks_update (\<lambda>cbs. cbs @ [(f, p)]))"

definition notify_on_nh_reachable :: "cb_owner \<Rightarrow> nh_params \<Rightarrow> ('s, 'm) l3_state_scheme \<Rightarrow> ('s, 'm) l3_state_scheme" where
  "notify_on_nh_reachable f p = upd_l3 (nh_callbacks_update (\<lambda>cbs. cbs @ [(f, p)]))"

definition notify_on_nh_unreachable :: "cb_owner \<Rightarrow> nh_params \<Rightarrow> ('s, 'm) l3_state_scheme \<Rightarrow> ('s, 'm) l3_state_scheme" where
  "notify_on_nh_unreachable f p = upd_l3 (nh_unreach_callbacks_update (\<lambda>cbs. cbs @ [(f, p)]))"

text \<open>
  The loop over a list of callbacks: notify and erase the matching ones. Callbacks that a
  notification appends are visited too, so the loop need not end.
\<close>

definition remove_nth :: "nat \<Rightarrow> 'a list \<Rightarrow> 'a list" where
  "remove_nth k xs = take k xs @ drop (Suc k) xs"

partial_function (option) cb_loop :: "('st \<Rightarrow> 'c list) \<Rightarrow> (('c list \<Rightarrow> 'c list) \<Rightarrow> 'st \<Rightarrow> 'st) \<Rightarrow> ('c \<Rightarrow> bool) \<Rightarrow>
    ('c \<Rightarrow> 'st \<Rightarrow> 'st option) \<Rightarrow> nat \<Rightarrow> 'st \<Rightarrow> 'st option" where
  "cb_loop cbs upd matches notify k st =
     (if length (cbs st) \<le> k then Some st
      else if matches (cbs st ! k)
      then Option.bind (notify (cbs st ! k) st) (\<lambda>st1. cb_loop cbs upd matches notify k (upd (remove_nth k) st1))
      else cb_loop cbs upd matches notify (Suc k) st)"

definition nh_reachable_notification :: "l3_env \<Rightarrow> nl_view \<Rightarrow> 's switch_interface \<Rightarrow> rtnl_neigh \<Rightarrow> nh_params \<Rightarrow>
    ('s, 'm) l3_state_scheme \<Rightarrow> ('s, 'm) l3_state_scheme option" where
  "nh_reachable_notification le nl swi n p st =
     (case get_route_by_nh_params le nl p of
        None \<Rightarrow> Some st
      | Some route \<Rightarrow>
          (let nhs = snd (get_neighbours_of_route le nl route)
           in do {
             (ids, st1) \<leftarrow> foreach_opt (\<lambda>rnh (ids, st).
                 if nh_eq le rnh (pp_nh p)
                 then do {
                   (rv, (i, _), st1) \<leftarrow> add_l3_neigh_egress le nl swi n (junk_id le, 0) st;
                   Some (if rv = 0 then finsert i ids else ids, st1)
                 }
                 else do {
                   (rv, i) \<leftarrow> get_l3_interface_id_nh le nl rnh st;
                   Some (if rv = 0 then finsert (case i of Some i \<Rightarrow> i | None \<Rightarrow> junk_id le) ids else ids, st)
                 }) nhs ({||}, st);
             let st2 = notify_on_nh_unreachable Cb_l3 p st1;
             if ids = {||} then None
             else if 1 < length nhs
             then
               (let route_dst = (case snd (get_l3_ecmp_group nhs st2) of Some i \<Rightarrow> i | None \<Rightarrow> junk_id le);
                    (_, st3) = call_sw (sw_l3_ecmp_update swi route_dst ids) st2
                in map_option snd (add_l3_unicast_route_addr le swi (np_addr (pp_np p)) route_dst True True
                     (route_vrf route) st3))
             else map_option snd (add_l3_unicast_route_addr le swi (np_addr (pp_np p)) (fset_begin ids) False True
                     (route_vrf route) st2)
           }))"

definition nh_unreachable_notification :: "l3_env \<Rightarrow> nl_view \<Rightarrow> 's switch_interface \<Rightarrow> rtnl_neigh \<Rightarrow> nh_params \<Rightarrow>
    ('s, 'm) l3_state_scheme \<Rightarrow> ('s, 'm) l3_state_scheme option" where
  "nh_unreachable_notification le nl swi n p st =
     (case get_route_by_nh_params le nl p of
        None \<Rightarrow> map_option snd (del_l3_neigh_egress le nl swi n st)
      | Some route \<Rightarrow>
          (let nhs = snd (get_neighbours_of_route le nl route)
           in do {
             ids \<leftarrow> foreach_opt (\<lambda>rnh ids.
                 if nh_eq le rnh (pp_nh p) then Some ids
                 else do {
                   (rv, i) \<leftarrow> get_l3_interface_id_nh le nl rnh st;
                   Some (if rv = 0 then finsert (case i of Some i \<Rightarrow> i | None \<Rightarrow> junk_id le) ids else ids)
                 }) nhs {||};
             let (route_dst, st1) =
               (if 1 < length nhs
                then (let d = (case snd (get_l3_ecmp_group nhs st) of Some i \<Rightarrow> i | None \<Rightarrow> junk_id le)
                      in (d, snd (call_sw (sw_l3_ecmp_update swi d ids) st)))
                else (junk_id le, st));
             (_, st2) \<leftarrow> add_l3_unicast_route_addr le swi (np_addr (pp_np p)) (if ids = {||} then 0 else route_dst)
                (1 < length nhs) True (route_vrf route) st1;
             (_, st3) \<leftarrow> del_l3_neigh_egress le nl swi n st2;
             Some (notify_on_nh_reachable Cb_l3 p st3)
           }))"

text \<open>\<open>is_switch_interface(int)\<close> asserts that the link exists.\<close>

definition is_switch_ifindex :: "nl_view \<Rightarrow> int \<Rightarrow> bool option" where
  "is_switch_ifindex nl ifindex = map_option (is_switch_interface nl) (get_link_by_ifindex nl ifindex)"

subsection \<open>Neighbours\<close>

definition is_l3_neigh_routable :: "l3_env \<Rightarrow> nl_addr \<Rightarrow> bool" where
  "is_l3_neigh_routable le dst =
     (case query_route le dst False of None \<Rightarrow> False | Some r \<Rightarrow> guess_scope le r = RT_SCOPE_LINK)"

definition nh_matches :: "l3_env \<Rightarrow> rtnl_neigh \<Rightarrow> cb_owner \<times> nh_params \<Rightarrow> bool" where
  "nh_matches le n cb \<longleftrightarrow>
     ns_ifindex (pp_nh (snd cb)) = nb_ifindex n \<and> addr_cmp le (ns_nh (pp_nh (snd cb))) (nb_dst n) = 0"

definition add_l3_neigh :: "l3_env \<Rightarrow> nl_view \<Rightarrow> 's switch_interface \<Rightarrow>
    (rtnl_neigh \<Rightarrow> nh_params \<Rightarrow> ('s, 'm) l3_state_scheme \<Rightarrow> ('s, 'm) l3_state_scheme option) \<Rightarrow> rtnl_neigh \<Rightarrow>
    ('s, 'm) l3_state_scheme \<Rightarrow> (int \<times> ('s, 'm) l3_state_scheme) option" where
  "add_l3_neigh le nl swi vx_nh n st =
     do {
       addr \<leftarrow> nb_dst n;
       let notify = (\<lambda>rv st. map_option (Pair rv)
         (cb_loop (nh_callbacks \<circ> st_l3) (upd_l3 \<circ> nh_callbacks_update) (nh_matches le n)
           (\<lambda>(f, p). case f of Cb_l3 \<Rightarrow> nh_reachable_notification le nl swi n p | Cb_vxlan \<Rightarrow> vx_nh n p) 0 st));
       if nb_family n = AF_INET6 \<and> cmp_prefix le addr ipv6_ll = 0 then notify 0 st
       else
         (let nh = \<lparr>ns_nh = Some addr, ns_ifindex = nb_ifindex n, ns_nhid = 0\<rparr>
          in if \<not> is_l3_neigh_routable le addr
             then Some (- ENETUNREACH, upd_l3 (unroutable_l3_neighs_update (nh_emplace le nh)) st)
             else do {
               let st0 = upd_l3 (routable_l3_neighs_update (nh_emplace le nh)) st;
               (rv, (l3_id, vrf_id), st1) \<leftarrow> add_l3_neigh_egress le nl swi n (0, 0) st0;
               if rv < 0 then Some (rv, st1)
               else
                 (let parse = (if nb_family n = AF_INET then fst (fill_in4 le addr) else fst (fill_in6 le addr))
                  in if parse < 0 then Some (parse, st1)
                     else
                       (let (rv, st2) =
                              (if nb_family n = AF_INET
                               then call_sw (sw_l3_unicast_host_add_in4 swi (snd (fill_in4 le addr)) l3_id False False vrf_id) st1
                               else call_sw (sw_l3_unicast_host_add_in6 swi (snd (fill_in6 le addr)) l3_id False False vrf_id) st1)
                        in if rv < 0 then Some (rv, st2) else notify rv st2))
             })
     }"

text \<open>The loop at the end of \<open>del_l3_neigh\<close> over the routes that wait for the loss of a neighbour.\<close>

definition notify_unreach_callbacks :: "l3_env \<Rightarrow> nl_view \<Rightarrow> 's switch_interface \<Rightarrow> rtnl_neigh \<Rightarrow>
    ('s, 'm) l3_state_scheme \<Rightarrow> ('s, 'm) l3_state_scheme option" where
  "notify_unreach_callbacks le nl swi n st =
     cb_loop (nh_unreach_callbacks \<circ> st_l3) (upd_l3 \<circ> nh_unreach_callbacks_update)
       (nh_matches le n) (\<lambda>(f, p). nh_unreachable_notification le nl swi n p) 0 st"

definition del_l3_neigh :: "l3_env \<Rightarrow> nl_view \<Rightarrow> 's switch_interface \<Rightarrow> rtnl_neigh \<Rightarrow>
    ('s, 'm) l3_state_scheme \<Rightarrow> (int \<times> ('s, 'm) l3_state_scheme) option" where
  "del_l3_neigh le nl swi n st =
     (if nb_state n = NUD_FAILED then Some (- EINVAL, st)
      else if nb_state n = NUD_INCOMPLETE then Some (0, st)
      else case get_link_by_ifindex nl (nb_ifindex n) of
          None \<Rightarrow> Some (- EINVAL, st)
        | Some link \<Rightarrow>
            do {
              addr \<leftarrow> nb_dst n;
              let nh = \<lparr>ns_nh = Some addr, ns_ifindex = nb_ifindex n, ns_nhid = 0\<rparr>;
              if nh_count le nh (unroutable_l3_neighs (st_l3 st))
              then Some (0, upd_l3 (unroutable_l3_neighs_update (nh_erase le nh)) st)
              else
                (let st0 = upd_l3 (routable_l3_neighs_update (nh_erase le nh)) st;
                     skip_addr_remove =
                       (\<exists>a \<in> set (get_l3_addrs nl link AF_UNSPEC). addr_cmp le (Some addr) (Some (ad_local a)) = 0);
                     link_local = (nb_family n = AF_INET6 \<and> \<not> skip_addr_remove \<and> cmp_prefix le addr ipv6_ll = 0);
                     parse = (if skip_addr_remove \<or> link_local then 0
                              else if nb_family n = AF_INET then fst (fill_in4 le addr)
                              else if nb_family n = AF_INET6 then fst (fill_in6 le addr) else 0);
                     (rv, st1) =
                       (if skip_addr_remove \<or> link_local \<or> parse < 0 then (parse, st0)
                        else if nb_family n = AF_INET
                        then call_sw (sw_l3_unicast_host_remove_in4 swi (snd (fill_in4 le addr)) 0) st0
                        else if nb_family n = AF_INET6
                        then call_sw (sw_l3_unicast_host_remove_in6 swi (snd (fill_in6 le addr)) 0) st0
                        else (0, st0))
                 in if rv < 0 then Some (rv, st1)
                    else do {
                      (rv, st2) \<leftarrow> (if link_local then Some (rv, st1) else del_l3_neigh_egress le nl swi n st1);
                      st3 \<leftarrow> notify_unreach_callbacks le nl swi n st2;
                      Some (rv, st3)
                    })
            })"

text \<open>
  A changed link-layer address. The entry of the old address is erased and then read through the
  iterator to it, so the successful path has no defined outcome.
\<close>

definition update_l3_neigh :: "l3_env \<Rightarrow> nl_view \<Rightarrow> 's switch_interface \<Rightarrow>
    (rtnl_neigh \<Rightarrow> nh_params \<Rightarrow> ('s, 'm) l3_state_scheme \<Rightarrow> ('s, 'm) l3_state_scheme option) \<Rightarrow> rtnl_neigh \<Rightarrow> rtnl_neigh \<Rightarrow>
    ('s, 'm) l3_state_scheme \<Rightarrow> (int \<times> ('s, 'm) l3_state_scheme) option" where
  "update_l3_neigh le nl swi vx_nh n_old n_new st =
     (let ifindex = nb_ifindex n_old
      in case get_link_by_ifindex nl ifindex of
         None \<Rightarrow> None
       | Some l \<Rightarrow>
         if \<not> is_switch_interface nl l then Some (- EINVAL, st)
         else case (nb_lladdr n_old, nb_lladdr n_new) of
             (None, None) \<Rightarrow> Some (0, st)
           | (None, Some _) \<Rightarrow> add_l3_neigh le nl swi vx_nh n_new st
           | (Some _, None) \<Rightarrow> del_l3_neigh le nl swi n_old st
           | (Some ll_old, Some ll_new) \<Rightarrow>
               if ll_old = ll_new then Some (0, st)
               else if nh_count le \<lparr>ns_nh = nb_dst n_old, ns_ifindex = ifindex, ns_nhid = 0\<rparr>
                         (unroutable_l3_neighs (st_l3 st))
               then Some (- EINVAL, st)
               else do {
                 link \<leftarrow> get_link_by_ifindex nl ifindex;
                 let s_mac = ln_addr link;
                 let vid = get_vid nl (untagged_vid le) link;
                 ifindex \<leftarrow> (if is_bridge_interface nl link
                    then (case search_fdb nl vid (Some ll_new) of [f] \<Rightarrow> Some (nb_ifindex f) | _ \<Rightarrow> None)
                    else Some ifindex);
                 let port_id = get_port_id_ifindex nl ifindex;
                 case fmlookup (l3_interface_mapping (st_l3 st)) (port_id, vid, s_mac, ll_old) of
                   None \<Rightarrow> Some (- EINVAL, st)
                 | Some e \<Rightarrow>
                     (let (rv, st1) = call_sw (sw_l3_egress_update swi port_id vid s_mac ll_new (l3_interface_id e)) st
                      in if rv < 0 then Some (- EINVAL, st1)
                         else if fmlookup (l3_interface_mapping (st_l3 st1)) (port_id, vid, s_mac, ll_new) \<noteq> None
                         then Some (- EINVAL, st1)
                         else None)
               })"

subsection \<open>Routes\<close>

text \<open>\<open>std::equal_range\<close> with \<open>l3_prefix_comp\<close>: the neighbours that compare equal to the prefix.\<close>

definition get_l3_neighs_of_prefix :: "l3_env \<Rightarrow> nh_stub list \<Rightarrow> nl_addr \<Rightarrow> nh_stub list" where
  "get_l3_neighs_of_prefix le S prefix =
     filter (\<lambda>n. case ns_nh n of None \<Rightarrow> False
                | Some a \<Rightarrow> \<not> cmp_prefix le a prefix < 0 \<and> \<not> cmp_prefix le prefix a < 0) S"

text \<open>A route of another protocol for a destination that has a kernel route is a duplicate.\<close>

definition duplicate_route :: "l3_env \<Rightarrow> rtnl_route \<Rightarrow> bool" where
  "duplicate_route le r \<longleftrightarrow> 0 < rt_priority r \<and> rt_protocol r \<noteq> RTPROT_KERNEL \<and>
     (case query_route le (rt_dst r) True of
        None \<Rightarrow> False
      | Some route \<Rightarrow> rt_protocol route = RTPROT_KERNEL \<and>
          addr_cmp le (Some (rt_dst r)) (Some (rt_dst route)) = 0)"

text \<open>The neighbour of a next hop, unless it is unknown or has no link-layer address.\<close>

definition resolved_neighbour :: "l3_env \<Rightarrow> nl_view \<Rightarrow> nh_stub \<Rightarrow> rtnl_neigh option option" where
  "resolved_neighbour le nl nh =
     map_option (\<lambda>neigh. case neigh of None \<Rightarrow> None | Some n \<Rightarrow> if nb_lladdr n = None then None else Some n)
       (get_neighbour (addr_cmp le) nl (ns_ifindex nh) (ns_nh nh))"

definition route_nh_params :: "rtnl_route \<Rightarrow> nh_stub \<Rightarrow> nh_params" where
  "route_nh_params r nh = \<lparr>pp_np = \<lparr>np_addr = rt_dst r, np_ifindex = ns_ifindex nh\<rparr>, pp_nh = nh\<rparr>"

text \<open>The loop over the next hops of a new route collects the interfaces of the resolved ones.\<close>

definition resolve_nexthop :: "l3_env \<Rightarrow> nl_view \<Rightarrow> 's switch_interface \<Rightarrow> rtnl_route \<Rightarrow> nh_stub \<Rightarrow>
    u32 fset \<times> ('s, 'm) l3_state_scheme \<Rightarrow> (u32 fset \<times> ('s, 'm) l3_state_scheme) option" where
  "resolve_nexthop le nl swi r nh acc =
     (let (ids, st) = acc
      in do {
        neigh \<leftarrow> resolved_neighbour le nl nh;
        case neigh of
          None \<Rightarrow>
            Some (ids, if is_ipv6_link_local_address le (rt_dst r) \<or> is_ipv6_multicast_address le (rt_dst r)
                       then st else notify_on_nh_reachable Cb_l3 (route_nh_params r nh) st)
        | Some n \<Rightarrow>
            do {
              (rv, (i, _), st1) \<leftarrow> add_l3_neigh_egress le nl swi n (0, 0) st;
              Some (if rv < 0 then (ids, st1)
                    else (finsert i ids, notify_on_nh_unreachable Cb_l3 (route_nh_params r nh) st1))
            }
      })"

text \<open>The interface the route points to: 0 (the controller), an egress interface or an ECMP group.\<close>

definition route_target :: "'s switch_interface \<Rightarrow> nh_stub list \<Rightarrow> u32 fset \<Rightarrow> ('s, 'm) l3_state_scheme \<Rightarrow> u32 \<times> ('s, 'm) l3_state_scheme" where
  "route_target swi nhs l3_interfaces st =
     (if length nhs \<le> 1 then (if l3_interfaces = {||} then 0 else fset_begin l3_interfaces, st)
      else
        (let (i, st1) = add_l3_ecmp_group swi nhs st
         in if l3_interfaces = {||} then (0, st1)
            else (i, snd (call_sw (sw_l3_ecmp_update swi i l3_interfaces) st1))))"

definition add_l3_unicast_route :: "l3_env \<Rightarrow> nl_view \<Rightarrow> 's switch_interface \<Rightarrow>
    (rtnl_neigh \<Rightarrow> nh_params \<Rightarrow> ('s, 'm) l3_state_scheme \<Rightarrow> ('s, 'm) l3_state_scheme option) \<Rightarrow> (net_params \<Rightarrow> ('s, 'm) l3_state_scheme \<Rightarrow> ('s, 'm) l3_state_scheme option) \<Rightarrow>
    rtnl_route \<Rightarrow> bool \<Rightarrow> ('s, 'm) l3_state_scheme \<Rightarrow> (int \<times> ('s, 'm) l3_state_scheme) option" where
  "add_l3_unicast_route le nl swi vx_nh vx_net r update_route st =
     (if duplicate_route le r then Some (0, st)
      else
        (let (rv, nhs) = get_neighbours_of_route le nl r
         in if rv < 0 then Some (rv, st)
            else do {
              (l3_interfaces, st1) \<leftarrow> foreach_opt (resolve_nexthop le nl swi r) nhs ({||}, st);
              let (route_dst_interface, st2) = route_target swi nhs l3_interfaces st1;
              (rv, st3) \<leftarrow> add_l3_unicast_route_addr le swi (rt_dst r) route_dst_interface (1 < length nhs)
                 update_route (route_vrf r) st2;
              st4 \<leftarrow> (if guess_scope le r = RT_SCOPE_LINK
                 then foreach_opt (\<lambda>n st. do {
                        neigh \<leftarrow> get_neighbour (addr_cmp le) nl (ns_ifindex n) (ns_nh n);
                        case neigh of
                          None \<Rightarrow> Some st
                        | Some neigh \<Rightarrow> map_option snd (add_l3_neigh le nl swi vx_nh neigh
                            (upd_l3 (unroutable_l3_neighs_update (nh_erase le n)) st))
                      }) (get_l3_neighs_of_prefix le (unroutable_l3_neighs (st_l3 st3)) (rt_dst r)) st3
                 else Some st3);
              st5 \<leftarrow> (if update_route then Some st4
                 else cb_loop (net_callbacks \<circ> st_l3) (upd_l3 \<circ> net_callbacks_update)
                        (\<lambda>cb. cmp_prefix le (np_addr (snd cb)) (rt_dst r) = 0) (\<lambda>(f, p). vx_net p) 0 st4);
              Some (rv, st5)
            }))"

fun remove_first :: "('a \<Rightarrow> bool) \<Rightarrow> 'a list \<Rightarrow> 'a list" where
  "remove_first P [] = []"
| "remove_first P (x # xs) = (if P x then xs else x # remove_first P xs)"

definition own_callback :: "l3_env \<Rightarrow> nh_stub \<Rightarrow> nl_addr \<Rightarrow> cb_owner \<times> nh_params \<Rightarrow> bool" where
  "own_callback le nh dst cb \<longleftrightarrow> fst cb = Cb_l3 \<and> nh_eq le (pp_nh (snd cb)) nh \<and>
     addr_cmp le (Some (np_addr (pp_np (snd cb)))) (Some dst) = 0"

text \<open>The loop over the next hops of a removed route.\<close>

definition release_nexthop :: "l3_env \<Rightarrow> nl_view \<Rightarrow> 's switch_interface \<Rightarrow> nl_addr \<Rightarrow> nh_stub \<Rightarrow>
    int \<times> ('s, 'm) l3_state_scheme \<Rightarrow> (int \<times> ('s, 'm) l3_state_scheme) option" where
  "release_nexthop le nl swi dst nh acc =
     (let (rv, st) = acc
      in do {
        neigh \<leftarrow> resolved_neighbour le nl nh;
        case neigh of
          None \<Rightarrow> Some (rv, upd_l3 (nh_callbacks_update (remove_first (own_callback le nh dst))) st)
        | Some n \<Rightarrow> del_l3_neigh_egress le nl swi n
            (upd_l3 (nh_unreach_callbacks_update (remove_first (own_callback le nh dst))) st)
      })"

text \<open>Another interface of the switch still has the IPv6 link-local route.\<close>

definition link_local_route_left :: "l3_env \<Rightarrow> nl_view \<Rightarrow> rtnl_route \<Rightarrow> bool option" where
  "link_local_route_left le nl r =
     foreach_opt (\<lambda>route keep.
         if keep then Some True
         else is_switch_ifindex nl (nx_ifindex (hd (rt_nexthops route))))
       (filter (\<lambda>route. rt_type route = RTN_UNICAST \<and> addr_cmp le (Some (rt_dst route)) (Some (rt_dst r)) = 0 \<and>
            rt_table route = rt_table r \<and> length (rt_nexthops route) = 1 \<and> guess_scope le route = RT_SCOPE_LINK)
          (nv_routes nl)) False"

definition del_l3_unicast_route :: "l3_env \<Rightarrow> nl_view \<Rightarrow> 's switch_interface \<Rightarrow> rtnl_route \<Rightarrow> bool \<Rightarrow>
    ('s, 'm) l3_state_scheme \<Rightarrow> (int \<times> ('s, 'm) l3_state_scheme) option" where
  "del_l3_unicast_route le nl swi r keep_route st =
     (let dst = rt_dst r;
          table = (ucast (rt_table r) :: u16);
          vrf_id = (if table = 254 then 0 else table)
      in if duplicate_route le r then Some (0, st)
         else do {
           still \<leftarrow> (if \<not> keep_route \<and> is_ipv6_link_local_address le dst
              then link_local_route_left le nl r else Some False);
           if still then Some (0, st)
           else do {
             let st1 = (if keep_route then st else snd (del_l3_unicast_route_addr le swi dst vrf_id st));
             st2 \<leftarrow> (if guess_scope le r = RT_SCOPE_LINK
                then foreach_opt (\<lambda>n st. do {
                       neigh \<leftarrow> get_neighbour (addr_cmp le) nl (ns_ifindex n) (ns_nh n);
                       case neigh of
                         None \<Rightarrow> Some st
                       | Some neigh \<Rightarrow> do {
                           (_, st1) \<leftarrow> del_l3_neigh le nl swi neigh st;
                           Some (upd_l3 (unroutable_l3_neighs_update (nh_emplace le n)) st1)
                         }
                     }) (get_l3_neighs_of_prefix le (routable_l3_neighs (st_l3 st1)) dst) st1
                else Some st1);
             let (rv, nhs) = get_neighbours_of_route le nl r;
             if rv < 0 then Some (rv, st2)
             else
               (let st3 = (if 1 < length nhs then snd (del_l3_ecmp_group swi nhs st2) else st2)
                in foreach_opt (release_nexthop le nl swi dst) nhs (rv, st3))
           }
         })"

definition update_l3_unicast_route where
  "update_l3_unicast_route le nl swi vx_nh vx_net r_old r_new st =
     do {
       (_, st1) \<leftarrow> add_l3_unicast_route le nl swi vx_nh vx_net r_new True st;
       (_, st2) \<leftarrow> del_l3_unicast_route le nl swi r_old True st1;
       Some (0 :: int, st2)
     }"

text \<open>The route types 0 to 11 other than unicast are not supported; larger numbers are invalid.\<close>

definition by_route_type :: "int \<Rightarrow> (int \<times> 'st) option \<Rightarrow> 'st \<Rightarrow> (int \<times> 'st) option" where
  "by_route_type type unicast st =
     (if type = RTN_UNICAST then unicast
      else if 0 \<le> type \<and> type \<le> 11 then Some (- ENOTSUP, st)
      else Some (- EINVAL, st))"

definition add_l3_route where
  "add_l3_route le nl swi vx_nh vx_net r st =
     by_route_type (rt_type r) (add_l3_unicast_route le nl swi vx_nh vx_net r False st) st"

definition update_l3_route where
  "update_l3_route le nl swi vx_nh vx_net r_old r_new st =
     (if rt_type r_old \<noteq> rt_type r_new then Some (- ENOTSUP, st)
      else by_route_type (rt_type r_old) (update_l3_unicast_route le nl swi vx_nh vx_net r_old r_new st) st)"

definition del_l3_route where
  "del_l3_route le nl swi r st = by_route_type (rt_type r) (del_l3_unicast_route le nl swi r False st) st"

end
