(* ===== verification/Nl_L3_Table.thy ===== *)
theory Nl_L3_Table
  imports Nl_L3
begin

text \<open>
  The two reference-counted tables of \<open>nl_l3\<close>, egress interfaces and ECMP groups, on top of the
  identifier allocators of the switch. Both follow the contract \<open>refcounted_ids\<close>, which extends the
  allocator contract by the table of the client; its lemma says that no two entries ever share an
  identifier and that no entry has an identifier that went back to the allocator.
\<close>

subsection \<open>The contract\<close>

text \<open>
  Every entry is in use, no two entries have the same identifier, and every identifier is held
  from the allocator: it is below the counter and not among the returned ones.
\<close>

definition table_ok :: "('k, l3_interface) fmap \<Rightarrow> u32 \<Rightarrow> u32 fset \<Rightarrow> bool" where
  "table_ok T nxt F \<longleftrightarrow>
     (\<forall>k e. fmlookup T k = Some e \<longrightarrow> 1 \<le> refcnt e \<and> 1 \<le> l3_interface_id e \<and> l3_interface_id e < nxt \<and>
        l3_interface_id e |\<notin>| F) \<and>
     (\<forall>k k' e e'. fmlookup T k = Some e \<longrightarrow> fmlookup T k' = Some e' \<longrightarrow>
        l3_interface_id e = l3_interface_id e' \<longrightarrow> k = k')"

text \<open>The identifiers that are not returned, as the allocator's client sees them.\<close>

definition tracked :: "('k, l3_interface) fmap \<Rightarrow> u32 fset \<Rightarrow> u32 \<Rightarrow> u32 fset \<Rightarrow> bool" where
  "tracked T L nxt F \<longleftrightarrow> id_inv L nxt F \<and>
     (\<forall>k e. fmlookup T k = Some e \<longrightarrow> 1 \<le> refcnt e \<and> l3_interface_id e |\<in>| L) \<and>
     (\<forall>k k' e e'. fmlookup T k = Some e \<longrightarrow> fmlookup T k' = Some e' \<longrightarrow>
        l3_interface_id e = l3_interface_id e' \<longrightarrow> k = k')"

lemma tracked_table_ok: "tracked T L nxt F \<Longrightarrow> table_ok T nxt F"
  unfolding tracked_def table_ok_def by (metis (no_types, lifting) fempty_iff finterI funionI1 id_inv_def id_inv_member)

lemma tracked_empty: "id_inv L nxt F \<Longrightarrow> tracked fmempty L nxt F"
  by (simp add: tracked_def)

lemma tracked_enter:
  assumes "tracked T L nxt F" and "i |\<notin>| L" and "id_inv (finsert i L) nxt' F'" and "fmlookup T k = None"
  shows "tracked (fmupd k \<lparr>l3_interface_id = i, refcnt = 1\<rparr> T) (finsert i L) nxt' F'"
  using assms unfolding tracked_def by (auto split: if_splits)

lemma tracked_lost: "tracked T L nxt F \<Longrightarrow> id_inv (finsert i L) nxt' F' \<Longrightarrow> tracked T (finsert i L) nxt' F'"
  unfolding tracked_def by auto

lemma tracked_count:
  assumes "tracked T L nxt F" and "fmlookup T k = Some e" and "1 \<le> n"
  shows "tracked (fmupd k (e\<lparr>refcnt := n\<rparr>) T) L nxt F"
  using assms unfolding tracked_def by (auto split: if_splits)

lemma tracked_drop:
  assumes "tracked T L nxt F" and "fmlookup T k = Some e"
    and "id_inv (L |-| {|l3_interface_id e|}) nxt' F'"
  shows "tracked (fmdrop k T) (L |-| {|l3_interface_id e|}) nxt' F'"
  using assms unfolding tracked_def by (auto split: if_splits)

locale refcounted_ids = id_allocator alloc free next_id freed limit
  for alloc :: "'k \<Rightarrow> 's \<Rightarrow> u32 \<times> 's" and free next_id freed limit +
  fixes table :: "'t \<Rightarrow> ('k, l3_interface) fmap"
    and provider :: "'t \<Rightarrow> 's"
    and key :: "'c \<Rightarrow> 'k option"
    and acquire :: "'c \<Rightarrow> 't \<Rightarrow> 't"
    and release :: "'c \<Rightarrow> 't \<Rightarrow> 't"
  assumes no_key: "key c = None \<Longrightarrow> acquire c t = t \<and> release c t = t"
    and acquire_again: "key c = Some k \<Longrightarrow> fmlookup (table t) k = Some e \<Longrightarrow>
      table (acquire c t) = fmupd k (e\<lparr>refcnt := refcnt e + 1\<rparr>) (table t) \<and>
      provider (acquire c t) = provider t"
    and acquire_new: "key c = Some k \<Longrightarrow> fmlookup (table t) k = None \<Longrightarrow>
      provider (acquire c t) = snd (alloc k (provider t)) \<and>
      (table (acquire c t) = table t \<or>
       table (acquire c t) = fmupd k \<lparr>l3_interface_id = fst (alloc k (provider t)), refcnt = 1\<rparr> (table t))"
    and release_unknown: "key c = Some k \<Longrightarrow> fmlookup (table t) k = None \<Longrightarrow> release c t = t"
    and release_last: "key c = Some k \<Longrightarrow> fmlookup (table t) k = Some e \<Longrightarrow> refcnt e = 1 \<Longrightarrow>
      table (release c t) = fmdrop k (table t) \<and> provider (release c t) = free (l3_interface_id e) (provider t)"
    and release_more: "key c = Some k \<Longrightarrow> fmlookup (table t) k = Some e \<Longrightarrow> 1 < refcnt e \<Longrightarrow>
      table (release c t) = fmupd k (e\<lparr>refcnt := refcnt e - 1\<rparr>) (table t) \<and> provider (release c t) = provider t"
begin

lemma acquire_tracked:
  assumes "tracked (table t) L (next_id (provider t)) (freed (provider t))"
    and "unat (next_id (provider t)) + 1 < 2 ^ 32"
  shows "\<exists>L'. tracked (table (acquire c t)) L' (next_id (provider (acquire c t))) (freed (provider (acquire c t)))"
    and "unat (next_id (provider (acquire c t))) \<le> unat (next_id (provider t)) + 1"
proof -
  let ?goal = "(\<exists>L'. tracked (table (acquire c t)) L' (next_id (provider (acquire c t))) (freed (provider (acquire c t)))) \<and>
    unat (next_id (provider (acquire c t))) \<le> unat (next_id (provider t)) + 1"
  consider (none) "key c = None" | (again) k e where "key c = Some k" "fmlookup (table t) k = Some e"
    | (new) k where "key c = Some k" "fmlookup (table t) k = None"
    by (metis option.exhaust)
  then have ?goal
  proof cases
    case none
    then show ?thesis using no_key [OF none] assms(1) by auto
  next
    case again
    then have "1 \<le> refcnt e" using assms(1) unfolding tracked_def by blast
    then have "1 \<le> refcnt e + 1" by simp
    from tracked_count [OF assms(1) again(2) this] show ?thesis using acquire_again [OF again] by auto
  next
    case new
    have inv: "id_inv L (next_id (provider t)) (freed (provider t))" using assms(1) by (simp add: tracked_def)
    note step = alloc_inv [OF inv assms(2), of k]
    show ?thesis
      using acquire_new [OF new] tracked_lost [OF assms(1) step(2)] tracked_enter [OF assms(1) step(1,2) new(2)] step(3)
      by auto
  qed
  then show "\<exists>L'. tracked (table (acquire c t)) L' (next_id (provider (acquire c t))) (freed (provider (acquire c t)))"
    and "unat (next_id (provider (acquire c t))) \<le> unat (next_id (provider t)) + 1" by auto
qed

lemma release_tracked:
  assumes "tracked (table t) L (next_id (provider t)) (freed (provider t))"
    and "unat (next_id (provider t)) \<le> limit"
  shows "\<exists>L'. tracked (table (release c t)) L' (next_id (provider (release c t))) (freed (provider (release c t)))"
    and "next_id (provider (release c t)) = next_id (provider t)"
proof -
  let ?goal = "(\<exists>L'. tracked (table (release c t)) L' (next_id (provider (release c t))) (freed (provider (release c t)))) \<and>
    next_id (provider (release c t)) = next_id (provider t)"
  have pos: "fmlookup (table t) k = Some e \<Longrightarrow> 1 \<le> refcnt e \<and> l3_interface_id e |\<in>| L" for k e
    using assms(1) by (auto simp: tracked_def)
  consider (none) "key c = None" | (unknown) k where "key c = Some k" "fmlookup (table t) k = None"
    | (last) k e where "key c = Some k" "fmlookup (table t) k = Some e" "refcnt e = 1"
    | (more) k e where "key c = Some k" "fmlookup (table t) k = Some e" "1 < refcnt e"
    using pos by (metis less_le option.exhaust)
  then have ?goal
  proof cases
    case none
    then show ?thesis using no_key [OF none] assms(1) by auto
  next
    case unknown
    then show ?thesis using release_unknown [OF unknown] assms(1) by auto
  next
    case last
    have inv: "id_inv L (next_id (provider t)) (freed (provider t))" using assms(1) by (simp add: tracked_def)
    have held: "l3_interface_id e |\<in>| L" using pos last by blast
    note step = free_inv [OF inv held assms(2)]
    show ?thesis using release_last [OF last] tracked_drop [OF assms(1) last(2) step(1)] step(2) by auto
  next
    case more
    then have "1 \<le> refcnt e - 1" by simp
    from tracked_count [OF assms(1) more(2) this] show ?thesis using release_more [OF more] by auto
  qed
  then show "\<exists>L'. tracked (table (release c t)) L' (next_id (provider (release c t))) (freed (provider (release c t)))"
    and "next_id (provider (release c t)) = next_id (provider t)" by auto
qed

lemma run_tracked:
  assumes "tracked (table t) L (next_id (provider t)) (freed (provider t))"
    and "unat (next_id (provider t)) + length cs < limit"
  shows "\<exists>L'. tracked (table (fold (\<lambda>(take, c). if take then acquire c else release c) cs t)) L'
     (next_id (provider (fold (\<lambda>(take, c). if take then acquire c else release c) cs t)))
     (freed (provider (fold (\<lambda>(take, c). if take then acquire c else release c) cs t)))"
  using assms
proof (induction cs arbitrary: t L)
  case (Cons x cs)
  obtain tk c where x: "x = (tk, c)" by (cases x)
  let ?t = "if tk then acquire c t else release c t"
  have bounds: "unat (next_id (provider t)) + 1 < 2 ^ 32" "unat (next_id (provider t)) \<le> limit"
    using Cons.prems(2) limit by simp_all
  have "\<exists>L'. tracked (table ?t) L' (next_id (provider ?t)) (freed (provider ?t))"
    using acquire_tracked(1) [OF Cons.prems(1) bounds(1), of c]
      release_tracked(1) [OF Cons.prems(1) bounds(2), of c] by simp
  then obtain L' where L': "tracked (table ?t) L' (next_id (provider ?t)) (freed (provider ?t))" by blast
  have "unat (next_id (provider ?t)) + length cs < limit"
    using acquire_tracked(2) [OF Cons.prems(1) bounds(1), of c]
      release_tracked(2) [OF Cons.prems(1) bounds(2), of c] Cons.prems(2) by auto
  from Cons.IH [OF L' this] show ?case by (cases tk) (simp_all add: x)
qed auto

end

subsection \<open>Egress interfaces\<close>

text \<open>A command has its own view of the interfaces, the interface, the VLAN and the two addresses.\<close>

type_synonym egress_cmd = "nl_view \<times> int \<times> u16 \<times> mac \<times> mac"

fun egress_key :: "egress_cmd \<Rightarrow> l3_key option" where
  "egress_key (nl, ifindex, vid, s, d) =
     (if get_port_id_ifindex nl ifindex = 0 then None else Some (get_port_id_ifindex nl ifindex, vid, s, d))"

fun egress_acquire :: "ofenv \<Rightarrow> egress_cmd \<Rightarrow> controller l3_state \<Rightarrow> controller l3_state" where
  "egress_acquire env (nl, ifindex, vid, s, d) st =
     snd (add_l3_egress nl (controller_swi env) ifindex vid s d 0 st)"

fun egress_release :: "ofenv \<Rightarrow> egress_cmd \<Rightarrow> controller l3_state \<Rightarrow> controller l3_state" where
  "egress_release env (nl, ifindex, vid, s, d) st =
     snd (del_l3_egress nl (controller_swi env) ifindex vid s d st)"

interpretation egress_table: refcounted_ids "egress_alloc env" "\<lambda>i c. snd (l3_egress_remove env i c)"
    egress_interface_id freed_egress_interfaces_ids "2 ^ 32"
    "\<lambda>st. l3_interface_mapping (st_l3 st)" st_sw egress_key "egress_acquire env" "egress_release env"
  for env :: ofenv
proof unfold_locales
  fix cmd :: egress_cmd and st :: "controller l3_state" and k e
  obtain nl i v s d where cmd: "cmd = (nl, i, v, s, d)" by (metis surj_pair)
  note defs = cmd add_l3_egress_def del_l3_egress_def call_sw_def upd_l3_def id_of_def Let_def split_beta
  show "egress_key cmd = None \<Longrightarrow> egress_acquire env cmd st = st \<and> egress_release env cmd st = st"
    by (auto simp: defs split: if_splits)
  assume key: "egress_key cmd = Some k"
  show "l3_interface_mapping (st_l3 (egress_acquire env cmd st)) =
        fmupd k (e\<lparr>refcnt := refcnt e + 1\<rparr>) (l3_interface_mapping (st_l3 st)) \<and>
      st_sw (egress_acquire env cmd st) = st_sw st"
    if "fmlookup (l3_interface_mapping (st_l3 st)) k = Some e"
    using key that by (auto simp: defs split: if_splits)
  show "st_sw (egress_acquire env cmd st) = snd (egress_alloc env k (st_sw st)) \<and>
      (l3_interface_mapping (st_l3 (egress_acquire env cmd st)) = l3_interface_mapping (st_l3 st) \<or>
       l3_interface_mapping (st_l3 (egress_acquire env cmd st)) =
         fmupd k \<lparr>l3_interface_id = fst (egress_alloc env k (st_sw st)), refcnt = 1\<rparr>
           (l3_interface_mapping (st_l3 st)))"
    if "fmlookup (l3_interface_mapping (st_l3 st)) k = None"
    using key that by (auto simp: defs split: if_splits)
  show "egress_release env cmd st = st" if "fmlookup (l3_interface_mapping (st_l3 st)) k = None"
    using key that by (auto simp: defs split: if_splits)
  show "l3_interface_mapping (st_l3 (egress_release env cmd st)) = fmdrop k (l3_interface_mapping (st_l3 st)) \<and>
      st_sw (egress_release env cmd st) = snd (l3_egress_remove env (l3_interface_id e) (st_sw st))"
    if "fmlookup (l3_interface_mapping (st_l3 st)) k = Some e" "refcnt e = 1"
    using key that by (auto simp: defs split: if_splits)
  show "l3_interface_mapping (st_l3 (egress_release env cmd st)) =
        fmupd k (e\<lparr>refcnt := refcnt e - 1\<rparr>) (l3_interface_mapping (st_l3 st)) \<and>
      st_sw (egress_release env cmd st) = st_sw st"
    if "fmlookup (l3_interface_mapping (st_l3 st)) k = Some e" "1 < refcnt e"
    using key that by (auto simp: defs split: if_splits)
qed

definition l3_initial :: "controller l3_state" where
  "l3_initial = \<lparr>st_l3 = nl_l3_init, st_vlan = nl_vlan_init, st_sw = controller_init\<rparr>"

definition egress_run :: "ofenv \<Rightarrow> (bool \<times> egress_cmd) list \<Rightarrow> controller l3_state" where
  "egress_run env cmds =
     fold (\<lambda>(take, c). if take then egress_acquire env c else egress_release env c) cmds l3_initial"

text \<open>
  C19: Whatever the switch and the network do, after any sequence of \<open>add_l3_egress\<close> and \<open>del_l3_egress\<close>
  each egress interface in \<open>l3_interface_mapping\<close> is referenced, has an identifier of its own, and the
  identifier is held on the controller: it was handed out and not returned, so it cannot be handed out
  again. The bound is the wrap-around of the 32-bit counter.
\<close>

theorem egress_interfaces_distinct:
  assumes "length cmds + 1 < 2 ^ 32"
  shows "let st = egress_run env cmds
         in table_ok (l3_interface_mapping (st_l3 st)) (egress_interface_id (st_sw st))
              (freed_egress_interfaces_ids (st_sw st))"
proof -
  have "tracked (l3_interface_mapping (st_l3 l3_initial)) {||} (egress_interface_id (st_sw l3_initial))
      (freed_egress_interfaces_ids (st_sw l3_initial))"
    by (simp add: l3_initial_def nl_l3_init_def controller_init_def tracked_empty id_inv_initial)
  moreover have "unat (egress_interface_id (st_sw l3_initial)) + length cmds < 2 ^ 32"
    using assms by (simp add: l3_initial_def controller_init_def)
  ultimately show ?thesis
    using egress_table.run_tracked [of l3_initial "{||}" cmds env] tracked_table_ok
    by (auto simp: egress_run_def Let_def)
qed

theorem egress_interfaces_distinct_witness:
  "let st = egress_run ideal_env [(True, bond_view, 3, 10, 2, 4), (True, bond_view, 4, 10, 2, 6),
         (False, bond_view, 3, 10, 2, 4), (True, bond_view, 3, 10, 2, 8)]
   in table_ok (l3_interface_mapping (st_l3 st)) (egress_interface_id (st_sw st))
        (freed_egress_interfaces_ids (st_sw st))"
  by (rule egress_interfaces_distinct) simp

subsection \<open>ECMP groups\<close>

interpretation ecmp_table: refcounted_ids "\<lambda>_ c. id_of (l3_ecmp_add env {||} c)"
    "\<lambda>i c. snd (l3_ecmp_remove env i c)" ecmp_interface_id freed_ecmp_interfaces_ids "2 ^ 28"
    "\<lambda>st. nh_grp_to_l3_ecmp_mapping (st_l3 st)" st_sw Some
    "\<lambda>nhs st. snd (add_l3_ecmp_group (controller_swi env) nhs st)"
    "\<lambda>nhs st. snd (del_l3_ecmp_group (controller_swi env) nhs st)"
  for env :: ofenv
  by unfold_locales
    (use ecmp_ids.alloc_fresh [of _ env "{||}"] ecmp_ids.alloc_reuse [of _ env "{||}"]
        ecmp_ids.free [where env = env] in
      \<open>auto simp: add_l3_ecmp_group_def del_l3_ecmp_group_def call_sw_def upd_l3_def id_of_def Let_def split_beta\<close>)

definition ecmp_run :: "ofenv \<Rightarrow> (bool \<times> nh_stub list) list \<Rightarrow> controller l3_state" where
  "ecmp_run env cmds =
     fold (\<lambda>(take, nhs). if take then (\<lambda>st. snd (add_l3_ecmp_group (controller_swi env) nhs st))
        else (\<lambda>st. snd (del_l3_ecmp_group (controller_swi env) nhs st))) cmds l3_initial"

text \<open>
  C20: The same for \<open>nh_grp_to_l3_ecmp_mapping\<close>: two sets of next hops never share an ECMP group, and
  the group of every entry is held on the controller, after any sequence of \<open>add_l3_ecmp_group\<close> and
  \<open>del_l3_ecmp_group\<close>.
\<close>

theorem ecmp_groups_distinct:
  assumes "length cmds + 1 < 2 ^ 28"
  shows "let st = ecmp_run env cmds
         in table_ok (nh_grp_to_l3_ecmp_mapping (st_l3 st)) (ecmp_interface_id (st_sw st))
              (freed_ecmp_interfaces_ids (st_sw st))"
proof -
  have "tracked (nh_grp_to_l3_ecmp_mapping (st_l3 l3_initial)) {||} (ecmp_interface_id (st_sw l3_initial))
      (freed_ecmp_interfaces_ids (st_sw l3_initial))"
    by (simp add: l3_initial_def nl_l3_init_def controller_init_def tracked_empty id_inv_initial)
  moreover have "unat (ecmp_interface_id (st_sw l3_initial)) + length cmds < 2 ^ 28"
    using assms by (simp add: l3_initial_def controller_init_def)
  ultimately show ?thesis
    using ecmp_table.run_tracked [of l3_initial "{||}" cmds env] tracked_table_ok
    by (auto simp: ecmp_run_def Let_def)
qed

theorem ecmp_groups_distinct_witness:
  "let nhs = [\<lparr>ns_nh = None, ns_ifindex = 3, ns_nhid = 1\<rparr>, \<lparr>ns_nh = None, ns_ifindex = 4, ns_nhid = 1\<rparr>];
       st = ecmp_run ideal_env [(True, nhs), (True, tl nhs), (False, nhs), (True, nhs)]
   in table_ok (nh_grp_to_l3_ecmp_mapping (st_l3 st)) (ecmp_interface_id (st_sw st))
        (freed_ecmp_interfaces_ids (st_sw st))"
  unfolding Let_def by (rule ecmp_groups_distinct [unfolded Let_def]) simp

end
