(* ===== verification/Nl_L3_Props.thy ===== *)
theory Nl_L3_Props
  imports Nl_L3_Table
begin

text \<open>
  Properties of the routing component: what happens to routes and neighbours when next hops are
  resolved, lost or malformed.
\<close>

subsection \<open>Frames\<close>

lemma st_l3_call_sw [simp, frame]: "st_l3 (snd (call_sw f st)) = st_l3 st"
  by (simp add: call_sw_def split_beta Let_def)

lemma st_l3_call_vlan [simp, frame]: "st_l3 (snd (call_vlan f st)) = st_l3 st"
  by (simp add: call_vlan_def split_beta Let_def)

lemma st_l3_remove_vlan_ptr [simp, frame]: "st_l3 (snd (remove_vlan_ptr nl swi link vid tagged st)) = st_l3 st"
  by (simp add: remove_vlan_ptr_def split: option.split)

lemma st_l3_add_vlan_ptr [simp, frame]: "st_l3 (snd (add_vlan_ptr nl swi link vid tagged st)) = st_l3 st"
  by (simp add: add_vlan_ptr_def split: option.split)

lemma st_l3_upd_l3 [simp]: "st_l3 (upd_l3 f st) = f (st_l3 st)" "st_sw (upd_l3 f st) = st_sw st"
  "st_vlan (upd_l3 f st) = st_vlan st"
  by (simp_all add: upd_l3_def)

lemma unreach_del_l3_egress [frame]:
  "nh_unreach_callbacks (st_l3 (snd (del_l3_egress nl swi i v s d st))) = nh_unreach_callbacks (st_l3 st)"
  by (auto simp: del_l3_egress_def Let_def split_beta split: option.split)

lemma unreach_del_l3_neigh_egress [frame]:
  "del_l3_neigh_egress le nl swi n st = Some r \<Longrightarrow>
     nh_unreach_callbacks (st_l3 (snd r)) = nh_unreach_callbacks (st_l3 st)"
  by (auto simp: del_l3_neigh_egress_def Let_def split_beta frame
      split: option.splits if_splits list.splits bind_splits)

lemma unreach_route_addr [frame]:
  "add_l3_unicast_route_addr le swi dst i e u vrf st = Some r \<Longrightarrow> st_l3 (snd r) = st_l3 st"
  by (auto simp: add_l3_unicast_route_addr_def Let_def split: if_splits)

lemma unreach_notification [frame]:
  assumes "nh_unreachable_notification le nl swi n p st = Some st'"
  shows "nh_unreach_callbacks (st_l3 st') = nh_unreach_callbacks (st_l3 st)"
  using assms
  by (auto simp: nh_unreachable_notification_def Let_def split_beta notify_on_nh_reachable_def
      split: option.splits if_splits bind_splits dest!: unreach_del_l3_neigh_egress unreach_route_addr)

subsection \<open>Loops over callbacks\<close>

text \<open>
  When notifications neither look at the list nor change it, the loop notifies the matching callbacks one after the other
  and leaves the others in the list.
\<close>

lemma cb_loop_notifies:
  assumes upd: "\<And>f st. cbs (upd f st) = f (cbs st)" "\<And>f g st. upd f (upd g st) = upd (\<lambda>cs. f (g cs)) st"
      "\<And>f g st. f (cbs st) = g (cbs st) \<Longrightarrow> upd f st = upd g st" "\<And>st. upd (\<lambda>cs. cs) st = st"
    and keep: "\<And>c st st'. notify c st = Some st' \<Longrightarrow> cbs st' = cbs st"
    and commute: "\<And>c f st. notify c (upd f st) = map_option (upd f) (notify c st)"
  shows "cb_loop cbs upd matches notify k st =
    map_option (upd (\<lambda>cs. take k cs @ filter (\<lambda>c. \<not> matches c) (drop k cs)))
      (foreach_opt notify (filter matches (drop k (cbs st))) st)"
proof (induction "length (cbs st) - k" arbitrary: k st)
  case 0
  then have "upd (\<lambda>cs. take k cs @ filter (\<lambda>c. \<not> matches c) (drop k cs)) st = upd (\<lambda>cs. cs) st" by (intro upd(3)) simp
  with 0 show ?case by (subst cb_loop.simps) (simp add: upd(4))
next
  case (Suc m)
  let ?F = "\<lambda>k cs. take k cs @ filter (\<lambda>c. \<not> matches c) (drop k cs)"
  have foreach_upd: "foreach_opt notify xs (upd f st) = map_option (upd f) (foreach_opt notify xs st)" for xs f st
  proof (induction xs arbitrary: st)
    case (Cons x xs)
    then show ?case by (cases "notify x st") (simp_all add: commute)
  qed simp
  have foreach_keep: "foreach_opt notify xs st = Some st' \<Longrightarrow> cbs st' = cbs st" for xs st st'
  proof (induction xs arbitrary: st)
    case (Cons x xs)
    then show ?case by (cases "notify x st") (auto dest: keep)
  qed simp
  from Suc have k: "k < length (cbs st)" by linarith
  note drop_k = Cons_nth_drop_Suc [OF k, symmetric]
  show ?case
  proof (cases "matches (cbs st ! k)")
    case True
    show ?thesis
    proof (cases "notify (cbs st ! k) st")
      case None
      with k True show ?thesis by (subst cb_loop.simps) (simp add: drop_k)
    next
      case (Some st1)
      let ?st = "upd (remove_nth k) st1"
      have cbs1: "cbs st1 = cbs st" using keep [OF Some] .
      then have list: "cbs ?st = take k (cbs st) @ drop (Suc k) (cbs st)" by (simp add: upd(1) remove_nth_def)
      then have "m = length (cbs ?st) - k" using Suc.hyps(2) k by simp
      from Suc.hyps(1) [OF this] have "cb_loop cbs upd matches notify k ?st =
          map_option (upd (?F k)) (map_option (upd (remove_nth k)) (foreach_opt notify (filter matches (drop (Suc k) (cbs st))) st1))"
        using k by (simp add: list foreach_upd)
      also have "\<dots> = map_option (upd (?F k)) (foreach_opt notify (filter matches (drop (Suc k) (cbs st))) st1)"
      proof (cases "foreach_opt notify (filter matches (drop (Suc k) (cbs st))) st1")
        case (Some st2)
        have "cbs st2 = cbs st" using foreach_keep [OF Some] cbs1 by simp
        then have "upd (\<lambda>cs. ?F k (remove_nth k cs)) st2 = upd (?F k) st2"
          using k True by (intro upd(3)) (simp add: remove_nth_def drop_k)
        with Some show ?thesis by (simp add: upd(2))
      qed simp
      finally show ?thesis using k True Some by (subst cb_loop.simps) (simp add: drop_k)
    qed
  next
    case False
    have "m = length (cbs st) - Suc k" using Suc.hyps(2) by simp
    note IH = Suc.hyps(1) [OF this]
    have "map_option (upd (?F (Suc k))) r = map_option (upd (?F k)) r"
      if "r = foreach_opt notify (filter matches (drop (Suc k) (cbs st))) st" for r
    proof (cases r)
      case (Some st2)
      have "cbs st2 = cbs st" using that Some foreach_keep by metis
      then show ?thesis using Some k False
        by (auto simp: drop_k take_Suc_conv_app_nth intro!: upd(3))
    qed simp
    then show ?thesis using k False IH by (subst cb_loop.simps) (simp add: drop_k)
  qed
qed

text \<open>A notification of a lost neighbour neither reads nor changes the list that is walked.\<close>

abbreviation (input) upd_unreach :: "((cb_owner \<times> nh_params) list \<Rightarrow> (cb_owner \<times> nh_params) list) \<Rightarrow>
    ('s, 'm) l3_state_scheme \<Rightarrow> ('s, 'm) l3_state_scheme" where
  "upd_unreach f \<equiv> upd_l3 (nh_unreach_callbacks_update f)"

lemma upd_unreach_laws:
  "upd_unreach f (upd_unreach g st) = upd_unreach (\<lambda>cs. f (g cs)) st"
  "f (nh_unreach_callbacks (st_l3 st)) = g (nh_unreach_callbacks (st_l3 st)) \<Longrightarrow> upd_unreach f st = upd_unreach g st"
  "upd_unreach (\<lambda>cs. cs) st = st"
proof -
  show "upd_unreach f (upd_unreach g st) = upd_unreach (\<lambda>cs. f (g cs)) st" by (simp add: upd_l3_def comp_def)
  have "f (nh_unreach_callbacks x) = g (nh_unreach_callbacks x) \<Longrightarrow>
      nh_unreach_callbacks_update f x = nh_unreach_callbacks_update g x" for x by (cases x) simp
  then show "f (nh_unreach_callbacks (st_l3 st)) = g (nh_unreach_callbacks (st_l3 st)) \<Longrightarrow> upd_unreach f st = upd_unreach g st"
    by (simp add: upd_l3_def)
  have "nh_unreach_callbacks_update (\<lambda>cs. cs) x = x" for x by (cases x) simp
  then show "upd_unreach (\<lambda>cs. cs) st = st" by (simp add: upd_l3_def)
qed

lemma unreach_commutes:
  "call_sw h (upd_unreach f st) = apsnd (upd_unreach f) (call_sw h st)"
  "call_vlan v (upd_unreach f st) = apsnd (upd_unreach f) (call_vlan v st)"
  "remove_vlan_ptr nl swi link vid tagged (upd_unreach f st) = apsnd (upd_unreach f) (remove_vlan_ptr nl swi link vid tagged st)"
  "get_l3_interface_id_nh le nl nh (upd_unreach f st) = get_l3_interface_id_nh le nl nh st"
  "get_l3_ecmp_group nhs (upd_unreach f st) = get_l3_ecmp_group nhs st"
  "notify_on_nh_reachable cb p (upd_unreach f st) = upd_unreach f (notify_on_nh_reachable cb p st)"
proof -
  show sw: "call_sw h (upd_unreach f st) = apsnd (upd_unreach f) (call_sw h st)"
    and vlan: "call_vlan v (upd_unreach f st) = apsnd (upd_unreach f) (call_vlan v st)" for h v and st :: "('s, 'm) l3_state_scheme"
    by (simp_all add: call_sw_def call_vlan_def upd_l3_def split_beta)
  show "remove_vlan_ptr nl swi link vid tagged (upd_unreach f st) = apsnd (upd_unreach f) (remove_vlan_ptr nl swi link vid tagged st)"
    by (simp add: remove_vlan_ptr_def vlan split: option.split)
  have id_if: "get_l3_interface_id_if le nl i s d w (upd_unreach f st) = get_l3_interface_id_if le nl i s d w st" for i s d w
    by (simp add: get_l3_interface_id_if_def upd_l3_def Let_def split: option.split)
  show "get_l3_interface_id_nh le nl nh (upd_unreach f st) = get_l3_interface_id_nh le nl nh st"
    unfolding get_l3_interface_id_nh_def id_if ..
  show "get_l3_ecmp_group nhs (upd_unreach f st) = get_l3_ecmp_group nhs st" by (simp add: get_l3_ecmp_group_def upd_l3_def)
  show "notify_on_nh_reachable cb p (upd_unreach f st) = upd_unreach f (notify_on_nh_reachable cb p st)"
    by (simp add: notify_on_nh_reachable_def upd_l3_def)
qed

lemma unreach_commutes_egress:
  "del_l3_egress nl swi i v s d (upd_unreach f st) = apsnd (upd_unreach f) (del_l3_egress nl swi i v s d st)"
  "del_l3_neigh_egress le nl swi n (upd_unreach f st) = map_option (apsnd (upd_unreach f)) (del_l3_neigh_egress le nl swi n st)"
  "add_l3_unicast_route_addr le swi dst j e u vrf (upd_unreach f st) =
     map_option (apsnd (upd_unreach f)) (add_l3_unicast_route_addr le swi dst j e u vrf st)"
proof -
  have other: "upd_l3 (l3_interface_mapping_update g) (upd_unreach f st) = upd_unreach f (upd_l3 (l3_interface_mapping_update g) st)"
    for g and st :: "('s, 'm) l3_state_scheme" by (simp add: upd_l3_def)
  show egress: "del_l3_egress nl swi i v s d (upd_unreach f st) = apsnd (upd_unreach f) (del_l3_egress nl swi i v s d st)"
    for i v s d by (simp add: del_l3_egress_def Let_def split_beta unreach_commutes other split: option.split)
  show "del_l3_neigh_egress le nl swi n (upd_unreach f st) = map_option (apsnd (upd_unreach f)) (del_l3_neigh_egress le nl swi n st)"
    by (cases "nb_lladdr n")
       (auto simp: del_l3_neigh_egress_def Let_def split_beta unreach_commutes egress split: option.split list.split)
  show "add_l3_unicast_route_addr le swi dst j e u vrf (upd_unreach f st) =
      map_option (apsnd (upd_unreach f)) (add_l3_unicast_route_addr le swi dst j e u vrf st)"
    by (simp add: add_l3_unicast_route_addr_def Let_def unreach_commutes)
qed

lemma unreach_notification_commutes:
  "nh_unreachable_notification le nl swi n p (upd_unreach f st) =
     map_option (upd_unreach f) (nh_unreachable_notification le nl swi n p st)"
proof (cases "get_route_by_nh_params le nl p")
  case None
  then show ?thesis by (simp add: nh_unreachable_notification_def unreach_commutes_egress option.map_comp comp_def)
next
  case (Some route)
  let ?nhs = "snd (get_neighbours_of_route le nl route)"
  define ids where "ids = foreach_opt (\<lambda>rnh ids. if nh_eq le rnh (pp_nh p) then Some ids
      else do { (rv, i) \<leftarrow> get_l3_interface_id_nh le nl rnh st;
                Some (if rv = 0 then finsert (case i of Some i \<Rightarrow> i | None \<Rightarrow> junk_id le) ids else ids) }) ?nhs {||}"
  define finish where "finish ids d st1 = do {
      (_, st2) \<leftarrow> add_l3_unicast_route_addr le swi (np_addr (pp_np p)) (if ids = {||} then 0 else d)
         (1 < length ?nhs) True (route_vrf route) st1;
      (_, st3) \<leftarrow> del_l3_neigh_egress le nl swi n st2;
      Some (notify_on_nh_reachable Cb_l3 p st3) }" for ids :: "u32 fset" and d and st1 :: "('a, 'b) l3_state_scheme"
  define ecmp where "ecmp ids st = (if 1 < length ?nhs
      then (let d = (case snd (get_l3_ecmp_group ?nhs st) of Some i \<Rightarrow> i | None \<Rightarrow> junk_id le)
            in (d, snd (call_sw (sw_l3_ecmp_update swi d ids) st)))
      else (junk_id le, st))" for ids and st :: "('a, 'b) l3_state_scheme"
  have eq: "nh_unreachable_notification le nl swi n p st' =
      Option.bind ids (\<lambda>ids. finish ids (fst (ecmp ids st')) (snd (ecmp ids st')))"
    if "st' = st \<or> st' = upd_unreach f st" for st'
    using Some that
    by (elim disjE) (simp_all only: nh_unreachable_notification_def ids_def finish_def ecmp_def option.case Let_def split_beta
      unreach_commutes)
  have "finish ids d (upd_unreach f st1) = map_option (upd_unreach f) (finish ids d st1)" for ids d st1
    unfolding finish_def unreach_commutes_egress
    by (cases "add_l3_unicast_route_addr le swi (np_addr (pp_np p)) (if ids = {||} then 0 else d)
         (1 < length ?nhs) True (route_vrf route) st1")
       (auto simp: split_beta unreach_commutes_egress unreach_commutes split: Option.bind_split)
  moreover have "ecmp ids (upd_unreach f st) = apsnd (upd_unreach f) (ecmp ids st)" for ids
    by (simp add: ecmp_def Let_def unreach_commutes)
  ultimately show ?thesis by (cases ids) (simp_all add: eq)
qed

text \<open>
  C21: When a neighbour is lost, the loop of \<open>del_l3_neigh\<close> over \<open>nh_unreach_callbacks\<close> notifies each route that waits for the loss of
  this neighbour once, in the order in which they were registered, and no other; afterwards exactly these are gone from the
  list. The loop aborts when one of the notifications does, and otherwise it ends.
\<close>

theorem lost_neighbour_notifies_once:
  "notify_unreach_callbacks le nl swi n st =
     map_option (upd_l3 (nh_unreach_callbacks_update (filter (\<lambda>cb. \<not> nh_matches le n cb))))
       (foreach_opt (\<lambda>(f, p). nh_unreachable_notification le nl swi n p)
         (filter (nh_matches le n) (nh_unreach_callbacks (st_l3 st))) st)"
proof -
  let ?notify = "\<lambda>(f, p). nh_unreachable_notification le nl swi n p"
  have "cb_loop (nh_unreach_callbacks \<circ> st_l3) (upd_l3 \<circ> nh_unreach_callbacks_update) (nh_matches le n) ?notify 0 st =
    map_option ((upd_l3 \<circ> nh_unreach_callbacks_update) (\<lambda>cs. take 0 cs @ filter (\<lambda>c. \<not> nh_matches le n c) (drop 0 cs)))
      (foreach_opt ?notify (filter (nh_matches le n) (drop 0 ((nh_unreach_callbacks \<circ> st_l3) st))) st)"
  proof (rule cb_loop_notifies)
    show "(upd_l3 \<circ> nh_unreach_callbacks_update) f st = (upd_l3 \<circ> nh_unreach_callbacks_update) g st"
      if "f ((nh_unreach_callbacks \<circ> st_l3) st) = g ((nh_unreach_callbacks \<circ> st_l3) st)" for f g and st :: "('a, 'b) l3_state_scheme"
      unfolding comp_def by (rule upd_unreach_laws(2)) (use that in simp)
    show "(nh_unreach_callbacks \<circ> st_l3) st' = (nh_unreach_callbacks \<circ> st_l3) st" if "?notify c st = Some st'" for c st st'
      using that unreach_notification by (cases c) fastforce
  qed (simp_all add: upd_unreach_laws(1,3) split_beta unreach_notification_commutes)
  then show ?thesis by (simp add: notify_unreach_callbacks_def)
qed

text \<open>Addresses as libnl compares them, and a kernel that knows no route.\<close>

definition plain_l3_env :: l3_env where
  "plain_l3_env = \<lparr>
     fill_in4 = (\<lambda>a. (0, ucast (na_bits a))),
     fill_in6 = (\<lambda>a. (0, na_bits a)),
     addr_cmp = (\<lambda>a b. if a = b then 0 else case (a, b) of
        (Some x, Some y) \<Rightarrow>
          if (na_family x, na_prefixlen x, na_bits x) < (na_family y, na_prefixlen y, na_bits y) then - 1 else 1
      | (None, _) \<Rightarrow> - 1 | (_, None) \<Rightarrow> 1),
     cmp_prefix = (\<lambda>a b. if na_family a \<noteq> na_family b then na_family a - na_family b
        else (let w = (if na_family a = AF_INET then 32 else 128) - min (na_prefixlen a) (na_prefixlen b)
              in uint (drop_bit w (na_bits a)) - uint (drop_bit w (na_bits b)))),
     query_route = (\<lambda>_ _. None),
     guess_scope = (\<lambda>r. if \<exists>h \<in> set (rt_nexthops r). nx_gateway h \<noteq> None then 0 else RT_SCOPE_LINK),
     egress_order = sorted_list_of_fset,
     untagged_vid = 1, junk_rv = 0, junk_id = 0\<rparr>"

definition in4_addr :: "in4 \<Rightarrow> nat \<Rightarrow> nl_addr" where
  "in4_addr a len = \<lparr>na_family = AF_INET, na_prefixlen = len, na_bits = ucast a\<rparr>"

definition plain_neigh :: "int \<Rightarrow> in4 \<Rightarrow> rtnl_neigh" where
  "plain_neigh i a = \<lparr>nb_ifindex = i, nb_master = 0, nb_family = AF_INET, nb_vlan = - 1,
     nb_lladdr = Some 0x020000000077, nb_dst = Some (in4_addr a 32), nb_state = 2, nb_flags = 0, nb_ext_flags = None\<rparr>"

subsection \<open>Termination MACs\<close>

text \<open>
  A termination MAC the switch refused is recorded all the same. Configuring it again, for
  instance for a second address of the interface, reports success without asking the switch.
\<close>

theorem failed_termination_sticks:
  assumes "add_l3_termination swi port_id vid mac af st = Some (rv, st1)" and "rv < 0"
  shows "add_l3_termination swi port_id vid mac af st1 = Some (0, st1)"
proof -
  let ?needle = "(port_id, vid, mac, word_of_int af :: u16)"
  have "st_l3 st1 = (st_l3 st)\<lparr>termination_mac_entries := finsert ?needle (termination_mac_entries (st_l3 st))\<rparr>"
    using assms by (auto simp: add_l3_termination_def Let_def call_sw_def upd_l3_def split_beta split: if_splits)
  then show ?thesis by (simp add: add_l3_termination_def Let_def)
qed

definition refuse_all :: ofenv where
  "refuse_all = ideal_env\<lparr>send_outcome := (\<lambda>h m. Inl RofConnNotConnected)\<rparr>"

theorem failed_termination_sticks_witness:
  "\<exists>rv st1. add_l3_termination (controller_swi refuse_all) 1 10 5 AF_INET l3_initial = Some (rv, st1) \<and> rv < 0 \<and>
     add_l3_termination (controller_swi refuse_all) 1 10 5 AF_INET st1 = Some (0, st1)"
proof -
  let ?r = "add_l3_termination (controller_swi refuse_all) 1 10 5 AF_INET l3_initial"
  have "\<exists>rv st1. ?r = Some (rv, st1) \<and> rv < 0"
    by (simp add: add_l3_termination_def l3_initial_def nl_l3_init_def call_sw_def upd_l3_def Let_def
        l3_termination_add_def send_then_barrier_def of_send_def with_dpt_def send_def refuse_all_def ideal_env_def
        try_catch_def)
  then show ?thesis using failed_termination_sticks by blast
qed

subsection \<open>Changing the address of an interface\<close>

text \<open>
  \<open>update_l3_egress\<close> enters the new key with the port it is given, which is 0 for an interface
  on the bridge, and not with the port of the entry. Afterwards the egress interface is not found any
  more under its port: it cannot be released, and its identifier is never returned.
\<close>

theorem bridge_mac_change_loses_egress:
  assumes "egress_order le (fmdom (l3_interface_mapping (st_l3 st))) = [(p, vid, o_mac, d_mac)]"
    and "l3_interface_mapping (st_l3 st) = fmupd (p, vid, o_mac, d_mac) e fmempty"
    and "get_port_id_ifindex nl ifindex = p" and "p \<noteq> 0"
    and "update_l3_egress le swi 0 vid o_mac n_mac st = (rv, st1)"
  shows "del_l3_egress nl swi ifindex vid n_mac d_mac st1 = (- ENODATA, st1) \<and>
         fmlookup (l3_interface_mapping (st_l3 st1)) (0, vid, n_mac, d_mac) = Some e"
  using assms by (auto simp: update_l3_egress_def Let_def split_beta del_l3_egress_def)

definition one_egress :: "controller l3_state" where
  "one_egress = upd_l3 (l3_interface_mapping_update (\<lambda>_. fmupd (1, 10, 2, 4) \<lparr>l3_interface_id = 1, refcnt = 1\<rparr> fmempty))
     l3_initial"

theorem bridge_mac_change_loses_egress_witness:
  "\<exists>rv st1. update_l3_egress plain_l3_env (controller_swi ideal_env) 0 10 2 6 one_egress = (rv, st1) \<and>
     del_l3_egress bond_view (controller_swi ideal_env) 3 10 6 4 st1 = (- ENODATA, st1) \<and>
     fmlookup (l3_interface_mapping (st_l3 st1)) (0, 10, 6, 4) = Some \<lparr>l3_interface_id = 1, refcnt = 1\<rparr>"
proof -
  have "egress_order plain_l3_env (fmdom (l3_interface_mapping (st_l3 one_egress))) = [(1, 10, 2, 4)]"
    by (simp add: plain_l3_env_def one_egress_def l3_initial_def nl_l3_init_def sorted_list_of_fset.rep_eq)
  moreover have "l3_interface_mapping (st_l3 one_egress) =
      fmupd (1, 10, 2, 4) \<lparr>l3_interface_id = 1, refcnt = 1\<rparr> fmempty"
    by (simp add: one_egress_def)
  moreover have "get_port_id_ifindex bond_view 3 = 1"
    by (simp add: bond_view_def get_port_id_ifindex_def get_port_id_def Let_def)
  ultimately show ?thesis
    using bridge_mac_change_loses_egress [of plain_l3_env one_egress 1 10 2 4 _ bond_view 3
        "controller_swi ideal_env" 6]
    by (metis prod.collapse zero_neq_one)
qed

subsection \<open>Next hops that cannot be used\<close>

text \<open>
  A route that uses a next hop object without a gateway (an on-link next hop) aborts the program: the
  next hop has no address, and looking up its neighbour asserts that there is one.
\<close>

theorem onlink_nexthop_object_aborts:
  assumes "\<not> duplicate_route le r" and "rt_nexthops r = []" and "rt_nhid r \<noteq> 0"
    and "get_nh_by_id nl (rt_nhid r) = Some h" and "nho_group h = []" and "nho_gateway h = None"
    and "get_link_by_ifindex nl (nho_oif h) = Some link" and "is_switch_interface nl link"
  shows "add_l3_unicast_route le nl swi vx_nh vx_net r update_route st = None"
proof -
  have "get_neighbours_of_route le nl r = (1, [\<lparr>ns_nh = None, ns_ifindex = nho_oif h, ns_nhid = rt_nhid r\<rparr>])"
    using assms by (simp add: get_neighbours_of_route_def Let_def List.map_filter_def)
  then show ?thesis
    using assms(1) by (simp add: add_l3_unicast_route_def resolve_nexthop_def resolved_neighbour_def get_neighbour_def)
qed

definition onlink_view :: nl_view where
  "onlink_view = bond_view\<lparr>nv_links := [plain_link 3],
     nv_nhs := [\<lparr>nho_id = 7, nho_group = [], nho_oif = 3, nho_gateway = None\<rparr>]\<rparr>"

definition plain_route :: "nl_addr \<Rightarrow> rtnl_nexthop list \<Rightarrow> u32 \<Rightarrow> rtnl_route" where
  "plain_route dst hops nhid = \<lparr>rt_type = RTN_UNICAST, rt_family = na_family dst, rt_table = 254, rt_priority = 0,
     rt_protocol = 3, rt_dst = dst, rt_nexthops = hops, rt_nhid = nhid\<rparr>"

lemma port_views [simp]:
  "get_link_by_ifindex (bond_view\<lparr>nv_links := [plain_link 3], nv_nhs := hs\<rparr>) 3 = Some (plain_link 3)"
  "is_switch_interface (bond_view\<lparr>nv_links := ls, nv_nhs := hs\<rparr>) (plain_link 3)"
  by (simp_all add: get_link_by_ifindex_def last_match_def is_switch_interface_def bond_view_def plain_link_def
      rtnl_link_is_vlan_def get_port_id_link_def get_port_id_ifindex_def get_port_id_def Let_def)

theorem onlink_nexthop_object_aborts_witness:
  "add_l3_unicast_route plain_l3_env onlink_view (controller_swi ideal_env) (\<lambda>_ _. Some) (\<lambda>_. Some)
     (plain_route (in4_addr 0x0a000000 8) [] 7) False l3_initial = None"
  by (rule onlink_nexthop_object_aborts [where link = "plain_link 3"
        and h = "\<lparr>nho_id = 7, nho_group = [], nho_oif = 3, nho_gateway = None\<rparr>"])
     (simp_all add: duplicate_route_def plain_route_def onlink_view_def get_nh_by_id_def)

text \<open>While no next hop is resolved, adding a route only registers for its next hops.\<close>

lemma resolve_nothing:
  assumes "\<And>nh. nh \<in> set nhs \<Longrightarrow> resolved_neighbour le nl nh = Some None"
  shows "\<exists>st'. foreach_opt (resolve_nexthop le nl swi r) nhs (ids, st) = Some (ids, st') \<and>
     st_sw st' = st_sw st \<and> net_callbacks (st_l3 st') = net_callbacks (st_l3 st)"
  using assms
proof (induction nhs arbitrary: st)
  case (Cons nh nhs)
  let ?st = "if is_ipv6_link_local_address le (rt_dst r) \<or> is_ipv6_multicast_address le (rt_dst r)
    then st else notify_on_nh_reachable Cb_l3 (route_nh_params r nh) st"
  have "resolve_nexthop le nl swi r nh (ids, st) = Some (ids, ?st)"
    using Cons.prems by (simp add: resolve_nexthop_def)
  moreover have "st_sw ?st = st_sw st" "net_callbacks (st_l3 ?st) = net_callbacks (st_l3 st)"
    by (simp_all add: notify_on_nh_reachable_def)
  ultimately show ?case using Cons.IH [of ?st] Cons.prems by fastforce
qed simp

text \<open>
  A host route (prefix length 32) with several next hops, none of which is resolved yet, is not
  installed. The code means to point it to the controller, but the controller rejects interface 0 for
  an ECMP route. The ECMP group is created and referenced all the same.
\<close>

theorem unresolved_ecmp_host_route_rejected:
  assumes "\<not> duplicate_route le r" and "get_neighbours_of_route le nl r = (k, nhs)" and "1 < length nhs" and "0 \<le> k"
    and "\<And>nh. nh \<in> set nhs \<Longrightarrow> resolved_neighbour le nl nh = Some None"
    and "na_family (rt_dst r) = AF_INET" and "na_prefixlen (rt_dst r) = 32" and "guess_scope le r \<noteq> RT_SCOPE_LINK"
    and "net_callbacks (st_l3 st) = []"
  shows "\<exists>st'. add_l3_unicast_route le nl (controller_swi env) vx_nh vx_net r False st = Some (- EINVAL, st') \<and>
     fmlookup (nh_grp_to_l3_ecmp_mapping (st_l3 st')) nhs \<noteq> None"
proof -
  obtain st1 where st1: "foreach_opt (resolve_nexthop le nl (controller_swi env) r) nhs ({||}, st) = Some ({||}, st1)"
    "net_callbacks (st_l3 st1) = []"
    using resolve_nothing [of nhs le nl "controller_swi env" r "{||}" st] assms(5,9) by auto
  obtain st2 where st2: "route_target (controller_swi env) nhs {||} st1 = (0, st2)"
    "net_callbacks (st_l3 st2) = []" "fmlookup (nh_grp_to_l3_ecmp_mapping (st_l3 st2)) nhs \<noteq> None"
    using assms(3) st1(2)
    by (auto simp: route_target_def add_l3_ecmp_group_def Let_def split_beta split: option.splits)
  have rejected: "add_l3_unicast_route_addr le (controller_swi env) (rt_dst r) 0 True False (route_vrf r) st2 =
      Some (- EINVAL, st2)"
    using assms(6,7)
    by (simp add: add_l3_unicast_route_addr_def Let_def call_sw_def l3_unicast_host_add_in4_def max_l3_interface_id_def)
  show ?thesis
    using assms(1-4,8) st1 st2 rejected
    by (simp add: add_l3_unicast_route_def cb_loop.simps [of _ _ _ _ 0])
qed

definition two_port_view :: nl_view where
  "two_port_view = bond_view\<lparr>nv_links := [plain_link 3, plain_link 4]\<rparr>"

definition gateway_hop :: "int \<Rightarrow> in4 \<Rightarrow> rtnl_nexthop" where
  "gateway_hop i a = \<lparr>nx_ifindex = i, nx_gateway = Some (in4_addr a 32), nx_via = None\<rparr>"

definition gateway_stub :: "int \<Rightarrow> in4 \<Rightarrow> nh_stub" where
  "gateway_stub i a = \<lparr>ns_nh = Some (in4_addr a 32), ns_ifindex = i, ns_nhid = 0\<rparr>"

lemma two_port_view_simps [simp]:
  "get_link_by_ifindex two_port_view 3 = Some (plain_link 3)"
  "get_link_by_ifindex two_port_view 4 = Some (plain_link 4)"
  "is_switch_interface two_port_view (plain_link 3)"
  "is_switch_interface two_port_view (plain_link 4)"
  "nv_neighs two_port_view = []" "nv_deleted_neighs two_port_view = []"
  by (simp_all add: two_port_view_def get_link_by_ifindex_def last_match_def is_switch_interface_def bond_view_def
      plain_link_def rtnl_link_is_vlan_def get_port_id_link_def get_port_id_ifindex_def get_port_id_def Let_def)

theorem unresolved_ecmp_host_route_rejected_witness:
  "\<exists>st'. add_l3_unicast_route plain_l3_env two_port_view (controller_swi ideal_env) (\<lambda>_ _. Some) (\<lambda>_. Some)
       (plain_route (in4_addr 0x0a000001 32) [gateway_hop 3 5, gateway_hop 4 6] 0) False l3_initial =
       Some (- EINVAL, st') \<and>
     fmlookup (nh_grp_to_l3_ecmp_mapping (st_l3 st')) [gateway_stub 3 5, gateway_stub 4 6] \<noteq> None"
proof (rule unresolved_ecmp_host_route_rejected)
  let ?r = "plain_route (in4_addr 0x0a000001 32) [gateway_hop 3 5, gateway_hop 4 6] 0"
  show "get_neighbours_of_route plain_l3_env two_port_view ?r = (2, [gateway_stub 3 5, gateway_stub 4 6])"
    by (simp add: get_neighbours_of_route_def get_nexthops_of_route_def plain_route_def gateway_hop_def
        gateway_stub_def in4_addr_def supported_family_def List.map_filter_def nh_less_def plain_l3_env_def Let_def)
  show "guess_scope plain_l3_env ?r \<noteq> RT_SCOPE_LINK"
    by (simp add: plain_l3_env_def plain_route_def gateway_hop_def)
qed (auto simp: duplicate_route_def plain_route_def in4_addr_def resolved_neighbour_def get_neighbour_def
    gateway_stub_def l3_initial_def nl_l3_init_def)

end
