(* ===== verification/Nl_Vxlan.thy ===== *)
theory Nl_Vxlan
  imports Nl_L3
begin

text \<open>
  VXLAN tunnels (\<open>src/src/netlink/nl_vxlan.cc\<close>): tenants of network identifiers, access ports on the
  ports of the bridge, endpoint ports towards remote hosts with their next hops, and the forwarding
  entries behind them.

  The static tables of the file and the counters of the class are the record \<open>nl_vxlan\<close>. The three hash
  multimaps are association lists. The code looks a key up before it inserts one, and finds one
  entry of a key, so their order does not matter. \<open>le\<close> is what the class asks of the kernel and
  of libnl, \<open>upd\<close> is \<open>nl_bridge::update_access_ports\<close>. Links are assumed to have a link-layer address.
\<close>

abbreviation (input) EDESTADDRREQ :: int where "EDESTADDRREQ \<equiv> 89"

subsection \<open>State\<close>

record pport_vlan =
  pv_pport :: u32
  pv_vid :: u16

record access_tunnel_port =
  at_lport_id :: u32
  at_tunnel_id :: u32

record tunnel_nh =
  tn_smac :: u64
  tn_dmac :: u64
  tn_pv :: pport_vlan

record tunnel_nh_port =
  tnp_refcnt :: int
  tnp_nh_id :: u32

record endpoint_port =
  ep_local_ipv4 :: u32
  ep_remote_ipv4 :: u32
  ep_initiator_udp_dst_port :: u32

text \<open>\<open>etp_refcnt\<close> counts the uses by forwarding entries and by the all-zero address, \<open>etp_refcnt_vni\<close> those of each network identifier.\<close>

record endpoint_tunnel_port =
  etp_refcnt :: int
  etp_lport_id :: u32
  etp_nh_id :: u32
  etp_refcnt_vni :: "(u32, u32) fmap"

record nl_vxlan =
  access_port_ids :: "(pport_vlan \<times> access_tunnel_port) list"
  tunnel_next_hop_id :: "(tunnel_nh \<times> tunnel_nh_port) list"
  endpoint_id :: "(endpoint_port \<times> endpoint_tunnel_port) list"
  tunnel_next_hop2tnh :: "(u32, tunnel_nh) fmap"
  next_hop_id_cnt :: u32
  port_id_cnt :: u32
  tunnel_id_cnt :: u32
  vni2tunnel :: "(u32, u32) fmap"
  vx_bridge :: bool \<comment> \<open>\<open>bridge\<close> is set\<close>

definition nl_vxlan_init :: nl_vxlan where
  "nl_vxlan_init = \<lparr>access_port_ids = [], tunnel_next_hop_id = [], endpoint_id = [], tunnel_next_hop2tnh = fmempty,
     next_hop_id_cnt = 1, port_id_cnt = 0x10001, tunnel_id_cnt = 10, vni2tunnel = fmempty, vx_bridge = False\<rparr>"

record 's vx_state = "'s l3_state" +
  st_vxlan :: nl_vxlan

definition upd_vx :: "(nl_vxlan \<Rightarrow> nl_vxlan) \<Rightarrow> ('s, 'm) vx_state_scheme \<Rightarrow> ('s, 'm) vx_state_scheme" where
  "upd_vx f st = st\<lparr>st_vxlan := f (st_vxlan st)\<rparr>"

text \<open>What other components see of the tunnels.\<close>

definition vx_view :: "nl_view \<Rightarrow> ('s, 'm) vx_state_scheme \<Rightarrow> nl_view" where
  "vx_view nl st = nl\<lparr>nv_vni2tunnel := vni2tunnel (st_vxlan st)\<rparr>"

text \<open>Replace or erase the entry found for a key.\<close>

fun mm_set :: "'k \<Rightarrow> 'v \<Rightarrow> ('k \<times> 'v) list \<Rightarrow> ('k \<times> 'v) list" where
  "mm_set k v [] = []"
| "mm_set k v ((k', v') # xs) = (if k' = k then (k, v) # xs else (k', v') # mm_set k v xs)"

fun mm_erase :: "'k \<Rightarrow> ('k \<times> 'v) list \<Rightarrow> ('k \<times> 'v) list" where
  "mm_erase k [] = []"
| "mm_erase k ((k', v') # xs) = (if k' = k then xs else (k', v') # mm_erase k xs)"

subsection \<open>Lookups\<close>

text \<open>The function asserts that port and VLAN are not 0.\<close>

definition get_access_tunnel_port :: "u32 \<Rightarrow> u16 \<Rightarrow> nl_vxlan \<Rightarrow> access_tunnel_port option" where
  "get_access_tunnel_port pport vlan x =
     (if pport = 0 \<or> vlan = 0 then None
      else Some (case map_of (access_port_ids x) \<lparr>pv_pport = pport, pv_vid = vlan\<rparr> of
                   Some tp \<Rightarrow> tp
                 | None \<Rightarrow> \<lparr>at_lport_id = 0, at_tunnel_id = 0\<rparr>))"

text \<open>The network identifier and the tunnel of a link; the code's two overloads in one.\<close>

definition vx_get_tunnel_id :: "rtnl_link \<Rightarrow> nl_vxlan \<Rightarrow> (u32 \<times> u32) option" where
  "vx_get_tunnel_id vxlan_link x =
     (case ln_vxlan_id vxlan_link of
        None \<Rightarrow> None
      | Some vni \<Rightarrow> map_option (Pair vni) (fmlookup (vni2tunnel x) vni))"

text \<open>The first four bytes of an address as a number.\<close>

definition first_word :: "nl_addr \<Rightarrow> u32" where
  "first_word a = (if na_family a = AF_INET then ucast (na_bits a) else ucast (drop_bit 96 (na_bits a)))"

definition endpoint_key :: "rtnl_link \<Rightarrow> nl_addr \<Rightarrow> nl_addr \<Rightarrow> endpoint_port" where
  "endpoint_key vxlan_link local remote =
     \<lparr>ep_local_ipv4 = first_word local, ep_remote_ipv4 = first_word remote,
      ep_initiator_udp_dst_port = (case ln_vxlan_port vxlan_link of Some p \<Rightarrow> p | None \<Rightarrow> 4789)\<rparr>"

text \<open>\<open>None\<close> is the fatal log message for a link that is no VXLAN; otherwise the key and its entry.\<close>

definition lookup_endpoint :: "rtnl_link \<Rightarrow> nl_addr \<Rightarrow> nl_addr \<Rightarrow> nl_vxlan \<Rightarrow>
    (endpoint_port \<times> endpoint_tunnel_port option) option" where
  "lookup_endpoint vxlan_link local remote x =
     (case ln_vxlan_id vxlan_link of
        None \<Rightarrow> None
      | Some _ \<Rightarrow>
          (let ep = endpoint_key vxlan_link local remote in Some (ep, map_of (endpoint_id x) ep)))"

text \<open>\<open>nl_bridge::is_port_flooding\<close>, called through the pointer to the bridge.\<close>

definition is_port_flooding :: "rtnl_link option \<Rightarrow> bool option" where
  "is_port_flooding br_link =
     (case br_link of
        None \<Rightarrow> None
      | Some l \<Rightarrow> if ln_family l = AF_BRIDGE then Some (ln_br_flood l) else None)"

definition bridge_is_port_flooding :: "rtnl_link option \<Rightarrow> nl_vxlan \<Rightarrow> bool option" where
  "bridge_is_port_flooding br_link x = (if vx_bridge x then is_port_flooding br_link else None)"

subsection \<open>Tenants\<close>

definition create_vni :: "'s switch_interface \<Rightarrow> rtnl_link \<Rightarrow> ('s, 'm) vx_state_scheme \<Rightarrow>
    int \<times> ('s, 'm) vx_state_scheme" where
  "create_vni swi link st =
     (if \<not> rtnl_link_is_vxlan link then (- EINVAL, st)
      else if vx_get_tunnel_id link (st_vxlan st) \<noteq> None then (0, st)
      else
        (let vni = (case ln_vxlan_id link of Some v \<Rightarrow> v | None \<Rightarrow> 0);
             tid = tunnel_id_cnt (st_vxlan st);
             (rv, st1) = call_sw (sw_tunnel_tenant_create swi tid vni) st
         in if rv < 0 then (- EINVAL, st1)
            else
              (let (rv, st2) = call_sw (sw_overlay_tunnel_add swi tid) st1
               in if rv < 0 then (- EINVAL, snd (call_sw (sw_tunnel_tenant_delete swi tid) st2))
                  else (rv, upd_vx (\<lambda>x. x\<lparr>vni2tunnel := fm_emplace vni tid (vni2tunnel x),
                                          tunnel_id_cnt := tid + 1\<rparr>) st2))))"

definition remove_vni :: "'s switch_interface \<Rightarrow> rtnl_link \<Rightarrow> ('s, 'm) vx_state_scheme \<Rightarrow>
    int \<times> ('s, 'm) vx_state_scheme" where
  "remove_vni swi link st =
     (case ln_vxlan_id link of
        None \<Rightarrow> (- EINVAL, st)
      | Some vni \<Rightarrow>
          (case fmlookup (vni2tunnel (st_vxlan st)) vni of
             None \<Rightarrow> (- EINVAL, st)
           | Some tid \<Rightarrow>
               (let (_, st1) = call_sw (sw_overlay_tunnel_remove swi tid) st;
                    (rv, st2) = call_sw (sw_tunnel_tenant_delete swi tid) st1
                in if rv < 0 then (rv, st2)
                   else (0, upd_vx (\<lambda>x. x\<lparr>vni2tunnel := fmdrop vni (vni2tunnel x)\<rparr>) st2))))"

definition enable_flooding :: "'s switch_interface \<Rightarrow> u32 \<Rightarrow> u32 \<Rightarrow> ('s, 'm) vx_state_scheme \<Rightarrow>
    int \<times> ('s, 'm) vx_state_scheme" where
  "enable_flooding swi tunnel_id lport_id st =
     (let (rv, st1) = call_sw (sw_add_l2_overlay_flood swi tunnel_id lport_id) st
      in if rv < 0 then (- EINVAL, st1) else (rv, st1))"

definition disable_flooding :: "'s switch_interface \<Rightarrow> u32 \<Rightarrow> u32 \<Rightarrow> ('s, 'm) vx_state_scheme \<Rightarrow>
    int \<times> ('s, 'm) vx_state_scheme" where
  "disable_flooding swi tunnel_id lport_id st =
     (let (rv, st1) = call_sw (sw_del_l2_overlay_flood swi tunnel_id lport_id) st
      in if rv < 0 then (- EINVAL, st1) else (rv, st1))"

text \<open>A call that may abort.\<close>

definition call_sw_opt :: "('s \<Rightarrow> ('r \<times> 's) option) \<Rightarrow> ('s, 'm) l3_state_scheme \<Rightarrow>
    ('r \<times> ('s, 'm) l3_state_scheme) option" where
  "call_sw_opt f st = map_option (\<lambda>(r, s). (r, st\<lparr>st_sw := s\<rparr>)) (f (st_sw st))"

subsection \<open>Access ports\<close>

definition delete_access_port :: "'s switch_interface \<Rightarrow> rtnl_link \<Rightarrow> u32 \<Rightarrow> u16 \<Rightarrow> bool \<Rightarrow>
    ('s, 'm) vx_state_scheme \<Rightarrow> (int \<times> ('s, 'm) vx_state_scheme) option" where
  "delete_access_port swi br_link pport_no vid wipe_l2_addresses st =
     (let key = \<lparr>pv_pport = pport_no, pv_vid = vid\<rparr>
      in case map_of (access_port_ids (st_vxlan st)) key of
          None \<Rightarrow> Some (0, st)
        | Some tp \<Rightarrow>
            do {
              let st1 = (if wipe_l2_addresses
                         then snd (call_sw (sw_l2_overlay_addr_remove swi (at_tunnel_id tp) (at_lport_id tp) 0xffffffffffff) st)
                         else st);
              flooding \<leftarrow> bridge_is_port_flooding (Some br_link) (st_vxlan st1);
              let st2 = (if flooding then snd (disable_flooding swi (at_tunnel_id tp) (at_lport_id tp) st1) else st1);
              (_, st3) \<leftarrow> call_sw_opt (sw_tunnel_port_tenant_remove swi (at_lport_id tp) (at_tunnel_id tp)) st2;
              let (_, st4) = call_sw (sw_tunnel_port_delete swi (at_lport_id tp)) st3;
              Some (0, upd_vx (access_port_ids_update (mm_erase key)) st4)
            })"

text \<open>The loop that tries at most \<open>n\<close> times.\<close>

fun retry :: "nat \<Rightarrow> ('s \<Rightarrow> int \<times> 's) \<Rightarrow> 's \<Rightarrow> int \<times> 's" where
  "retry 0 f s = (0, s)"
| "retry (Suc n) f s = (let (rv, s1) = f s in if rv < 0 \<and> 0 < n then retry n f s1 else (rv, s1))"

text \<open>\<open>std::to_string\<close>.\<close>

fun to_string :: "nat \<Rightarrow> string" where
  "to_string n = (if n < 10 then [char_of (48 + n)] else to_string (n div 10) @ [char_of (48 + n mod 10)])"

declare to_string.simps [simp del]

text \<open>The last component of the result is the logical port, when one was created.\<close>

definition create_access_port :: "'s switch_interface \<Rightarrow> rtnl_link \<Rightarrow> u32 \<Rightarrow> string \<Rightarrow> u32 \<Rightarrow> u16 \<Rightarrow> bool \<Rightarrow>
    ('s, 'm) vx_state_scheme \<Rightarrow> (int \<times> u32 option \<times> ('s, 'm) vx_state_scheme) option" where
  "create_access_port swi br_link tunnel_id access_port_name pport_no vid untagged st =
     do {
       tp \<leftarrow> get_access_tunnel_port pport_no vid (st_vxlan st);
       if at_lport_id tp \<noteq> 0 \<or> at_tunnel_id tp \<noteq> 0 then Some (- EINVAL, None, st)
       else do {
         let port_name = access_port_name @ ''.'' @ to_string (unat vid);
         let lport = port_id_cnt (st_vxlan st);
         let (_, st1) = call_sw (sw_egress_bridge_port_vlan_remove swi pport_no vid) st;
         let (_, st2) = call_sw (sw_ingress_port_vlan_remove swi pport_no vid untagged 0) st1;
         let (rv, st3) = call_sw (retry 50 (sw_tunnel_access_port_create swi lport port_name pport_no vid untagged)) st2;
         if rv < 0 then Some (rv, None, st3)
         else do {
           let (rv, st4) = call_sw (sw_tunnel_port_tenant_add swi lport tunnel_id) st3;
           if rv < 0 then do {
             (_, st5) \<leftarrow> delete_access_port swi br_link pport_no vid False st4;
             Some (rv, None, st5)
           }
           else do {
             flooding \<leftarrow> bridge_is_port_flooding (Some br_link) (st_vxlan st4);
             let (rv, st5) = (if flooding then enable_flooding swi tunnel_id lport st4 else (rv, st4));
             if rv < 0 then do {
               let (_, st6) = disable_flooding swi tunnel_id lport st5;
               (_, st7) \<leftarrow> call_sw_opt (sw_tunnel_port_tenant_remove swi lport tunnel_id) st6;
               (_, st8) \<leftarrow> delete_access_port swi br_link pport_no vid False st7;
               Some (rv, None, st8)
             }
             else
               Some (0, Some lport, upd_vx (\<lambda>x. x\<lparr>
                 access_port_ids := (\<lparr>pv_pport = pport_no, pv_vid = vid\<rparr>,
                   \<lparr>at_lport_id = lport, at_tunnel_id = tunnel_id\<rparr>) # access_port_ids x,
                 port_id_cnt := lport + 1\<rparr>) st5)
           }
         }
       }
     }"

subsection \<open>Next hops\<close>

definition delete_next_hop_tnh :: "'s switch_interface \<Rightarrow> tunnel_nh \<Rightarrow> ('s, 'm) vx_state_scheme \<Rightarrow>
    int \<times> ('s, 'm) vx_state_scheme" where
  "delete_next_hop_tnh swi tnh st =
     (case map_of (tunnel_next_hop_id (st_vxlan st)) tnh of
        None \<Rightarrow> (- EINVAL, st)
      | Some e \<Rightarrow>
          (let e1 = e\<lparr>tnp_refcnt := tnp_refcnt e - 1\<rparr>;
               st1 = upd_vx (tunnel_next_hop_id_update (mm_set tnh e1)) st
           in if tnp_refcnt e1 = 0
              then
                (let (_, st2) = call_sw (sw_tunnel_next_hop_delete swi (tnp_nh_id e1)) st1
                 in (0, upd_vx (\<lambda>x. x\<lparr>tunnel_next_hop2tnh := fmdrop (tnp_nh_id e1) (tunnel_next_hop2tnh x),
                                      tunnel_next_hop_id := mm_erase tnh (tunnel_next_hop_id x)\<rparr>) st2))
              else (0, st1)))"

definition delete_next_hop_id :: "'s switch_interface \<Rightarrow> u32 \<Rightarrow> ('s, 'm) vx_state_scheme \<Rightarrow>
    int \<times> ('s, 'm) vx_state_scheme" where
  "delete_next_hop_id swi nh_id st =
     (case fmlookup (tunnel_next_hop2tnh (st_vxlan st)) nh_id of
        None \<Rightarrow> (- ENODATA, st)
      | Some tnh \<Rightarrow> delete_next_hop_tnh swi tnh st)"

text \<open>
  The key of a neighbour: addresses of the outgoing interface and of the neighbour, the port, and the
  VLAN of untagged ports. The code is the same in \<open>create_next_hop\<close> and \<open>delete_next_hop\<close>.
\<close>

definition neigh_tunnel_nh :: "l3_env \<Rightarrow> nl_view \<Rightarrow> rtnl_neigh \<Rightarrow> tunnel_nh option" where
  "neigh_tunnel_nh le nl neigh =
     (case get_link_by_ifindex nl (nb_ifindex neigh) of
        None \<Rightarrow> None
      | Some local_link \<Rightarrow>
          (let physical_port = get_port_id_link nl (Some local_link)
           in if physical_port = 0 then None
              else map_option (\<lambda>d_mac.
                     \<lparr>tn_smac = ucast (ln_addr local_link), tn_dmac = ucast d_mac,
                      tn_pv = \<lparr>pv_pport = physical_port, pv_vid = word_of_int (untagged_vid le)\<rparr>\<rparr>) (nb_lladdr neigh)))"

definition delete_next_hop_neigh :: "l3_env \<Rightarrow> nl_view \<Rightarrow> 's switch_interface \<Rightarrow> rtnl_neigh \<Rightarrow>
    ('s, 'm) vx_state_scheme \<Rightarrow> (int \<times> ('s, 'm) vx_state_scheme) option" where
  "delete_next_hop_neigh le nl swi neigh st =
     (if next_hop_id_cnt (st_vxlan st) = 0 then None
      else case neigh_tunnel_nh le (vx_view nl st) neigh of
          None \<Rightarrow> Some (- EINVAL, st)
        | Some tnh \<Rightarrow> Some (delete_next_hop_tnh swi tnh st))"

text \<open>The result has the return code and the identifier, 0 unless it is assigned.\<close>

definition create_next_hop_neigh :: "l3_env \<Rightarrow> nl_view \<Rightarrow> 's switch_interface \<Rightarrow> rtnl_neigh \<Rightarrow>
    ('s, 'm) vx_state_scheme \<Rightarrow> (int \<times> u32 \<times> ('s, 'm) vx_state_scheme) option" where
  "create_next_hop_neigh le nl swi neigh st =
     (if next_hop_id_cnt (st_vxlan st) = 0 then None
      else case neigh_tunnel_nh le (vx_view nl st) neigh of
          None \<Rightarrow> Some (- EINVAL, 0, st)
        | Some tnh \<Rightarrow>
            (case map_of (tunnel_next_hop_id (st_vxlan st)) tnh of
               Some e \<Rightarrow>
                 Some (0, tnp_nh_id e,
                   upd_vx (tunnel_next_hop_id_update (mm_set tnh (e\<lparr>tnp_refcnt := tnp_refcnt e + 1\<rparr>))) st)
             | None \<Rightarrow>
                 (let nh_id = next_hop_id_cnt (st_vxlan st);
                      (rv, st1) = call_sw (sw_tunnel_next_hop_create swi nh_id (tn_smac tnh) (tn_dmac tnh)
                                    (pv_pport (tn_pv tnh)) (pv_vid (tn_pv tnh))) st
                  in if rv < 0 then Some (rv, 0, st1)
                     else Some (rv, nh_id, upd_vx (\<lambda>x. x\<lparr>
                            tunnel_next_hop_id := (tnh, \<lparr>tnp_refcnt = 1, tnp_nh_id = nh_id\<rparr>) # tunnel_next_hop_id x,
                            tunnel_next_hop2tnh := fm_emplace nh_id tnh (tunnel_next_hop2tnh x),
                            next_hop_id_cnt := nh_id + 1\<rparr>) st1))))"

text \<open>The first next hop with an address; without one the remote itself, on the interface of the last.\<close>

definition tunnel_nexthop :: "nl_addr \<Rightarrow> rtnl_nexthop list \<Rightarrow> int \<times> nl_addr" where
  "tunnel_nexthop remote nhs =
     (let addr = (\<lambda>h. case nx_gateway h of Some a \<Rightarrow> Some a | None \<Rightarrow> nx_via h)
      in case find (\<lambda>h. addr h \<noteq> None) nhs of
          Some h \<Rightarrow> (nx_ifindex h, the (addr h))
        | None \<Rightarrow> (nx_ifindex (last nhs), remote))"

definition create_next_hop :: "l3_env \<Rightarrow> nl_view \<Rightarrow> 's switch_interface \<Rightarrow> rtnl_link \<Rightarrow> nl_addr \<Rightarrow>
    ('s, 'm) vx_state_scheme \<Rightarrow> (int \<times> u32 \<times> ('s, 'm) vx_state_scheme) option" where
  "create_next_hop le nl swi vxlan_link remote st =
     (case query_route le remote False of
        None \<Rightarrow> Some (- EINVAL, 0, st)
      | Some route \<Rightarrow>
          (let nhs = get_nexthops_of_route (vx_view nl st) route
           in if nhs = [] then Some (- ENETUNREACH, 0, st)
              else
                (let (ifindex, nh_addr) = tunnel_nexthop remote nhs
                 in do {
                   neigh \<leftarrow> get_neighbour (addr_cmp le) nl ifindex (Some nh_addr);
                   case neigh of
                     Some n \<Rightarrow>
                       if nb_lladdr n \<noteq> None
                       then do {
                         (rv, nh_id, st1) \<leftarrow> create_next_hop_neigh le nl swi n st;
                         Some (if rv < 0 then - EINVAL else rv, nh_id, st1)
                       }
                       else Some (- EDESTADDRREQ, 0, notify_on_nh_reachable Cb_vxlan
                         \<lparr>pp_np = \<lparr>np_addr = remote, np_ifindex = ln_ifindex vxlan_link\<rparr>,
                          pp_nh = \<lparr>ns_nh = Some nh_addr, ns_ifindex = ifindex, ns_nhid = 0\<rparr>\<rparr> st)
                   | None \<Rightarrow> Some (- EDESTADDRREQ, 0, notify_on_nh_reachable Cb_vxlan
                         \<lparr>pp_np = \<lparr>np_addr = remote, np_ifindex = ln_ifindex vxlan_link\<rparr>,
                          pp_nh = \<lparr>ns_nh = Some nh_addr, ns_ifindex = ifindex, ns_nhid = 0\<rparr>\<rparr> st)
                 })))"

subsection \<open>Endpoints\<close>

text \<open>One more use, and one less, of an endpoint by a network identifier; \<open>operator[]\<close> starts at 0.\<close>

definition etp_use :: "u32 \<Rightarrow> endpoint_tunnel_port \<Rightarrow> endpoint_tunnel_port" where
  "etp_use vni e = e\<lparr>etp_refcnt := etp_refcnt e + 1,
     etp_refcnt_vni := fmupd vni ((case fmlookup (etp_refcnt_vni e) vni of Some n \<Rightarrow> n | None \<Rightarrow> 0) + 1) (etp_refcnt_vni e)\<rparr>"

definition etp_unuse :: "u32 \<Rightarrow> endpoint_tunnel_port \<Rightarrow> endpoint_tunnel_port" where
  "etp_unuse vni e = e\<lparr>etp_refcnt := etp_refcnt e - 1,
     etp_refcnt_vni := fmupd vni ((case fmlookup (etp_refcnt_vni e) vni of Some n \<Rightarrow> n | None \<Rightarrow> 0) - 1) (etp_refcnt_vni e)\<rparr>"

text \<open>\<open>create_endpoint\<close> with the next hop: the result has the return code and the logical port.\<close>

definition create_endpoint_port :: "'s switch_interface \<Rightarrow> rtnl_link \<Rightarrow> nl_addr \<Rightarrow> nl_addr \<Rightarrow> u32 \<Rightarrow>
    ('s, 'm) vx_state_scheme \<Rightarrow> (int \<times> u32 \<times> ('s, 'm) vx_state_scheme) option" where
  "create_endpoint_port swi vxlan_link local grp next_hop_id st =
     do {
       vni \<leftarrow> ln_vxlan_id vxlan_link;
       let ttl = (if ln_vxlan_ttl vxlan_link = 0 then 45 else ln_vxlan_ttl vxlan_link);
       let ep = endpoint_key vxlan_link local grp;
       case map_of (endpoint_id (st_vxlan st)) ep of
         Some e \<Rightarrow> Some (0, etp_lport_id e, upd_vx (endpoint_id_update (mm_set ep (etp_use vni e))) st)
       | None \<Rightarrow>
           (let lport = port_id_cnt (st_vxlan st);
                (rv, st1) = call_sw (sw_tunnel_enpoint_create swi lport (ln_name vxlan_link) (ep_remote_ipv4 ep)
                              (ep_local_ipv4 ep) ttl next_hop_id 4789 (ep_initiator_udp_dst_port ep) 0 True) st
            in if rv \<noteq> 0 then Some (- EINVAL, 0, st1)
               else Some (0, lport, upd_vx (\<lambda>x. x\<lparr>
                      endpoint_id := (ep, \<lparr>etp_refcnt = 1, etp_lport_id = lport, etp_nh_id = next_hop_id,
                                          etp_refcnt_vni = fmupd vni 1 fmempty\<rparr>) # endpoint_id x,
                      port_id_cnt := lport + 1\<rparr>) st1))
     }"

definition delete_endpoint_remote :: "'s switch_interface \<Rightarrow> rtnl_link \<Rightarrow> nl_addr \<Rightarrow> nl_addr \<Rightarrow>
    ('s, 'm) vx_state_scheme \<Rightarrow> (int \<times> ('s, 'm) vx_state_scheme) option" where
  "delete_endpoint_remote swi vxlan_link local remote st =
     (case vx_get_tunnel_id vxlan_link (st_vxlan st) of
        None \<Rightarrow> Some (- EINVAL, st)
      | Some (vni, tunnel_id) \<Rightarrow>
          do {
            (ep, entry) \<leftarrow> lookup_endpoint vxlan_link local remote (st_vxlan st);
            case entry of
              None \<Rightarrow> Some (0, st)
            | Some e \<Rightarrow>
                do {
                  let e1 = etp_unuse vni e;
                  let st1 = upd_vx (endpoint_id_update (mm_set ep e1)) st;
                  let (_, st2) = disable_flooding swi tunnel_id (etp_lport_id e) st1;
                  (rv, st3) \<leftarrow> (if fmlookup (etp_refcnt_vni e1) vni = Some 0
                                then call_sw_opt (sw_tunnel_port_tenant_remove swi (etp_lport_id e) tunnel_id) st2
                                else Some (0, st2));
                  if rv < 0 then Some (rv, st3)
                  else if etp_refcnt e1 = 0
                  then
                    (let (_, st4) = call_sw (sw_tunnel_port_delete swi (etp_lport_id e)) st3;
                         (rv, st5) = delete_next_hop_id swi (etp_nh_id e) st4
                     in Some (rv, upd_vx (endpoint_id_update (mm_erase ep)) st5))
                  else Some (rv, st3)
                }
          })"

definition delete_endpoint :: "'s switch_interface \<Rightarrow> rtnl_link \<Rightarrow> ('s, 'm) vx_state_scheme \<Rightarrow>
    (int \<times> ('s, 'm) vx_state_scheme) option" where
  "delete_endpoint swi vxlan_link st =
     (case ln_vxlan_local vxlan_link of
        None \<Rightarrow> Some (- EINVAL, st)
      | Some local \<Rightarrow>
          (case ln_vxlan_group vxlan_link of
             None \<Rightarrow> Some (0, st)
           | Some remote \<Rightarrow>
               map_option (\<lambda>(_, st1). (0, st1)) (delete_endpoint_remote swi vxlan_link local remote st)))"

text \<open>A forwarding entry behind a logical port.\<close>

definition add_l2_neigh_port :: "'s switch_interface \<Rightarrow> rtnl_neigh \<Rightarrow> u32 \<Rightarrow> u32 \<Rightarrow> ('s, 'm) vx_state_scheme \<Rightarrow>
    (int \<times> ('s, 'm) vx_state_scheme) option" where
  "add_l2_neigh_port swi neigh lport tunnel_id st =
     (if lport = 0 \<or> tunnel_id = 0 then Some (- EINVAL, st)
      else do {
        mac \<leftarrow> nb_lladdr neigh;
        let permanent = (nb_state neigh AND 0xc0 \<noteq> 0);
        Some (0, snd (call_sw (sw_l2_overlay_addr_add swi lport tunnel_id mac permanent) st))
      })"

text \<open>
  \<open>create_endpoint\<close> for a remote. When enabling flooding fails the endpoint is taken down again, and
  the function still goes on to its neighbours.
\<close>

definition endpoint_neighs :: "l3_env \<Rightarrow> nl_view \<Rightarrow> rtnl_link \<Rightarrow> nl_addr \<Rightarrow> rtnl_neigh list" where
  "endpoint_neighs le nl vxlan_link remote =
     filter (\<lambda>n. nb_ifindex n = ln_ifindex vxlan_link \<and> nb_family n = AF_BRIDGE \<and>
                 addr_cmp le (nb_dst n) (Some remote) = 0 \<and> nb_lladdr n \<noteq> Some 0) (nv_neighs nl)"

definition create_endpoint_remote :: "l3_env \<Rightarrow> nl_view \<Rightarrow> 's switch_interface \<Rightarrow> rtnl_link \<Rightarrow> rtnl_link option \<Rightarrow>
    nl_addr \<Rightarrow> ('s, 'm) vx_state_scheme \<Rightarrow> (int \<times> ('s, 'm) vx_state_scheme) option" where
  "create_endpoint_remote le nl swi vxlan_link br_link remote st =
     (if na_family remote \<noteq> AF_INET then Some (- EINVAL, st)
      else case ln_vxlan_local vxlan_link of
          None \<Rightarrow> Some (- EINVAL, st)
        | Some local \<Rightarrow>
            if na_family local \<noteq> AF_INET then Some (- EINVAL, st)
            else do {
              (rv, nh_id, st1) \<leftarrow> create_next_hop le nl swi vxlan_link remote st;
              if rv = - ENETUNREACH
              then Some (rv, notify_on_net_reachable Cb_vxlan
                     \<lparr>np_addr = remote, np_ifindex = ln_ifindex vxlan_link\<rparr> st1)
              else if rv < 0 then Some (rv, st1)
              else case vx_get_tunnel_id vxlan_link (st_vxlan st1) of
                  None \<Rightarrow> Some (- EINVAL, st1)
                | Some (vni, tunnel_id) \<Rightarrow>
                    do {
                      (rv, lport, st2) \<leftarrow> create_endpoint_port swi vxlan_link local remote nh_id st1;
                      if rv < 0 then Some (- EINVAL, snd (delete_next_hop_id swi nh_id st2))
                      else do {
                        let (rv, st3) = call_sw (sw_tunnel_port_tenant_add swi lport tunnel_id) st2;
                        if rv < 0 then do {
                          (_, st4) \<leftarrow> delete_endpoint_remote swi vxlan_link local remote st3;
                          Some (- EINVAL, snd (delete_next_hop_id swi nh_id st4))
                        }
                        else do {
                          flooding \<leftarrow> (if br_link = None then Some False
                                       else bridge_is_port_flooding br_link (st_vxlan st3));
                          let (rv, st4) = (if flooding then enable_flooding swi tunnel_id lport st3 else (rv, st3));
                          st5 \<leftarrow> (if rv < 0 then do {
                                    let (_, s) = disable_flooding swi tunnel_id lport st4;
                                    (_, s) \<leftarrow> call_sw_opt (sw_tunnel_port_tenant_remove swi lport tunnel_id) s;
                                    (_, s) \<leftarrow> delete_endpoint_remote swi vxlan_link local remote s;
                                    Some (snd (delete_next_hop_id swi nh_id s))
                                  }
                                  else Some st4);
                          foreach_opt (\<lambda>n (_, st). add_l2_neigh_port swi n lport tunnel_id st)
                            (endpoint_neighs le nl vxlan_link remote) (rv, st5)
                        }
                      }
                    }
            })"

definition create_endpoint :: "l3_env \<Rightarrow> nl_view \<Rightarrow> 's switch_interface \<Rightarrow> rtnl_link \<Rightarrow> rtnl_link option \<Rightarrow>
    ('s, 'm) vx_state_scheme \<Rightarrow> (int \<times> ('s, 'm) vx_state_scheme) option" where
  "create_endpoint le nl swi vxlan_link br_link st =
     (if \<not> rtnl_link_is_vxlan vxlan_link then Some (- EINVAL, st)
      else case ln_vxlan_group vxlan_link of
          None \<Rightarrow> Some (0, st)
        | Some grp \<Rightarrow>
            if na_family grp \<noteq> AF_INET then Some (- ENOTSUP, st)
            else map_option (\<lambda>(_, st1). (0, st1)) (create_endpoint_remote le nl swi vxlan_link br_link grp st))"

subsection \<open>Forwarding entries\<close>

definition delete_l2_neigh_tunnel :: "'s switch_interface \<Rightarrow> u32 \<Rightarrow> mac option \<Rightarrow> ('s, 'm) vx_state_scheme \<Rightarrow>
    (int \<times> ('s, 'm) vx_state_scheme) option" where
  "delete_l2_neigh_tunnel swi tunnel_id neigh_mac st =
     (if tunnel_id = 0 then Some (- EINVAL, st)
      else map_option (\<lambda>mac. (0, snd (call_sw (sw_l2_overlay_addr_remove swi tunnel_id 0 mac) st))) neigh_mac)"

definition delete_l2_neigh_access :: "nl_view \<Rightarrow> 's switch_interface \<Rightarrow> rtnl_link \<Rightarrow> u16 \<Rightarrow> mac option \<Rightarrow>
    ('s, 'm) vx_state_scheme \<Rightarrow> (int \<times> ('s, 'm) vx_state_scheme) option" where
  "delete_l2_neigh_access nl swi link vlan neigh_mac st =
     (let pport = get_port_id_ifindex nl (ln_ifindex link)
      in if pport = 0 then Some (- EINVAL, st)
         else do {
           port \<leftarrow> get_access_tunnel_port pport vlan (st_vxlan st);
           delete_l2_neigh_tunnel swi (at_tunnel_id port) neigh_mac st
         })"

definition delete_l2_neigh_endpoint :: "'s switch_interface \<Rightarrow> rtnl_link \<Rightarrow> nl_addr \<Rightarrow> nl_addr \<Rightarrow> mac option \<Rightarrow>
    ('s, 'm) vx_state_scheme \<Rightarrow> (int \<times> ('s, 'm) vx_state_scheme) option" where
  "delete_l2_neigh_endpoint swi vxlan_link local remote neigh_mac st =
     (case vx_get_tunnel_id vxlan_link (st_vxlan st) of
        None \<Rightarrow> Some (- EINVAL, st)
      | Some (vni, tunnel_id) \<Rightarrow>
          do {
            (rv, st1) \<leftarrow> delete_l2_neigh_tunnel swi tunnel_id neigh_mac st;
            if rv < 0 then Some (- EINVAL, st1)
            else do {
              (ep, entry) \<leftarrow> lookup_endpoint vxlan_link local remote (st_vxlan st1);
              case entry of
                None \<Rightarrow> Some (- EINVAL, st1)
              | Some e \<Rightarrow>
                  do {
                    let e1 = etp_unuse vni e;
                    let st2 = upd_vx (endpoint_id_update (mm_set ep e1)) st1;
                    (rv, st3) \<leftarrow> (if fmlookup (etp_refcnt_vni e1) vni = Some 0
                                  then call_sw_opt (sw_tunnel_port_tenant_remove swi (etp_lport_id e) tunnel_id) st2
                                  else Some (0, st2));
                    if rv < 0 then Some (rv, st3)
                    else if etp_refcnt e1 = 0
                    then
                      (let (_, st4) = call_sw (sw_tunnel_port_delete swi (etp_lport_id e)) st3;
                           (_, st5) = delete_next_hop_id swi (etp_nh_id e) st4
                       in Some (0, upd_vx (endpoint_id_update (mm_erase ep)) st5))
                    else Some (0, st3)
                  }
            }
          })"

text \<open>An address in the forwarding table; \<open>nl_addr_iszero\<close> needs one.\<close>

definition delete_l2_neigh :: "l3_env \<Rightarrow> nl_view \<Rightarrow> 's switch_interface \<Rightarrow> rtnl_neigh \<Rightarrow> rtnl_link \<Rightarrow>
    ('s, 'm) vx_state_scheme \<Rightarrow> (int \<times> ('s, 'm) vx_state_scheme) option" where
  "delete_l2_neigh le nl swi neigh link st =
     (if ln_family link \<noteq> AF_UNSPEC then None
      else if get_link_type link = LT_VXLAN
      then do {
        _ \<leftarrow> ln_vxlan_port link;
        case ln_vxlan_local link of
          None \<Rightarrow> Some (- EINVAL, st)
        | Some local \<Rightarrow>
            if na_family local \<noteq> AF_INET then Some (- EINVAL, st)
            else case nb_dst neigh of
                None \<Rightarrow> Some (- EINVAL, st)
              | Some dst \<Rightarrow>
                  do {
                    mac \<leftarrow> nb_lladdr neigh;
                    if mac = 0
                    then
                      (if ln_vxlan_group link \<noteq> None \<and> addr_cmp le (ln_vxlan_group link) (Some dst) = 0
                       then Some (0, st)
                       else map_option (\<lambda>(_, st1). (0, st1)) (delete_endpoint_remote swi link local dst st))
                    else map_option (\<lambda>(_, st1). (0, st1)) (delete_l2_neigh_endpoint swi link local dst (Some mac) st)
                  }
      }
      else map_option (\<lambda>(_, st1). (0, st1))
             (delete_l2_neigh_access nl swi link (word_of_int (nb_vlan neigh)) (nb_lladdr neigh) st))"

type_synonym ('s, 'm) access_port_update =
  "rtnl_link \<Rightarrow> rtnl_link option \<Rightarrow> u32 \<Rightarrow> bool \<Rightarrow> ('s, 'm) vx_state_scheme \<Rightarrow> (int \<times> ('s, 'm) vx_state_scheme) option"

definition add_l2_neigh :: "l3_env \<Rightarrow> nl_view \<Rightarrow> 's switch_interface \<Rightarrow> ('s, 'm) access_port_update \<Rightarrow>
    rtnl_neigh \<Rightarrow> rtnl_link \<Rightarrow> rtnl_link option \<Rightarrow> ('s, 'm) vx_state_scheme \<Rightarrow>
    (int \<times> ('s, 'm) vx_state_scheme) option" where
  "add_l2_neigh le nl swi upd neigh link br_link st =
     (if ln_family link \<noteq> AF_UNSPEC then None
      else if nb_lladdr neigh = Some (ln_addr link) then Some (0, st)
      else if get_link_type link = LT_VXLAN
      then do {
        mac \<leftarrow> nb_lladdr neigh;
        let is_endpoint = (mac = 0);
        case ln_vxlan_local link of
          None \<Rightarrow> Some (- EINVAL, st)
        | Some local \<Rightarrow>
            (case nb_dst neigh of
               None \<Rightarrow> Some (- EINVAL, st)
             | Some remote \<Rightarrow>
                 if is_endpoint \<and> ln_vxlan_group link \<noteq> None \<and> addr_cmp le (ln_vxlan_group link) (Some remote) = 0
                 then Some (0, st)
                 else case vx_get_tunnel_id link (st_vxlan st) of
                     None \<Rightarrow> Some (- EINVAL, st)
                   | Some (vni, tunnel_id) \<Rightarrow>
                       do {
                         (ep, entry) \<leftarrow> lookup_endpoint link local remote (st_vxlan st);
                         let lport = (case entry of Some e \<Rightarrow> etp_lport_id e | None \<Rightarrow> 0);
                         if is_endpoint then
                           do {
                             (stop, rv, st1) \<leftarrow>
                               (if lport = 0
                                then map_option (Pair False) (create_endpoint_remote le nl swi link br_link remote st)
                                else do {
                                  e \<leftarrow> entry;
                                  let (rv, s) = call_sw (sw_tunnel_port_tenant_add swi lport tunnel_id) st;
                                  let s = upd_vx (endpoint_id_update (mm_set ep (etp_use vni e))) s;
                                  if rv < 0 then Some (True, rv, s)
                                  else do {
                                    flooding \<leftarrow> bridge_is_port_flooding br_link (st_vxlan s);
                                    let (rv, s) = (if flooding then enable_flooding swi tunnel_id lport s else (rv, s));
                                    Some (rv < 0, rv, s)
                                  }
                                });
                             if stop then Some (rv, st1)
                             else if \<not> vx_bridge (st_vxlan st1) then None
                             else map_option (\<lambda>(_, st2). (rv, st2)) (upd link br_link tunnel_id True st1)
                           }
                         else case entry of
                             None \<Rightarrow> Some (- EINVAL, st)
                           | Some e \<Rightarrow>
                               do {
                                 (rv, st1) \<leftarrow> add_l2_neigh_port swi neigh lport tunnel_id st;
                                 if rv < 0 then Some (rv, st1)
                                 else Some (rv, upd_vx (endpoint_id_update (mm_set ep (etp_use vni e))) st1)
                               }
                       })
      }
      else
        (let pport = get_port_id_ifindex nl (ln_ifindex link)
         in if pport = 0 then Some (- EINVAL, st)
            else do {
              port \<leftarrow> get_access_tunnel_port pport (word_of_int (nb_vlan neigh)) (st_vxlan st);
              add_l2_neigh_port swi neigh (at_lport_id port) (at_tunnel_id port) st
            }))"

subsection \<open>Notifications and start\<close>

definition vx_net_reachable_notification :: "l3_env \<Rightarrow> nl_view \<Rightarrow> 's switch_interface \<Rightarrow> net_params \<Rightarrow>
    ('s, 'm) vx_state_scheme \<Rightarrow> ('s, 'm) vx_state_scheme option" where
  "vx_net_reachable_notification le nl swi params st =
     (case get_link nl (np_ifindex params) AF_UNSPEC of
        None \<Rightarrow> Some st
      | Some vxlan_link \<Rightarrow>
          if \<not> rtnl_link_is_vxlan vxlan_link then Some st
          else map_option snd (create_endpoint_remote le nl swi vxlan_link
                 (get_link nl (np_ifindex params) AF_BRIDGE) (np_addr params) st))"

definition vx_nh_reachable_notification :: "l3_env \<Rightarrow> nl_view \<Rightarrow> 's switch_interface \<Rightarrow> rtnl_neigh \<Rightarrow> nh_params \<Rightarrow>
    ('s, 'm) vx_state_scheme \<Rightarrow> ('s, 'm) vx_state_scheme option" where
  "vx_nh_reachable_notification le nl swi n p = vx_net_reachable_notification le nl swi (pp_np p)"

text \<open>The argument \<open>b\<close> tells whether a bridge is registered or the null pointer; the loop over the links runs in both cases.\<close>

definition vx_register_bridge :: "l3_env \<Rightarrow> nl_view \<Rightarrow> 's switch_interface \<Rightarrow> ('s, 'm) access_port_update \<Rightarrow> bool \<Rightarrow>
    ('s, 'm) vx_state_scheme \<Rightarrow> ('s, 'm) vx_state_scheme option" where
  "vx_register_bridge le nl swi upd b st =
     foreach_opt (\<lambda>link st.
         let (rv, st1) = create_vni swi link st
         in if rv < 0 \<or> ln_master link = 0 then Some st1
            else do {
              let br_link = get_link nl (ln_ifindex link) AF_BRIDGE;
              (_, st2) \<leftarrow> create_endpoint le nl swi link br_link st1;
              foreach_opt (\<lambda>n st. map_option snd (add_l2_neigh le nl swi upd n link br_link st))
                (filter (\<lambda>n. nb_ifindex n = ln_ifindex link \<and> nb_family n = AF_BRIDGE) (nv_neighs nl)) st2
            })
       (filter rtnl_link_is_vxlan (nv_links nl)) (upd_vx (vx_bridge_update (\<lambda>_. b)) st)"

end
