(* ===== verification/Nl_Vxlan_Props.thy ===== *)
theory Nl_Vxlan_Props
  imports Nl_Vxlan Nl_L3_Props
begin

text \<open>
  Properties of the tunnels: identifiers of tenants, and what is left behind when ports and endpoints
  are taken down.
\<close>

subsection \<open>Frames\<close>

lemma st_vxlan_call_sw [simp, frame]: "st_vxlan (snd (call_sw f st)) = st_vxlan st"
  by (simp add: call_sw_def split_beta Let_def)

lemma fst_call_sw [simp]: "fst (call_sw f st) = fst (f (st_sw st))"
  by (simp add: call_sw_def split_beta Let_def)

lemma st_vxlan_call_sw_opt [frame]: "call_sw_opt f st = Some (r, st') \<Longrightarrow> st_vxlan st' = st_vxlan st"
  by (auto simp: call_sw_opt_def)

lemma st_vxlan_upd_vx [simp]: "st_vxlan (upd_vx f st) = f (st_vxlan st)"
  by (simp add: upd_vx_def)

lemma st_vxlan_flooding [simp, frame]:
  "st_vxlan (snd (enable_flooding swi t l st)) = st_vxlan st"
  "st_vxlan (snd (disable_flooding swi t l st)) = st_vxlan st"
  by (simp_all add: enable_flooding_def disable_flooding_def split_beta Let_def)

text \<open>Lookup after replacing and erasing entries of a multimap.\<close>

lemma map_of_mm_set: "map_of (mm_set k v xs) k' = (if k' = k \<and> map_of xs k \<noteq> None then Some v else map_of xs k')"
  by (induction k v xs rule: mm_set.induct) auto

lemma map_of_mm_erase_other: "k' \<noteq> k \<Longrightarrow> map_of (mm_erase k xs) k' = map_of xs k'"
  by (induction k xs rule: mm_erase.induct) auto

subsection \<open>Tunnel identifiers\<close>

text \<open>
  Identifiers are counted up from 10 and never reused: those in use are below the counter, and no two
  network identifiers have the same.
\<close>

definition vni_inv :: "nat \<Rightarrow> nl_vxlan \<Rightarrow> bool" where
  "vni_inv n x \<longleftrightarrow> unat (tunnel_id_cnt x) \<le> 10 + n \<and> 10 \<le> unat (tunnel_id_cnt x) \<and>
     (\<forall>v t. fmlookup (vni2tunnel x) v = Some t \<longrightarrow> 10 \<le> unat t \<and> t < tunnel_id_cnt x) \<and>
     (\<forall>v w t. fmlookup (vni2tunnel x) v = Some t \<longrightarrow> fmlookup (vni2tunnel x) w = Some t \<longrightarrow> v = w)"

lemma vni_inv_create:
  assumes "vni_inv n (st_vxlan st)" and "10 + n < 2 ^ 32 - 1"
  shows "vni_inv (Suc n) (st_vxlan (snd (create_vni swi link st)))"
proof -
  let ?x = "st_vxlan st" and ?c = "tunnel_id_cnt (st_vxlan st)"
  have keep: "vni_inv (Suc n) ?x" using assms(1) by (auto simp: vni_inv_def)
  have c: "unat (?c + 1) = unat ?c + 1" using assms by (auto simp: vni_inv_def unat_word_ariths)
  have "vni_inv (Suc n) (?x\<lparr>vni2tunnel := fm_emplace vni ?c (vni2tunnel ?x), tunnel_id_cnt := ?c + 1\<rparr>)" for vni
    using assms(1) c by (auto simp: vni_inv_def fmlookup_fm_emplace word_less_nat_alt intro: less_SucI split: if_splits)
  then show ?thesis using keep by (simp add: create_vni_def Let_def split_beta)
qed

lemma vni_inv_remove: "vni_inv n (st_vxlan st) \<Longrightarrow> vni_inv (Suc n) (st_vxlan (snd (remove_vni swi link st)))"
  by (auto simp: remove_vni_def vni_inv_def Let_def split_beta split: option.split)

fun vni_exec :: "'s switch_interface \<Rightarrow> bool \<times> rtnl_link \<Rightarrow> ('s, 'm) vx_state_scheme \<Rightarrow> ('s, 'm) vx_state_scheme" where
  "vni_exec swi (True, link) st = snd (create_vni swi link st)"
| "vni_exec swi (False, link) st = snd (remove_vni swi link st)"

text \<open>
  C26: No two VXLAN network identifiers are ever given the same tunnel, and 0 is never given, in the first
  \<open>2^32 - 11\<close> creations and removals of tenants, whatever the switch answers.
\<close>

theorem tunnels_distinct:
  fixes st :: "('s, 'm) vx_state_scheme"
  assumes "length cmds < 2 ^ 32 - 11" and "st_vxlan st = nl_vxlan_init"
    and "fmlookup (vni2tunnel (st_vxlan (fold (vni_exec swi) cmds st))) v = Some t"
  shows "t \<noteq> 0 \<and> (fmlookup (vni2tunnel (st_vxlan (fold (vni_exec swi) cmds st))) w = Some t \<longrightarrow> w = v)"
proof -
  have step: "vni_inv (Suc n) (st_vxlan (vni_exec swi c st))"
    if "vni_inv n (st_vxlan st)" "10 + n < 2 ^ 32 - 1" for n c and st :: "('s, 'm) vx_state_scheme"
    using that by (cases c; cases "fst c") (auto intro: vni_inv_create vni_inv_remove)
  have run: "vni_inv (n + length cmds) (st_vxlan (fold (vni_exec swi) cmds st))"
    if "vni_inv n (st_vxlan st)" "10 + n + length cmds < 2 ^ 32 - 1" for n cmds and st :: "('s, 'm) vx_state_scheme"
    using that
  proof (induction cmds arbitrary: n st)
    case (Cons c cs)
    have "vni_inv (Suc n) (st_vxlan (vni_exec swi c st))" using step [OF Cons.prems(1)] Cons.prems(2) by simp
    from Cons.IH [OF this] show ?case using Cons.prems(2) by simp
  qed simp
  have "vni_inv 0 (st_vxlan st)" using assms(2) by (simp add: vni_inv_def nl_vxlan_init_def)
  from run [OF this, of cmds] have "vni_inv (length cmds) (st_vxlan (fold (vni_exec swi) cmds st))"
    using assms(1) by simp
  then have "10 \<le> unat t" "fmlookup (vni2tunnel (st_vxlan (fold (vni_exec swi) cmds st))) w = Some t \<longrightarrow> w = v"
    using assms(3) unfolding vni_inv_def by blast+
  then show ?thesis by auto
qed

definition vx_initial :: "controller vx_state" where
  "vx_initial = \<lparr>st_l3 = nl_l3_init, st_vlan = nl_vlan_init, st_sw = controller_init, st_vxlan = nl_vxlan_init\<rparr>"

definition vxlan_link :: "int \<Rightarrow> u32 \<Rightarrow> rtnl_link" where
  "vxlan_link i vni = (plain_link i)\<lparr>ln_type := Some ''vxlan'', ln_vxlan_id := Some vni,
     ln_vxlan_local := Some (in4_addr 0x0a000001 32), ln_vxlan_port := Some 4789\<rparr>"

lemma ideal_tunnels [simp]:
  "fst (tunnel_tenant_create ideal_env t v c) = 0" "fst (overlay_tunnel_add ideal_env t c) = 0"
  "fst (tunnel_port_tenant_add ideal_env l t c) = 0"
  by (simp_all add: tunnel_tenant_create_def tunnel_port_tenant_add_def ofdpa_defs fst_rpc_call overlay_tunnel_add_def of_send_def send_def
      with_dpt_def try_catch_def ideal_env_def)

theorem tunnels_distinct_witness:
  "fmlookup (vni2tunnel (st_vxlan (fold (vni_exec (controller_swi ideal_env)) [(True, vxlan_link 20 100)] vx_initial))) 100 = Some 10 \<and>
   (10 :: u32) \<noteq> 0 \<and>
   fmlookup (vni2tunnel (st_vxlan (fold (vni_exec (controller_swi ideal_env)) [(True, vxlan_link 20 100)] vx_initial))) 200 \<noteq> Some 10"
proof -
  let ?st = "fold (vni_exec (controller_swi ideal_env)) [(True, vxlan_link 20 100)] vx_initial"
  have "fmlookup (vni2tunnel (st_vxlan ?st)) 100 = Some 10"
    by (simp add: create_vni_def vxlan_link_def rtnl_link_is_vxlan_def vx_get_tunnel_id_def vx_initial_def
        nl_vxlan_init_def Let_def split_beta)
  moreover have "(10 :: u32) \<noteq> 0 \<and> (fmlookup (vni2tunnel (st_vxlan ?st)) 200 = Some 10 \<longrightarrow> (200 :: u32) = 100)"
    by (rule tunnels_distinct) (use calculation in \<open>simp_all add: vx_initial_def\<close>)
  moreover have "(200 :: u32) \<noteq> 100" by simp
  ultimately show ?thesis by blast
qed

subsection \<open>Access ports\<close>

lemma call_sw_pair: "call_sw f st = (fst (f (st_sw st)), st\<lparr>st_sw := snd (f (st_sw st))\<rparr>)"
  by (simp add: call_sw_def split_beta Let_def)

text \<open>
  When the switch refuses to add a new access port to its tenant, the port stays on the switch: the
  clean-up looks for it in \<open>access_port_ids\<close>, where it is only entered at the end. The refused call is the last
  one the switch sees, and the next access port is created with the same identifier.
\<close>

theorem refused_access_port_stays:
  assumes "pport \<noteq> 0" and "vid \<noteq> 0" and "map_of (access_port_ids (st_vxlan st)) \<lparr>pv_pport = pport, pv_vid = vid\<rparr> = None"
    and "created = retry 50 (sw_tunnel_access_port_create swi (port_id_cnt (st_vxlan st))
           (name @ ''.'' @ to_string (unat vid)) pport vid untagged)
           (snd (sw_ingress_port_vlan_remove swi pport vid untagged 0
             (snd (sw_egress_bridge_port_vlan_remove swi pport vid (st_sw st)))))"
    and "0 \<le> fst created"
    and "refused = sw_tunnel_port_tenant_add swi (port_id_cnt (st_vxlan st)) tunnel_id (snd created)"
    and "fst refused < 0"
  shows "create_access_port swi l tunnel_id name pport vid untagged st =
           Some (fst refused, None, st\<lparr>st_sw := snd refused\<rparr>)"
  using assms
  by (simp add: create_access_port_def get_access_tunnel_port_def delete_access_port_def call_sw_pair Let_def)

definition refuse_tenants :: ofenv where
  "refuse_tenants = ideal_env\<lparr>rpc_outcome := (\<lambda>_ r. case r of Rpc_TunnelPortTenantAdd _ _ \<Rightarrow> Some (- 20) | _ \<Rightarrow> Some 0)\<rparr>"

lemma retry_first: "0 < n \<Longrightarrow> 0 \<le> fst (f s) \<Longrightarrow> retry n f s = f s"
  by (cases n) (auto simp: split_beta Let_def)

theorem refused_access_port_stays_witness:
  "\<exists>rv st'. create_access_port (controller_swi refuse_tenants) (plain_link 3) 10 ''port'' 1 5 True vx_initial =
     Some (rv, None, st') \<and> rv < 0 \<and> st_vxlan st' = st_vxlan vx_initial"
proof -
  let ?swi = "controller_swi refuse_tenants"
  have created: "fst (tunnel_access_port_create refuse_tenants i n p v u c) = 0" for i n p v u c
    by (simp add: tunnel_access_port_create_def ofdpa_defs fst_rpc_call refuse_tenants_def)
  have refused: "fst (tunnel_port_tenant_add refuse_tenants i t c) = - 20" for i t c
    by (simp add: tunnel_port_tenant_add_def ofdpa_defs fst_rpc_call refuse_tenants_def)
  show ?thesis
    using refused_access_port_stays [of 1 5 vx_initial _ ?swi "''port''" True _ 10 "plain_link 3", OF _ _ _ refl _ refl]
    by (simp add: retry_first created refused) (simp add: vx_initial_def nl_vxlan_init_def)
qed

subsection \<open>Endpoints shared by tenants\<close>

text \<open>
  Next hops of shared endpoints are never released. When a second tenant uses an existing endpoint,
  \<open>create_endpoint\<close> takes a reference on the next hop and does not record it with the endpoint;
  taking that use down again restores the endpoint and keeps the reference.
\<close>

theorem shared_endpoint_keeps_next_hop:
  fixes st :: "('s, 'm) vx_state_scheme"
  assumes "ln_vxlan_local link = Some local" and "na_family local = AF_INET" and "na_family remote = AF_INET"
    and "ln_vxlan_id link = Some vni" and "fmlookup (vni2tunnel (st_vxlan st)) vni = Some tunnel_id"
    and "map_of (tunnel_next_hop_id (st_vxlan st)) tnh = Some n"
    and "create_next_hop le nl swi link remote st =
           Some (0, nh_id, upd_vx (tunnel_next_hop_id_update (mm_set tnh (n\<lparr>tnp_refcnt := tnp_refcnt n + 1\<rparr>))) st)"
    and "ep = endpoint_key link local remote"
    and "map_of (endpoint_id (st_vxlan st)) ep = Some e" and "0 < etp_refcnt e"
    and "fmlookup (etp_refcnt_vni e) vni = Some m" and "m \<noteq> 0"
    and "endpoint_neighs le nl link remote = []"
    and "\<And>s. 0 \<le> fst (sw_tunnel_port_tenant_add swi (etp_lport_id e) tunnel_id s)"
  shows "\<exists>rv st1 rv' st2. create_endpoint_remote le nl swi link None remote st = Some (rv, st1) \<and>
    delete_endpoint_remote swi link local remote st1 = Some (rv', st2) \<and>
    map_of (endpoint_id (st_vxlan st2)) ep = Some e \<and>
    map_of (tunnel_next_hop_id (st_vxlan st2)) tnh = Some (n\<lparr>tnp_refcnt := tnp_refcnt n + 1\<rparr>)"
proof -
  let ?st1 = "upd_vx (endpoint_id_update (mm_set ep (etp_use vni e)))
      (upd_vx (tunnel_next_hop_id_update (mm_set tnh (n\<lparr>tnp_refcnt := tnp_refcnt n + 1\<rparr>))) st)"
  let ?add = "sw_tunnel_port_tenant_add swi (etp_lport_id e) tunnel_id"
  have accepted: "\<not> fst (?add s) < 0" for s using assms(14) by (simp add: not_less)
  have port: "create_endpoint_port swi link local remote nh_id
      (upd_vx (tunnel_next_hop_id_update (mm_set tnh (n\<lparr>tnp_refcnt := tnp_refcnt n + 1\<rparr>))) st) = Some (0, etp_lport_id e, ?st1)"
    using assms(4,8,9) by (simp add: create_endpoint_port_def)
  have create: "create_endpoint_remote le nl swi link None remote st =
      Some (fst (?add (st_sw ?st1)), ?st1\<lparr>st_sw := snd (?add (st_sw ?st1))\<rparr>)"
    using assms(1-5,7,13) port accepted
    by (simp add: create_endpoint_remote_def vx_get_tunnel_id_def call_sw_pair Let_def)
  let ?st = "?st1\<lparr>st_sw := snd (?add (st_sw ?st1))\<rparr>"
  have used: "etp_unuse vni (etp_use vni e) = e"
    using assms(11) by (simp add: etp_use_def etp_unuse_def fmupd_same)
  have entry: "map_of (endpoint_id (st_vxlan ?st)) ep = Some (etp_use vni e)"
    using assms(9) by (simp add: map_of_mm_set upd_vx_def)
  have "vx_get_tunnel_id link (st_vxlan ?st) = Some (vni, tunnel_id)"
    using assms(4,5) by (simp add: vx_get_tunnel_id_def upd_vx_def)
  moreover have "lookup_endpoint link local remote (st_vxlan ?st) = Some (ep, Some (etp_use vni e))"
    using assms(4,8) entry by (simp add: lookup_endpoint_def)
  ultimately have delete: "\<exists>rv' st2. delete_endpoint_remote swi link local remote ?st = Some (rv', st2) \<and>
      st_vxlan st2 = endpoint_id_update (mm_set ep e) (st_vxlan ?st)"
    using assms(10-12) by (simp add: delete_endpoint_remote_def used split_beta Let_def)
  then show ?thesis
    using create entry assms(6) by (auto simp: map_of_mm_set upd_vx_def)
qed

definition gateway_env :: l3_env where
  "gateway_env = plain_l3_env\<lparr>query_route := (\<lambda>a _. Some (plain_route a [gateway_hop 3 5] 0))\<rparr>"

definition gateway_view :: nl_view where
  "gateway_view = two_port_view\<lparr>nv_neighs := [plain_neigh 3 5]\<rparr>"

definition gateway_nh :: tunnel_nh where
  "gateway_nh = \<lparr>tn_smac = 0x020000000001, tn_dmac = 0x020000000077, tn_pv = \<lparr>pv_pport = 1, pv_vid = 1\<rparr>\<rparr>"

definition shared_endpoint :: endpoint_tunnel_port where
  "shared_endpoint = \<lparr>etp_refcnt = 2, etp_lport_id = 0x10001, etp_nh_id = 1,
     etp_refcnt_vni = fmupd 200 1 (fmupd 100 1 fmempty)\<rparr>"

definition shared_state :: "controller vx_state" where
  "shared_state = vx_initial\<lparr>st_vxlan := nl_vxlan_init\<lparr>
     tunnel_next_hop_id := [(gateway_nh, \<lparr>tnp_refcnt = 1, tnp_nh_id = 1\<rparr>)],
     endpoint_id := [(endpoint_key (vxlan_link 21 200) (in4_addr 0x0a000001 32) (in4_addr 0x0a000002 32), shared_endpoint)],
     tunnel_next_hop2tnh := fmupd 1 gateway_nh fmempty, next_hop_id_cnt := 2, port_id_cnt := 0x10002,
     tunnel_id_cnt := 12, vni2tunnel := fmupd 200 11 (fmupd 100 10 fmempty)\<rparr>\<rparr>"

lemma gateway_view_links [simp]:
  "get_link_by_ifindex (vx_view gateway_view st) i = get_link_by_ifindex two_port_view i"
  by (simp add: gateway_view_def vx_view_def get_link_by_ifindex_def cong: option.case_cong)

lemma gateway_view_simps [simp]:
  "get_port_id_link (vx_view gateway_view st) (Some (plain_link 3)) = 1"
  "is_switch_interface (vx_view gateway_view st) (plain_link 3)"
  "nv_neighs gateway_view = [plain_neigh 3 5]"
  by (simp_all add: gateway_view_def vx_view_def two_port_view_def bond_view_def is_switch_interface_def
      plain_link_def rtnl_link_is_vlan_def get_port_id_link_def get_port_id_ifindex_def get_port_id_def Let_def)

theorem shared_endpoint_keeps_next_hop_witness:
  "\<exists>rv st1 rv' st2. create_endpoint_remote gateway_env gateway_view (controller_swi ideal_env) (vxlan_link 21 200) None
      (in4_addr 0x0a000002 32) shared_state = Some (rv, st1) \<and>
    delete_endpoint_remote (controller_swi ideal_env) (vxlan_link 21 200) (in4_addr 0x0a000001 32) (in4_addr 0x0a000002 32) st1 =
      Some (rv', st2) \<and>
    map_of (endpoint_id (st_vxlan st2)) (endpoint_key (vxlan_link 21 200) (in4_addr 0x0a000001 32) (in4_addr 0x0a000002 32)) =
      Some shared_endpoint \<and>
    map_of (tunnel_next_hop_id (st_vxlan st2)) gateway_nh =
      Some (\<lparr>tnp_refcnt = 1, tnp_nh_id = 1\<rparr>\<lparr>tnp_refcnt := tnp_refcnt \<lparr>tnp_refcnt = 1, tnp_nh_id = 1\<rparr> + 1\<rparr>)"
proof (rule shared_endpoint_keeps_next_hop [where vni = 200 and tunnel_id = 11 and nh_id = 1 and m = 1])
  have nhs: "get_nexthops_of_route (vx_view gateway_view shared_state) (plain_route a [gateway_hop 3 5] 0) = [gateway_hop 3 5]" for a
    by (simp add: get_nexthops_of_route_def plain_route_def gateway_hop_def)
  have hop: "tunnel_nexthop a [gateway_hop 3 5] = (3, in4_addr 5 32)" for a
    by (simp add: tunnel_nexthop_def gateway_hop_def)
  have neigh: "get_neighbour (addr_cmp gateway_env) gateway_view 3 (Some (in4_addr 5 32)) = Some (Some (plain_neigh 3 5))"
    by (simp add: get_neighbour_def gateway_env_def plain_l3_env_def plain_neigh_def in4_addr_def)
  have tnh: "neigh_tunnel_nh gateway_env (vx_view gateway_view shared_state) (plain_neigh 3 5) = Some gateway_nh"
  proof -
    have "ln_addr (plain_link 3) = 0x020000000001" by (simp add: plain_link_def)
    moreover have "untagged_vid gateway_env = 1" by (simp add: gateway_env_def plain_l3_env_def)
    ultimately show ?thesis by (simp add: neigh_tunnel_nh_def plain_neigh_def gateway_nh_def Let_def)
  qed
  show "create_next_hop gateway_env gateway_view (controller_swi ideal_env) (vxlan_link 21 200) (in4_addr 0x0a000002 32) shared_state =
      Some (0, 1, upd_vx (tunnel_next_hop_id_update (mm_set gateway_nh (\<lparr>tnp_refcnt = 1, tnp_nh_id = 1\<rparr>\<lparr>tnp_refcnt :=
        tnp_refcnt \<lparr>tnp_refcnt = 1, tnp_nh_id = 1\<rparr> + 1\<rparr>))) shared_state)"
  proof -
    have "query_route gateway_env a b = Some (plain_route a [gateway_hop 3 5] 0)" for a b by (simp add: gateway_env_def)
    moreover have "nb_lladdr (plain_neigh 3 5) \<noteq> None" by (simp add: plain_neigh_def)
    moreover have "next_hop_id_cnt (st_vxlan shared_state) \<noteq> 0"
      "map_of (tunnel_next_hop_id (st_vxlan shared_state)) gateway_nh = Some \<lparr>tnp_refcnt = 1, tnp_nh_id = 1\<rparr>"
      by (simp_all add: shared_state_def)
    ultimately show ?thesis using nhs hop neigh tnh by (simp add: create_next_hop_def create_next_hop_neigh_def)
  qed
qed (simp_all add: shared_state_def vxlan_link_def in4_addr_def shared_endpoint_def endpoint_neighs_def plain_neigh_def)

end
