(* ===== verification/Bridge_Stp.thy ===== *)
theory Bridge_Stp
  imports Nl_Vlan
begin

text \<open>
  Spanning tree states of bridge ports (\<open>bridge_stp_states\<close> of \<open>src/src/netlink/nl_bridge.h\<close> and the methods
  of \<open>nl_bridge.cc\<close> that keep it): the state of a port, its states in single VLANs, and the spanning tree
  groups of the switch. A VLAN has a group of its own while some port has a state in it.

  The inner map is keyed by \<open>uint16_t\<close>, so port identifiers are narrowed there.
\<close>

abbreviation (input) BR_STATE_FORWARDING :: u8 where "BR_STATE_FORWARDING \<equiv> 3"
abbreviation (input) BR_STATE_BLOCKING :: u8 where "BR_STATE_BLOCKING \<equiv> 4"

record bridge_stp_states =
  gl_states :: "(u32, u8) fmap"
  pv_states :: "(u16, (u16, u8) fmap) fmap"

definition bridge_stp_states_init :: bridge_stp_states where
  "bridge_stp_states_init = \<lparr>gl_states = fmempty, pv_states = fmempty\<rparr>"

subsection \<open>The record of states\<close>

text \<open>The result says whether the VLAN is new.\<close>

definition add_pvlan_state :: "u32 \<Rightarrow> u16 \<Rightarrow> u8 \<Rightarrow> bridge_stp_states \<Rightarrow> bool \<times> bridge_stp_states" where
  "add_pvlan_state port_id vlan_id state b =
     (case fmlookup (pv_states b) vlan_id of
        None \<Rightarrow> (True, b\<lparr>pv_states := fmupd vlan_id (fmupd (ucast port_id) state fmempty) (pv_states b)\<rparr>)
      | Some m \<Rightarrow> (False, b\<lparr>pv_states := fmupd vlan_id (fmupd (ucast port_id) state m) (pv_states b)\<rparr>))"

text \<open>The result says whether the last port left.\<close>

definition del_pvlan_state :: "u32 \<Rightarrow> u16 \<Rightarrow> bridge_stp_states \<Rightarrow> bool \<times> bridge_stp_states" where
  "del_pvlan_state port_id vlan_id b =
     (case fmlookup (pv_states b) vlan_id of
        None \<Rightarrow> (False, b)
      | Some m \<Rightarrow>
          (let m1 = fmdrop (ucast port_id) m
           in if m1 = fmempty then (True, b\<lparr>pv_states := fmdrop vlan_id (pv_states b)\<rparr>)
              else (False, b\<lparr>pv_states := fmupd vlan_id m1 (pv_states b)\<rparr>)))"

definition add_global_state :: "u32 \<Rightarrow> u8 \<Rightarrow> bridge_stp_states \<Rightarrow> bridge_stp_states" where
  "add_global_state port_id state b = b\<lparr>gl_states := fmupd port_id state (gl_states b)\<rparr>"

definition get_global_state :: "u32 \<Rightarrow> bridge_stp_states \<Rightarrow> int" where
  "get_global_state port_id b = (case fmlookup (gl_states b) port_id of None \<Rightarrow> - EINVAL | Some s \<Rightarrow> uint s)"

definition get_pvlan_state :: "u32 \<Rightarrow> u16 \<Rightarrow> bridge_stp_states \<Rightarrow> int" where
  "get_pvlan_state port_id vid b =
     (case fmlookup (pv_states b) vid of
        None \<Rightarrow> - EINVAL
      | Some m \<Rightarrow> (case fmlookup m (ucast port_id) of None \<Rightarrow> - EINVAL | Some s \<Rightarrow> uint s))"

definition get_effective_state :: "u8 \<Rightarrow> u8 \<Rightarrow> u8" where
  "get_effective_state g_state pv_state =
     (if g_state = BR_STATE_BLOCKING \<or> pv_state = BR_STATE_BLOCKING then BR_STATE_BLOCKING
      else min g_state pv_state)"

text \<open>VLANs with a state of the port, ascending. The global state is narrowed, also when it is \<open>-EINVAL\<close>.\<close>

definition get_min_states :: "u32 \<Rightarrow> bridge_stp_states \<Rightarrow> (u16 \<times> u8) list" where
  "get_min_states port_id b =
     List.map_filter (\<lambda>(vid, m).
         map_option (\<lambda>s. (vid, get_effective_state (word_of_int (get_global_state port_id b)) s))
           (fmlookup m (ucast port_id)))
       (sorted_list_of_fmap (pv_states b))"

definition get_min_state :: "u32 \<Rightarrow> u16 \<Rightarrow> bridge_stp_states \<Rightarrow> int" where
  "get_min_state port_id vid b =
     (let g_state = get_global_state port_id b; pv_state = get_pvlan_state port_id vid b
      in if pv_state < 0 then g_state
         else uint (get_effective_state (word_of_int g_state) (word_of_int pv_state)))"

subsection \<open>States on the switch\<close>

definition set_port_vlan_stp_state :: "nl_view \<Rightarrow> 's switch_interface \<Rightarrow> u32 \<Rightarrow> u16 \<Rightarrow> u8 \<Rightarrow> 's \<Rightarrow> int \<times> 's" where
  "set_port_vlan_stp_state nl swi port_id vid state s =
     (if is_lag port_id
      then fold (\<lambda>mem (err, s). let (err2, s1) = sw_ofdpa_stg_state_port_set swi mem vid state s
                                in (if err2 < 0 then err2 else err, s1)) (lag_ports nl port_id) (0, s)
      else sw_ofdpa_stg_state_port_set swi port_id vid state s)"

definition set_port_stp_state :: "nl_view \<Rightarrow> 's switch_interface \<Rightarrow> u32 \<Rightarrow> u8 \<Rightarrow>
    bridge_stp_states \<times> 's \<Rightarrow> bridge_stp_states \<times> 's" where
  "set_port_stp_state nl swi port_id stp_state st =
     (let b = add_global_state port_id stp_state (fst st);
          s = foreach_ignore (\<lambda>(vid, state). set_port_vlan_stp_state nl swi port_id vid state)
                (get_min_states port_id b) (snd st)
      in (b, snd (set_port_vlan_stp_state nl swi port_id 0 stp_state s)))"

definition add_port_vlan_stp_state :: "nl_view \<Rightarrow> 's switch_interface \<Rightarrow> u32 \<Rightarrow> u16 \<Rightarrow> u8 \<Rightarrow>
    bridge_stp_states \<times> 's \<Rightarrow> (int \<times> bridge_stp_states \<times> 's) option" where
  "add_port_vlan_stp_state nl swi port_id vid stp_state st =
     (let (new_group, b) = add_pvlan_state port_id vid stp_state (fst st);
          finish = (\<lambda>s. let (rv, s1) = set_port_vlan_stp_state nl swi port_id vid
                                         (word_of_int (get_min_state port_id vid b)) s
                        in (rv, b, s1))
      in if new_group
         then map_option (\<lambda>(err, s).
                if err < 0 then (err, snd (del_pvlan_state port_id vid b), s) else finish s)
              (sw_ofdpa_stg_create swi vid (snd st))
         else Some (finish (snd st)))"

definition del_port_vlan_stp_state :: "nl_view \<Rightarrow> 's switch_interface \<Rightarrow> u32 \<Rightarrow> u16 \<Rightarrow>
    bridge_stp_states \<times> 's \<Rightarrow> int \<times> bridge_stp_states \<times> 's" where
  "del_port_vlan_stp_state nl swi port_id vid st =
     (let (err, s1) = set_port_vlan_stp_state nl swi port_id vid BR_STATE_FORWARDING (snd st);
          (last_member, b) = del_pvlan_state port_id vid (fst st)
      in if last_member
         then (let (err2, s2) = sw_ofdpa_stg_destroy swi vid s1
               in (if err2 < 0 \<and> err = 0 then err2 else err, b, s2))
         else (err, b, s1))"

subsection \<open>Netlink messages\<close>

definition set_pvlan_stp :: "nl_view \<Rightarrow> 's switch_interface \<Rightarrow> rtnl_link \<Rightarrow> rtnl_bridge_vlan \<Rightarrow>
    bridge_stp_states \<times> 's \<Rightarrow> (int \<times> bridge_stp_states \<times> 's) option" where
  "set_pvlan_stp nl swi bridge bvlan_info st =
     (let ifindex = sint (bvl_ifindex bvlan_info);
          port_id = get_port_id_ifindex nl ifindex
      in if ifindex = ln_ifindex bridge then Some (0, st)
         else if 0 < sint port_id
         then add_port_vlan_stp_state nl swi port_id (bvl_vlan_id bvlan_info) (bvl_state bvlan_info) st
         else Some (0, st))"

definition drop_pvlan_stp :: "nl_view \<Rightarrow> 's switch_interface \<Rightarrow> rtnl_link \<Rightarrow> rtnl_bridge_vlan \<Rightarrow>
    bridge_stp_states \<times> 's \<Rightarrow> int \<times> bridge_stp_states \<times> 's" where
  "drop_pvlan_stp nl swi bridge bvlan_info st =
     (let ifindex = sint (bvl_ifindex bvlan_info);
          port_id = get_port_id_ifindex nl ifindex
      in if ifindex = ln_ifindex bridge then (0, st)
         else if 0 < sint port_id then del_port_vlan_stp_state nl swi port_id (bvl_vlan_id bvlan_info) st
         else (0, st))"

subsection \<open>Port states and spanning tree groups\<close>

datatype stp_cmd = Port_state u32 u8 | Pvlan_state u32 u16 u8 | Pvlan_drop u32 u16

fun stp_exec :: "nl_view \<Rightarrow> 's switch_interface \<Rightarrow> stp_cmd \<Rightarrow> bridge_stp_states \<times> 's \<Rightarrow>
    (bridge_stp_states \<times> 's) option" where
  "stp_exec nl swi (Port_state port state) st = Some (set_port_stp_state nl swi port state st)"
| "stp_exec nl swi (Pvlan_state port vid state) st = map_option snd (add_port_vlan_stp_state nl swi port vid state st)"
| "stp_exec nl swi (Pvlan_drop port vid) st = Some (snd (del_port_vlan_stp_state nl swi port vid st))"

fun stp_run :: "nl_view \<Rightarrow> 's switch_interface \<Rightarrow> stp_cmd list \<Rightarrow> bridge_stp_states \<times> 's \<Rightarrow>
    (bridge_stp_states \<times> 's) option" where
  "stp_run nl swi [] st = Some st"
| "stp_run nl swi (c # cs) st = Option.bind (stp_exec nl swi c st) (stp_run nl swi cs)"

text \<open>
  What the bridge needs of the switch: it returns from every creation, keeps the set of VLANs that have a
  group unless it reports success, and forgets a group at most when asked to.
\<close>

locale stg_provider =
  fixes swi :: "'s switch_interface"
    and inv :: "'s \<Rightarrow> bool"
    and groups :: "'s \<Rightarrow> u16 fset"
  assumes create_group: "inv s \<Longrightarrow> \<exists>rv s'. sw_ofdpa_stg_create swi v s = Some (rv, s') \<and> inv s' \<and>
      groups s' = (if rv < 0 then groups s else finsert v (groups s))"
    and destroy_inv: "inv s \<Longrightarrow> inv (snd (sw_ofdpa_stg_destroy swi v s))"
    and destroy_groups: "groups s |-| {|v|} |\<subseteq>| groups (snd (sw_ofdpa_stg_destroy swi v s))"
    and set_state: "inv s \<Longrightarrow> inv (snd (sw_ofdpa_stg_state_port_set swi p v x s)) \<and>
      groups (snd (sw_ofdpa_stg_state_port_set swi p v x s)) = groups s"
begin

definition covered :: "bridge_stp_states \<times> 's \<Rightarrow> bool" where
  "covered st \<longleftrightarrow> inv (snd st) \<and> fmdom (pv_states (fst st)) |\<subseteq>| groups (snd st)"

lemma set_port_vlan_keeps:
  assumes "inv s"
  shows "inv (snd (set_port_vlan_stp_state nl swi port vid x s))"
    "groups (snd (set_port_vlan_stp_state nl swi port vid x s)) = groups s"
proof -
  let ?step = "\<lambda>mem (err, s). let (err2, s1) = sw_ofdpa_stg_state_port_set swi mem vid x s
                              in (if err2 < 0 then err2 else err, s1)"
  have "inv (snd (fold ?step ps (err, s))) \<and> groups (snd (fold ?step ps (err, s))) = groups s" for ps and err :: int
    using assms
  proof (induction ps arbitrary: err s)
    case (Cons p ps)
    then show ?case using set_state [of s p vid x] by (simp add: split_beta Let_def)
  qed simp
  then show "inv (snd (set_port_vlan_stp_state nl swi port vid x s))"
    "groups (snd (set_port_vlan_stp_state nl swi port vid x s)) = groups s"
    using set_state [of s port vid x] assms by (auto simp: set_port_vlan_stp_state_def)
qed

lemma covered_set_port_vlan:
  "covered (b, s) \<Longrightarrow> covered (b, snd (set_port_vlan_stp_state nl swi port vid x s))"
  by (simp add: covered_def set_port_vlan_keeps)

lemma covered_port_state:
  assumes "covered st"
  shows "covered (set_port_stp_state nl swi port x st)"
proof -
  let ?b = "add_global_state port x (fst st)"
  have "covered (?b, foreach_ignore (\<lambda>(vid, y). set_port_vlan_stp_state nl swi port vid y) xs (snd st))" for xs
    by (rule foreach_ignore_inv [where P = "\<lambda>s. covered (?b, s)"])
       (use assms in \<open>auto simp: covered_def add_global_state_def set_port_vlan_keeps\<close>)
  then show ?thesis unfolding set_port_stp_state_def Let_def by (intro covered_set_port_vlan)
qed

lemma covered_pvlan_state:
  assumes "covered st"
  shows "\<exists>rv st'. add_port_vlan_stp_state nl swi port vid x st = Some (rv, st') \<and> covered st'"
proof -
  obtain new b where add: "add_pvlan_state port vid x (fst st) = (new, b)" by (cases "add_pvlan_state port vid x (fst st)")
  have dom: "fmdom (pv_states b) = finsert vid (fmdom (pv_states (fst st)))"
    and new: "new \<longleftrightarrow> vid |\<notin>| fmdom (pv_states (fst st))"
    using add by (auto simp: add_pvlan_state_def fmdom_notD fmdomI split: option.splits)
  have finish: "covered (b, snd (set_port_vlan_stp_state nl swi port vid y s))"
    if "inv s" "finsert vid (fmdom (pv_states (fst st))) |\<subseteq>| groups s" for s y
    by (rule covered_set_port_vlan) (use that dom in \<open>simp add: covered_def\<close>)
  show ?thesis
  proof (cases new)
    case False
    have "inv (snd st)" "finsert vid (fmdom (pv_states (fst st))) |\<subseteq>| groups (snd st)"
      using assms new False by (auto simp: covered_def)
    from finish [OF this] show ?thesis by (simp add: add_port_vlan_stp_state_def add False split_beta Let_def)
  next
    case True
    obtain rv s' where s': "sw_ofdpa_stg_create swi vid (snd st) = Some (rv, s')" "inv s'"
      "groups s' = (if rv < 0 then groups (snd st) else finsert vid (groups (snd st)))"
      using create_group [of "snd st" vid] assms by (auto simp: covered_def)
    have undone: "pv_states (snd (del_pvlan_state port vid b)) = pv_states (fst st)"
      using add new True
      by (auto simp: add_pvlan_state_def del_pvlan_state_def Let_def fmdom_notD split: option.splits)
    show ?thesis
    proof (cases "rv < 0")
      case True
      then show ?thesis using \<open>new\<close> s' assms undone
        by (simp add: add_port_vlan_stp_state_def add covered_def)
    next
      case False
      then have "finsert vid (fmdom (pv_states (fst st))) |\<subseteq>| groups s'"
        using s'(3) assms by (auto simp: covered_def)
      from finish [OF s'(2) this] show ?thesis using \<open>new\<close> s'(1) False
        by (simp add: add_port_vlan_stp_state_def add split_beta Let_def)
    qed
  qed
qed

lemma covered_pvlan_drop:
  assumes "covered st"
  shows "covered (snd (del_port_vlan_stp_state nl swi port vid st))"
proof -
  let ?s = "snd (set_port_vlan_stp_state nl swi port vid BR_STATE_FORWARDING (snd st))"
  obtain last b where del: "del_pvlan_state port vid (fst st) = (last, b)"
    by (cases "del_pvlan_state port vid (fst st)")
  have dom: "fmdom (pv_states b) = (if last then fmdom (pv_states (fst st)) |-| {|vid|} else fmdom (pv_states (fst st)))"
    using del by (auto simp: del_pvlan_state_def Let_def fmlookup_dom_iff split: option.splits if_splits)
  have s: "inv ?s" "fmdom (pv_states (fst st)) |\<subseteq>| groups ?s"
    using assms set_port_vlan_keeps by (auto simp: covered_def)
  show ?thesis
    using s dom destroy_inv [of ?s vid] destroy_groups [of ?s vid]
    by (auto simp: del_port_vlan_stp_state_def del covered_def split_beta Let_def)
qed

lemma stp_run_covered: "covered st \<Longrightarrow> \<exists>st'. stp_run nl swi cmds st = Some st' \<and> covered st'"
proof (induction cmds arbitrary: st)
  case (Cons c cs)
  have "\<exists>st1. stp_exec nl swi c st = Some st1 \<and> covered st1"
    using Cons.prems covered_pvlan_state [of st nl]
    by (cases c) (simp_all add: covered_port_state covered_pvlan_drop, metis snd_conv option.simps(9))
  then show ?case using Cons.IH by auto
qed simp

end

subsection \<open>The controller provides the groups\<close>

lemma rpc_vlan_to_stg: "rpc_call env r c = (rv, c') \<Longrightarrow> vlan_to_stg c' = vlan_to_stg c"
  by (metis rpc_stg_fields(1) snd_conv)

lemma stg_create_groups:
  assumes "stg_inv c"
  shows "\<exists>rv c'. ofdpa_stg_create env v c = Some (rv, c') \<and> stg_inv c' \<and>
    fmdom (vlan_to_stg c') = (if rv < 0 then fmdom (vlan_to_stg c) else finsert v (fmdom (vlan_to_stg c)))"
proof -
  obtain rv c' where run: "ofdpa_stg_create env v c = Some (rv, c')" "stg_inv c'"
    using ofdpa_stg_create_inv [OF assms] by blast
  have "fmdom (vlan_to_stg c') = (if rv < 0 then fmdom (vlan_to_stg c) else finsert v (fmdom (vlan_to_stg c)))"
    using assms
  proof (cases rule: lookup_stpid_cases [of c v])
    case (some i)
    then show ?thesis using run(1) by (auto simp: ofdpa_stg_create_def finsert_absorb fmdomI)
  next
    case none
    show ?thesis
    proof (cases "fcard (fmdom (vlan_to_stg c)) = 510")
      case True
      then show ?thesis using run(1) none by (auto simp: ofdpa_stg_create_def find_free_stgid_def)
    next
      case False
      from assms none(1) False show ?thesis
        by (rule ofdpa_stg_create_new [of c v env])
           (use run(1) in \<open>auto simp: Let_def ofdpa_defs split: prod.splits if_splits dest!: rpc_vlan_to_stg\<close>)
    qed
  qed
  with run show ?thesis by blast
qed

lemma stg_destroy_groups:
  "fmdom (vlan_to_stg c) |-| {|v|} |\<subseteq>| fmdom (vlan_to_stg (snd (ofdpa_stg_destroy env v c)))"
  by (auto simp: ofdpa_stg_destroy_def Let_def split_beta ofdpa_defs frame)

lemma stg_state_groups:
  "vlan_to_stg (snd (ofdpa_stg_state_port_set env p v x c)) = vlan_to_stg c"
  by (auto simp: ofdpa_stg_state_port_set_def Let_def ofdpa_defs frame split: option.split)

interpretation ctl_stg: stg_provider "controller_swi env" stg_inv "\<lambda>c. fmdom (vlan_to_stg c)" for env
  by unfold_locales
     (use stg_create_groups stg_inv_destroy stg_destroy_groups stg_inv_state_port_set stg_state_groups in simp_all)

text \<open>
  C22: Every VLAN in which some port has a spanning tree state has a spanning tree group of its own in the
  controller, after any sequence of port states, port states in VLANs and their removal, whatever
  the switch answers; and every such sequence returns. A state in a VLAN is thus never applied to the
  default group.
\<close>

theorem vlan_states_have_groups:
  "\<exists>b c. stp_run nl (controller_swi env) cmds (bridge_stp_states_init, controller_init) = Some (b, c) \<and>
     fmdom (pv_states b) |\<subseteq>| fmdom (vlan_to_stg c)"
proof -
  have "ctl_stg.covered (bridge_stp_states_init, controller_init)"
    by (simp add: ctl_stg.covered_def stg_inv_init bridge_stp_states_init_def)
  then obtain st where "stp_run nl (controller_swi env) cmds (bridge_stp_states_init, controller_init) = Some st"
    "ctl_stg.covered st"
    using ctl_stg.stp_run_covered by blast
  then show ?thesis by (cases st) (simp add: ctl_stg.covered_def)
qed

text \<open>
  A LAG and the physical port with the same number share their state in a VLAN: the map is keyed by
  16 bits, which drop the type of a port. A state set for one is reported for the other, and
  removing one removes both.
\<close>

theorem lag_and_port_share_vlan_state:
  "get_pvlan_state (combine_port_type n port_type_physical) vid
     (snd (add_pvlan_state (combine_port_type n port_type_lag) vid x b)) = uint x \<and>
   get_pvlan_state (combine_port_type n port_type_lag) vid
     (snd (del_pvlan_state (combine_port_type n port_type_physical) vid b)) = - EINVAL"
proof -
  have "(ucast (combine_port_type n t) :: u16) = n" for t
    using get_port_num_combine [of n t] by (simp add: get_port_num_ucast)
  then show ?thesis
    by (auto simp: get_pvlan_state_def add_pvlan_state_def del_pvlan_state_def Let_def split: option.split)
qed

end
