(* ===== verification/Bridge_Bits.thy ===== *)
theory Bridge_Bits
  imports Net_Utils
begin

text \<open>
  VLAN bitmaps of bridge ports (the static functions of \<open>src/src/netlink/nl_bridge.cc\<close>): 4096 VLANs in 128
  words of 32 bits, and the loop that visits the bits of a word.
\<close>

abbreviation (input) BITMAP_LEN :: nat where "BITMAP_LEN \<equiv> 128"

definition empty_br_vlan :: br_vlan where
  "empty_br_vlan = \<lparr>bv_pvid = 0, vlan_bitmap = replicate BITMAP_LEN 0, untagged_bitmap = replicate BITMAP_LEN 0\<rparr>"

definition br_vlan_equal :: "br_vlan \<Rightarrow> br_vlan \<Rightarrow> bool" where
  "br_vlan_equal lhs rhs \<longleftrightarrow> lhs = rhs"

text \<open>A VLAN out of range is a fatal error here, and ignored when setting and clearing.\<close>

definition is_vid_set :: "nat \<Rightarrow> u32 list \<Rightarrow> bool option" where
  "is_vid_set vid addr =
     (if 4096 \<le> vid then None else Some (addr ! (vid div 32) AND push_bit (vid mod 32) 1 \<noteq> 0))"

definition set_vid :: "nat \<Rightarrow> u32 list \<Rightarrow> u32 list" where
  "set_vid vid addr =
     (if vid < 4096 then addr[vid div 32 := addr ! (vid div 32) OR push_bit (vid mod 32) 1] else addr)"

definition unset_vid :: "nat \<Rightarrow> u32 list \<Rightarrow> u32 list" where
  "unset_vid vid addr =
     (if vid < 4096 then addr[vid div 32 := addr ! (vid div 32) AND NOT (push_bit (vid mod 32) 1)] else addr)"

text \<open>\<open>__builtin_ffs\<close>: one plus the index of the lowest set bit, 0 without one.\<close>

definition builtin_ffs :: "u32 \<Rightarrow> int" where
  "builtin_ffs x = (case find (bit x) [0..<32] of None \<Rightarrow> 0 | Some n \<Rightarrow> int n + 1)"

definition find_next_bit :: "int \<Rightarrow> u32 \<Rightarrow> int" where
  "find_next_bit i x =
     (if 32 \<le> i then - 1
      else if i < 0 then builtin_ffs x
      else (let j = builtin_ffs (drop_bit (nat i) x) in if j \<noteq> 0 then j + i else 0))"

lemma builtin_ffs_bounds: "0 \<le> builtin_ffs x" "builtin_ffs x \<le> 32"
proof -
  have "n < 32" if "find (bit x) [0..<32] = Some n" for n
    using that unfolding find_Some_iff by auto
  then show "0 \<le> builtin_ffs x" "builtin_ffs x \<le> 32"
    by (auto simp: builtin_ffs_def split: option.split)
qed

lemma find_next_bit_greater: "0 < j \<Longrightarrow> find_next_bit j x \<le> 0 \<or> (j < find_next_bit j x \<and> j < 32)"
  using builtin_ffs_bounds(1) [of "drop_bit (nat j) x"] by (auto simp: find_next_bit_def Let_def)

text \<open>The values the variable of \<open>for (j = find_next_bit(-1, x); j > 0; j = find_next_bit(j, x))\<close> takes.\<close>

function bit_loop :: "int \<Rightarrow> u32 \<Rightarrow> int list" where
  "bit_loop j x = (if 0 < j then j # bit_loop (find_next_bit j x) x else [])"
  by pat_completeness auto

termination
proof (relation "measure (\<lambda>(j, x). if 0 < j then nat (33 - j) + 1 else 0)")
  fix j :: int and x
  assume "0 < j"
  then show "((find_next_bit j x, x), (j, x)) \<in> measure (\<lambda>(j, x). if 0 < j then nat (33 - j) + 1 else 0)"
    using find_next_bit_greater [of j x] by auto
qed simp

declare bit_loop.simps [simp del]

subsection \<open>The loop visits the set bits\<close>

lemma find_append: "find P (xs @ ys) = (case find P xs of None \<Rightarrow> find P ys | Some x \<Rightarrow> Some x)"
  by (induction xs) auto

lemma find_map: "find P (map f xs) = map_option f (find (\<lambda>x. P (f x)) xs)"
  by (induction xs) auto

lemma filter_upt_found:
  "find P [k..<b] = Some n \<Longrightarrow> k \<le> n \<and> n < b \<and> filter P [k..<b] = n # filter P [Suc n..<b]"
proof (induction "b - k" arbitrary: k)
  case (Suc m)
  then have "[k..<b] = k # [Suc k..<b]" by (simp add: upt_conv_Cons)
  moreover have "m = b - Suc k" using Suc.hyps(2) by simp
  ultimately show ?case using Suc.hyps(1) [of "Suc k"] Suc.hyps(2) Suc.prems by (cases "P k") auto
qed simp

text \<open>From position \<open>k\<close> on, the loop continues with the next set bit.\<close>

lemma builtin_ffs_drop_bit:
  assumes "k < 32"
  shows "builtin_ffs (drop_bit k x) = (case find (bit x) [k..<32] of None \<Rightarrow> 0 | Some n \<Rightarrow> int n - int k + 1)"
proof -
  have "[0..<32] = [0..<32 - k] @ [32 - k..<32]" using assms upt_add_eq_append [of 0 "32 - k" k] by simp
  moreover have "find (bit (drop_bit k x)) [32 - k..<32] = None"
    by (auto simp: find_None_iff bit_simps dest: bit_imp_le_length)
  ultimately have "find (bit (drop_bit k x)) [0..<32] = find (bit (drop_bit k x)) [0..<32 - k]"
    by (simp add: find_append split: option.split)
  moreover have "[k..<32] = map (\<lambda>n. n + k) [0..<32 - k]" using assms by (simp add: map_add_upt)
  ultimately have "find (bit x) [k..<32] = map_option (\<lambda>n. n + k) (find (bit (drop_bit k x)) [0..<32])"
    by (simp add: find_map bit_drop_bit_eq add.commute comp_def)
  then show ?thesis by (auto simp: builtin_ffs_def split: option.split)
qed

lemma bit_loop_from:
  assumes "z \<le> 0"
  shows "bit_loop (case find (bit x) [k..<32] of None \<Rightarrow> z | Some n \<Rightarrow> int n + 1) x =
    map (\<lambda>n. int n + 1) (filter (bit x) [k..<32])"
  using assms
proof (induction "32 - k" arbitrary: k z rule: less_induct)
  case less
  show ?case
  proof (cases "find (bit x) [k..<32]")
    case None
    then have "filter (bit x) [k..<32] = []" by (auto simp: find_None_iff filter_empty_conv)
    then show ?thesis using None less.prems by (simp add: bit_loop.simps [of z])
  next
    case (Some n)
    note n = filter_upt_found [OF Some]
    have "\<exists>z\<le>0. find_next_bit (int n + 1) x = (case find (bit x) [Suc n..<32] of None \<Rightarrow> z | Some m \<Rightarrow> int m + 1)"
    proof (cases "Suc n < 32")
      case True
      then show ?thesis
        using builtin_ffs_drop_bit [of "Suc n" x] filter_upt_found [of "bit x" "Suc n" 32]
        by (intro exI [of _ 0]) (auto simp: find_next_bit_def Let_def nat_add_distrib split: option.split)
    next
      case False
      then show ?thesis using n by (intro exI [of _ "- 1"]) (simp add: find_next_bit_def)
    qed
    then obtain z' where "z' \<le> 0" "find_next_bit (int n + 1) x =
        (case find (bit x) [Suc n..<32] of None \<Rightarrow> z' | Some m \<Rightarrow> int m + 1)" by blast
    moreover have "32 - Suc n < 32 - k" using n by linarith
    ultimately have "bit_loop (find_next_bit (int n + 1) x) x = map (\<lambda>n. int n + 1) (filter (bit x) [Suc n..<32])"
      using less.hyps by simp
    then show ?thesis using Some n by (simp add: bit_loop.simps [of "int n + 1"])
  qed
qed

text \<open>
  The loop over the bits of a word ends and visits exactly the set bits, each once and in ascending
  order; its variable is one more than the index.
\<close>

theorem bit_loop_visits_set_bits:
  "bit_loop (find_next_bit (- 1) x) x = map (\<lambda>n. int n + 1) (filter (bit x) [0..<32])"
  using bit_loop_from [of 0 x 0] by (simp add: find_next_bit_def builtin_ffs_def)

end
