(* ===== verification/Nl_Bridge.thy ===== *)
theory Nl_Bridge
  imports Bridge_Stp Bridge_Bits Nl_Vxlan
begin

text \<open>
  The bridge (\<open>src/src/netlink/nl_bridge.cc\<close>): its ports with their VLANs, the forwarding table and its
  ageing, multicast groups, VLAN protocols, and the VXLAN domains of VLANs.

  The record \<open>br_env\<close> is what the class reads from the kernel (the files of the bridge, the result of a
  netlink message) and from libnl: \<open>neigh_same\<close> is the identity of objects by which \<open>nl_cache_search\<close>
  finds them. \<open>None\<close> is a failed assertion, a fatal log message or the use of a null pointer.
  Setting a flag on a neighbour of the cache, which \<open>add_neigh_to_fdb\<close> does, is not part of the state.
\<close>

abbreviation (input) NTF_MASTER :: u8 where "NTF_MASTER \<equiv> 0x04"
abbreviation (input) NTF_EXT_LEARNED :: u8 where "NTF_EXT_LEARNED \<equiv> 0x10"
abbreviation (input) NUD_REACHABLE :: u16 where "NUD_REACHABLE \<equiv> 0x02"
abbreviation (input) ETH_P_8021Q :: u16 where "ETH_P_8021Q \<equiv> 0x8100"
abbreviation (input) ETH_P_8021AD :: u16 where "ETH_P_8021AD \<equiv> 0x88a8"

subsection \<open>State\<close>

datatype nl_msg = Neigh_add rtnl_neigh | Neigh_del rtnl_neigh | Fdb_flush int u16 u8

text \<open>The multicast database as libnl reports it.\<close>

record rtnl_mdb_entry =
  mde_ifindex :: u32
  mde_vid :: u16
  mde_proto :: u16
  mde_addr :: nl_addr

record rtnl_mdb =
  mdb_ifindex :: u32
  mdb_entries :: "rtnl_mdb_entry list"

text \<open>
  What the kernel answers. \<open>junk_buf\<close> is the indeterminate content of the uninitialised buffer of \<open>mdb_to_set\<close>: any function of
  the databases that are compared, of which one is walked (\<open>True\<close>: the new one), and of the entry.
\<close>

record br_env =
  vlan_protocol :: u32
  vlan_filtering :: u32
  neigh_same :: "rtnl_neigh \<Rightarrow> rtnl_neigh \<Rightarrow> bool"
  nl_send :: "nl_msg \<Rightarrow> int" \<comment> \<open>\<open>cnetlink::send_nl_msg\<close>, and the socket of \<open>nl_fdb_flush\<close>\<close>
  cache_add :: "rtnl_neigh \<Rightarrow> int"
  junk_buf :: "rtnl_mdb option \<Rightarrow> rtnl_mdb option \<Rightarrow> bool \<Rightarrow> nat \<Rightarrow> mac"

record nl_bridge =
  br_link :: "rtnl_link option" \<comment> \<open>\<open>bridge\<close>\<close>
  stp_states :: bridge_stp_states
  l2_cache :: "rtnl_neigh list"
  vxlan_dom_bitmap :: "u32 list"
  vxlan_domain :: "(u16, u32) fmap"

definition nl_bridge_init :: nl_bridge where
  "nl_bridge_init = \<lparr>br_link = None, stp_states = bridge_stp_states_init, l2_cache = [],
     vxlan_dom_bitmap = replicate BITMAP_LEN 0, vxlan_domain = fmempty\<rparr>"

record 's br_state = "'s vx_state" +
  st_bridge :: nl_bridge
  st_nl_sent :: "nl_msg list"

definition upd_br :: "(nl_bridge \<Rightarrow> nl_bridge) \<Rightarrow> ('s, 'm) br_state_scheme \<Rightarrow> ('s, 'm) br_state_scheme" where
  "upd_br f st = st\<lparr>st_bridge := f (st_bridge st)\<rparr>"

definition send_nl_msg :: "br_env \<Rightarrow> nl_msg \<Rightarrow> ('s, 'm) br_state_scheme \<Rightarrow> int \<times> ('s, 'm) br_state_scheme" where
  "send_nl_msg be msg st = (nl_send be msg, st\<lparr>st_nl_sent := st_nl_sent st @ [msg]\<rparr>)"

text \<open>What the queries of \<open>cnetlink\<close> see of this object.\<close>

definition br_view :: "nl_view \<Rightarrow> ('s, 'm) br_state_scheme \<Rightarrow> nl_view" where
  "br_view nl st = (vx_view nl st)\<lparr>nv_bridge := br_link (st_bridge st)\<rparr>"

text \<open>The operations on spanning tree states, in this state.\<close>

definition call_stp :: "(bridge_stp_states \<times> 's \<Rightarrow> (bridge_stp_states \<times> 's) option) \<Rightarrow>
    ('s, 'm) br_state_scheme \<Rightarrow> ('s, 'm) br_state_scheme option" where
  "call_stp f st =
     map_option (\<lambda>(b, s). st\<lparr>st_bridge := (st_bridge st)\<lparr>stp_states := b\<rparr>, st_sw := s\<rparr>)
       (f (stp_states (st_bridge st), st_sw st))"

text \<open>The ports a setting is applied to: the members of a LAG, or the port.\<close>

definition member_ports :: "nl_view \<Rightarrow> u32 \<Rightarrow> u32 list" where
  "member_ports nl port_id =
     sorted_list_of_fset (if is_lag port_id then get_members_by_port_id nl port_id else {|port_id|})"

definition sw_each :: "('a \<Rightarrow> 's \<Rightarrow> int \<times> 's) \<Rightarrow> 'a list \<Rightarrow> ('s, 'm) br_state_scheme \<Rightarrow> ('s, 'm) br_state_scheme" where
  "sw_each f xs st = st\<lparr>st_sw := foreach_ignore f xs (st_sw st)\<rparr>"

subsection \<open>VLAN protocol and locked ports\<close>

definition link_vlan :: "rtnl_link \<Rightarrow> u16 \<times> u16" where
  "link_vlan link =
     (if ln_type link = Some ''vlan''
      then (ln_vlan_id link, if ln_vlan_proto link = 0 then ETH_P_8021Q else ln_vlan_proto link)
      else (0, 0))"

definition set_vlan_proto :: "br_env \<Rightarrow> nl_view \<Rightarrow> 's switch_interface \<Rightarrow> rtnl_link \<Rightarrow> u32 \<Rightarrow>
    ('s, 'm) br_state_scheme \<Rightarrow> int \<times> ('s, 'm) br_state_scheme" where
  "set_vlan_proto be nl swi link port_id st =
     (let bridge_proto = ucast (vlan_protocol be) :: u16;
          (outer_vid, link_proto) = link_vlan link
      in if bridge_proto = ETH_P_8021Q \<and> link_proto = 0 then (0, st)
         else if bridge_proto = ETH_P_8021AD \<and> link_proto \<noteq> 0 then (- EINVAL, st)
         else call_sw (foreach_break (\<lambda>port s.
                let (rv, s1) = (if 0 < outer_vid then sw_ingress_port_stacked_vlan_enable swi port outer_vid s else (0, s))
                in if rv < 0 then (rv, s1)
                   else if bridge_proto = ETH_P_8021AD \<or> link_proto = ETH_P_8021AD
                   then sw_set_egress_tpid swi port s1 else (rv, s1))
              (member_ports nl port_id) 0) st)"

definition delete_vlan_proto :: "br_env \<Rightarrow> nl_view \<Rightarrow> 's switch_interface \<Rightarrow> rtnl_link \<Rightarrow> u32 \<Rightarrow>
    ('s, 'm) br_state_scheme \<Rightarrow> int \<times> ('s, 'm) br_state_scheme" where
  "delete_vlan_proto be nl swi link port_id st =
     (let bridge_proto = ucast (vlan_protocol be) :: u16;
          (outer_vid, link_proto) = link_vlan link
      in if bridge_proto = ETH_P_8021Q \<and> link_proto = 0 then (0, st)
         else if bridge_proto = ETH_P_8021AD \<and> link_proto \<noteq> 0 then (0, st)
         else (0, sw_each (\<lambda>port s.
                let s1 = (if 0 < outer_vid then snd (sw_ingress_port_stacked_vlan_disable swi port outer_vid s) else s)
                in (0, if bridge_proto = ETH_P_8021AD \<or> link_proto = ETH_P_8021AD
                       then snd (sw_delete_egress_tpid swi port s1) else s1))
              (member_ports nl port_id) st))"

definition set_port_locked :: "nl_view \<Rightarrow> 's switch_interface \<Rightarrow> rtnl_link \<Rightarrow> bool \<Rightarrow>
    ('s, 'm) br_state_scheme \<Rightarrow> ('s, 'm) br_state_scheme" where
  "set_port_locked nl swi link locked st =
     (let port_id = get_port_id_link (br_view nl st) (Some link)
      in if port_id = 0 then st
         else sw_each (\<lambda>port s.
                if locked
                then sw_port_set_move_learn swi port SAI_BRIDGE_PORT_FDB_LEARNING_MODE_DROP
                       (snd (sw_port_set_learn swi port SAI_BRIDGE_PORT_FDB_LEARNING_MODE_FDB_NOTIFICATION s))
                else sw_port_set_move_learn swi port SAI_BRIDGE_PORT_FDB_LEARNING_MODE_FDB_LOG_NOTIFICATION
                       (snd (sw_port_set_learn swi port SAI_BRIDGE_PORT_FDB_LEARNING_MODE_FDB_LOG_NOTIFICATION s)))
              (member_ports nl port_id) st)"

subsection \<open>The forwarding table\<close>

definition l2_search :: "br_env \<Rightarrow> rtnl_neigh \<Rightarrow> nl_bridge \<Rightarrow> rtnl_neigh option" where
  "l2_search be n b = find (\<lambda>x. neigh_same be x n) (l2_cache b)"

definition is_mac_in_l2_cache :: "br_env \<Rightarrow> rtnl_neigh \<Rightarrow> nl_bridge \<Rightarrow> bool" where
  "is_mac_in_l2_cache be n b \<longleftrightarrow> l2_search be n b \<noteq> None"

text \<open>The ageing time in seconds, at least 1 unless it is 0, and at most 65535.\<close>

definition ageing_seconds :: "u32 \<Rightarrow> u32" where
  "ageing_seconds ageing_time =
     (let t = (ageing_time + 50) div 100;
          t = (if t > 0xffff then 0xffff else t)
      in if ageing_time > 0 \<and> t = 0 then 1 else t)"

definition set_ageing_time :: "nl_view \<Rightarrow> 's switch_interface \<Rightarrow> u32 \<Rightarrow> ('s, 'm) br_state_scheme \<Rightarrow>
    ('s, 'm) br_state_scheme option" where
  "set_ageing_time nl swi ageing_time st =
     foreach_opt (\<lambda>n st. do {
         mac \<leftarrow> nb_lladdr n;
         Some (snd (call_sw (sw_l2_addr_add swi (get_port_id_ifindex (br_view nl st) (nb_ifindex n))
           (word_of_int (nb_vlan n)) mac True False True) st))
       })
       (filter (\<lambda>n. nb_flags n AND 0xc0 = 0) (l2_cache (st_bridge st)))
       (snd (call_sw (sw_l2_set_idle_timeout swi (ucast (ageing_seconds ageing_time))) st))"

definition set_bridge_interface :: "br_env \<Rightarrow> nl_view \<Rightarrow> 's switch_interface \<Rightarrow> rtnl_link \<Rightarrow>
    ('s, 'm) br_state_scheme \<Rightarrow> ('s, 'm) br_state_scheme option" where
  "set_bridge_interface be nl swi bridge st =
     (if \<not> (ln_type bridge = Some ''bridge'' \<or> ln_family bridge = AF_BRIDGE \<and> ln_ifindex bridge = ln_master bridge)
      then None
      else if vlan_filtering be = 0 then None
      else
        (let st1 = upd_br (br_link_update (\<lambda>_. Some bridge)) st
         in case ln_ageing_time bridge of
             None \<Rightarrow> Some st1
           | Some t \<Rightarrow> set_ageing_time nl swi t st1))"

definition add_neigh_to_fdb :: "br_env \<Rightarrow> nl_view \<Rightarrow> 's switch_interface \<Rightarrow> rtnl_neigh \<Rightarrow> bool \<Rightarrow>
    ('s, 'm) br_state_scheme \<Rightarrow> ('s, 'm) br_state_scheme option" where
  "add_neigh_to_fdb be nl swi neigh update st =
     (let ifindex = nb_ifindex neigh;
          port = get_port_id_link (br_view nl st) (get_link nl ifindex AF_UNSPEC);
          n = \<lparr>nb_ifindex = 0, nb_master = nb_master neigh, nb_family = AF_BRIDGE, nb_vlan = nb_vlan neigh,
               nb_lladdr = nb_lladdr neigh, nb_dst = None, nb_state = NUD_REACHABLE,
               nb_flags = NTF_MASTER OR NTF_EXT_LEARNED, nb_ext_flags = None\<rparr>;
          known = l2_search be n (st_bridge st)
      in if port = 0 \<or> nb_vlan neigh < 0 then Some st
         else if (case known of None \<Rightarrow> False | Some x \<Rightarrow> nb_ifindex x = ifindex) then Some st
         else do {
           mac \<leftarrow> nb_lladdr neigh;
           let st1 = (case known of None \<Rightarrow> st | Some x \<Rightarrow> upd_br (l2_cache_update (remove1 x)) st);
           let n1 = n\<lparr>nb_ifindex := ifindex\<rparr>;
           let permanent = (nb_state neigh AND 0xc0 \<noteq> 0);
           let (_, st2) = call_sw (sw_l2_addr_add swi port (word_of_int (nb_vlan neigh)) mac True permanent update) st1;
           if permanent then Some st2
           else
             (let (rv, st3) = send_nl_msg be (Neigh_add n1) st2
              in if rv < 0 then Some st3
                 else Some (if cache_add be n1 < 0 then st3 else upd_br (l2_cache_update (\<lambda>c. c @ [n1])) st3))
         })"

definition remove_neigh_from_fdb :: "br_env \<Rightarrow> nl_view \<Rightarrow> 's switch_interface \<Rightarrow> rtnl_neigh \<Rightarrow>
    ('s, 'm) br_state_scheme \<Rightarrow> ('s, 'm) br_state_scheme option" where
  "remove_neigh_from_fdb be nl swi neigh st =
     (if nb_vlan neigh < 0 then Some st
      else do {
        bridge \<leftarrow> br_link (st_bridge st);
        if nb_lladdr neigh = Some (ln_addr bridge) then Some st
        else
          (let learned = (nb_flags neigh AND NTF_EXT_LEARNED = NTF_EXT_LEARNED);
               known = l2_search be neigh (st_bridge st)
           in if learned \<and> known = None then Some st
              else do {
                let st1 = (if learned then (case known of None \<Rightarrow> st | Some x \<Rightarrow> upd_br (l2_cache_update (remove1 x)) st)
                           else st);
                mac \<leftarrow> nb_lladdr neigh;
                let port = get_port_id_link (br_view nl st) (get_link nl (nb_ifindex neigh) AF_UNSPEC);
                Some (snd (call_sw (sw_l2_addr_remove swi port (word_of_int (nb_vlan neigh)) mac) st1))
              })
      })"

definition fdb_timeout :: "br_env \<Rightarrow> rtnl_link \<Rightarrow> u16 \<Rightarrow> mac \<Rightarrow> ('s, 'm) br_state_scheme \<Rightarrow>
    int \<times> ('s, 'm) br_state_scheme" where
  "fdb_timeout be port_link vid mac st =
     (let n = \<lparr>nb_ifindex = 0, nb_master = ln_master port_link, nb_family = AF_BRIDGE, nb_vlan = uint vid,
               nb_lladdr = Some mac, nb_dst = None, nb_state = 0, nb_flags = NTF_MASTER OR NTF_EXT_LEARNED, nb_ext_flags = None\<rparr>
      in case l2_search be n (st_bridge st) of
          None \<Rightarrow> (0, st)
        | Some x \<Rightarrow>
            if nb_ifindex x = ln_ifindex port_link
            then (let (rv, st1) = send_nl_msg be (Neigh_del x) st
                  in if rv < 0 then (- EINVAL, st1) else (0, upd_br (l2_cache_update (remove1 x)) st1))
            else (0, st))"

definition flush_fdb :: "br_env \<Rightarrow> int \<Rightarrow> u16 \<Rightarrow> u8 \<Rightarrow> ('s, 'm) br_state_scheme \<Rightarrow>
    (int \<times> ('s, 'm) br_state_scheme) option" where
  "flush_fdb be ifindex vlan flags st =
     (let (rv, st1) = send_nl_msg be (Fdb_flush ifindex vlan flags) st
      in if rv < 0 then None else Some (0, st1))"

subsection \<open>Access ports of VXLAN domains\<close>

type_synonym ('s, 'm) neigh_adder =
  "rtnl_neigh \<Rightarrow> rtnl_link \<Rightarrow> rtnl_link option \<Rightarrow> ('s, 'm) br_state_scheme \<Rightarrow> (int \<times> ('s, 'm) br_state_scheme) option"

text \<open>
  The loop body of \<open>update_access_ports\<close> for one bridge port. \<open>vx_add\<close> is \<open>nl_vxlan::add_l2_neigh\<close>.
\<close>

definition update_access_port :: "br_env \<Rightarrow> nl_view \<Rightarrow> 's switch_interface \<Rightarrow> ('s, 'm) neigh_adder \<Rightarrow>
    rtnl_link \<Rightarrow> rtnl_link option \<Rightarrow> u16 \<Rightarrow> u32 \<Rightarrow> bool \<Rightarrow> rtnl_link \<Rightarrow> ('s, 'm) br_state_scheme \<Rightarrow>
    ('s, 'm) br_state_scheme option" where
  "update_access_port be nl swi vx_add vxlan_link vx_br_link vid tunnel_id add br_port st =
     (case ln_br_vlan br_port of
        None \<Rightarrow> Some st
      | Some br_port_vlans \<Rightarrow>
          if ln_ifindex vxlan_link = ln_ifindex br_port then Some st
          else do {
            bridged \<leftarrow> is_vid_set (unat vid) (vlan_bitmap br_port_vlans);
            untagged \<leftarrow> is_vid_set (unat vid) (untagged_bitmap br_port_vlans);
            let pport_no = get_port_id_ifindex (br_view nl st) (ln_ifindex br_port);
            if \<not> bridged \<or> pport_no = 0 then Some st
            else do {
              bridge \<leftarrow> br_link (st_bridge st);
              let neighs = filter (\<lambda>n. nb_lladdr n \<noteq> Some (ln_addr bridge))
                             (get_fdb_entries_of_port nl bridge br_port vid None);
              if add then do {
                let (_, st1) = call_sw (sw_l2_addr_remove_all_in_vlan swi pport_no vid) st;
                let (_, st2) = call_sw (sw_l2_multicast_group_leave_all_in_vlan swi pport_no vid) st1;
                (_, _, st3) \<leftarrow> create_access_port swi br_port tunnel_id (ln_name br_port) pport_no vid untagged st2;
                foreach_opt (\<lambda>n st. do {
                    link \<leftarrow> get_link nl (ln_ifindex br_port) AF_UNSPEC;
                    (_, st1) \<leftarrow> vx_add n link vx_br_link st;
                    Some st1
                  }) neighs st3
              }
              else do {
                (_, st1) \<leftarrow> delete_access_port swi br_port pport_no vid True st;
                let (_, st2) = call_vlan (add_bridge_vlan (br_view nl st1) swi br_port vid (bv_pvid br_port_vlans = vid) (\<not> untagged)) st1;
                st3 \<leftarrow> foreach_opt (\<lambda>n. add_neigh_to_fdb be nl swi n False) neighs st2;
                Some (snd (call_sw (sw_l2_multicast_group_rejoin_all_in_vlan swi pport_no vid) st3))
              }
            }
          })"

text \<open>\<open>update_access_ports\<close> as \<open>nl_vxlan\<close> calls it.\<close>

definition update_access_ports :: "br_env \<Rightarrow> nl_view \<Rightarrow> 's switch_interface \<Rightarrow> ('s, 'm) neigh_adder \<Rightarrow>
    rtnl_link \<Rightarrow> rtnl_link option \<Rightarrow> u32 \<Rightarrow> bool \<Rightarrow> ('s, 'm) br_state_scheme \<Rightarrow>
    (int \<times> ('s, 'm) br_state_scheme) option" where
  "update_access_ports be nl swi vx_add vxlan_link vx_br_link tunnel_id add st =
     (case vx_br_link of
        None \<Rightarrow> Some (- EINVAL, st)
      | Some l \<Rightarrow>
          do {
            br_port_vlans \<leftarrow> ln_br_vlan l;
            let vid = bv_pvid br_port_vlans;
            case fmlookup (vxlan_domain (st_bridge st)) vid of
              Some _ \<Rightarrow> Some (0, st)
            | None \<Rightarrow>
                do {
                  st1 \<leftarrow> foreach_opt (update_access_port be nl swi vx_add vxlan_link vx_br_link vid tunnel_id add)
                          (get_bridge_ports (br_view nl st) (ln_master l)) st;
                  Some (0, upd_br (vxlan_domain_update (fm_emplace vid tunnel_id)) st1)
                }
          })"

text \<open>
  \<open>nl_vxlan::add_l2_neigh\<close> and \<open>update_access_ports\<close> call each other; \<open>vx_add_step\<close> is one level, with the function for
  the calls below it. In \<open>vx_add_l2_neigh\<close> the first argument is the number of levels. Below the last one there is nothing
  to call (\<open>None\<close>); \<open>access_port_update_depth\<close> of \<open>Nl_Bridge_Props\<close> shows that the second level never calls further.
\<close>

definition vx_add_step :: "l3_env \<Rightarrow> br_env \<Rightarrow> nl_view \<Rightarrow> 's switch_interface \<Rightarrow> ('s, 'm) neigh_adder \<Rightarrow> ('s, 'm) neigh_adder" where
  "vx_add_step le be nl swi below = add_l2_neigh le nl swi (update_access_ports be nl swi below)"

fun vx_add_l2_neigh :: "nat \<Rightarrow> l3_env \<Rightarrow> br_env \<Rightarrow> nl_view \<Rightarrow> 's switch_interface \<Rightarrow> ('s, 'm) neigh_adder" where
  "vx_add_l2_neigh 0 le be nl swi n link vx_br_link st = None"
| "vx_add_l2_neigh (Suc k) le be nl swi n link vx_br_link st =
     vx_add_step le be nl swi (vx_add_l2_neigh k le be nl swi) n link vx_br_link st"

subsection \<open>VLANs of a port\<close>

text \<open>The port whose VLANs change: the two links, the interface itself and its kind.\<close>

record vlan_change =
  vc_old :: "rtnl_link option"
  vc_new :: "rtnl_link option"
  vc_link :: rtnl_link
  vc_is_vxlan :: bool
  vc_pport :: u32
  vc_tunnel_id :: u32
  vc_bridge_ports :: "rtnl_link list"

definition vc_any :: "vlan_change \<Rightarrow> rtnl_link option" where
  "vc_any vc = (case vc_new vc of Some l \<Rightarrow> Some l | None \<Rightarrow> vc_old vc)"

text \<open>A VLAN was added to the port.\<close>

definition vlan_added :: "br_env \<Rightarrow> nl_view \<Rightarrow> 's switch_interface \<Rightarrow> ('s, 'm) neigh_adder \<Rightarrow> vlan_change \<Rightarrow>
    u16 \<Rightarrow> bool \<Rightarrow> ('s, 'm) br_state_scheme \<Rightarrow> ('s, 'm) br_state_scheme option" where
  "vlan_added be nl swi vx_add vc vid egress_untagged st =
     do {
       domain \<leftarrow> is_vid_set (unat vid) (vxlan_dom_bitmap (st_bridge st));
       if vc_is_vxlan vc
       then
         (let st1 = (if domain then st
                     else upd_br (\<lambda>b. b\<lparr>vxlan_domain := fm_emplace vid (vc_tunnel_id vc) (vxlan_domain b),
                                        vxlan_dom_bitmap := set_vid (unat vid) (vxlan_dom_bitmap b)\<rparr>) st)
          in foreach_opt (update_access_port be nl swi vx_add (vc_link vc) (vc_any vc) vid (vc_tunnel_id vc) True)
               (vc_bridge_ports vc) st1)
       else if domain
       then do {
         tunnel_id \<leftarrow> fmlookup (vxlan_domain (st_bridge st)) vid;
         l \<leftarrow> vc_any vc;
         (_, _, st1) \<leftarrow> create_access_port swi l tunnel_id (ln_name (vc_link vc)) (vc_pport vc) vid egress_untagged st;
         Some st1
       }
       else
         (let (_, st1) = call_vlan (add_bridge_vlan (br_view nl st) swi (vc_link vc) vid False (\<not> egress_untagged)) st;
              (_, st2) = call_sw (sw_l2_multicast_group_rejoin_all_in_vlan swi (vc_pport vc) vid) st1
          in if vc_old vc = None \<and> get_pvlan_state (vc_pport vc) vid (stp_states (st_bridge st2)) = - EINVAL
             then
               (let state = (case find (\<lambda>v. sint (bvl_ifindex v) = ln_ifindex (vc_link vc) \<and> bvl_vlan_id v = vid) (nv_bvlans nl) of
                               Some v \<Rightarrow> bvl_state v
                             | None \<Rightarrow> BR_STATE_FORWARDING)
                in call_stp (\<lambda>s. map_option snd (add_port_vlan_stp_state nl swi (vc_pport vc) vid state s)) st2)
             else Some st2)
     }"

text \<open>
  A VLAN was removed from the port. The filter matches the neighbours of the port and VLAN that have
  the given flags and state.
\<close>

definition vlan_removed :: "br_env \<Rightarrow> nl_view \<Rightarrow> 's switch_interface \<Rightarrow> ('s, 'm) neigh_adder \<Rightarrow> vlan_change \<Rightarrow>
    u16 \<Rightarrow> bool \<Rightarrow> ('s, 'm) br_state_scheme \<Rightarrow> ('s, 'm) br_state_scheme option" where
  "vlan_removed be nl swi vx_add vc vid egress_untagged st =
     (if vc_is_vxlan vc
      then
        (let st1 = upd_br (\<lambda>b. b\<lparr>vxlan_dom_bitmap := unset_vid (unat vid) (vxlan_dom_bitmap b),
                                vxlan_domain := fmdrop vid (vxlan_domain b)\<rparr>) st
         in foreach_opt (update_access_port be nl swi vx_add (vc_link vc) (vc_any vc) vid (vc_tunnel_id vc) False)
              (vc_bridge_ports vc) st1)
      else
        (let link = vc_link vc;
             cached = (\<lambda>n. nb_ifindex n = ln_ifindex link \<and> nb_master n = ln_master link \<and> nb_family n = AF_BRIDGE \<and>
                           nb_vlan n = uint vid \<and> nb_flags n AND 0x14 = 0x14 \<and> nb_state n AND NUD_REACHABLE \<noteq> 0);
             st1 = upd_br (l2_cache_update (filter (\<lambda>n. \<not> cached n))) st;
             (_, st2) = call_sw (sw_l2_addr_remove_all_in_vlan swi (vc_pport vc) vid) st1;
             (_, st3) = call_sw (sw_l2_multicast_group_leave_all_in_vlan swi (vc_pport vc) vid) st2;
             st4 = snd (call_vlan (\<lambda>vs. ((), remove_bridge_vlan (br_view nl st3) swi link vid False (\<not> egress_untagged) vs)) st3)
         in if vc_new vc = None then Some st4
            else map_option snd (flush_fdb be (ln_ifindex link) vid (NTF_MASTER OR NTF_EXT_LEARNED) st4)))"

text \<open>The changes in word \<open>i\<close> of the bitmaps: first added and removed VLANs, then changed tagging.\<close>

definition update_vlan_word :: "br_env \<Rightarrow> nl_view \<Rightarrow> 's switch_interface \<Rightarrow> ('s, 'm) neigh_adder \<Rightarrow> vlan_change \<Rightarrow>
    br_vlan \<Rightarrow> br_vlan \<Rightarrow> nat \<Rightarrow> ('s, 'm) br_state_scheme \<Rightarrow> ('s, 'm) br_state_scheme option" where
  "update_vlan_word be nl swi vx_add vc old new i st =
     (let vlan_new = vlan_bitmap new ! i;
          vlan_diff = vlan_bitmap old ! i XOR vlan_new;
          untagged_new = untagged_bitmap new ! i;
          untagged_diff = (untagged_bitmap old ! i XOR untagged_new) AND NOT vlan_diff;
          vid_of = (\<lambda>j. word_of_int (j - 1 + int i * 32) :: u16);
          set_in = (\<lambda>w j. w AND push_bit (nat (j - 1)) 1 \<noteq> (0 :: u32))
      in do {
        st1 \<leftarrow> foreach_opt (\<lambda>j.
            if set_in vlan_new j then vlan_added be nl swi vx_add vc (vid_of j) (set_in untagged_new j)
            else vlan_removed be nl swi vx_add vc (vid_of j) (set_in untagged_new j))
          (bit_loop (find_next_bit (- 1) vlan_diff) vlan_diff) st;
        foreach_opt (\<lambda>j st. Some (snd (call_vlan
            (update_egress_bridge_vlan (br_view nl st) swi (vc_link vc) (vid_of j) (set_in untagged_new j)) st)))
          (bit_loop (find_next_bit (- 1) untagged_diff) untagged_diff) st1
      })"

definition update_vlans :: "br_env \<Rightarrow> nl_view \<Rightarrow> 's switch_interface \<Rightarrow> ('s, 'm) neigh_adder \<Rightarrow>
    rtnl_link option \<Rightarrow> rtnl_link option \<Rightarrow> ('s, 'm) br_state_scheme \<Rightarrow> ('s, 'm) br_state_scheme option" where
  "update_vlans be nl swi vx_add old_link new_link st =
     do {
       l \<leftarrow> (case new_link of Some l \<Rightarrow> Some l | None \<Rightarrow> old_link);
       let or_empty = (\<lambda>v. case v of Some x \<Rightarrow> x | None \<Rightarrow> empty_br_vlan);
       case get_link nl (ln_ifindex l) AF_UNSPEC of
         None \<Rightarrow> Some st
       | Some link \<Rightarrow>
           do {
             (old, new) \<leftarrow>
               (if get_link_type link = LT_BOND_SLAVE
                then map_option (\<lambda>b. (empty_br_vlan, or_empty (ln_br_vlan b))) (get_link nl (ln_master link) AF_BRIDGE)
                else Some (or_empty (Option.bind old_link ln_br_vlan), or_empty (Option.bind new_link ln_br_vlan)));
             if br_vlan_equal old new then Some st
             else do {
               let vxlan = (get_link_type link = LT_VXLAN);
               let vc = \<lparr>vc_old = old_link, vc_new = new_link, vc_link = link, vc_is_vxlan = vxlan,
                         vc_pport = (if vxlan then 0 else get_port_id_link (br_view nl st) (Some link)),
                         vc_tunnel_id = (case vx_get_tunnel_id link (st_vxlan st) of Some (_, t) \<Rightarrow> t | None \<Rightarrow> - 1),
                         vc_bridge_ports = (if vxlan then get_bridge_ports (br_view nl st) (ln_master link) else [])\<rparr>;
               if \<not> vxlan \<and> vc_pport vc = 0 then Some st
               else
                 (let pvid_changed = (bv_pvid new \<noteq> bv_pvid old);
                      (rv, st1) = (if pvid_changed \<and> is_vid_valid (bv_pvid old)
                                   then call_vlan (remove_ingress_pvid (br_view nl st) swi link (bv_pvid old)) st
                                   else (0, st))
                  in if rv < 0 then Some st1
                     else do {
                       st2 \<leftarrow> foreach_opt (update_vlan_word be nl swi vx_add vc old new) [0..<BITMAP_LEN] st1;
                       Some (if pvid_changed \<and> is_vid_valid (bv_pvid new)
                             then snd (call_vlan (add_ingress_pvid (br_view nl st2) swi link (bv_pvid new)) st2)
                             else st2)
                     })
             }
           }
     }"

subsection \<open>Ports of the bridge\<close>

definition bridge_port_stp :: "nl_view \<Rightarrow> 's switch_interface \<Rightarrow> u32 \<Rightarrow> u8 \<Rightarrow> ('s, 'm) br_state_scheme \<Rightarrow>
    ('s, 'm) br_state_scheme option" where
  "bridge_port_stp nl swi port_id state = call_stp (\<lambda>s. Some (set_port_stp_state nl swi port_id state s))"

definition is_port_of_bridge :: "rtnl_link \<Rightarrow> ('s, 'm) br_state_scheme \<Rightarrow> bool" where
  "is_port_of_bridge link st \<longleftrightarrow>
     (case br_link (st_bridge st) of None \<Rightarrow> False | Some bridge \<Rightarrow> ln_ifindex bridge = ln_master link)"

definition add_interface :: "br_env \<Rightarrow> nl_view \<Rightarrow> 's switch_interface \<Rightarrow> ('s, 'm) neigh_adder \<Rightarrow> rtnl_link \<Rightarrow>
    ('s, 'm) br_state_scheme \<Rightarrow> ('s, 'm) br_state_scheme option" where
  "add_interface be nl swi vx_add link st =
     (if ln_family link \<noteq> AF_BRIDGE then None
      else if \<not> is_port_of_bridge link st then Some st
      else
        (let base_link = get_link nl (ln_ifindex link) AF_UNSPEC;
             port_id = get_port_id_link (br_view nl st) base_link
         in do {
           st1 \<leftarrow> (if 0 < port_id then bridge_port_stp nl swi port_id (ln_br_state link) st else Some st);
           let st2 = set_port_locked nl swi link (ln_br_locked link) st1;
           st3 \<leftarrow> update_vlans be nl swi vx_add None (Some link) st2;
           l \<leftarrow> base_link;
           Some (snd (set_vlan_proto be nl swi l port_id st3))
         }))"

definition update_interface :: "br_env \<Rightarrow> nl_view \<Rightarrow> 's switch_interface \<Rightarrow> ('s, 'm) neigh_adder \<Rightarrow> rtnl_link \<Rightarrow>
    rtnl_link \<Rightarrow> ('s, 'm) br_state_scheme \<Rightarrow> ('s, 'm) br_state_scheme option" where
  "update_interface be nl swi vx_add old_link new_link st =
     (if ln_family old_link \<noteq> AF_BRIDGE \<or> ln_family new_link \<noteq> AF_BRIDGE then None
      else if \<not> is_port_of_bridge new_link st then Some st
      else if ln_br_state old_link \<noteq> ln_br_state new_link
      then
        (let port_id = get_port_id_link (br_view nl st) (Some new_link)
         in if 0 < port_id then bridge_port_stp nl swi port_id (ln_br_state new_link) st else Some st)
      else do {
        st1 \<leftarrow> update_vlans be nl swi vx_add (Some old_link) (Some new_link) st;
        Some (if ln_br_locked old_link \<noteq> ln_br_locked new_link
              then set_port_locked nl swi new_link (ln_br_locked new_link) st1 else st1)
      })"

definition delete_interface :: "br_env \<Rightarrow> nl_view \<Rightarrow> 's switch_interface \<Rightarrow> ('s, 'm) neigh_adder \<Rightarrow> rtnl_link \<Rightarrow>
    ('s, 'm) br_state_scheme \<Rightarrow> ('s, 'm) br_state_scheme option" where
  "delete_interface be nl swi vx_add link st =
     (if ln_family link \<noteq> AF_BRIDGE then None
      else if \<not> is_port_of_bridge link st then Some st
      else do {
        st1 \<leftarrow> update_vlans be nl swi vx_add (Some link) None st;
        let base_link = get_link nl (ln_ifindex link) AF_UNSPEC;
        let port_id = get_port_id_link (br_view nl st1) base_link;
        st2 \<leftarrow> (if 0 < port_id then do {
                   l \<leftarrow> base_link;
                   bridge_port_stp nl swi port_id BR_STATE_FORWARDING (snd (delete_vlan_proto be nl swi l port_id st1))
                 }
                else Some st1);
        Some (set_port_locked nl swi link False st2)
      })"

definition br_bond_member_attached :: "br_env \<Rightarrow> nl_view \<Rightarrow> 's switch_interface \<Rightarrow> rtnl_link \<Rightarrow> rtnl_link \<Rightarrow>
    ('s, 'm) br_state_scheme \<Rightarrow> (int \<times> ('s, 'm) br_state_scheme) option" where
  "br_bond_member_attached be nl swi bond member st =
     do {
       bridge \<leftarrow> br_link (st_bridge st);
       if ln_master bond \<noteq> ln_ifindex bridge then Some (0, st)
       else case get_link nl (ln_ifindex bond) AF_BRIDGE of
           None \<Rightarrow> Some (- EINVAL, st)
         | Some l \<Rightarrow>
             (let bond_id = get_port_id_link (br_view nl st) (Some bond);
                  port_id = get_port_id_link (br_view nl st) (Some member);
                  st1 = sw_each (\<lambda>(vid, state). set_port_vlan_stp_state nl swi port_id vid state)
                          (get_min_states bond_id (stp_states (st_bridge st))) st;
                  (_, st2) = call_sw (set_port_vlan_stp_state nl swi port_id 0 (ln_br_state l)) st1;
                  st3 = set_port_locked nl swi member (ln_br_locked l) st2
              in Some (0, snd (set_vlan_proto be nl swi bond port_id st3)))
     }"

definition br_bond_member_detached :: "br_env \<Rightarrow> nl_view \<Rightarrow> 's switch_interface \<Rightarrow> rtnl_link \<Rightarrow> rtnl_link \<Rightarrow>
    ('s, 'm) br_state_scheme \<Rightarrow> (int \<times> ('s, 'm) br_state_scheme) option" where
  "br_bond_member_detached be nl swi bond member st =
     do {
       bridge \<leftarrow> br_link (st_bridge st);
       if ln_master bond \<noteq> ln_ifindex bridge then Some (0, st)
       else case get_link nl (ln_ifindex bond) AF_BRIDGE of
           None \<Rightarrow> Some (- EINVAL, st)
         | Some l \<Rightarrow>
             do {
               let bond_id = get_port_id_link (br_view nl st) (Some bond);
               let port_id = get_port_id_link (br_view nl st) (Some member);
               st1 \<leftarrow> bridge_port_stp nl swi port_id BR_STATE_FORWARDING st;
               let st2 = sw_each (\<lambda>(vid, state). set_port_vlan_stp_state nl swi port_id vid BR_STATE_FORWARDING)
                           (get_min_states bond_id (stp_states (st_bridge st1))) st1;
               let (_, st3) = call_sw (set_port_vlan_stp_state nl swi port_id 0 BR_STATE_FORWARDING) st2;
               let st4 = set_port_locked nl swi member False st3;
               Some (0, snd (delete_vlan_proto be nl swi bond port_id st4))
             }
     }"

definition clear_tpid_entries :: "br_env \<Rightarrow> nl_view \<Rightarrow> 's switch_interface \<Rightarrow> ('s, 'm) br_state_scheme \<Rightarrow>
    ('s, 'm) br_state_scheme option" where
  "clear_tpid_entries be nl swi st =
     do {
       bridge \<leftarrow> br_link (st_bridge st);
       Some (fold (\<lambda>iface st. snd (delete_vlan_proto be nl swi iface (get_port_id_link (br_view nl st) (Some iface)) st))
         (get_bridge_ports (br_view nl st) (ln_ifindex bridge)) st)
     }"

subsection \<open>Multicast groups\<close>

definition ipv4_igmp :: nl_addr where
  "ipv4_igmp = \<lparr>na_family = AF_INET, na_prefixlen = 24, na_bits = 0xe0000000\<rparr>"

definition ipv6_all_hosts :: nl_addr where
  "ipv6_all_hosts = \<lparr>na_family = AF_INET6, na_prefixlen = 128, na_bits = push_bit 112 0xff02 OR 1\<rparr>"

definition ipv6_mld :: nl_addr where
  "ipv6_mld = \<lparr>na_family = AF_INET6, na_prefixlen = 15, na_bits = push_bit 112 0xff00\<rparr>"

definition in6_bytes :: "in6 \<Rightarrow> u8 list" where
  "in6_bytes a = map (\<lambda>i. ucast (drop_bit (8 * (15 - i)) a)) [0..<16]"

definition mac_of_bytes :: "u8 list \<Rightarrow> mac" where
  "mac_of_bytes = foldl (\<lambda>acc b. push_bit 8 acc OR ucast b) 0"

text \<open>
  The buffer for the address is declared twice: the inner one of the IPv4 branch is filled and goes out of
  scope, the outer one, which is used, keeps its indeterminate value \<open>junk\<close>.
\<close>

definition mdb_entry_group :: "l3_env \<Rightarrow> mac \<Rightarrow> rtnl_mdb_entry \<Rightarrow> mac option" where
  "mdb_entry_group le junk e =
     (let addr = mde_addr e
      in if mde_proto e = ETH_P_IP
         then (if cmp_prefix le addr ipv4_igmp = 0 then None
               else if fst (fill_in4 le addr) < 0 then None
               else Some junk)
         else if mde_proto e = ETH_P_IPV6
         then (if addr_cmp le (Some addr) (Some ipv6_all_hosts) = 0 then None
               else if cmp_prefix le addr ipv6_mld = 0 then None
               else Some (mac_of_bytes (multicast_ipv6_to_ll (in6_bytes (na_bits addr)))))
         else Some junk)"

type_synonym mdb_key = "u32 \<times> u16 \<times> mac"

text \<open>\<open>nl_bridge::get_ifindex\<close>.\<close>

definition br_ifindex :: "nl_bridge \<Rightarrow> int" where
  "br_ifindex b = (case br_link b of Some l \<Rightarrow> ln_ifindex l | None \<Rightarrow> 0)"

text \<open>\<open>junk\<close> has the content of the buffer for each entry.\<close>

definition mdb_to_set :: "l3_env \<Rightarrow> nl_view \<Rightarrow> nl_bridge \<Rightarrow> (nat \<Rightarrow> mac) \<Rightarrow> rtnl_mdb \<Rightarrow> int \<times> mdb_key fset" where
  "mdb_to_set le nl b junk mdb =
     (if sint (mdb_ifindex mdb) \<noteq> br_ifindex b then (- EINVAL, {||})
      else (0, fset_of_list (List.map_filter (\<lambda>(i, e).
             if sint (mde_ifindex e) = br_ifindex b then None
             else map_option (\<lambda>grp. (get_port_id_ifindex nl (sint (mde_ifindex e)), mde_vid e, grp))
                    (mdb_entry_group le (junk i) e)) (List.enumerate 0 (mdb_entries mdb)))))"

definition mdb_leave :: "'s switch_interface \<Rightarrow> mdb_key \<Rightarrow> 's \<Rightarrow> 's" where
  "mdb_leave swi k s = snd (sw_l2_multicast_group_leave swi (fst k) (fst (snd k)) (snd (snd k)) False s)"

definition mdb_join :: "'s switch_interface \<Rightarrow> mdb_key \<Rightarrow> 's \<Rightarrow> 's" where
  "mdb_join swi k s = snd (sw_l2_multicast_group_join swi (fst k) (fst (snd k)) (snd (snd k)) s)"

text \<open>The two iterators over the ordered sets; then the rest of the old and of the new entries.\<close>

fun mdb_merge :: "'s switch_interface \<Rightarrow> mdb_key list \<Rightarrow> mdb_key list \<Rightarrow> 's \<Rightarrow> 's" where
  "mdb_merge swi (x # xs) (y # ys) s =
     (if x < y then mdb_merge swi xs (y # ys) (mdb_leave swi x s)
      else if y < x then mdb_merge swi (x # xs) ys (mdb_join swi y s)
      else mdb_merge swi xs ys s)"
| "mdb_merge swi (x # xs) [] s = mdb_merge swi xs [] (mdb_leave swi x s)"
| "mdb_merge swi [] (y # ys) s = mdb_merge swi [] ys (mdb_join swi y s)"
| "mdb_merge swi [] [] s = s"

text \<open>The set of a database that need not be given; the return code of \<open>mdb_to_set\<close> is not looked at.\<close>

definition mdb_keys :: "l3_env \<Rightarrow> nl_view \<Rightarrow> nl_bridge \<Rightarrow> (nat \<Rightarrow> mac) \<Rightarrow> rtnl_mdb option \<Rightarrow> mdb_key fset" where
  "mdb_keys le nl b junk mdb = (case mdb of None \<Rightarrow> {||} | Some m \<Rightarrow> snd (mdb_to_set le nl b junk m))"

definition mdb_update :: "l3_env \<Rightarrow> br_env \<Rightarrow> nl_view \<Rightarrow> 's switch_interface \<Rightarrow> rtnl_mdb option \<Rightarrow> rtnl_mdb option \<Rightarrow>
    nl_bridge \<Rightarrow> 's \<Rightarrow> int \<times> 's" where
  "mdb_update le be nl swi old_mdb new_mdb b s =
     (let junk = junk_buf be old_mdb new_mdb
      in (0, mdb_merge swi (sorted_list_of_fset (mdb_keys le nl b (junk False) old_mdb))
               (sorted_list_of_fset (mdb_keys le nl b (junk True) new_mdb)) s))"

end
