(* ===== verification/Nl_Bridge_Props.thy ===== *)
theory Nl_Bridge_Props
  imports Nl_Bridge Nl_Vxlan_Props
begin

text \<open>
  Properties of the bridge: which multicast groups and VLANs an update touches, the ageing time, and
  that the calls between the bridge and the tunnels end.
\<close>

subsection \<open>Multicast groups\<close>

datatype 'k mdb_op = Mdb_leave 'k | Mdb_join 'k

fun mdb_exec :: "'s switch_interface \<Rightarrow> mdb_key mdb_op \<Rightarrow> 's \<Rightarrow> 's" where
  "mdb_exec swi (Mdb_leave k) s = mdb_leave swi k s"
| "mdb_exec swi (Mdb_join k) s = mdb_join swi k s"

fun mdb_ops :: "'k :: linorder list \<Rightarrow> 'k list \<Rightarrow> 'k mdb_op list" where
  "mdb_ops (x # xs) (y # ys) =
     (if x < y then Mdb_leave x # mdb_ops xs (y # ys)
      else if y < x then Mdb_join y # mdb_ops (x # xs) ys
      else mdb_ops xs ys)"
| "mdb_ops xs [] = map Mdb_leave xs"
| "mdb_ops [] ys = map Mdb_join ys"

lemma mdb_merge_ops: "mdb_merge swi xs ys s = fold (mdb_exec swi) (mdb_ops xs ys) s"
proof -
  have leave: "mdb_merge swi xs [] s = fold (mdb_exec swi) (map Mdb_leave xs) s" for xs s
    by (induction xs arbitrary: s) auto
  have join: "mdb_merge swi [] ys s = fold (mdb_exec swi) (map Mdb_join ys) s" for ys s
    by (induction ys arbitrary: s) auto
  show ?thesis by (induction xs ys arbitrary: s rule: mdb_ops.induct) (auto simp: leave join)
qed

lemma mdb_ops_difference:
  assumes "sorted_wrt (<) xs" and "sorted_wrt (<) ys"
  shows "distinct (mdb_ops xs ys) \<and>
    set (mdb_ops xs ys) = Mdb_leave ` (set xs - set ys) \<union> Mdb_join ` (set ys - set xs)"
  using assms
proof (induction xs ys rule: mdb_ops.induct)
  case (1 x xs y ys)
  note sorted = 1(4,5)
  have notin: "x \<notin> set xs" "y \<notin> set ys" using sorted by auto
  consider "x < y" | "y < x" | "x = y" by (rule linorder_cases)
  then show ?case
  proof cases
    assume xy: "x < y"
    have "x \<notin> set (y # ys)" using xy sorted(2) by auto
    then have "set (x # xs) - set (y # ys) = insert x (set xs - set (y # ys))"
      "set (y # ys) - set (x # xs) = set (y # ys) - set xs" by auto
    moreover have "distinct (mdb_ops xs (y # ys)) \<and> set (mdb_ops xs (y # ys)) =
        Mdb_leave ` (set xs - set (y # ys)) \<union> Mdb_join ` (set (y # ys) - set xs)"
      using 1(1) [OF xy] sorted by simp
    ultimately show ?thesis using xy notin(1) by (simp only: mdb_ops.simps if_True) (simp add: image_iff)
  next
    assume yx: "y < x"
    then have nxy: "\<not> x < y" by simp
    have "y \<notin> set (x # xs)" using yx sorted(1) by auto
    then have "set (y # ys) - set (x # xs) = insert y (set ys - set (x # xs))"
      "set (x # xs) - set (y # ys) = set (x # xs) - set ys" by auto
    moreover have "distinct (mdb_ops (x # xs) ys) \<and> set (mdb_ops (x # xs) ys) =
        Mdb_leave ` (set (x # xs) - set ys) \<union> Mdb_join ` (set ys - set (x # xs))"
      using 1(2) [OF nxy yx] sorted by simp
    ultimately show ?thesis using yx nxy notin(2)
      by (simp only: mdb_ops.simps if_True if_False) (simp add: image_iff)
  next
    assume xy: "x = y"
    then have "\<not> x < y" "\<not> y < x" by simp_all
    moreover have "set (x # xs) - set (y # ys) = set xs - set ys" "set (y # ys) - set (x # xs) = set ys - set xs"
      using xy notin by auto
    ultimately show ?thesis using 1(3) sorted by (simp only: mdb_ops.simps if_False) simp
  qed
qed (auto simp: distinct_map inj_on_def strict_sorted_iff)

lemma sorted_wrt_less_sorted_list_of_fset: "sorted_wrt (<) (sorted_list_of_fset S)"
  by (simp add: sorted_list_of_fset.rep_eq strict_sorted_iff)

lemma mdb_update_keys:
  "\<exists>ops. mdb_update le be nl swi old_mdb new_mdb b s = (0, fold (mdb_exec swi) ops s) \<and> distinct ops \<and>
     set ops = Mdb_leave ` (fset (mdb_keys le nl b (junk_buf be old_mdb new_mdb False) old_mdb) -
                            fset (mdb_keys le nl b (junk_buf be old_mdb new_mdb True) new_mdb)) \<union>
               Mdb_join ` (fset (mdb_keys le nl b (junk_buf be old_mdb new_mdb True) new_mdb) -
                           fset (mdb_keys le nl b (junk_buf be old_mdb new_mdb False) old_mdb))"
  using mdb_ops_difference [OF sorted_wrt_less_sorted_list_of_fset sorted_wrt_less_sorted_list_of_fset]
  by (intro exI [of _ "mdb_ops (sorted_list_of_fset (mdb_keys le nl b (junk_buf be old_mdb new_mdb False) old_mdb))
      (sorted_list_of_fset (mdb_keys le nl b (junk_buf be old_mdb new_mdb True) new_mdb))"])
     (simp add: mdb_update_def mdb_merge_ops Let_def)

text \<open>
  The memberships a database of IPv6 groups stands for: those of the ports of this bridge, without the group of all hosts and
  the groups of the local control protocols. A group has the address RFC 2464 gives it.
\<close>

definition mdb_listed :: "rtnl_mdb option \<Rightarrow> rtnl_mdb_entry set" where
  "mdb_listed mdb = (case mdb of None \<Rightarrow> {} | Some m \<Rightarrow> set (mdb_entries m))"

definition ipv6_memberships :: "l3_env \<Rightarrow> nl_view \<Rightarrow> nl_bridge \<Rightarrow> rtnl_mdb option \<Rightarrow> mdb_key set" where
  "ipv6_memberships le nl b mdb =
     {(get_port_id_ifindex nl (sint (mde_ifindex e)), mde_vid e, mac_of_bytes (multicast_ipv6_to_ll (in6_bytes (na_bits (mde_addr e))))) |e.
        e \<in> mdb_listed mdb \<and> (\<exists>m. mdb = Some m \<and> sint (mdb_ifindex m) = br_ifindex b) \<and> sint (mde_ifindex e) \<noteq> br_ifindex b \<and>
        addr_cmp le (Some (mde_addr e)) (Some ipv6_all_hosts) \<noteq> 0 \<and> cmp_prefix le (mde_addr e) ipv6_mld \<noteq> 0}"

lemma map_filter_enumerate:
  assumes "\<And>i e. e \<in> set xs \<Longrightarrow> f (i, e) = (if P e then Some (g e) else None)"
  shows "set (List.map_filter f (List.enumerate n xs)) = g ` {e \<in> set xs. P e}"
  using assms by (induction xs arbitrary: n) (auto simp: map_filter_simps)

lemma ipv6_keys:
  assumes "\<forall>e \<in> mdb_listed mdb. mde_proto e = ETH_P_IPV6"
  shows "fset (mdb_keys le nl b junk mdb) = ipv6_memberships le nl b mdb"
proof (cases mdb)
  case (Some m)
  let ?key = "\<lambda>e. (get_port_id_ifindex nl (sint (mde_ifindex e)), mde_vid e,
    mac_of_bytes (multicast_ipv6_to_ll (in6_bytes (na_bits (mde_addr e)))))"
  let ?kept = "\<lambda>e. sint (mde_ifindex e) \<noteq> br_ifindex b \<and> addr_cmp le (Some (mde_addr e)) (Some ipv6_all_hosts) \<noteq> 0 \<and>
    cmp_prefix le (mde_addr e) ipv6_mld \<noteq> 0"
  let ?f = "\<lambda>(i, e). if sint (mde_ifindex e) = br_ifindex b then None
      else map_option (\<lambda>grp. (get_port_id_ifindex nl (sint (mde_ifindex e)), mde_vid e, grp)) (mdb_entry_group le (junk i) e)"
  have "set (List.map_filter ?f (List.enumerate 0 (mdb_entries m))) = ?key ` {e \<in> set (mdb_entries m). ?kept e}"
    using assms Some by (intro map_filter_enumerate) (simp add: mdb_listed_def mdb_entry_group_def Let_def)
  then show ?thesis using Some
    by (auto simp: mdb_keys_def mdb_to_set_def ipv6_memberships_def mdb_listed_def fset_of_list.rep_eq)
qed (simp add: mdb_keys_def ipv6_memberships_def)

text \<open>
  C24: For databases of IPv6 groups, updating the multicast database is the difference of the memberships the two databases stand
  for: each membership that is gone is left exactly once, each new one is joined exactly once, and memberships present in both
  are not touched. For IPv4 groups this does not hold.
\<close>

theorem mdb_update_is_difference:
  assumes "\<forall>e \<in> mdb_listed old_mdb \<union> mdb_listed new_mdb. mde_proto e = ETH_P_IPV6"
  shows "\<exists>ops. mdb_update le be nl swi old_mdb new_mdb b s = (0, fold (mdb_exec swi) ops s) \<and> distinct ops \<and>
     set ops = Mdb_leave ` (ipv6_memberships le nl b old_mdb - ipv6_memberships le nl b new_mdb) \<union>
               Mdb_join ` (ipv6_memberships le nl b new_mdb - ipv6_memberships le nl b old_mdb)"
proof -
  have "fset (mdb_keys le nl b junk old_mdb) = ipv6_memberships le nl b old_mdb"
    "fset (mdb_keys le nl b junk new_mdb) = ipv6_memberships le nl b new_mdb" for junk
    using assms by (intro ipv6_keys, blast)+
  then show ?thesis using mdb_update_keys [of le be nl swi old_mdb new_mdb b s] by simp
qed

text \<open>
  A port that changes from one IPv4 group to another need not be moved on the switch: the address of an IPv4 group is computed
  into a buffer that is not the one used, so the groups are compared by the indeterminate content of another buffer. When it is
  the same for both, nothing is sent.
\<close>

theorem ipv4_group_change_lost:
  fixes e a i
  defines "old_mdb \<equiv> Some \<lparr>mdb_ifindex = i, mdb_entries = [e]\<rparr>"
    and "new_mdb \<equiv> Some \<lparr>mdb_ifindex = i, mdb_entries = [e\<lparr>mde_addr := a\<rparr>]\<rparr>"
  assumes "mde_proto e = ETH_P_IP" and "cmp_prefix le (mde_addr e) ipv4_igmp \<noteq> 0" and "0 \<le> fst (fill_in4 le (mde_addr e))"
    and "cmp_prefix le a ipv4_igmp \<noteq> 0" and "0 \<le> fst (fill_in4 le a)"
    and "junk_buf be old_mdb new_mdb False 0 = junk_buf be old_mdb new_mdb True 0"
  shows "mdb_update le be nl swi old_mdb new_mdb b s = (0, s)"
proof -
  have "mdb_ops xs xs = []" for xs :: "mdb_key list"
    by (induction xs) auto
  moreover have "mdb_keys le nl b (junk_buf be old_mdb new_mdb False) old_mdb = mdb_keys le nl b (junk_buf be old_mdb new_mdb True) new_mdb"
    using assms(3-) unfolding old_mdb_def new_mdb_def
    by (simp add: mdb_keys_def mdb_to_set_def mdb_entry_group_def List.map_filter_def Let_def)
  ultimately show ?thesis by (simp add: mdb_update_def mdb_merge_ops Let_def)
qed

text \<open>A kernel that accepts every message, and a bridge with two ports.\<close>

definition plain_br_env :: br_env where
  "plain_br_env = \<lparr>vlan_protocol = 0x8100, vlan_filtering = 1,
     neigh_same = (\<lambda>x y. nb_lladdr x = nb_lladdr y \<and> nb_family x = nb_family y \<and> nb_master x = nb_master y \<and>
                         nb_vlan x = nb_vlan y),
     nl_send = (\<lambda>_. 0), cache_add = (\<lambda>_. 0), junk_buf = (\<lambda>_ _ _ _. 0)\<rparr>"

definition plain_bridge :: nl_bridge where
  "plain_bridge = nl_bridge_init\<lparr>br_link := Some ((plain_link 8)\<lparr>ln_type := Some ''bridge''\<rparr>)\<rparr>"

definition br_initial :: "controller br_state" where
  "br_initial = \<lparr>st_l3 = nl_l3_init, st_vlan = nl_vlan_init, st_sw = controller_init, st_vxlan = nl_vxlan_init,
     st_bridge = plain_bridge, st_nl_sent = []\<rparr>"

definition ipv4_member :: "in4 \<Rightarrow> rtnl_mdb_entry" where
  "ipv4_member a = \<lparr>mde_ifindex = 3, mde_vid = 5, mde_proto = ETH_P_IP, mde_addr = in4_addr a 32\<rparr>"

theorem ipv4_group_change_lost_witness:
  "mdb_update plain_l3_env plain_br_env two_port_view (controller_swi ideal_env)
     (Some \<lparr>mdb_ifindex = 8, mdb_entries = [ipv4_member 0xef010101]\<rparr>)
     (Some \<lparr>mdb_ifindex = 8, mdb_entries = [(ipv4_member 0xef010101)\<lparr>mde_addr := in4_addr 0xef010102 32\<rparr>]\<rparr>)
     plain_bridge controller_init = (0, controller_init)"
  by (rule ipv4_group_change_lost)
     (simp_all add: ipv4_member_def plain_l3_env_def plain_br_env_def in4_addr_def ipv4_igmp_def Let_def)

definition ipv6_member :: "in6 \<Rightarrow> rtnl_mdb_entry" where
  "ipv6_member a = \<lparr>mde_ifindex = 3, mde_vid = 5, mde_proto = ETH_P_IPV6,
     mde_addr = \<lparr>na_family = AF_INET6, na_prefixlen = 128, na_bits = a\<rparr>\<rparr>"

definition ipv6_groups :: "in6 list \<Rightarrow> rtnl_mdb option" where
  "ipv6_groups as = Some \<lparr>mdb_ifindex = 8, mdb_entries = map ipv6_member as\<rparr>"

theorem mdb_update_is_difference_witness:
  "\<exists>ops. mdb_update plain_l3_env plain_br_env two_port_view (controller_swi ideal_env) (ipv6_groups [0xff1e0001, 0xff1e0002])
       (ipv6_groups [0xff1e0002, 0xff1e0003]) plain_bridge controller_init =
       (0, fold (mdb_exec (controller_swi ideal_env)) ops controller_init) \<and> distinct ops \<and>
     set ops = Mdb_leave ` (ipv6_memberships plain_l3_env two_port_view plain_bridge (ipv6_groups [0xff1e0001, 0xff1e0002]) -
                            ipv6_memberships plain_l3_env two_port_view plain_bridge (ipv6_groups [0xff1e0002, 0xff1e0003])) \<union>
               Mdb_join ` (ipv6_memberships plain_l3_env two_port_view plain_bridge (ipv6_groups [0xff1e0002, 0xff1e0003]) -
                           ipv6_memberships plain_l3_env two_port_view plain_bridge (ipv6_groups [0xff1e0001, 0xff1e0002]))"
  by (rule mdb_update_is_difference) (simp add: mdb_listed_def ipv6_groups_def ipv6_member_def)

subsection \<open>Ageing time\<close>

text \<open>
  The ageing time, given in hundredths of a second, is rounded to seconds and kept within 1 and 65535;
  0 stays 0. In the last 50 values of the range the rounding wraps around and the result is 1 second.
\<close>

theorem ageing_seconds_bounds:
  "unat (ageing_seconds t) =
     (if t = 0 then 0
      else if unat t + 50 < 2 ^ 32 then max 1 (min 65535 ((unat t + 50) div 100))
      else 1)"
proof -
  have t32: "unat t < 2 ^ 32" using unsigned_less [of t] by simp
  have pos: "0 < t \<longleftrightarrow> t \<noteq> 0" by (simp add: word_gt_0)
  have sum: "unat (t + 50) = (if unat t + 50 < 2 ^ 32 then unat t + 50 else unat t + 50 - 2 ^ 32)"
    using t32 by (simp add: unat_plus_if')
  have quot: "unat ((t + 50) div 100) = unat (t + 50) div 100" by (simp add: unat_div_distrib)
  have "unat t = 0 \<longleftrightarrow> t = 0" by (simp add: unat_eq_0)
  then show ?thesis using t32 sum quot
    by (auto simp: ageing_seconds_def Let_def pos word_less_nat_alt word_unat_eq_iff)
qed

subsection \<open>The calls between the bridge and the tunnels end\<close>

lemma foreach_opt_cong:
  "xs = ys \<Longrightarrow> s = t \<Longrightarrow> (\<And>x s. x \<in> set ys \<Longrightarrow> f x s = g x s) \<Longrightarrow> foreach_opt f xs s = foreach_opt g ys t"
proof (induction ys arbitrary: xs s t)
  case (Cons y ys)
  have "f y t = g y t" using Cons.prems(3) by simp
  moreover have "foreach_opt f ys u = foreach_opt g ys u" for u
    using Cons.IH [of ys u u] Cons.prems(3) by simp
  then have "foreach_opt f ys = foreach_opt g ys" by blast
  ultimately show ?case using Cons.prems(1,2) by simp
qed simp

lemma br_view_ports [simp]: "get_port_id_ifindex (br_view nl st) = get_port_id_ifindex nl"
  by (simp add: fun_eq_iff br_view_def vx_view_def get_port_id_ifindex_def get_lag_id_def Let_def)

lemma add_l2_neigh_access:
  "get_link_type link \<noteq> LT_VXLAN \<Longrightarrow> add_l2_neigh le nl swi upd n link l st = add_l2_neigh le nl swi upd' n link l st"
  by (simp add: add_l2_neigh_def)

lemma update_access_port_cong:
  assumes "\<And>n link st. get_link nl (ln_ifindex br_port) AF_UNSPEC = Some link \<Longrightarrow>
      get_port_id_ifindex nl (ln_ifindex br_port) \<noteq> 0 \<Longrightarrow> f n link l st = g n link l st"
  shows "update_access_port be nl swi f vl l vid tunnel_id add br_port st =
    update_access_port be nl swi g vl l vid tunnel_id add br_port st"
proof (cases "get_port_id_ifindex nl (ln_ifindex br_port) = 0")
  case True
  then show ?thesis by (simp add: update_access_port_def split: option.split)
next
  case False
  have "(\<lambda>n st. do { link \<leftarrow> get_link nl (ln_ifindex br_port) AF_UNSPEC; (_, st1) \<leftarrow> f n link l st; Some st1 }) =
      (\<lambda>n st. do { link \<leftarrow> get_link nl (ln_ifindex br_port) AF_UNSPEC; (_, st1) \<leftarrow> g n link l st; Some st1 })"
    using assms [OF _ False] by (intro ext) (cases "get_link nl (ln_ifindex br_port) AF_UNSPEC"; simp)
  then show ?thesis unfolding update_access_port_def Let_def by (simp only:)
qed

lemma update_access_ports_cong:
  assumes "\<And>i n link st. get_link nl i AF_UNSPEC = Some link \<Longrightarrow> get_port_id_ifindex nl i \<noteq> 0 \<Longrightarrow>
      f n link l st = g n link l st"
  shows "update_access_ports be nl swi f vl l tunnel_id add st =
    update_access_ports be nl swi g vl l tunnel_id add st"
proof -
  have "update_access_port be nl swi f vl l vid tunnel_id add =
      update_access_port be nl swi g vl l vid tunnel_id add" for vid
    using assms by (intro ext update_access_port_cong) blast
  then show ?thesis unfolding update_access_ports_def Let_def by (simp only:)
qed

text \<open>
  C25: The mutual calls of \<open>nl_vxlan::add_l2_neigh\<close> and \<open>nl_bridge::update_access_ports\<close> end after two levels,
  provided no port of the switch is itself a VXLAN interface: two levels do not call what stands below them, whatever it
  is, and give the result of the model at every greater depth.
\<close>

theorem access_port_update_depth:
  fixes st :: "('s, 'm) br_state_scheme"
  assumes "\<And>i l. get_link nl i AF_UNSPEC = Some l \<Longrightarrow> get_port_id_ifindex nl i \<noteq> 0 \<Longrightarrow> get_link_type l \<noteq> LT_VXLAN"
  shows "vx_add_step le be nl swi (vx_add_step le be nl swi below) n link l st =
    vx_add_l2_neigh (Suc (Suc k)) le be nl swi n link l st"
proof -
  have "vx_add_step le be nl swi below n link l' st = vx_add_l2_neigh (Suc k) le be nl swi n link l' st"
    if "get_link nl i AF_UNSPEC = Some link" "get_port_id_ifindex nl i \<noteq> 0"
    for i n link l' and st :: "('s, 'm) br_state_scheme"
    using add_l2_neigh_access [OF assms [OF that]] by (simp add: vx_add_step_def)
  then have "update_access_ports be nl swi (vx_add_step le be nl swi below) v l' t add st =
      update_access_ports be nl swi (vx_add_l2_neigh (Suc k) le be nl swi) v l' t add st"
    for v l' t add and st :: "('s, 'm) br_state_scheme"
    by (rule update_access_ports_cong)
  then have "update_access_ports be nl swi (vx_add_step le be nl swi below) =
      (update_access_ports be nl swi (vx_add_l2_neigh (Suc k) le be nl swi) :: _ \<Rightarrow> _ \<Rightarrow> _ \<Rightarrow> _ \<Rightarrow> ('s, 'm) br_state_scheme \<Rightarrow> _)"
    by (intro ext) simp
  then show ?thesis by (simp only: vx_add_l2_neigh.simps(2) [of "Suc k"] vx_add_step_def)
qed

text \<open>
  A remote endpoint is added to a VXLAN interface whose VLAN the port 3 of the bridge has too, with a learned address: the
  first level makes the port an access port and adds the address at the second level.
\<close>

definition vlan_5 :: br_vlan where
  "vlan_5 = empty_br_vlan\<lparr>vlan_bitmap := set_vid 5 (vlan_bitmap empty_br_vlan)\<rparr>"

definition overlay_port :: "rtnl_link \<Rightarrow> rtnl_link" where
  "overlay_port l = l\<lparr>ln_family := AF_BRIDGE, ln_master := 8, ln_br_vlan := Some (vlan_5\<lparr>bv_pvid := 5\<rparr>)\<rparr>"

definition overlay_view :: nl_view where
  "overlay_view = two_port_view\<lparr>nv_links := [plain_link 3, plain_link 4, overlay_port (plain_link 3)],
     nv_neighs := [(plain_neigh 3 5)\<lparr>nb_master := 8, nb_family := AF_BRIDGE, nb_vlan := 5\<rparr>]\<rparr>"

definition overlay_state :: "controller br_state" where
  "overlay_state = br_initial\<lparr>st_vxlan := (st_vxlan shared_state)\<lparr>vx_bridge := True\<rparr>\<rparr>"

definition remote_neigh :: rtnl_neigh where
  "remote_neigh = (plain_neigh 21 5)\<lparr>nb_lladdr := Some 0, nb_dst := Some (in4_addr 0x0a000002 32)\<rparr>"

definition add_remote :: "nat \<Rightarrow> (int \<times> controller br_state) option" where
  "add_remote k = vx_add_l2_neigh k plain_l3_env plain_br_env overlay_view (controller_swi ideal_env) remote_neigh
     (vxlan_link 21 200) (Some (overlay_port (vxlan_link 21 200))) overlay_state"

theorem access_port_update_depth_witness:
  "vx_add_step plain_l3_env plain_br_env overlay_view (controller_swi ideal_env)
     (vx_add_step plain_l3_env plain_br_env overlay_view (controller_swi ideal_env) (\<lambda>_ _ _ _. None))
     remote_neigh (vxlan_link 21 200) (Some (overlay_port (vxlan_link 21 200))) overlay_state = add_remote (Suc (Suc 5)) \<and>
   Option.is_none (add_remote 1) \<and> \<not> Option.is_none (add_remote 2)"
proof (intro conjI)
  show "vx_add_step plain_l3_env plain_br_env overlay_view (controller_swi ideal_env)
     (vx_add_step plain_l3_env plain_br_env overlay_view (controller_swi ideal_env) (\<lambda>_ _ _ _. None))
     remote_neigh (vxlan_link 21 200) (Some (overlay_port (vxlan_link 21 200))) overlay_state = add_remote (Suc (Suc 5))"
    unfolding add_remote_def
  proof (rule access_port_update_depth)
    fix i l assume "get_link overlay_view i AF_UNSPEC = Some l"
    then have "l = plain_link 3 \<or> l = plain_link 4"
      by (auto simp: get_link_def last_match_def overlay_view_def overlay_port_def two_port_view_def bond_view_def
          split: if_splits option.splits)
    then show "get_link_type l \<noteq> LT_VXLAN" by (auto simp: get_link_type_def plain_link_def)
  qed
  show "Option.is_none (add_remote 1)" by code_simp
  show "\<not> Option.is_none (add_remote 2)" by code_simp
qed

subsection \<open>Which VLANs of a port an update touches\<close>

lemma is_vid_set_bit: "v < 4096 \<Longrightarrow> is_vid_set v bm = Some (bit (bm ! (v div 32)) (v mod 32))"
  by (simp add: is_vid_set_def push_bit_of_1 and_exp_eq_0_iff_not_bit)

lemma foreach_opt_append: "foreach_opt f (xs @ ys) s = Option.bind (foreach_opt f xs s) (foreach_opt f ys)"
proof (induction xs arbitrary: s)
  case (Cons x xs)
  then show ?case by (cases "f x s") simp_all
qed simp

lemma foreach_opt_concat: "foreach_opt (\<lambda>i. foreach_opt f (F i)) xs s = foreach_opt f (concat (map F xs)) s"
proof (induction xs arbitrary: s)
  case (Cons x xs)
  then show ?case by (cases "foreach_opt f (F x) s") (simp_all add: foreach_opt_append)
qed simp

lemma foreach_opt_map: "foreach_opt f (map h xs) = foreach_opt (\<lambda>x. f (h x)) xs"
proof
  show "foreach_opt f (map h xs) s = foreach_opt (\<lambda>x. f (h x)) xs s" for s
    by (induction xs arbitrary: s) (auto intro: bind_option_cong)
qed

lemma concat_words: "concat (map (\<lambda>i. map (\<lambda>n. i * 32 + n) [0..<32]) [0..<k]) = [0..<k * 32]"
proof (induction k)
  case (Suc k)
  have "map (\<lambda>n. k * 32 + n) [0..<32] = [k * 32..<Suc k * 32]" by (simp add: map_add_upt add.commute)
  moreover have "[0..<Suc k * 32] = [0..<k * 32] @ [k * 32..<Suc k * 32]"
    using upt_add_eq_append [of 0 "k * 32" 32] by (simp add: add.commute)
  ultimately show ?case using Suc by simp
qed simp

text \<open>The treatment of one VLAN that was added or removed.\<close>

definition vlan_changed :: "br_env \<Rightarrow> nl_view \<Rightarrow> 's switch_interface \<Rightarrow> ('s, 'm) neigh_adder \<Rightarrow> vlan_change \<Rightarrow>
    br_vlan \<Rightarrow> nat \<Rightarrow> ('s, 'm) br_state_scheme \<Rightarrow> ('s, 'm) br_state_scheme option" where
  "vlan_changed be nl swi vx_add vc new v =
     (let untagged = (is_vid_set v (untagged_bitmap new) = Some True)
      in if is_vid_set v (vlan_bitmap new) = Some True
         then vlan_added be nl swi vx_add vc (of_nat v) untagged
         else vlan_removed be nl swi vx_add vc (of_nat v) untagged)"

text \<open>What an update visits: a VLAN that was added or removed, or one that stays with another tagging.\<close>

datatype vlan_visit = Membership nat | Tagging nat

fun visit_vlan :: "br_env \<Rightarrow> nl_view \<Rightarrow> 's switch_interface \<Rightarrow> ('s, 'm) neigh_adder \<Rightarrow> vlan_change \<Rightarrow>
    br_vlan \<Rightarrow> vlan_visit \<Rightarrow> ('s, 'm) br_state_scheme \<Rightarrow> ('s, 'm) br_state_scheme option" where
  "visit_vlan be nl swi vx_add vc new (Membership v) st = vlan_changed be nl swi vx_add vc new v st"
| "visit_vlan be nl swi vx_add vc new (Tagging v) st =
     Some (snd (call_vlan (update_egress_bridge_vlan (br_view nl st) swi (vc_link vc) (of_nat v)
       (is_vid_set v (untagged_bitmap new) = Some True)) st))"

definition vlan_member_changed :: "br_vlan \<Rightarrow> br_vlan \<Rightarrow> nat \<Rightarrow> bool" where
  "vlan_member_changed old new v \<longleftrightarrow> is_vid_set v (vlan_bitmap old) \<noteq> is_vid_set v (vlan_bitmap new)"

definition vlan_retagged :: "br_vlan \<Rightarrow> br_vlan \<Rightarrow> nat \<Rightarrow> bool" where
  "vlan_retagged old new v \<longleftrightarrow> \<not> vlan_member_changed old new v \<and>
     is_vid_set v (untagged_bitmap old) \<noteq> is_vid_set v (untagged_bitmap new)"

text \<open>The order of the visits: by word of the bitmap, then by kind, then by VLAN.\<close>

fun visit_key :: "vlan_visit \<Rightarrow> nat \<times> nat \<times> nat" where
  "visit_key (Membership v) = (v div 32, 0, v)"
| "visit_key (Tagging v) = (v div 32, 1, v)"

definition word_visits :: "br_vlan \<Rightarrow> br_vlan \<Rightarrow> nat \<Rightarrow> vlan_visit list" where
  "word_visits old new i =
     map Membership (filter (vlan_member_changed old new) (map (\<lambda>n. i * 32 + n) [0..<32])) @
     map Tagging (filter (vlan_retagged old new) (map (\<lambda>n. i * 32 + n) [0..<32]))"

lemma update_vlan_word_visits:
  assumes "i < BITMAP_LEN"
  shows "update_vlan_word be nl swi vx_add vc old new i st =
    foreach_opt (visit_vlan be nl swi vx_add vc new) (word_visits old new i) st"
proof -
  let ?d = "vlan_bitmap old ! i XOR vlan_bitmap new ! i"
  let ?u = "(untagged_bitmap old ! i XOR untagged_bitmap new ! i) AND NOT ?d"
  have set_in: "w AND push_bit (nat (int n + 1 - 1)) 1 \<noteq> (0 :: u32) \<longleftrightarrow> bit w n" for w :: u32 and n
    by (simp add: push_bit_of_1 and_exp_eq_0_iff_not_bit)
  have vid: "word_of_int (int n + 1 - 1 + int i * 32) = (of_nat (i * 32 + n) :: u16)" for n
    by (simp add: add.commute)
  have member: "filter (\<lambda>n. vlan_member_changed old new (i * 32 + n)) [0..<32] = filter (bit ?d) [0..<32]"
    using assms by (intro filter_cong) (auto simp: vlan_member_changed_def is_vid_set_bit bit_simps)
  have retag: "filter (\<lambda>n. vlan_retagged old new (i * 32 + n)) [0..<32] = filter (bit ?u) [0..<32]"
    using assms by (intro filter_cong) (auto simp: vlan_retagged_def vlan_member_changed_def is_vid_set_bit bit_simps)
  have "foreach_opt (\<lambda>n. if bit (vlan_bitmap new ! i) n
        then vlan_added be nl swi vx_add vc (of_nat (i * 32 + n)) (bit (untagged_bitmap new ! i) n)
        else vlan_removed be nl swi vx_add vc (of_nat (i * 32 + n)) (bit (untagged_bitmap new ! i) n))
      (filter (bit ?d) [0..<32]) st =
    foreach_opt (\<lambda>n. visit_vlan be nl swi vx_add vc new (Membership (i * 32 + n))) (filter (bit ?d) [0..<32]) st" for st
    using assms by (intro foreach_opt_cong) (simp_all add: vlan_changed_def is_vid_set_bit)
  moreover have "foreach_opt (\<lambda>n st. Some (snd (call_vlan (update_egress_bridge_vlan (br_view nl st) swi (vc_link vc)
        (of_nat (i * 32 + n)) (bit (untagged_bitmap new ! i) n)) st))) (filter (bit ?u) [0..<32]) =
    foreach_opt (\<lambda>n. visit_vlan be nl swi vx_add vc new (Tagging (i * 32 + n))) (filter (bit ?u) [0..<32])"
    using assms by (intro ext foreach_opt_cong) (simp_all add: is_vid_set_bit)
  ultimately show ?thesis
    unfolding update_vlan_word_def Let_def bit_loop_visits_set_bits foreach_opt_map set_in vid
    by (simp only: word_visits_def foreach_opt_append foreach_opt_map filter_map comp_def member retag)
qed

lemma word_visits_sorted: "sorted_wrt (\<lambda>x y. visit_key x < visit_key y) (word_visits old new i)"
proof -
  have "sorted_wrt (\<lambda>x y. (i * 32 + x) div 32 = (i * 32 + y) div 32 \<and> x < y) [0..<32]"
    by (rule sorted_wrt_mono_rel [OF _ sorted_wrt_upt]) auto
  then show ?thesis
    by (auto simp: word_visits_def sorted_wrt_append sorted_wrt_map filter_map comp_def intro: sorted_wrt_filter
        elim!: sorted_wrt_mono_rel [rotated])
qed

lemma word_visits_set:
  "x \<in> set (word_visits old new i) \<longleftrightarrow> fst (visit_key x) = i \<and>
     (case x of Membership v \<Rightarrow> vlan_member_changed old new v | Tagging v \<Rightarrow> vlan_retagged old new v)"
proof -
  have "v \<in> (\<lambda>n. i * 32 + n) ` {0..<32} \<longleftrightarrow> v div 32 = i" for v :: nat
    by (auto simp: image_iff intro: bexI [of _ "v mod 32"])
  then show ?thesis by (cases x) (auto simp: word_visits_def image_iff)
qed

lemma visit_earlier: "fst (visit_key x) < fst (visit_key y) \<Longrightarrow> visit_key x < visit_key y"
  by (simp add: less_prod_def)

lemma visits_sorted: "sorted_wrt (\<lambda>x y. visit_key x < visit_key y) (concat (map (word_visits old new) [0..<k]))"
  by (induction k) (auto simp: sorted_wrt_append word_visits_sorted word_visits_set intro: visit_earlier)

text \<open>
  C23: When the VLANs of a port change, the loops over the 128 words of the bitmaps and over their bits visit exactly the VLANs
  that were added or removed and exactly those that stay but change their tagging, each once. The order is that of the
  words, in a word first the added and removed VLANs and then the others, and among these ascending.
\<close>

theorem update_visits_changed_vlans:
  "\<exists>visits. foreach_opt (update_vlan_word be nl swi vx_add vc old new) [0..<BITMAP_LEN] st =
       foreach_opt (visit_vlan be nl swi vx_add vc new) visits st \<and>
     set visits = Membership ` {v. v < 4096 \<and> vlan_member_changed old new v} \<union> Tagging ` {v. v < 4096 \<and> vlan_retagged old new v} \<and>
     sorted_wrt (\<lambda>x y. visit_key x < visit_key y) visits"
proof (intro exI conjI)
  let ?visits = "concat (map (word_visits old new) [0..<BITMAP_LEN])"
  show "foreach_opt (update_vlan_word be nl swi vx_add vc old new) [0..<BITMAP_LEN] st =
      foreach_opt (visit_vlan be nl swi vx_add vc new) ?visits st"
    by (subst foreach_opt_concat [symmetric]) (rule foreach_opt_cong, simp_all add: update_vlan_word_visits)
  have "v div 32 < 128 \<longleftrightarrow> v < 4096" for v :: nat by auto
  then show "set ?visits = Membership ` {v. v < 4096 \<and> vlan_member_changed old new v} \<union>
      Tagging ` {v. v < 4096 \<and> vlan_retagged old new v}"
    by (auto simp: word_visits_set split: vlan_visit.splits)
  show "sorted_wrt (\<lambda>x y. visit_key x < visit_key y) ?visits" by (rule visits_sorted)
qed

end
