(* ===== verification/Nl_Bond.thy ===== *)
theory Nl_Bond
  imports Switch_Interface Nl_View
begin

text \<open>
  Bonds (\<open>src/src/netlink/nl_bond.cc\<close>, built with \<open>HAVE_RTNL_LINK_BOND_GET_MODE\<close>): the maps from bond
  interfaces to LAG ids and from LAG ids to member ports, which are the fields \<open>nv_ifi2lag\<close> and
  \<open>nv_lag_members\<close> of the view, and the calls that keep the switch up to date. The state is a pair of
  the view and the switch state.

  \<open>add_lag\<close> calls back into \<open>cnetlink::link_created\<close>, which is the parameter \<open>link_created\<close>. The value
  of a local variable that the source leaves uninitialised is the parameter \<open>junk\<close>. Fatal errors
  and the use of an end iterator are \<open>None\<close>.
\<close>

definition bond_clear :: "nl_view \<Rightarrow> nl_view" where
  "bond_clear nl = nl\<lparr>nv_ifi2lag := fmempty, nv_lag_members := fmempty\<rparr>"

definition bond_mode :: "u8 \<Rightarrow> rtnl_link \<Rightarrow> u8" where
  "bond_mode junk link = (case ln_bond_mode link of None \<Rightarrow> junk | Some m \<Rightarrow> m)"

definition update_lag :: "'s switch_interface \<Rightarrow> u8 \<times> u8 \<Rightarrow> rtnl_link \<Rightarrow> rtnl_link \<Rightarrow>
    nl_view \<times> 's \<Rightarrow> int \<times> (nl_view \<times> 's)" where
  "update_lag swi junk old_link new_link st =
     (let (nl, s) = st;
          lag_id = get_port_id_link nl (Some new_link);
          o_mode = bond_mode (fst junk) old_link;
          n_mode = bond_mode (snd junk) new_link
      in if lag_id = 0 then (0, st)
         else if o_mode \<noteq> n_mode then (0, nl, snd (sw_lag_set_mode swi lag_id n_mode s))
         else (0, st))"

text \<open>
  \<open>add_lag\<close> up to its call of \<open>cnetlink::link_created\<close>. The boolean tells that the function gets
  that far; the bridge port of the bond is then handed to \<open>link_created\<close>.
\<close>

definition add_lag_entry :: "'s switch_interface \<Rightarrow> u8 \<Rightarrow> rtnl_link \<Rightarrow> nl_view \<times> 's \<Rightarrow>
    (int \<times> bool) \<times> (nl_view \<times> 's)" where
  "add_lag_entry swi junk bond st =
     (let (nl, s) = st;
          ((rv, out), s1) = sw_lag_create swi (ln_name bond) (bond_mode junk bond) s
      in if rv < 0 then ((rv, False), nl, s1)
         else
           (let lag_id = (case out of None \<Rightarrow> 0 | Some i \<Rightarrow> i)
            in case fmlookup (nv_ifi2lag nl) (ln_ifindex bond) of
                 None \<Rightarrow> ((sint lag_id, True),
                          nl\<lparr>nv_ifi2lag := fmupd (ln_ifindex bond) lag_id (nv_ifi2lag nl)\<rparr>, s1)
               | Some old \<Rightarrow>
                   ((sint old, True), nl, if lag_id \<noteq> old then snd (sw_lag_remove swi lag_id s1) else s1)))"

definition lag_bridge_port :: "nl_view \<Rightarrow> rtnl_link \<Rightarrow> rtnl_link option" where
  "lag_bridge_port nl bond =
     (if ln_master bond \<noteq> 0 then get_link nl (ln_ifindex bond) AF_BRIDGE else None)"

definition add_lag :: "'s switch_interface \<Rightarrow> (rtnl_link \<Rightarrow> nl_view \<times> 's \<Rightarrow> nl_view \<times> 's) \<Rightarrow> u8 \<Rightarrow>
    rtnl_link \<Rightarrow> nl_view \<times> 's \<Rightarrow> int \<times> (nl_view \<times> 's)" where
  "add_lag swi link_created junk bond st =
     (let ((rv, created), st1) = add_lag_entry swi junk bond st
      in if created
         then (rv, case lag_bridge_port (fst st1) bond of
                     None \<Rightarrow> st1
                   | Some br_link \<Rightarrow> link_created br_link st1)
         else (rv, st1))"

definition remove_lag :: "'s switch_interface \<Rightarrow> rtnl_link \<Rightarrow> nl_view \<times> 's \<Rightarrow> int \<times> (nl_view \<times> 's)" where
  "remove_lag swi bond st =
     (let (nl, s) = st
      in case fmlookup (nv_ifi2lag nl) (ln_ifindex bond) of
           None \<Rightarrow> (- ENODEV, st)
         | Some lag_id \<Rightarrow>
             (let (rv, s1) = sw_lag_remove swi lag_id s
              in if rv < 0 then (rv, nl, s1)
                 else (0, nl\<lparr>nv_ifi2lag := fmdrop (ln_ifindex bond) (nv_ifi2lag nl)\<rparr>, s1)))"

text \<open>The part of \<open>add_lag_member\<close> for a bond whose LAG is known: \<open>it\<close> is the entry of \<open>ifi2lag\<close>.\<close>

definition join_lag :: "'s switch_interface \<Rightarrow> u32 \<Rightarrow> rtnl_link \<Rightarrow> nl_view \<times> 's \<Rightarrow> int \<times> (nl_view \<times> 's)" where
  "join_lag swi lag_id link st =
     (let (nl, s) = st;
          port_id = get_port_id_link nl (Some link)
      in if port_id = 0 then (- EINVAL, st)
         else
           (let nl1 = nl\<lparr>nv_lag_members :=
                  (case fmlookup (nv_lag_members nl) (sint lag_id) of
                     None \<Rightarrow> fm_emplace (sint lag_id) {|port_id|} (nv_lag_members nl)
                   | Some S \<Rightarrow> fmupd (sint lag_id) (finsert port_id S) (nv_lag_members nl))\<rparr>;
                state = (case ln_slave_state link of None \<Rightarrow> 0 | Some x \<Rightarrow> x);
                (rv, s1) = sw_lag_add_member swi lag_id port_id s
            in if rv < 0 then (- EINVAL, nl1, s1)
               else (let (rv, s2) = sw_lag_set_member_active swi lag_id port_id (if state = 0 then 1 else 0) s1
                     in if rv < 0 then (- EINVAL, nl1, s2) else (rv, nl1, s2))))"

text \<open>
  When the bond has no LAG yet, the iterator \<open>it\<close> still points to the end of the map after
  \<open>add_lag\<close>, and \<open>lag_members.find(it->second)\<close> dereferences it, unless the port is ignored. The call of
  \<open>add_l3_configuration\<close> at the end of the source is only made in that case.
\<close>

definition add_lag_member :: "'s switch_interface \<Rightarrow> (rtnl_link \<Rightarrow> nl_view \<times> 's \<Rightarrow> nl_view \<times> 's) \<Rightarrow> u8 \<Rightarrow>
    rtnl_link \<Rightarrow> rtnl_link \<Rightarrow> nl_view \<times> 's \<Rightarrow> (int \<times> (nl_view \<times> 's)) option" where
  "add_lag_member swi link_created junk bond link st =
     (case fmlookup (nv_ifi2lag (fst st)) (ln_ifindex bond) of
        Some lag_id \<Rightarrow> Some (join_lag swi lag_id link st)
      | None \<Rightarrow>
          (let (rv, st1) = add_lag swi link_created junk bond st
           in if rv < 0 then Some (rv, st1)
              else if get_port_id_link (fst st1) (Some link) = 0 then Some (- EINVAL, st1)
              else None))"

definition remove_lag_member :: "'s switch_interface \<Rightarrow> rtnl_link \<Rightarrow> rtnl_link \<Rightarrow>
    nl_view \<times> 's \<Rightarrow> (int \<times> (nl_view \<times> 's)) option" where
  "remove_lag_member swi bond link st =
     (let (nl, s) = st
      in case fmlookup (nv_ifi2lag nl) (ln_ifindex bond) of
           None \<Rightarrow> None
         | Some lag_id \<Rightarrow>
             (let port_id = get_port_id_link nl (Some link)
              in if port_id = 0 then Some (- EINVAL, st)
                 else if fmlookup (nv_lag_members nl) (sint lag_id) = None then Some (- EINVAL, st)
                 else (let (rv, s1) = sw_lag_remove_member swi lag_id port_id s
                       in Some (rv, nl\<lparr>nv_lag_members := fmdrop (sint lag_id) (nv_lag_members nl)\<rparr>, s1))))"

text \<open>
  The variant that looks the bond up; without one the call dereferences a null pointer.
\<close>

definition remove_lag_member_link :: "'s switch_interface \<Rightarrow> rtnl_link \<Rightarrow>
    nl_view \<times> 's \<Rightarrow> (int \<times> (nl_view \<times> 's)) option" where
  "remove_lag_member_link swi link st =
     (case get_link (fst st) (ln_master link) 0 of
        None \<Rightarrow> None
      | Some master \<Rightarrow> remove_lag_member swi master link st)"

text \<open>The read of the old state does not update \<open>rv\<close>, so its failure is not noticed.\<close>

definition update_lag_member :: "'s switch_interface \<Rightarrow> rtnl_link \<Rightarrow> rtnl_link \<Rightarrow>
    nl_view \<times> 's \<Rightarrow> int \<times> (nl_view \<times> 's)" where
  "update_lag_member swi old_slave new_slave st =
     (let (nl, s) = st;
          new_master = get_link nl (ln_master new_slave) 0;
          old_master = get_link nl (ln_master old_slave) 0;
          port_id = get_port_id_link nl (Some new_slave)
      in if old_master \<noteq> new_master \<or> new_master = None then (- EINVAL, st)
         else case ln_slave_state new_slave of
             None \<Rightarrow> (- EINVAL, st)
           | Some new_state \<Rightarrow>
               (0, nl, snd (sw_lag_set_member_active swi (get_port_id_link nl new_master) port_id
                              (if new_state = 0 then 1 else 0) s)))"

subsection \<open>Properties\<close>

text \<open>
  adding a bond that already has a LAG, and is not in a bridge, changes nothing: the LAG that \<open>add_lag\<close> creates on the
  switch is removed again, the maps keep the first LAG id, which is returned.
\<close>

theorem add_lag_idempotent:
  assumes "connected c" and "fmlookup (lag c) (lag_id_next c) = None"
    and "\<forall>h r. \<exists>st. rpc_outcome env h r = Some st \<and> 0 \<le> st"
    and "ln_master bond = 0" and "fmlookup (nv_ifi2lag nl) (ln_ifindex bond) = Some old"
    and "old \<noteq> combine_port_type (lag_id_next c) port_type_lag"
  shows "\<exists>c'. add_lag (controller_swi env) link_created junk bond (nl, c) = (sint old, nl, c') \<and>
    lag c' = lag c \<and>
    (\<exists>r1 r2. trace c' = trace c @
       [Rpc_done (Rpc_TrunkCreate (ln_name bond) (combine_port_type (lag_id_next c) port_type_lag)
          (bond_mode junk bond)) r1,
        Rpc_done (Rpc_TrunkDelete (combine_port_type (lag_id_next c) port_type_lag)) r2])"
proof -
  have "0 \<le> fst (rpc_call env r c)" for r c
    using assms(3) by (simp add: fst_rpc_call) (metis option.simps(5))
  then have no_error: "fst (rpc_call env r c) < 0 \<longleftrightarrow> False" for r c by (simp add: not_less)
  show ?thesis using assms
    by (simp add: add_lag_def add_lag_entry_def lag_bridge_port_def op_defs frame split_beta Let_def no_error get_port_num_combine)
qed

definition bond_controller :: controller where
  "bond_controller = controller_init\<lparr>connected := True, lag := fmupd 1 {||} fmempty, lag_id_next := 2\<rparr>"

theorem add_lag_idempotent_witness:
  "\<exists>c'. add_lag (controller_swi ideal_env) (\<lambda>_ st. st) 0 (plain_link 9) (bond_view, bond_controller) =
          (sint (0x20001 :: u32), bond_view, c') \<and> lag c' = lag bond_controller"
proof -
  have "0x20001 \<noteq> combine_port_type (lag_id_next bond_controller) port_type_lag"
    by (simp add: combine_port_type_def bond_controller_def)
  then show ?thesis
    using add_lag_idempotent [of bond_controller ideal_env "plain_link 9" bond_view "0x20001"
        "\<lambda>_ st. st" 0]
    by (auto simp: bond_controller_def plain_link_def bond_view_def ideal_env_def)
qed

text \<open>
  adding the first port of a bond that has no LAG yet does not end normally. The LAG is
  created, but then the iterator to the end of \<open>ifi2lag\<close> is dereferenced.
\<close>

theorem add_first_lag_member_undefined:
  assumes "fmlookup (nv_ifi2lag nl) (ln_ifindex bond) = None"
    and "add_lag swi link_created junk bond (nl, s) = (rv, nl1, s1)" and "0 \<le> rv"
    and "get_port_id_link nl1 (Some link) \<noteq> 0"
  shows "add_lag_member swi link_created junk bond link (nl, s) = None"
  using assms by (simp add: add_lag_member_def Let_def)

theorem add_first_lag_member_undefined_witness:
  "add_lag_member (controller_swi ideal_env) (\<lambda>_ st. st) 0 (plain_link 8) (plain_link 3)
     (bond_view, bond_controller) = None"
proof (rule add_first_lag_member_undefined)
  let ?nl = "bond_view\<lparr>nv_ifi2lag := fmupd 8 (combine_port_type 2 port_type_lag) (nv_ifi2lag bond_view)\<rparr>"
  show "fmlookup (nv_ifi2lag bond_view) (ln_ifindex (plain_link 8)) = None"
    by (simp add: bond_view_def plain_link_def)
  show "add_lag (controller_swi ideal_env) (\<lambda>_ st. st) 0 (plain_link 8) (bond_view, bond_controller) =
      (sint (combine_port_type 2 port_type_lag), ?nl, snd (snd (add_lag (controller_swi ideal_env)
        (\<lambda>_ st. st) 0 (plain_link 8) (bond_view, bond_controller))))"
    by (simp add: add_lag_def add_lag_entry_def lag_bridge_port_def op_defs split_beta Let_def bond_controller_def bond_view_def
        plain_link_def fst_rpc_call ideal_env_def)
  show "0 \<le> sint (combine_port_type 2 port_type_lag)" by (simp add: combine_port_type_def)
  show "get_port_id_link ?nl (Some (plain_link 3)) \<noteq> 0"
    by (simp add: get_port_id_link_def get_port_id_ifindex_def plain_link_def rtnl_link_is_vlan_def
        bond_view_def get_port_id_def Let_def)
qed

text \<open>
  removing one port from a bond makes the netlink side forget all members of the LAG, while
  the controller keeps the others: the members that \<open>nl_vlan\<close> and \<open>nl_bridge\<close> configure for this LAG
  from then on are none, although ports are still in it.
\<close>

theorem remove_lag_member_forgets_all:
  assumes "fmlookup (nv_ifi2lag nl) (ln_ifindex bond) = Some i" and "is_lag i"
    and "get_port_id_link nl (Some link) = p" and "p \<noteq> 0"
    and "fmlookup (nv_lag_members nl) (sint i) = Some S"
    and "connected c" and "fmlookup (lag c) (get_port_num i) = Some S" and "p |\<in>| S"
  shows "\<exists>rv nl' c'. remove_lag_member (controller_swi env) bond link (nl, c) = Some (rv, nl', c') \<and>
    get_members_by_port_id nl' i = {||} \<and> fmlookup (lag c') (get_port_num i) = Some (S |-| {|p|})"
  using assms
  by (simp add: remove_lag_member_def op_defs frame split_beta Let_def get_members_by_port_id_def)

theorem remove_lag_member_forgets_all_witness:
  "\<exists>rv nl' c'. remove_lag_member (controller_swi ideal_env) (plain_link 9) (plain_link 3)
      (bond_view\<lparr>nv_lag_members := fmupd 0x20001 {|1, 2|} fmempty\<rparr>,
       bond_controller\<lparr>lag := fmupd 1 {|1, 2|} fmempty\<rparr>) = Some (rv, nl', c') \<and>
    get_members_by_port_id nl' 0x20001 = {||} \<and>
    fmlookup (lag c') (get_port_num 0x20001) = Some ({|1, 2|} |-| {|1|})"
  by (rule remove_lag_member_forgets_all)
    (simp_all add: bond_view_def bond_controller_def plain_link_def get_port_type_def get_port_num_def
      get_port_id_link_def get_port_id_ifindex_def rtnl_link_is_vlan_def get_port_id_def Let_def)

end
