(* ===== verification/Swap_Queue.thy ===== *)
theory Swap_Queue
  imports Basebox_Prelude
begin

text \<open>
  Three classes hand work to a thread through a deque in the same way (\<open>tap_io::tx\<close>,
  \<open>cnetlink::handle_source_mac_learn\<close> and \<open>cnetlink::handle_fdb_timeout\<close>). Any thread appends under a
  mutex. The worker swaps the deque with an empty local one under the mutex, serves the front of the local
  deque without it, and when it stops early it copies the rest, in reverse order, to the front of the
  shared deque, which others may have filled meanwhile.

  The locale states what a class has to provide for the elements to be served in the order of their
  arrival, each once; it is interpreted for all three.
\<close>

datatype ('a, 'r, 'o) queue_act =
    Push 'a \<comment> \<open>another thread appends\<close>
  | Swap \<comment> \<open>the worker takes the deque\<close>
  | Serve 'r \<comment> \<open>one round of the worker's loop; the outside answers \<open>'r\<close>\<close>
  | Other 'o \<comment> \<open>a step that does not touch the deque\<close>

text \<open>\<open>std::front_inserter\<close> over the reversed rest restores it in front of the newcomers.\<close>

lemma front_inserter_rev: "foldl (\<lambda>q x. x # q) q (rev xs) = xs @ q"
  by (induction xs arbitrary: q) auto

locale swap_queue =
  fixes queue :: "'s \<Rightarrow> 'a list"
    and accepts :: "'a \<Rightarrow> 's \<Rightarrow> bool"
    and push :: "'a \<Rightarrow> 's \<Rightarrow> 's"
    and grab :: "'s \<Rightarrow> 's"
    and served :: "'s \<Rightarrow> 'a list"
    and start :: "'a list \<Rightarrow> 'l"
    and rest :: "'l \<Rightarrow> 'a list"
    and serve :: "'r \<Rightarrow> 'l \<Rightarrow> 's \<Rightarrow> 'l option \<times> 's"
  assumes push_queue: "queue (push x s) = queue s @ (if accepts x s then [x] else [])"
    and push_served: "served (push x s) = served s"
    and grab_queue: "queue (grab s) = []"
    and grab_served: "served (grab s) = served s"
    and rest_start: "rest (start q) = q"
    and serve_order: "serve r l s = (l', s') \<Longrightarrow>
          served s' @ (case l' of None \<Rightarrow> [] | Some l' \<Rightarrow> rest l') @ queue s' = served s @ rest l @ queue s"
begin

text \<open>Everything that has arrived, oldest first: finished, in the hands of the worker, waiting.\<close>

definition in_order :: "'s \<Rightarrow> 'l option \<Rightarrow> 'a list" where
  "in_order s l = served s @ (case l of None \<Rightarrow> [] | Some l \<Rightarrow> rest l) @ queue s"

lemma push_in_order: "in_order (push x s) l = in_order s l @ (if accepts x s then [x] else [])"
  by (simp add: in_order_def push_queue push_served)

lemma grab_in_order: "in_order (grab s) (Some (start (queue s))) = in_order s None"
  by (simp add: in_order_def grab_queue grab_served rest_start)

lemma serve_in_order: "serve r l s = (l', s') \<Longrightarrow> in_order s' l' = in_order s (Some l)"
  using serve_order [of r l s l' s'] by (simp add: in_order_def)

lemma frame_in_order: "queue s' = queue s \<Longrightarrow> served s' = served s \<Longrightarrow> in_order s' l = in_order s l"
  by (simp add: in_order_def)

end

text \<open>A class whose other operations leave the deque alone: the order holds for every sequence of steps.\<close>

locale swap_queue_steps = swap_queue queue accepts push grab served start rest serve
  for queue :: "'s \<Rightarrow> 'a list" and accepts push grab served
    and start :: "'a list \<Rightarrow> 'l" and rest and serve :: "'r \<Rightarrow> 'l \<Rightarrow> 's \<Rightarrow> 'l option \<times> 's" +
  fixes other :: "'o \<Rightarrow> 's \<Rightarrow> 's"
  assumes other_queue: "queue (other c s) = queue s"
    and other_served: "served (other c s) = served s"
begin

fun act :: "('a, 'r, 'o) queue_act \<Rightarrow> 's \<times> 'l option \<Rightarrow> 's \<times> 'l option" where
  "act (Push x) (s, l) = (push x s, l)"
| "act Swap (s, None) = (grab s, Some (start (queue s)))"
| "act Swap (s, Some l) = (s, Some l)"
| "act (Serve r) (s, None) = (s, None)"
| "act (Serve r) (s, Some l) = (let (l', s') = serve r l s in (s', l'))"
| "act (Other c) (s, l) = (other c s, l)"

fun accepted :: "('a, 'r, 'o) queue_act list \<Rightarrow> 's \<times> 'l option \<Rightarrow> 'a list" where
  "accepted [] c = []"
| "accepted (a # acts) c =
     (case a of Push x \<Rightarrow> (if accepts x (fst c) then [x] else []) | _ \<Rightarrow> []) @ accepted acts (act a c)"

lemma in_order_act:
  "case_prod in_order (act a c) = case_prod in_order c @ accepted [a] c"
proof (cases "(a, c)" rule: act.cases)
  case (5 r s l)
  then show ?thesis using serve_in_order [of r l s] by (auto simp: split_beta Let_def)
next
  case (6 cmd s l)
  then show ?thesis by (simp add: frame_in_order [of "other cmd s" s] other_queue other_served)
qed (auto simp: push_in_order grab_in_order)

text \<open>Nothing is lost, duplicated or overtaken, however the threads interleave.\<close>

lemma arrival_order: "case_prod in_order (fold act acts c) = case_prod in_order c @ accepted acts c"
proof (induction acts arbitrary: c)
  case (Cons a acts)
  then show ?case using in_order_act [of a c] by simp
qed simp

end

end
