(* ===== verification/Tap_Io.thy ===== *)
theory Tap_Io
  imports Swap_Queue Ctl_Packet
begin

text \<open>
  The thread that moves packets between tap devices and the switch (\<open>src/src/netlink/tap_io.cc\<close>). The
  descriptors it watches are part of the state, and \<open>io_log\<close> has the packets it has finished with, oldest
  first, with \<open>True\<close> for those that were written. The result of a system call is a parameter. An access to
  \<open>sw_cbs\<close> out of its range and a failed assertion are \<open>None\<close>.
\<close>

subsection \<open>State\<close>

record tap_io_details =
  tio_fd :: int
  tio_port_id :: u32
  tio_cb :: bool \<comment> \<open>the callback is set\<close>
  tio_mtu :: u32

definition tap_io_details_init :: tap_io_details where
  "tap_io_details_init = \<lparr>tio_fd = -1, tio_port_id = 0, tio_cb = False, tio_mtu = 1500\<rparr>"

datatype tap_io_event = TAP_IO_ADD | TAP_IO_REM

record tap_io =
  pout_queue :: "(int \<times> packet) list"
  io_events :: "(tap_io_event \<times> tap_io_details) list"
  sw_cbs :: "tap_io_details list"
  sw_cbs_reserved :: "tap_io_details list" \<comment> \<open>the storage behind the end of \<open>sw_cbs\<close>, up to its capacity\<close>
  read_fds :: "int fset"
  write_fds :: "int fset"
  io_log :: "((int \<times> packet) \<times> bool) list"

text \<open>
  The constructor resizes \<open>sw_cbs\<close> to one entry for each descriptor the process may have. A vector may get more storage than
  that, whose content is indeterminate: \<open>reserved\<close>.
\<close>

definition tap_io_init :: "nat \<Rightarrow> tap_io_details list \<Rightarrow> tap_io" where
  "tap_io_init rlim_max reserved = \<lparr>pout_queue = [], io_events = [], sw_cbs = replicate rlim_max tap_io_details_init,
     sw_cbs_reserved = reserved, read_fds = {||}, write_fds = {||}, io_log = []\<rparr>"

subsection \<open>Operations of other threads\<close>

definition register_tap :: "tap_io_details \<Rightarrow> tap_io \<Rightarrow> tap_io" where
  "register_tap td s = s\<lparr>io_events := io_events s @ [(TAP_IO_ADD, td)]\<rparr>"

definition unregister_tap :: "int \<Rightarrow> tap_io \<Rightarrow> tap_io" where
  "unregister_tap fd s = s\<lparr>io_events := io_events s @ [(TAP_IO_REM, tap_io_details_init\<lparr>tio_fd := fd\<rparr>)]\<rparr>"

text \<open>The descriptor is compared with the capacity of \<open>sw_cbs\<close>, not with its size.\<close>

definition io_accepts :: "int \<Rightarrow> tap_io \<Rightarrow> bool" where
  "io_accepts fd s \<longleftrightarrow>
     (let storage = sw_cbs s @ sw_cbs_reserved s in 0 \<le> fd \<and> nat fd < length storage \<and> tio_fd (storage ! nat fd) = fd)"

definition io_enqueue :: "int \<Rightarrow> packet \<Rightarrow> tap_io \<Rightarrow> tap_io" where
  "io_enqueue fd pkt s = (if io_accepts fd s then s\<lparr>pout_queue := pout_queue s @ [(fd, pkt)]\<rparr> else s)"

text \<open>The bound of the check admits the descriptor one past the end.\<close>

definition io_update_mtu :: "int \<Rightarrow> u32 \<Rightarrow> tap_io \<Rightarrow> tap_io option" where
  "io_update_mtu fd mtu s =
     (if fd < 0 \<or> nat fd > length (sw_cbs s) then Some s
      else if nat fd < length (sw_cbs s)
      then Some (s\<lparr>sw_cbs := (sw_cbs s)[nat fd := (sw_cbs s ! nat fd)\<lparr>tio_mtu := mtu\<rparr>]\<rparr>)
      else None)"

subsection \<open>The thread\<close>

fun io_event :: "tap_io_event \<times> tap_io_details \<Rightarrow> tap_io \<Rightarrow> tap_io option" where
  "io_event (ev, td) s =
     (if tio_fd td < 0 \<or> length (sw_cbs s) \<le> nat (tio_fd td) then None
      else Some (case ev of
          TAP_IO_ADD \<Rightarrow> s\<lparr>sw_cbs := (sw_cbs s)[nat (tio_fd td) := td], read_fds := finsert (tio_fd td) (read_fds s)\<rparr>
        | TAP_IO_REM \<Rightarrow> s\<lparr>sw_cbs := (sw_cbs s)[nat (tio_fd td) := tap_io_details_init],
                         read_fds := read_fds s |-| {|tio_fd td|}, write_fds := write_fds s |-| {|tio_fd td|}\<rparr>))"

fun io_event_loop :: "(tap_io_event \<times> tap_io_details) list \<Rightarrow> tap_io \<Rightarrow> tap_io option" where
  "io_event_loop [] s = Some s"
| "io_event_loop (e # es) s = (case io_event e s of None \<Rightarrow> None | Some s1 \<Rightarrow> io_event_loop es s1)"

definition io_handle_events :: "tap_io \<Rightarrow> tap_io option" where
  "io_handle_events s = map_option (io_events_update (\<lambda>_. [])) (io_event_loop (io_events s) s)"

datatype write_result = Wrote | Write_EAGAIN | Write_EIO | Write_other

text \<open>One round of the loop of \<open>tx\<close>; \<open>None\<close> when the function returns.\<close>

fun tx_round :: "write_result \<Rightarrow> (int \<times> packet) list \<Rightarrow> tap_io \<Rightarrow> (int \<times> packet) list option \<times> tap_io" where
  "tx_round r [] s = (None, s)"
| "tx_round r (p # q) s =
     (case r of
        Wrote \<Rightarrow> (Some q, s\<lparr>io_log := io_log s @ [(p, True)]\<rparr>)
      | Write_EAGAIN \<Rightarrow>
          (None, s\<lparr>pout_queue := foldl (\<lambda>q x. x # q) (pout_queue s) (rev (p # q)),
                   write_fds := finsert (fst p) (write_fds s)\<rparr>)
      | _ \<Rightarrow> (None, s\<lparr>io_log := io_log s @ map (\<lambda>x. (x, False)) (p # q)\<rparr>))"

text \<open>\<open>wr n\<close> is the result of the \<open>n\<close>-th \<open>write\<close> of the call.\<close>

fun tx_loop :: "(nat \<Rightarrow> write_result) \<Rightarrow> nat \<Rightarrow> (int \<times> packet) list \<Rightarrow> tap_io \<Rightarrow> tap_io" where
  "tx_loop wr n [] s = s"
| "tx_loop wr n (p # q) s =
     (case tx_round (wr n) (p # q) s of
        (None, s1) \<Rightarrow> s1
      | (Some _, s1) \<Rightarrow> tx_loop wr (Suc n) q s1)"

definition tx :: "(nat \<Rightarrow> write_result) \<Rightarrow> tap_io \<Rightarrow> tap_io" where
  "tx wr s = tx_loop wr 0 (pout_queue s) (s\<lparr>pout_queue := []\<rparr>)"

definition io_handle_wakeup :: "(nat \<Rightarrow> write_result) \<Rightarrow> tap_io \<Rightarrow> tap_io option" where
  "io_handle_wakeup wr s = map_option (tx wr) (io_handle_events s)"

definition io_handle_write_event :: "(nat \<Rightarrow> write_result) \<Rightarrow> int \<Rightarrow> tap_io \<Rightarrow> tap_io" where
  "io_handle_write_event wr fd s = tx wr (s\<lparr>write_fds := write_fds s |-| {|fd|}\<rparr>)"

text \<open>
  The length field is unsigned, so the result -1 of a failed \<open>read\<close> counts as a positive length. \<open>buf\<close> is the
  content of the allocated buffer after the call, with \<open>22 + mtu\<close> bytes. The result has the call of
  \<open>enqueue_to_switch\<close>, if there is one.
\<close>

definition io_handle_read_event :: "int \<Rightarrow> u8 list \<Rightarrow> int \<Rightarrow> tap_io \<Rightarrow> (u32 \<times> packet) option option" where
  "io_handle_read_event result buf fd s =
     (if fd < 0 \<or> length (sw_cbs s) \<le> nat fd then Some None
      else
        (let td = sw_cbs s ! nat fd; len = word_of_int result :: u64
         in if len > 0
            then (if tio_cb td then Some (Some (tio_port_id td, \<lparr>pk_len = len, pk_data = buf\<rparr>)) else None)
            else Some None))"

subsection \<open>Packets keep their order\<close>

datatype io_cmd = Io_register tap_io_details | Io_unregister int | Io_write_event int | Io_events

text \<open>The other steps. A crash of \<open>handle_events\<close> ends the run; the model stays where it is.\<close>

fun io_other :: "io_cmd \<Rightarrow> tap_io \<Rightarrow> tap_io" where
  "io_other (Io_register td) s = register_tap td s"
| "io_other (Io_unregister fd) s = unregister_tap fd s"
| "io_other (Io_write_event fd) s = s\<lparr>write_fds := write_fds s |-| {|fd|}\<rparr>"
| "io_other Io_events s = (case io_handle_events s of None \<Rightarrow> s | Some s1 \<Rightarrow> s1)"

type_synonym io_act = "(int \<times> packet, write_result, io_cmd) queue_act"

text \<open>One step of any thread; the local deque of \<open>tx\<close> is \<open>None\<close> outside the function.\<close>

fun io_step :: "io_act \<Rightarrow> tap_io \<times> (int \<times> packet) list option \<Rightarrow> tap_io \<times> (int \<times> packet) list option" where
  "io_step (Push (fd, pkt)) (s, l) = (io_enqueue fd pkt s, l)"
| "io_step Swap (s, None) = (s\<lparr>pout_queue := []\<rparr>, Some (pout_queue s))"
| "io_step Swap (s, Some q) = (s, Some q)"
| "io_step (Serve r) (s, None) = (s, None)"
| "io_step (Serve r) (s, Some q) = (let (l, s1) = tx_round r q s in (s1, l))"
| "io_step (Other c) (s, l) = (io_other c s, l)"

text \<open>The packets that \<open>enqueue\<close> accepts in a run.\<close>

fun io_accepted :: "io_act list \<Rightarrow> tap_io \<times> (int \<times> packet) list option \<Rightarrow> (int \<times> packet) list" where
  "io_accepted [] c = []"
| "io_accepted (a # acts) c =
     (case a of Push p \<Rightarrow> (if io_accepts (fst p) (fst c) then [p] else []) | _ \<Rightarrow> []) @
     io_accepted acts (io_step a c)"

lemma tx_round_order:
  "tx_round r l s = (l', s') \<Longrightarrow>
     map fst (io_log s') @ (case l' of None \<Rightarrow> [] | Some l' \<Rightarrow> l') @ pout_queue s' = map fst (io_log s) @ l @ pout_queue s"
  by (cases "(r, l, s)" rule: tx_round.cases)
     (auto simp del: foldl_append simp: front_inserter_rev comp_def split: write_result.splits
           simp flip: rev.simps(2))

lemma io_event_loop_frame:
  "io_event_loop es s = Some s' \<Longrightarrow> pout_queue s' = pout_queue s \<and> io_log s' = io_log s"
  by (induction es arbitrary: s) (auto split: option.splits if_splits tap_io_event.splits)

lemma io_other_frame: "pout_queue (io_other c s) = pout_queue s" "io_log (io_other c s) = io_log s"
  by (cases c; auto simp: register_tap_def unregister_tap_def io_handle_events_def split: option.split
      dest: io_event_loop_frame)+

interpretation tap_tx: swap_queue_steps pout_queue "\<lambda>x. io_accepts (fst x)" "\<lambda>x. io_enqueue (fst x) (snd x)"
    "pout_queue_update (\<lambda>_. [])" "\<lambda>s. map fst (io_log s)" "\<lambda>q. q" "\<lambda>q. q" tx_round io_other
  by unfold_locales (erule tx_round_order | simp add: io_other_frame io_enqueue_def)+

lemma io_step_is_act: "io_step = tap_tx.act"
proof (intro ext)
  show "io_step a c = tap_tx.act a c" for a c
    by (cases "(a, c)" rule: io_step.cases) auto
qed

lemma io_accepted_is_accepted: "io_accepted acts c = tap_tx.accepted acts c"
  by (induction acts arbitrary: c) (auto simp: io_step_is_act)

lemmas io_run_order = tap_tx.arrival_order [folded io_step_is_act io_accepted_is_accepted]

text \<open>
  C27: The packets for the tap devices are written or dropped in the order in which they were accepted,
  each once, however the threads that append interleave with the rounds of \<open>tx\<close> and whatever the
  kernel answers to each \<open>write\<close>, would-block answers included.
\<close>

theorem tap_packets_in_order:
  "map fst (io_log (fst (fold io_step acts (tap_io_init n reserved, None)))) @
   (case snd (fold io_step acts (tap_io_init n reserved, None)) of None \<Rightarrow> [] | Some q \<Rightarrow> q) @
   pout_queue (fst (fold io_step acts (tap_io_init n reserved, None))) = io_accepted acts (tap_io_init n reserved, None)"
  using io_run_order [of acts "(tap_io_init n reserved, None)"] by (simp add: case_prod_beta tap_tx.in_order_def tap_io_init_def)

text \<open>When the kernel takes every packet, all of them are written.\<close>

lemma tx_all_written:
  "tx (\<lambda>_. Wrote) s = s\<lparr>pout_queue := [], io_log := io_log s @ map (\<lambda>p. (p, True)) (pout_queue s)\<rparr>"
proof -
  have "tx_loop (\<lambda>_. Wrote) n q s = s\<lparr>io_log := io_log s @ map (\<lambda>p. (p, True)) q\<rparr>" for n q s
    by (induction q arbitrary: n s) simp_all
  then show ?thesis by (simp add: tx_def)
qed

text \<open>A call of \<open>tx\<close> is a swap followed by rounds.\<close>

lemma tx_loop_is_rounds: "\<exists>rs. fold io_step (map Serve rs) (s, Some q) = (tx_loop wr n q s, None)"
proof (induction q arbitrary: n s)
  case Nil
  have "fold io_step (map Serve [Wrote]) (s, Some []) = (s, None)" by simp
  then show ?case by (metis tx_loop.simps(1))
next
  case (Cons p q)
  show ?case
  proof (cases "wr n = Wrote")
    case True
    with Cons.IH [of "s\<lparr>io_log := io_log s @ [(p, True)]\<rparr>" "Suc n"] obtain rs where
      "fold io_step (map Serve rs) (s\<lparr>io_log := io_log s @ [(p, True)]\<rparr>, Some q) = (tx_loop wr n (p # q) s, None)"
      by auto
    then have "fold io_step (map Serve (Wrote # rs)) (s, Some (p # q)) = (tx_loop wr n (p # q) s, None)" by simp
    then show ?thesis by blast
  next
    case False
    then have "fold io_step (map Serve [wr n]) (s, Some (p # q)) = (tx_loop wr n (p # q) s, None)"
      by (cases "wr n") simp_all
    then show ?thesis by blast
  qed
qed

lemma tx_is_rounds: "\<exists>rs. fold io_step (Swap # map Serve rs) (s, None) = (tx wr s, None)"
  using tx_loop_is_rounds [of "s\<lparr>pout_queue := []\<rparr>" "pout_queue s" wr 0] by (simp add: tx_def)

lemma tx_in_order: "map fst (io_log (tx wr s)) @ pout_queue (tx wr s) = map fst (io_log s) @ pout_queue s"
proof -
  obtain rs where "fold io_step (Swap # map Serve rs) (s, None) = (tx wr s, None)" using tx_is_rounds by blast
  moreover have "io_accepted (map Serve rs) c = []" for rs c by (induction rs arbitrary: c) simp_all
  ultimately show ?thesis using io_run_order [of "Swap # map Serve rs" "(s, None)"]
    by (simp add: tap_tx.in_order_def del: fold.simps)
qed

subsection \<open>Errors\<close>

text \<open>
  An error on one tap device drops the packets that wait for the others: when a \<open>write\<close> fails with
  \<open>EIO\<close>, as it does for a device that is down, nothing is written any more in this call and the whole
  queue is gone.
\<close>

theorem write_error_drops_all:
  assumes "wr 0 = Write_EIO" and "pout_queue s = p # q"
  shows "tx wr s = s\<lparr>pout_queue := [], io_log := io_log s @ map (\<lambda>x. (x, False)) (p # q)\<rparr>"
  using assms by (simp add: tx_def)

text \<open>A port that is down, and a packet for another one behind it.\<close>

theorem write_error_drops_all_witness:
  "io_log (tx (\<lambda>_. Write_EIO) ((tap_io_init 8 [])\<lparr>pout_queue := [(3, \<lparr>pk_len = 0, pk_data = []\<rparr>), (4, \<lparr>pk_len = 0, pk_data = []\<rparr>)]\<rparr>)) =
     [((3, \<lparr>pk_len = 0, pk_data = []\<rparr>), False), ((4, \<lparr>pk_len = 0, pk_data = []\<rparr>), False)]"
  by (subst write_error_drops_all [of _ _ "(3, \<lparr>pk_len = 0, pk_data = []\<rparr>)" "[(4, \<lparr>pk_len = 0, pk_data = []\<rparr>)]"])
     (simp_all add: tap_io_init_def)

text \<open>
  A \<open>read\<close> that fails is taken for a packet of \<open>2^64 - 1\<close> bytes and handed to the switch; the branch
  that looks at \<open>errno\<close> is reached for the result 0 only.
\<close>

theorem failed_read_forwarded:
  assumes "0 \<le> fd" "nat fd < length (sw_cbs s)" "tio_cb (sw_cbs s ! nat fd)"
  shows "io_handle_read_event (- 1) buf fd s =
    Some (Some (tio_port_id (sw_cbs s ! nat fd), \<lparr>pk_len = - 1, pk_data = buf\<rparr>))"
  using assms by (simp add: io_handle_read_event_def Let_def word_gt_0)

end
