(* ===== verification/Port_Interface.thy ===== *)
theory Port_Interface
  imports Tap_Manager Knet_Manager Tap_Io
begin

text \<open>
  The abstract class \<open>port_manager\<close> (\<open>src/src/netlink/port_manager.h\<close>) as a record of operations, and its two
  implementations. The tap manager is composed with the packet thread it owns: creating and destroying a
  device registers its descriptor there, and so on. \<open>po_base\<close> is the part of the state that the base class
  holds. Operations that can end the program return an option.
\<close>

record 'p port_ops =
  po_base :: "'p \<Rightarrow> port_manager"
  po_create_portdev :: "u32 \<Rightarrow> string \<Rightarrow> mac \<Rightarrow> 'p \<Rightarrow> (int \<times> 'p) option"
  po_destroy_portdev :: "u32 \<Rightarrow> string \<Rightarrow> 'p \<Rightarrow> int \<times> 'p"
  po_enqueue :: "u32 \<Rightarrow> packet \<Rightarrow> 'p \<Rightarrow> 'p"
  po_clear :: "'p \<Rightarrow> 'p"
  po_change_port_status :: "string \<Rightarrow> bool \<Rightarrow> 'p \<Rightarrow> (int \<times> 'p) option"
  po_set_port_speed :: "string \<Rightarrow> u32 \<Rightarrow> u8 \<Rightarrow> 'p \<Rightarrow> int \<times> 'p"
  po_set_offloaded :: "rtnl_link \<Rightarrow> bool \<Rightarrow> 'p \<Rightarrow> int \<times> 'p"
  po_portdev_removed :: "rtnl_link \<Rightarrow> 'p \<Rightarrow> (bool \<times> 'p) option"
  po_portdev_ready :: "rtnl_link \<Rightarrow> 'p \<Rightarrow> (bool \<times> 'p) option"
  po_update_mtu :: "rtnl_link \<Rightarrow> 'p \<Rightarrow> (int \<times> 'p) option"

subsection \<open>Taps\<close>

record tap_ports =
  tp_man :: tap_manager
  tp_io :: tap_io

text \<open>
  The kernel's part: opening a device, setting the carrier, and the three calls of \<open>SIOCETHTOOL\<close> in
  \<open>set_port_speed\<close>; the first also answers the number of mask words and whether the command was kept.
\<close>

record tap_env =
  tun_open :: "string \<Rightarrow> int"
  set_carrier :: "int \<Rightarrow> bool \<Rightarrow> int"
  get_settings :: "string \<Rightarrow> int \<times> int \<times> bool"
  get_settings2 :: "string \<Rightarrow> int"
  set_settings :: "string \<Rightarrow> u32 \<Rightarrow> u8 \<Rightarrow> int"

abbreviation (input) EOPNOTSUPP :: int where "EOPNOTSUPP \<equiv> 95"

definition tap_set_port_speed :: "tap_env \<Rightarrow> string \<Rightarrow> u32 \<Rightarrow> u8 \<Rightarrow> int" where
  "tap_set_port_speed te name speed duplex =
     (let (err, nwords, cmd_kept) = get_settings te name
      in if err < 0 then err
         else if 0 \<le> nwords \<or> \<not> cmd_kept then - EOPNOTSUPP
         else if get_settings2 te name < 0 then get_settings2 te name
         else set_settings te name (speed div 1000) duplex)"

definition tp_create_portdev :: "tap_env \<Rightarrow> u32 \<Rightarrow> string \<Rightarrow> mac \<Rightarrow> tap_ports \<Rightarrow> (int \<times> tap_ports) option" where
  "tp_create_portdev te port_id port_name hwaddr s =
     map_option (\<lambda>(rv, m).
         (rv, \<lparr>tp_man = m,
               tp_io = (if fmlookup (tap_devs (tp_man s)) port_id = None
                        then (case fmlookup (tap_devs m) port_id of
                                None \<Rightarrow> tp_io s
                              | Some dev \<Rightarrow> register_tap \<lparr>tio_fd = td_fd dev, tio_port_id = port_id,
                                  tio_cb = True, tio_mtu = 1500\<rparr> (tp_io s))
                        else tp_io s)\<rparr>))
       (tap_create_portdev (tun_open te) port_id port_name hwaddr (tp_man s))"

definition tp_destroy_portdev :: "u32 \<Rightarrow> string \<Rightarrow> tap_ports \<Rightarrow> int \<times> tap_ports" where
  "tp_destroy_portdev port_id port_name s =
     (let (rv, m) = tap_destroy_portdev port_id port_name (tp_man s)
      in (rv, \<lparr>tp_man = m,
               tp_io = (case fmlookup (tap_devs (tp_man s)) port_id of
                          None \<Rightarrow> tp_io s
                        | Some dev \<Rightarrow> unregister_tap (td_fd dev) (tp_io s))\<rparr>))"

definition tp_enqueue :: "u32 \<Rightarrow> packet \<Rightarrow> tap_ports \<Rightarrow> tap_ports" where
  "tp_enqueue port_id pkt s =
     (let fd = tap_get_fd port_id (tp_man s)
      in if fd < 0 then s else s\<lparr>tp_io := io_enqueue fd pkt (tp_io s)\<rparr>)"

definition tp_update_mtu :: "rtnl_link \<Rightarrow> tap_ports \<Rightarrow> (int \<times> tap_ports) option" where
  "tp_update_mtu link s =
     (case tap_update_mtu link (tp_man s) of
        None \<Rightarrow> None
      | Some (rv, m) \<Rightarrow>
          (case fmlookup (tap_names2fds m) (ln_name link) of
             None \<Rightarrow> Some (rv, s)
           | Some fd \<Rightarrow> map_option (\<lambda>io. (rv, \<lparr>tp_man = m, tp_io = io\<rparr>)) (io_update_mtu fd (ln_mtu link) (tp_io s))))"

text \<open>\<open>portdev_ready\<close> updates the MTU when it has taken the interface.\<close>

definition tp_portdev_ready :: "rtnl_link \<Rightarrow> tap_ports \<Rightarrow> (bool \<times> tap_ports) option" where
  "tp_portdev_ready link s =
     (case tap_portdev_ready link (tp_man s) of
        None \<Rightarrow> None
      | Some (False, m) \<Rightarrow> Some (False, s\<lparr>tp_man := m\<rparr>)
      | Some (True, m) \<Rightarrow> map_option (\<lambda>(_, s1). (True, s1)) (tp_update_mtu link (s\<lparr>tp_man := m\<rparr>)))"

definition tp_portdev_removed :: "tap_env \<Rightarrow> rtnl_link \<Rightarrow> tap_ports \<Rightarrow> (bool \<times> tap_ports) option" where
  "tp_portdev_removed te link s =
     map_option (\<lambda>(b, m). (b, s\<lparr>tp_man := m\<rparr>)) (tap_portdev_removed (tun_open te) link (tp_man s))"

definition tap_ops :: "tap_env \<Rightarrow> tap_ports port_ops" where
  "tap_ops te = \<lparr>
     po_base = (\<lambda>s. port_manager.truncate (tp_man s)),
     po_create_portdev = tp_create_portdev te,
     po_destroy_portdev = tp_destroy_portdev,
     po_enqueue = tp_enqueue,
     po_clear = (\<lambda>s. s\<lparr>tp_man := pm_clear (tp_man s)\<rparr>),
     po_change_port_status = (\<lambda>name status s.
       map_option (\<lambda>rv. (rv, s)) (tap_change_port_status (set_carrier te) name status (tp_man s))),
     po_set_port_speed = (\<lambda>name speed duplex s. (tap_set_port_speed te name speed duplex, s)),
     po_set_offloaded = (\<lambda>link offloaded s. (0, s)),
     po_portdev_removed = tp_portdev_removed te,
     po_portdev_ready = tp_portdev_ready,
     po_update_mtu = tp_update_mtu\<rparr>"

subsection \<open>KNET\<close>

record knet_env =
  link_file :: bool
  knet_create :: "u32 \<Rightarrow> int"
  speed_to_string :: "u32 \<Rightarrow> string"

definition knet_ops :: "knet_env \<Rightarrow> knet_manager port_ops" where
  "knet_ops ke = \<lparr>
     po_base = port_manager.truncate,
     po_create_portdev = knet_create_portdev (link_file ke) (knet_create ke),
     po_destroy_portdev = knet_destroy_portdev,
     po_enqueue = (\<lambda>port_id pkt s. s),
     po_clear = pm_clear,
     po_change_port_status = (\<lambda>name status s. Some (knet_change_port_status (link_file ke) name status s)),
     po_set_port_speed = knet_set_port_speed (link_file ke) (speed_to_string ke),
     po_set_offloaded = knet_set_offloaded (link_file ke),
     po_portdev_removed = knet_portdev_removed,
     po_portdev_ready = knet_portdev_ready,
     po_update_mtu = (\<lambda>link s. Some (0, s))\<rparr>"

subsection \<open>What cnetlink relies on\<close>

text \<open>
  An interface that \<open>portdev_ready\<close> takes belongs to a port from then on, and one that \<open>portdev_removed\<close> gives up to
  none; the other operations leave the map of interfaces alone, except \<open>clear\<close>, which empties it.
\<close>

locale port_class =
  fixes po :: "'p port_ops"
  assumes ready_yes: "po_portdev_ready po link p = Some (True, p') \<Longrightarrow>
      \<exists>i. fmlookup (port_names2id (po_base po p)) (ln_name link) = Some i \<and>
          fmlookup (ifindex_to_id (po_base po p')) (ln_ifindex link) = Some i"
    and ready_no: "po_portdev_ready po link p = Some (False, p') \<Longrightarrow> ifindex_to_id (po_base po p') = ifindex_to_id (po_base po p)"
    and removed_yes: "po_portdev_removed po link p = Some (True, p') \<Longrightarrow>
      ifindex_to_id (po_base po p') = fmdrop (ln_ifindex link) (ifindex_to_id (po_base po p))"
    and removed_no: "po_portdev_removed po link p = Some (False, p') \<Longrightarrow> ifindex_to_id (po_base po p') = ifindex_to_id (po_base po p)"
    and clear_all: "ifindex_to_id (po_base po (po_clear po p)) = fmempty"
    and mtu_keeps: "po_update_mtu po link p = Some (rv, p') \<Longrightarrow> po_base po p' = po_base po p"
    and offload_keeps: "po_base po (snd (po_set_offloaded po link b p)) = po_base po p"
begin

lemma ready_port:
  "po_portdev_ready po link p = Some (True, p') \<Longrightarrow>
     \<exists>i. fmlookup (port_names2id (po_base po p)) (ln_name link) = Some i \<and>
         get_port_id (ln_ifindex link) (po_base po p') = i"
  using ready_yes [of link p p'] by (auto simp: get_port_id_def)

lemma removed_port:
  "po_portdev_removed po link p = Some (True, p') \<Longrightarrow> get_port_id (ln_ifindex link) (po_base po p') = 0"
  using removed_yes [of link p p'] by (simp add: get_port_id_def)

end

lemma truncate_sel [simp]:
  "ifindex_to_id (port_manager.truncate s) = ifindex_to_id s"
  "id_to_ifindex (port_manager.truncate s) = id_to_ifindex s"
  "port_names2id (port_manager.truncate s) = port_names2id s"
  "id_to_hwaddr (port_manager.truncate s) = id_to_hwaddr s"
  "port_deleted (port_manager.truncate s) = port_deleted s"
  by (simp_all add: port_manager.truncate_def)

lemma fst_update_maps: "fmlookup (fst (update_maps p i m)) i = Some p"
  by (cases m) (simp add: update_maps_def Let_def split: option.splits)

interpretation knet_class: port_class "knet_ops ke" for ke
proof unfold_locales
  fix link and p p' :: knet_manager and b rv
  show "\<exists>i. fmlookup (port_names2id (po_base (knet_ops ke) p)) (ln_name link) = Some i \<and>
      fmlookup (ifindex_to_id (po_base (knet_ops ke) p')) (ln_ifindex link) = Some i"
    if "po_portdev_ready (knet_ops ke) link p = Some (True, p')"
    using that by (auto simp: knet_ops_def knet_portdev_ready_def split_beta Let_def fst_update_maps
        split: if_splits option.splits)
  show "ifindex_to_id (po_base (knet_ops ke) p') = ifindex_to_id (po_base (knet_ops ke) p)"
    if "po_portdev_ready (knet_ops ke) link p = Some (False, p')"
    using that by (auto simp: knet_ops_def knet_portdev_ready_def split_beta Let_def split: if_splits option.splits)
  show "ifindex_to_id (po_base (knet_ops ke) p') = fmdrop (ln_ifindex link) (ifindex_to_id (po_base (knet_ops ke) p))"
    if "po_portdev_removed (knet_ops ke) link p = Some (True, p')"
    using that by (auto simp: knet_ops_def knet_portdev_removed_def split: if_splits option.splits)
  show "ifindex_to_id (po_base (knet_ops ke) p') = ifindex_to_id (po_base (knet_ops ke) p)"
    if "po_portdev_removed (knet_ops ke) link p = Some (False, p')"
    using that by (auto simp: knet_ops_def knet_portdev_removed_def split: if_splits option.splits)
qed (auto simp: knet_ops_def pm_clear_def knet_set_offloaded_def port_manager.truncate_def write_link_def)

lemma tap_update_mtu_same: "tap_update_mtu link m = Some (rv, m') \<Longrightarrow> m' = m"
  by (auto simp: tap_update_mtu_def split: option.splits if_splits)

lemma tp_update_mtu_man: "tp_update_mtu link s = Some (rv, s') \<Longrightarrow> tp_man s' = tp_man s"
  by (auto simp: tp_update_mtu_def split: option.splits dest!: tap_update_mtu_same)

interpretation tap_class: port_class "tap_ops te" for te
proof unfold_locales
  fix link and p p' :: tap_ports and b rv
  show "\<exists>i. fmlookup (port_names2id (po_base (tap_ops te) p)) (ln_name link) = Some i \<and>
      fmlookup (ifindex_to_id (po_base (tap_ops te) p')) (ln_ifindex link) = Some i"
    if "po_portdev_ready (tap_ops te) link p = Some (True, p')"
    using that
    by (auto simp: tap_ops_def tp_portdev_ready_def tap_portdev_ready_def split_beta Let_def fst_update_maps
        split: if_splits option.splits bool.splits dest!: tp_update_mtu_man tap_update_mtu_same)
  show "ifindex_to_id (po_base (tap_ops te) p') = ifindex_to_id (po_base (tap_ops te) p)"
    if "po_portdev_ready (tap_ops te) link p = Some (False, p')"
    using that
    by (auto simp: tap_ops_def tp_portdev_ready_def tap_portdev_ready_def split_beta Let_def
        split: if_splits option.splits bool.splits)
  show "ifindex_to_id (po_base (tap_ops te) p') = fmdrop (ln_ifindex link) (ifindex_to_id (po_base (tap_ops te) p))"
    if "po_portdev_removed (tap_ops te) link p = Some (True, p')"
    using that
    by (auto simp: tap_ops_def tp_portdev_removed_def tap_portdev_removed_def Let_def
        split: if_splits option.splits dest!: recreate_maps)
  show "ifindex_to_id (po_base (tap_ops te) p') = ifindex_to_id (po_base (tap_ops te) p)"
    if "po_portdev_removed (tap_ops te) link p = Some (False, p')"
    using that by (auto simp: tap_ops_def tp_portdev_removed_def tap_portdev_removed_def Let_def split: if_splits option.splits)
qed (auto simp: tap_ops_def pm_clear_def dest: tp_update_mtu_man)

subsection \<open>A recreated tap device\<close>

text \<open>
  When a tap device is removed from outside, the manager opens a new one in its place, but does not
  register the new descriptor with the packet thread: unless that descriptor happens to be registered
  already, every packet for the port is dropped from then on, and no descriptor is added to those the
  thread reads.
\<close>

theorem recreated_tap_is_deaf:
  assumes "get_link_type link = LT_TUN"
    and "fmlookup (ifindex_to_id (tp_man s)) (ln_ifindex link) = Some i" and "i \<notin> set (port_deleted (tp_man s))"
    and "fmlookup (tap_devs (tp_man s)) i = Some dev" and "ctapdev (ln_name link) (td_hwaddr dev) = Some dev1"
    and "0 \<le> tun_open te (ln_name link)" and "\<not> io_accepts (tun_open te (ln_name link)) (tp_io s)"
  shows "\<exists>s'. tp_portdev_removed te link s = Some (True, s') \<and> tp_io s' = tp_io s \<and>
    (\<forall>pkt. tp_enqueue i pkt s' = s')"
proof -
  have dev1: "dev1 = \<lparr>td_fd = - 1, td_devname = ln_name link, td_hwaddr = td_hwaddr dev\<rparr>"
    using assms(5) by (auto simp: ctapdev_def split: if_splits)
  then have "tap_open (tun_open te) dev1 = Some (dev1\<lparr>td_fd := tun_open te (ln_name link)\<rparr>)"
    using assms(6) by (simp add: tap_open_def)
  then show ?thesis using assms dev1
    by (auto simp: tp_portdev_removed_def tap_portdev_removed_def recreate_tapdev_def tp_enqueue_def
        tap_get_fd_def io_enqueue_def Let_def)
qed

definition deaf_tap :: tap_ports where
  "deaf_tap = \<lparr>tp_man = tap_manager_init\<lparr>ifindex_to_id := fmupd 12 1 fmempty, id_to_ifindex := fmupd 1 12 fmempty,
       tap_devs := fmupd 1 \<lparr>td_fd = 5, td_devname = ''port1'', td_hwaddr = 7\<rparr> fmempty,
       port_names2id := fmupd ''port1'' 1 fmempty, tap_names2fds := fmupd ''port1'' 5 fmempty\<rparr>,
     tp_io = tap_io_init 8 []\<rparr>"

definition quiet_kernel :: tap_env where
  "quiet_kernel = \<lparr>tun_open = (\<lambda>_. 6), set_carrier = (\<lambda>_ _. 0), get_settings = (\<lambda>_. (0, -1, True)),
     get_settings2 = (\<lambda>_. 0), set_settings = (\<lambda>_ _ _. 0)\<rparr>"

theorem recreated_tap_is_deaf_witness:
  "\<exists>s'. tp_portdev_removed quiet_kernel (tap_link 12 ''port1'') deaf_tap = Some (True, s') \<and>
    tp_io s' = tp_io deaf_tap \<and> tp_enqueue 1 \<lparr>pk_len = 1, pk_data = [0]\<rparr> s' = s'"
proof -
  have "\<exists>s'. tp_portdev_removed quiet_kernel (tap_link 12 ''port1'') deaf_tap = Some (True, s') \<and>
      tp_io s' = tp_io deaf_tap \<and> (\<forall>pkt. tp_enqueue 1 pkt s' = s')"
    by (rule recreated_tap_is_deaf
        [where dev = "\<lparr>td_fd = 5, td_devname = ''port1'', td_hwaddr = 7\<rparr>"
           and ?dev1.0 = "\<lparr>td_fd = - 1, td_devname = ''port1'', td_hwaddr = 7\<rparr>"])
       (simp_all add: deaf_tap_def quiet_kernel_def tap_manager_init_def tap_io_init_def io_accepts_def
          tap_io_details_init_def ctapdev_def)
  then show ?thesis by blast
qed

end
