(* ===== verification/Cnetlink.thy ===== *)
theory Cnetlink
  imports Nl_Bridge Nl_Bond Port_Interface
begin

text \<open>
  The class that owns the netlink side (\<open>src/src/netlink/cnetlink.cc\<close>): it keeps the libnl caches and the queue of
  changes, and it hands each change to the component it concerns. The queries of the class are the theory
  \<open>Nl_View\<close>; here is everything that changes state.

  One state holds all components: \<open>nl_l3\<close>, \<open>nl_vlan\<close>, \<open>nl_vxlan\<close>, \<open>nl_bridge\<close> and the switch from \<open>br_state\<close>, and in
  addition \<open>nl_bond\<close>, the port manager, the caches and the pending changes. The pointer \<open>bridge\<close> is null exactly when the
  object in the state has no bridge link: the only place that creates the object sets the link at once.
  \<open>None\<close> is a failed assertion, a fatal log message or the use of a null pointer.
\<close>

subsection \<open>State\<close>

datatype nl_object =
    Obj_link rtnl_link
  | Obj_neigh rtnl_neigh
  | Obj_route rtnl_route
  | Obj_nh rtnl_nh
  | Obj_addr rtnl_addr
  | Obj_mdb rtnl_mdb
  | Obj_bvlan rtnl_bridge_vlan

datatype nl_act = NL_ACT_NEW | NL_ACT_DEL | NL_ACT_CHANGE

record nl_obj =
  no_action :: nl_act
  no_old :: "nl_object option"
  no_new :: "nl_object option"

definition get_obj :: "nl_obj \<Rightarrow> nl_object option" where
  "get_obj x = (case no_action x of NL_ACT_DEL \<Rightarrow> no_old x | NL_ACT_CHANGE \<Rightarrow> no_new x | NL_ACT_NEW \<Rightarrow> no_new x)"

record nl_caches =
  ca_links :: "rtnl_link list"
  ca_neighs :: "rtnl_neigh list"
  ca_addrs :: "rtnl_addr list"
  ca_routes :: "rtnl_route list"
  ca_nhs :: "rtnl_nh list"
  ca_bvlans :: "rtnl_bridge_vlan list"

text \<open>\<open>st_objs\<close> is the queue of changes as the queries see it; the thread that owns it is the theory \<open>Netlink_Thread\<close>.\<close>

record ('s, 'p) cn_state = "'s br_state" +
  st_caches :: nl_caches
  st_objs :: "nl_obj list"
  st_ports :: 'p
  st_ifi2lag :: "(int, u32) fmap"
  st_lag_members :: "(int, u32 fset) fmap"
  st_ignored :: "int fset"

record ('s, 'p) cn_env =
  ce_l3 :: l3_env
  ce_br :: br_env
  ce_swi :: "'s switch_interface"
  ce_po :: "'p port_ops"
  ce_offload :: bool \<comment> \<open>\<open>FLAGS_mark_fwd_offload\<close>\<close>
  ce_multicast :: bool \<comment> \<open>\<open>FLAGS_multicast\<close>\<close>
  ce_junk :: "u8 \<times> u8" \<comment> \<open>uninitialised bond modes\<close>

definition cnetlink_init :: "'s \<Rightarrow> 'p \<Rightarrow> nl_caches \<Rightarrow> ('s, 'p) cn_state" where
  "cnetlink_init s p ca = \<lparr>st_l3 = nl_l3_init, st_vlan = nl_vlan_init, st_sw = s, st_vxlan = nl_vxlan_init,
     st_bridge = nl_bridge_init, st_nl_sent = [], st_caches = ca, st_objs = [], st_ports = p, st_ifi2lag = fmempty,
     st_lag_members = fmempty, st_ignored = {||}\<rparr>"

text \<open>What the queries see: a pending deletion is still found, a route also when it is replaced.\<close>

definition deleted_objs :: "nl_obj list \<Rightarrow> nl_object list" where
  "deleted_objs os = List.map_filter (\<lambda>x. if no_action x = NL_ACT_DEL then no_old x else None) os"

definition old_objs :: "nl_obj list \<Rightarrow> nl_object list" where
  "old_objs os = List.map_filter (\<lambda>x. if no_action x = NL_ACT_NEW then None else no_old x) os"

definition cn_view :: "('s, 'p) cn_env \<Rightarrow> ('s, 'p, 'm) cn_state_scheme \<Rightarrow> nl_view" where
  "cn_view ce st = \<lparr>
     nv_links = ca_links (st_caches st),
     nv_deleted = List.map_filter (\<lambda>x. case x of Obj_link l \<Rightarrow> Some l | _ \<Rightarrow> None) (deleted_objs (st_objs st)),
     nv_neighs = ca_neighs (st_caches st),
     nv_deleted_neighs = List.map_filter (\<lambda>x. case x of Obj_neigh n \<Rightarrow> Some n | _ \<Rightarrow> None) (deleted_objs (st_objs st)),
     nv_addrs = ca_addrs (st_caches st),
     nv_routes = ca_routes (st_caches st),
     nv_old_routes = List.map_filter (\<lambda>x. case x of Obj_route r \<Rightarrow> Some r | _ \<Rightarrow> None) (old_objs (st_objs st)),
     nv_nhs = ca_nhs (st_caches st),
     nv_bvlans = ca_bvlans (st_caches st),
     nv_ports = po_base (ce_po ce) (st_ports st),
     nv_ifi2lag = st_ifi2lag st,
     nv_lag_members = st_lag_members st,
     nv_bridge = br_link (st_bridge st),
     nv_vni2tunnel = vni2tunnel (st_vxlan st)\<rparr>"

text \<open>Calls into \<open>nl_bond\<close>, into \<open>nl_vlan\<close> where no code is returned, and the parameters that recur.\<close>

definition call_bond :: "('s, 'p) cn_env \<Rightarrow> (nl_view \<times> 's \<Rightarrow> 'r \<times> (nl_view \<times> 's)) \<Rightarrow> ('s, 'p, 'm) cn_state_scheme \<Rightarrow>
    'r \<times> ('s, 'p, 'm) cn_state_scheme" where
  "call_bond ce f st =
     (let (r, nl, s) = f (cn_view ce st, st_sw st)
      in (r, st\<lparr>st_sw := s, st_ifi2lag := nv_ifi2lag nl, st_lag_members := nv_lag_members nl\<rparr>))"

definition call_bond_opt :: "('s, 'p) cn_env \<Rightarrow> (nl_view \<times> 's \<Rightarrow> ('r \<times> (nl_view \<times> 's)) option) \<Rightarrow>
    ('s, 'p, 'm) cn_state_scheme \<Rightarrow> ('s, 'p, 'm) cn_state_scheme option" where
  "call_bond_opt ce f st =
     map_option (\<lambda>r. snd (call_bond ce (\<lambda>_. r) st)) (f (cn_view ce st, st_sw st))"

definition upd_vlan :: "(nl_vlan \<times> 's \<Rightarrow> nl_vlan \<times> 's) \<Rightarrow> ('s, 'm) l3_state_scheme \<Rightarrow> ('s, 'm) l3_state_scheme" where
  "upd_vlan f st = snd (call_vlan (\<lambda>x. ((), f x)) st)"

definition upd_sw :: "('s \<Rightarrow> int \<times> 's) \<Rightarrow> ('s, 'm) l3_state_scheme \<Rightarrow> ('s, 'm) l3_state_scheme" where
  "upd_sw f st = snd (call_sw f st)"

abbreviation untagged_of :: "('s, 'p) cn_env \<Rightarrow> int" where
  "untagged_of ce \<equiv> untagged_vid (ce_l3 ce)"

definition cn_vx_add :: "('s, 'p) cn_env \<Rightarrow> nl_view \<Rightarrow> ('s, 'm) neigh_adder" where
  "cn_vx_add ce nl = vx_add_l2_neigh 2 (ce_l3 ce) (ce_br ce) nl (ce_swi ce)"

definition cn_vx_nh :: "('s, 'p) cn_env \<Rightarrow> nl_view \<Rightarrow> rtnl_neigh \<Rightarrow> nh_params \<Rightarrow> ('s, 'm) vx_state_scheme \<Rightarrow>
    ('s, 'm) vx_state_scheme option" where
  "cn_vx_nh ce nl = vx_nh_reachable_notification (ce_l3 ce) nl (ce_swi ce)"

definition cn_vx_net :: "('s, 'p) cn_env \<Rightarrow> nl_view \<Rightarrow> net_params \<Rightarrow> ('s, 'm) vx_state_scheme \<Rightarrow>
    ('s, 'm) vx_state_scheme option" where
  "cn_vx_net ce nl = vx_net_reachable_notification (ce_l3 ce) nl (ce_swi ce)"

subsection \<open>L3 configuration of a link\<close>

type_synonym ('s, 'p, 'm) cn_result = "(int \<times> ('s, 'p, 'm) cn_state_scheme) option"

definition add_l3_address :: "('s, 'p) cn_env \<Rightarrow> rtnl_addr \<Rightarrow> ('s, 'p, 'm) cn_state_scheme \<Rightarrow> ('s, 'p, 'm) cn_result" where
  "add_l3_address ce a st =
     (if ad_family a = AF_INET then add_l3_addr (ce_l3 ce) (cn_view ce st) (ce_swi ce) a st
      else if ad_family a = AF_INET6 then add_l3_addr_v6 (ce_l3 ce) (cn_view ce st) (ce_swi ce) a st
      else Some (- EINVAL, st))"

definition add_l3_addresses :: "('s, 'p) cn_env \<Rightarrow> rtnl_link \<Rightarrow> ('s, 'p, 'm) cn_state_scheme \<Rightarrow> ('s, 'p, 'm) cn_result" where
  "add_l3_addresses ce link st =
     foreach_opt (\<lambda>a (_, st). add_l3_address ce a st) (get_l3_addrs (cn_view ce st) link AF_UNSPEC) (0, st)"

definition remove_l3_addresses :: "('s, 'p) cn_env \<Rightarrow> rtnl_link \<Rightarrow> ('s, 'p, 'm) cn_state_scheme \<Rightarrow> ('s, 'p, 'm) cn_result" where
  "remove_l3_addresses ce link st =
     foreach_opt (\<lambda>a (_, st). del_l3_addr (ce_l3 ce) (cn_view ce st) (ce_swi ce) a st)
       (get_l3_addrs (cn_view ce st) link AF_UNSPEC) (0, st)"

abbreviation inet_family :: "int \<Rightarrow> bool" where
  "inet_family f \<equiv> f = AF_INET \<or> f = AF_INET6"

definition add_l3_routes :: "('s, 'p) cn_env \<Rightarrow> rtnl_link \<Rightarrow> ('s, 'p, 'm) cn_state_scheme \<Rightarrow> ('s, 'p, 'm) cn_result" where
  "add_l3_routes ce link st =
     foreach_opt (\<lambda>r (_, st).
         if inet_family (rt_family r)
         then add_l3_route (ce_l3 ce) (cn_view ce st) (ce_swi ce) (cn_vx_nh ce (cn_view ce st)) (cn_vx_net ce (cn_view ce st)) r st
         else Some (- EINVAL, st))
       (get_l3_routes (cn_view ce st) link) (0, st)"

definition remove_l3_routes :: "('s, 'p) cn_env \<Rightarrow> rtnl_link \<Rightarrow> ('s, 'p, 'm) cn_state_scheme \<Rightarrow> ('s, 'p, 'm) cn_result" where
  "remove_l3_routes ce link st =
     foreach_opt (\<lambda>r (_, st).
         if inet_family (rt_family r)
         then del_l3_route (ce_l3 ce) (cn_view ce st) (ce_swi ce) r st
         else Some (- EINVAL, st))
       (get_l3_routes (cn_view ce st) link) (0, st)"

text \<open>The link and the VLAN devices on top of it.\<close>

definition with_vlan_links :: "nl_view \<Rightarrow> rtnl_link \<Rightarrow> rtnl_link list" where
  "with_vlan_links nl link = link # get_vlan_links nl (ln_ifindex link)"

definition add_l3_configuration :: "('s, 'p) cn_env \<Rightarrow> rtnl_link \<Rightarrow> ('s, 'p, 'm) cn_state_scheme \<Rightarrow> ('s, 'p, 'm) cn_result" where
  "add_l3_configuration ce link st =
     foreach_opt (\<lambda>l (_, st). do {
         (_, st1) \<leftarrow> add_l3_addresses ce l st;
         add_l3_routes ce l st1
       }) (with_vlan_links (cn_view ce st) link) (0, st)"

definition remove_l3_configuration :: "('s, 'p) cn_env \<Rightarrow> rtnl_link \<Rightarrow> ('s, 'p, 'm) cn_state_scheme \<Rightarrow> ('s, 'p, 'm) cn_result" where
  "remove_l3_configuration ce link st =
     foreach_opt (\<lambda>l (_, st). do {
         (_, st1) \<leftarrow> remove_l3_routes ce l st;
         remove_l3_addresses ce l st1
       }) (with_vlan_links (cn_view ce st) link) (0, st)"

definition update_on_mac_change :: "('s, 'p) cn_env \<Rightarrow> rtnl_link \<Rightarrow> rtnl_link \<Rightarrow> ('s, 'p, 'm) cn_state_scheme \<Rightarrow>
    ('s, 'p, 'm) cn_result" where
  "update_on_mac_change ce old_link new_link st =
     (let nl = cn_view ce st;
          port_id = get_port_id_link nl (Some old_link);
          vid = get_vid nl (untagged_of ce) old_link
      in do {
        (_, st1) \<leftarrow> update_l3_termination (ce_swi ce) port_id vid (ln_addr old_link) (ln_addr new_link) st;
        Some (update_l3_egress (ce_l3 ce) (ce_swi ce) port_id vid (ln_addr old_link) (ln_addr new_link) st1)
      })"

definition has_l3_addresses :: "nl_view \<Rightarrow> rtnl_link \<Rightarrow> bool" where
  "has_l3_addresses nl link \<longleftrightarrow> get_l3_addrs nl link AF_UNSPEC \<noteq> []"

subsection \<open>Bonds\<close>

text \<open>
  \<open>nl_bond::add_lag\<close> and \<open>add_lag_member\<close> with the call back into this class; \<open>created\<close> is \<open>link_created\<close>. As
  in \<open>nl_bond\<close>, the first member of a bond without a LAG dereferences an end iterator.
\<close>

definition cn_add_lag :: "('s, 'p) cn_env \<Rightarrow> (rtnl_link \<Rightarrow> ('s, 'p, 'm) cn_state_scheme \<Rightarrow> ('s, 'p, 'm) cn_state_scheme option) \<Rightarrow>
    rtnl_link \<Rightarrow> ('s, 'p, 'm) cn_state_scheme \<Rightarrow> ('s, 'p, 'm) cn_result" where
  "cn_add_lag ce created bond st =
     (let ((rv, complete), st1) = call_bond ce (add_lag_entry (ce_swi ce) (fst (ce_junk ce)) bond) st
      in if complete
         then (case lag_bridge_port (cn_view ce st1) bond of
                 None \<Rightarrow> Some (rv, st1)
               | Some l \<Rightarrow> map_option (Pair rv) (created l st1))
         else Some (rv, st1))"

definition cn_add_lag_member :: "('s, 'p) cn_env \<Rightarrow> (rtnl_link \<Rightarrow> ('s, 'p, 'm) cn_state_scheme \<Rightarrow> ('s, 'p, 'm) cn_state_scheme option) \<Rightarrow>
    rtnl_link \<Rightarrow> rtnl_link \<Rightarrow> ('s, 'p, 'm) cn_state_scheme \<Rightarrow> ('s, 'p, 'm) cn_result" where
  "cn_add_lag_member ce created bond link st =
     (case fmlookup (st_ifi2lag st) (ln_ifindex bond) of
        Some lag_id \<Rightarrow> Some (call_bond ce (join_lag (ce_swi ce) lag_id link) st)
      | None \<Rightarrow>
          do {
            (rv, st1) \<leftarrow> cn_add_lag ce created bond st;
            if rv < 0 then Some (rv, st1)
            else if get_port_id_link (cn_view ce st1) (Some link) = 0 then Some (- EINVAL, st1)
            else None
          })"

subsection \<open>A new link\<close>

text \<open>The bridge and whether it is new, or \<open>None\<close> when the port is ignored from here on.\<close>

definition select_bridge :: "('s, 'p) cn_env \<Rightarrow> int \<Rightarrow> rtnl_link option \<Rightarrow> ('s, 'p, 'm) cn_state_scheme \<Rightarrow>
    (bool option \<times> ('s, 'p, 'm) cn_state_scheme) option" where
  "select_bridge ce master br_link0 st =
     (case br_link (st_bridge st) of
        Some b \<Rightarrow>
          Some (if ln_ifindex b = master then (Some False, st)
                else (None, st\<lparr>st_ignored := finsert master (st_ignored st)\<rparr>))
      | None \<Rightarrow>
          do {
            br \<leftarrow> br_link0;
            if ln_vlan_filtering br \<noteq> Some 1 then Some (None, st\<lparr>st_ignored := finsert master (st_ignored st)\<rparr>)
            else do {
              let st1 = st\<lparr>st_bridge := nl_bridge_init\<rparr>;
              st2 \<leftarrow> set_bridge_interface (ce_br ce) (cn_view ce st1) (ce_swi ce) br st1;
              let nl = cn_view ce st2;
              st3 \<leftarrow> vx_register_bridge (ce_l3 ce) nl (ce_swi ce)
                       (update_access_ports (ce_br ce) nl (ce_swi ce) (cn_vx_add ce nl)) True st2;
              Some (Some True, st3)
            }
          })"

definition bridge_slave_created :: "('s, 'p) cn_env \<Rightarrow> rtnl_link \<Rightarrow> ('s, 'p, 'm) cn_state_scheme \<Rightarrow>
    ('s, 'p, 'm) cn_state_scheme option" where
  "bridge_slave_created ce link st =
     (let master = ln_master link
      in if master = 0 \<or> master |\<in>| st_ignored st then Some st
         else do {
           base_link \<leftarrow> get_link (cn_view ce st) (ln_ifindex link) AF_UNSPEC;
           if \<not> is_switch_interface (cn_view ce st) base_link then Some st
           else do {
             let br = get_link_by_ifindex (cn_view ce st) master;
             (selected, st1) \<leftarrow> select_bridge ce master br st;
             case selected of
               None \<Rightarrow> Some st1
             | Some new_bridge \<Rightarrow>
                 do {
                   (_, st2) \<leftarrow> (if rtnl_link_is_vxlan base_link \<and> \<not> new_bridge
                                then create_endpoint (ce_l3 ce) (cn_view ce st1) (ce_swi ce) base_link (Some link) st1
                                else Some (0, st1));
                   let st3 = snd (call_vlan (disable_vlans (cn_view ce st2) (ce_swi ce) (untagged_of ce) link) st2);
                   st4 \<leftarrow> add_interface (ce_br ce) (cn_view ce st3) (ce_swi ce) (cn_vx_add ce (cn_view ce st3)) link st3;
                   if new_bridge
                   then do { br_link1 \<leftarrow> br; map_option snd (add_l3_configuration ce br_link1 st4) }
                   else Some st4
                 }
           }
         })"

text \<open>A link of any other kind may be a port: it is given its configuration, administratively down.\<close>

definition port_link_created :: "('s, 'p) cn_env \<Rightarrow> rtnl_link \<Rightarrow> ('s, 'p, 'm) cn_state_scheme \<Rightarrow>
    ('s, 'p, 'm) cn_state_scheme option" where
  "port_link_created ce link st =
     do {
       (handled, p) \<leftarrow> po_portdev_ready (ce_po ce) link (st_ports st);
       let st1 = st\<lparr>st_ports := p\<rparr>;
       if handled
       then
         (let port_id = get_port_id_link (cn_view ce st1) (Some link);
              st2 = st1\<lparr>st_ports := snd (po_set_offloaded (ce_po ce) link (ce_offload ce) p)\<rparr>;
              mode = SAI_BRIDGE_PORT_FDB_LEARNING_MODE_FDB_LOG_NOTIFICATION;
              hwaddr = get_hwaddr port_id (po_base (ce_po ce) (st_ports st2));
              st3 = upd_sw (sw_port_set_config (ce_swi ce) port_id hwaddr False) st2;
              st4 = upd_sw (sw_port_set_learn (ce_swi ce) port_id mode) st3
          in Some (upd_sw (sw_port_set_move_learn (ce_swi ce) port_id mode) st4))
       else Some st1
     }"

text \<open>
  The body of \<open>link_created\<close>, which can call itself through \<open>add_lag\<close>: \<open>created\<close> stands for that call. In \<open>link_created\<close>
  the first argument is the number of levels, and below the last one there is nothing to call (\<open>None\<close>); \<open>link_created_depth\<close>
  of \<open>Cnetlink_Props\<close> shows that the second level never calls further.
\<close>

definition link_created_body :: "('s, 'p) cn_env \<Rightarrow>
    (rtnl_link \<Rightarrow> ('s, 'p, 'm) cn_state_scheme \<Rightarrow> ('s, 'p, 'm) cn_state_scheme option) \<Rightarrow>
    rtnl_link \<Rightarrow> ('s, 'p, 'm) cn_state_scheme \<Rightarrow> ('s, 'p, 'm) cn_state_scheme option" where
  [simp]: "link_created_body ce created link st =
     (if ln_family link = AF_INET6 then Some st
      else case get_link_type link of
          LT_BRIDGE_SLAVE \<Rightarrow> bridge_slave_created ce link st
        | LT_VXLAN \<Rightarrow> Some (snd (create_vni (ce_swi ce) link st))
        | LT_VLAN \<Rightarrow> Some (snd (call_vlan (add_vlan (cn_view ce st) (ce_swi ce) link (ln_vlan_id link) True) st))
        | LT_BOND \<Rightarrow> map_option snd (cn_add_lag ce created link st)
        | LT_VRF \<Rightarrow> Some st
        | _ \<Rightarrow> port_link_created ce link st)"

fun link_created :: "nat \<Rightarrow> ('s, 'p) cn_env \<Rightarrow> rtnl_link \<Rightarrow> ('s, 'p, 'm) cn_state_scheme \<Rightarrow>
    ('s, 'p, 'm) cn_state_scheme option" where
  "link_created 0 ce link st = None"
| "link_created (Suc k) ce link st = link_created_body ce (link_created k ce) link st"

subsection \<open>A changed link\<close>

text \<open>\<open>nl_interface::changed\<close>.\<close>

definition iface_changed :: "('s, 'p) cn_env \<Rightarrow> rtnl_link \<Rightarrow> rtnl_link \<Rightarrow> ('s, 'p, 'm) cn_state_scheme \<Rightarrow>
    ('s, 'p, 'm) cn_state_scheme option" where
  "iface_changed ce old_link new_link st =
     (if ln_mtu old_link \<noteq> ln_mtu new_link
      then map_option (\<lambda>(_, p). st\<lparr>st_ports := p\<rparr>) (po_update_mtu (ce_po ce) new_link (st_ports st))
      else Some st)"

definition bond_slave_updated :: "('s, 'p) cn_env \<Rightarrow> u32 \<Rightarrow> rtnl_link \<Rightarrow> rtnl_link \<Rightarrow> ('s, 'p, 'm) cn_state_scheme \<Rightarrow>
    ('s, 'p, 'm) cn_state_scheme option" where
  "bond_slave_updated ce port_id old_link new_link st =
     (if get_link_type new_link = LT_BOND_SLAVE
      then Some (snd (call_bond ce (update_lag_member (ce_swi ce) old_link new_link) st))
      else if port_id \<noteq> 0
      then do {
        bond \<leftarrow> get_link (cn_view ce st) (ln_master old_link) AF_UNSPEC;
        let st1 = upd_sw (bond_member_detached (cn_view ce st) (ce_swi ce) (untagged_of ce) bond old_link (st_vlan st)) st;
        st2 \<leftarrow> (if br_link (st_bridge st1) = None then Some st1
                else map_option snd (br_bond_member_detached (ce_br ce) (cn_view ce st1) (ce_swi ce) bond old_link st1));
        call_bond_opt ce (remove_lag_member_link (ce_swi ce) old_link) st2
      }
      else Some st)"

text \<open>
  A port that joins a bond. The MTU of a port of any other kind is followed in the same branch.
\<close>

definition port_updated :: "('s, 'p) cn_env \<Rightarrow> u32 \<Rightarrow> rtnl_link \<Rightarrow> rtnl_link \<Rightarrow> ('s, 'p, 'm) cn_state_scheme \<Rightarrow>
    ('s, 'p, 'm) cn_state_scheme option" where
  "port_updated ce port_id old_link new_link st =
     (if port_id = 0 then Some st
      else do {
        st1 \<leftarrow> (if get_link_type new_link = LT_BOND_SLAVE
                then do {
                  bond \<leftarrow> get_link (cn_view ce st) (ln_master new_link) AF_UNSPEC;
                  (_, st1) \<leftarrow> cn_add_lag_member ce (link_created 2 ce) bond new_link st;
                  st2 \<leftarrow> (if br_link (st_bridge st1) = None then Some st1
                          else map_option snd (br_bond_member_attached (ce_br ce) (cn_view ce st1) (ce_swi ce) bond new_link st1));
                  Some (upd_sw (bond_member_attached (cn_view ce st2) (ce_swi ce) (untagged_of ce) bond new_link (st_vlan st2)) st2)
                }
                else Some st);
        iface_changed ce old_link new_link st1
      })"

definition vrf_slave_updated :: "('s, 'p) cn_env \<Rightarrow> rtnl_link \<Rightarrow> rtnl_link \<Rightarrow> ('s, 'p, 'm) cn_state_scheme \<Rightarrow>
    ('s, 'p, 'm) cn_state_scheme option" where
  "vrf_slave_updated ce old_link new_link st =
     (if get_link_type new_link = LT_VLAN
      then do {
        (_, st1) \<leftarrow> remove_l3_routes ce old_link st;
        (_, st2) \<leftarrow> remove_l3_addresses ce old_link st1;
        Some (upd_vlan (vrf_detach (cn_view ce st2) (ce_swi ce) (untagged_of ce) new_link) st2)
      }
      else if get_link_type new_link = LT_VRF_SLAVE
      then Some (upd_vlan (vrf_attach (cn_view ce st) (ce_swi ce) (untagged_of ce) new_link) st)
      else Some st)"

definition vlan_link_updated :: "('s, 'p) cn_env \<Rightarrow> rtnl_link \<Rightarrow> rtnl_link \<Rightarrow> ('s, 'p, 'm) cn_state_scheme \<Rightarrow>
    ('s, 'p, 'm) cn_state_scheme option" where
  "vlan_link_updated ce old_link new_link st =
     (if get_link_type new_link \<noteq> LT_VRF_SLAVE then Some st
      else do {
        (_, st1) \<leftarrow> remove_l3_routes ce old_link st;
        (_, st2) \<leftarrow> remove_l3_addresses ce old_link st1;
        Some (upd_vlan (vrf_attach (cn_view ce st2) (ce_swi ce) (untagged_of ce) new_link) st2)
      })"

definition bridge_link_updated :: "('s, 'p) cn_env \<Rightarrow> rtnl_link \<Rightarrow> rtnl_link \<Rightarrow> ('s, 'p, 'm) cn_state_scheme \<Rightarrow>
    ('s, 'p, 'm) cn_state_scheme option" where
  "bridge_link_updated ce old_link new_link st =
     (let age = (\<lambda>l. case ln_ageing_time l of None \<Rightarrow> 0 | Some t \<Rightarrow> t)
      in case br_link (st_bridge st) of
          None \<Rightarrow> Some st
        | Some b \<Rightarrow>
            if ln_ifindex new_link \<noteq> ln_ifindex b then Some st
            else if age old_link \<noteq> age new_link then set_ageing_time (cn_view ce st) (ce_swi ce) (age new_link) st
            else Some st)"

definition link_updated :: "('s, 'p) cn_env \<Rightarrow> rtnl_link \<Rightarrow> rtnl_link \<Rightarrow> ('s, 'p, 'm) cn_state_scheme \<Rightarrow>
    ('s, 'p, 'm) cn_state_scheme option" where
  "link_updated ce old_link new_link st =
     (if ln_family old_link = AF_INET6 \<or> ln_family new_link = AF_INET6 then Some st
      else do {
        (_, st1) \<leftarrow> (if ln_addr old_link \<noteq> ln_addr new_link \<and> is_switch_interface (cn_view ce st) old_link
                     then update_on_mac_change ce old_link new_link st
                     else Some (0, st));
        if ln_family old_link \<noteq> ln_family new_link then Some st1
        else do {
          let port_id = get_port_id (ln_ifindex new_link) (po_base (ce_po ce) (st_ports st1));
          let hwaddr = get_hwaddr port_id (po_base (ce_po ce) (st_ports st1));
          let st2 = (if port_id \<noteq> 0 \<and> ln_up old_link \<noteq> ln_up new_link
                     then upd_sw (sw_port_set_config (ce_swi ce) port_id hwaddr (ln_up new_link)) st1
                     else st1);
          case get_link_type old_link of
            LT_BOND_SLAVE \<Rightarrow> bond_slave_updated ce port_id old_link new_link st2
          | LT_BRIDGE_SLAVE \<Rightarrow>
              (if br_link (st_bridge st2) \<noteq> None \<and> ln_family old_link = AF_BRIDGE \<and> ln_family new_link = AF_BRIDGE
               then update_interface (ce_br ce) (cn_view ce st2) (ce_swi ce) (cn_vx_add ce (cn_view ce st2)) old_link new_link st2
               else Some st2)
          | LT_VLAN \<Rightarrow> vlan_link_updated ce old_link new_link st2
          | LT_VRF_SLAVE \<Rightarrow> vrf_slave_updated ce old_link new_link st2
          | LT_BOND \<Rightarrow> Some (snd (call_bond ce (update_lag (ce_swi ce) (ce_junk ce) old_link new_link) st2))
          | LT_VRF \<Rightarrow> Some st2
          | LT_BRIDGE \<Rightarrow> bridge_link_updated ce old_link new_link st2
          | _ \<Rightarrow> port_updated ce port_id old_link new_link st2
        }
      })"

subsection \<open>A removed link\<close>

text \<open>Our bridge goes away, or one that was ignored.\<close>

definition bridge_deleted :: "('s, 'p) cn_env \<Rightarrow> rtnl_link \<Rightarrow> ('s, 'p, 'm) cn_state_scheme \<Rightarrow>
    ('s, 'p, 'm) cn_state_scheme option" where
  "bridge_deleted ce link st =
     (let nl = cn_view ce st
      in if (case br_link (st_bridge st) of None \<Rightarrow> False | Some b \<Rightarrow> ln_ifindex link = ln_ifindex b)
         then do {
           st1 \<leftarrow> vx_register_bridge (ce_l3 ce) nl (ce_swi ce)
                    (update_access_ports (ce_br ce) nl (ce_swi ce) (cn_vx_add ce nl)) False st;
           st2 \<leftarrow> clear_tpid_entries (ce_br ce) (cn_view ce st1) (ce_swi ce) st1;
           Some (st2\<lparr>st_bridge := nl_bridge_init\<rparr>)
         }
         else Some (st\<lparr>st_ignored := st_ignored st |-| {|ln_ifindex link|}\<rparr>))"

definition link_deleted :: "('s, 'p) cn_env \<Rightarrow> rtnl_link \<Rightarrow> ('s, 'p, 'm) cn_state_scheme \<Rightarrow>
    ('s, 'p, 'm) cn_state_scheme option" where
  "link_deleted ce link st =
     (if ln_family link = AF_INET6 then Some st
      else case get_link_type link of
          LT_BRIDGE_SLAVE \<Rightarrow>
            (if (case br_link (st_bridge st) of None \<Rightarrow> False | Some b \<Rightarrow> ln_master link = ln_ifindex b) \<and> ln_family link = AF_BRIDGE
             then do {
               st1 \<leftarrow> delete_interface (ce_br ce) (cn_view ce st) (ce_swi ce) (cn_vx_add ce (cn_view ce st)) link st;
               Some (snd (call_vlan (enable_vlans (cn_view ce st1) (ce_swi ce) (untagged_of ce) link) st1))
             }
             else Some st)
        | LT_BRIDGE \<Rightarrow> bridge_deleted ce link st
        | LT_VXLAN \<Rightarrow>
            do {
              (_, st1) \<leftarrow> delete_endpoint (ce_swi ce) link st;
              Some (snd (remove_vni (ce_swi ce) link st1))
            }
        | LT_VLAN \<Rightarrow> Some (snd (call_vlan (remove_vlan (cn_view ce st) (ce_swi ce) link (ln_vlan_id link) True) st))
        | LT_BOND \<Rightarrow> Some (snd (call_bond ce (remove_lag (ce_swi ce) link) st))
        | _ \<Rightarrow> map_option (\<lambda>(_, p). st\<lparr>st_ports := p\<rparr>) (po_portdev_removed (ce_po ce) link (st_ports st)))"

subsection \<open>Entries of the forwarding table\<close>

abbreviation (input) NTF_EXT_LOCKED :: u32 where "NTF_EXT_LOCKED \<equiv> 2"

definition check_ll_neigh :: "('s, 'p) cn_env \<Rightarrow> rtnl_neigh \<Rightarrow> ('s, 'p, 'm) cn_state_scheme \<Rightarrow> bool" where
  "check_ll_neigh ce neigh st =
     (case br_link (st_bridge st) of
        None \<Rightarrow> False
      | Some b \<Rightarrow>
          if nb_master neigh \<noteq> ln_ifindex b \<or> nb_ifindex neigh = 0 then False
          else case get_link (cn_view ce st) (nb_ifindex neigh) AF_UNSPEC of
              None \<Rightarrow> False
            | Some base_link \<Rightarrow>
                nb_lladdr neigh \<noteq> Some (ln_addr base_link) \<and>
                (case nb_ext_flags neigh of None \<Rightarrow> True | Some f \<Rightarrow> f AND NTF_EXT_LOCKED = 0))"

text \<open>An entry that is not part of a tunnel goes to the forwarding table of the bridge.\<close>

definition neigh_ll_created :: "('s, 'p) cn_env \<Rightarrow> rtnl_neigh \<Rightarrow> ('s, 'p, 'm) cn_state_scheme \<Rightarrow>
    ('s, 'p, 'm) cn_state_scheme option" where
  "neigh_ll_created ce neigh st =
     (if \<not> check_ll_neigh ce neigh st then Some st
      else do {
        let nl = cn_view ce st;
        base_link \<leftarrow> get_link nl (nb_ifindex neigh) AF_UNSPEC;
        (rv, st1) \<leftarrow> cn_vx_add ce nl neigh base_link (get_link nl (nb_ifindex neigh) AF_BRIDGE) st;
        if rv = 0 then Some st1
        else add_neigh_to_fdb (ce_br ce) (cn_view ce st1) (ce_swi ce) neigh False st1
      })"

definition neigh_ll_deleted :: "('s, 'p) cn_env \<Rightarrow> rtnl_neigh \<Rightarrow> ('s, 'p, 'm) cn_state_scheme \<Rightarrow>
    ('s, 'p, 'm) cn_state_scheme option" where
  "neigh_ll_deleted ce neigh st =
     (if \<not> check_ll_neigh ce neigh st then Some st
      else do {
        let nl = cn_view ce st;
        l \<leftarrow> get_link nl (nb_ifindex neigh) AF_UNSPEC;
        if get_link_type l = LT_VXLAN
        then map_option snd (delete_l2_neigh (ce_l3 ce) nl (ce_swi ce) neigh l st)
        else remove_neigh_from_fdb (ce_br ce) nl (ce_swi ce) neigh st
      })"

definition neigh_ll_updated :: "('s, 'p) cn_env \<Rightarrow> rtnl_neigh \<Rightarrow> rtnl_neigh \<Rightarrow> ('s, 'p, 'm) cn_state_scheme \<Rightarrow>
    ('s, 'p, 'm) cn_state_scheme option" where
  "neigh_ll_updated ce old_neigh new_neigh st =
     (let handle_old = check_ll_neigh ce old_neigh st; handle_new = check_ll_neigh ce new_neigh st
      in if \<not> handle_old \<and> \<not> handle_new then Some st
         else if \<not> handle_old then neigh_ll_created ce new_neigh st
         else if \<not> handle_new then neigh_ll_deleted ce old_neigh st
         else do {
           old_base \<leftarrow> get_link (cn_view ce st) (nb_ifindex old_neigh) AF_UNSPEC;
           new_base \<leftarrow> get_link (cn_view ce st) (nb_ifindex new_neigh) AF_UNSPEC;
           if get_link_type old_base = LT_VXLAN \<or> get_link_type new_base = LT_VXLAN then Some st
           else add_neigh_to_fdb (ce_br ce) (cn_view ce st) (ce_swi ce) new_neigh True st
         })"

subsection \<open>Dispatch\<close>

text \<open>
  The objects of an event; \<open>None\<close> where the source asserts that they are there. A change has both.
\<close>

datatype 'a change = Added 'a | Changed 'a 'a | Removed 'a

definition change_of :: "(nl_object \<Rightarrow> 'a option) \<Rightarrow> nl_obj \<Rightarrow> 'a change option" where
  "change_of sel x =
     (case no_action x of
        NL_ACT_NEW \<Rightarrow> map_option Added (Option.bind (no_new x) sel)
      | NL_ACT_DEL \<Rightarrow> map_option Removed (Option.bind (no_old x) sel)
      | NL_ACT_CHANGE \<Rightarrow> do { o1 \<leftarrow> Option.bind (no_old x) sel; n1 \<leftarrow> Option.bind (no_new x) sel; Some (Changed o1 n1) })"

fun route_link_apply :: "('s, 'p) cn_env \<Rightarrow> rtnl_link change \<Rightarrow> ('s, 'p, 'm) cn_state_scheme \<Rightarrow>
    ('s, 'p, 'm) cn_state_scheme option" where
  "route_link_apply ce (Added l) st = link_created 2 ce l st"
| "route_link_apply ce (Changed l l') st = link_updated ce l l' st"
| "route_link_apply ce (Removed l) st = link_deleted ce l st"

fun route_addr_apply :: "('s, 'p) cn_env \<Rightarrow> rtnl_addr change \<Rightarrow> ('s, 'p, 'm) cn_state_scheme \<Rightarrow>
    ('s, 'p, 'm) cn_state_scheme option" where
  "route_addr_apply ce (Added a) st = map_option snd (add_l3_address ce a st)"
| "route_addr_apply ce (Changed a a') st = Some st"
| "route_addr_apply ce (Removed a) st =
     (if inet_family (ad_family a)
      then map_option snd (del_l3_addr (ce_l3 ce) (cn_view ce st) (ce_swi ce) a st) else Some st)"

fun route_neigh_apply :: "('s, 'p) cn_env \<Rightarrow> rtnl_neigh change \<Rightarrow> ('s, 'p, 'm) cn_state_scheme \<Rightarrow>
    ('s, 'p, 'm) cn_state_scheme option" where
  "route_neigh_apply ce (Added n) st =
     (if nb_family n = AF_BRIDGE then neigh_ll_created ce n st
      else if inet_family (nb_family n)
      then map_option snd (add_l3_neigh (ce_l3 ce) (cn_view ce st) (ce_swi ce) (cn_vx_nh ce (cn_view ce st)) n st)
      else Some st)"
| "route_neigh_apply ce (Changed n n') st =
     (if nb_family n' \<noteq> nb_family n then None
      else if nb_family n' = AF_BRIDGE then neigh_ll_updated ce n n' st
      else if inet_family (nb_family n')
      then map_option snd (update_l3_neigh (ce_l3 ce) (cn_view ce st) (ce_swi ce) (cn_vx_nh ce (cn_view ce st)) n n' st)
      else Some st)"
| "route_neigh_apply ce (Removed n) st =
     (if nb_family n = AF_BRIDGE then neigh_ll_deleted ce n st
      else if inet_family (nb_family n)
      then map_option snd (del_l3_neigh (ce_l3 ce) (cn_view ce st) (ce_swi ce) n st)
      else Some st)"

fun route_route_apply :: "('s, 'p) cn_env \<Rightarrow> rtnl_route change \<Rightarrow> ('s, 'p, 'm) cn_state_scheme \<Rightarrow>
    ('s, 'p, 'm) cn_state_scheme option" where
  "route_route_apply ce (Added r) st =
     (if inet_family (rt_family r)
      then map_option snd (add_l3_route (ce_l3 ce) (cn_view ce st) (ce_swi ce)
             (cn_vx_nh ce (cn_view ce st)) (cn_vx_net ce (cn_view ce st)) r st)
      else Some st)"
| "route_route_apply ce (Changed r r') st =
     (if inet_family (rt_family r')
      then map_option snd (update_l3_route (ce_l3 ce) (cn_view ce st) (ce_swi ce)
             (cn_vx_nh ce (cn_view ce st)) (cn_vx_net ce (cn_view ce st)) r r' st)
      else Some st)"
| "route_route_apply ce (Removed r) st =
     (if inet_family (rt_family r)
      then map_option snd (del_l3_route (ce_l3 ce) (cn_view ce st) (ce_swi ce) r st) else Some st)"

fun route_nh_apply :: "rtnl_nh change \<Rightarrow> ('s, 'p, 'm) cn_state_scheme \<Rightarrow> ('s, 'p, 'm) cn_state_scheme option" where
  "route_nh_apply c st = Some st"

text \<open>The databases before and after the event.\<close>

fun mdb_change :: "'a change \<Rightarrow> 'a option \<times> 'a option" where
  "mdb_change (Added m) = (None, Some m)"
| "mdb_change (Changed m m') = (Some m, Some m')"
| "mdb_change (Removed m) = (Some m, None)"

definition route_mdb_apply :: "('s, 'p) cn_env \<Rightarrow> rtnl_mdb change \<Rightarrow> ('s, 'p, 'm) cn_state_scheme \<Rightarrow>
    ('s, 'p, 'm) cn_state_scheme option" where
  "route_mdb_apply ce c st =
     (if br_link (st_bridge st) = None then Some st
      else Some (upd_sw (mdb_update (ce_l3 ce) (ce_br ce) (cn_view ce st) (ce_swi ce)
             (fst (mdb_change c)) (snd (mdb_change c)) (st_bridge st)) st))"

fun route_bridge_vlan_apply :: "('s, 'p) cn_env \<Rightarrow> rtnl_bridge_vlan change \<Rightarrow> ('s, 'p, 'm) cn_state_scheme \<Rightarrow>
    ('s, 'p, 'm) cn_state_scheme option" where
  "route_bridge_vlan_apply ce c st =
     (case br_link (st_bridge st) of
        None \<Rightarrow> Some st
      | Some b \<Rightarrow>
          (case c of
             Removed v \<Rightarrow> call_stp (\<lambda>s. Some (snd (drop_pvlan_stp (cn_view ce st) (ce_swi ce) b v s))) st
           | Added v \<Rightarrow> call_stp (\<lambda>s. map_option snd (set_pvlan_stp (cn_view ce st) (ce_swi ce) b v s)) st
           | Changed _ v \<Rightarrow> call_stp (\<lambda>s. map_option snd (set_pvlan_stp (cn_view ce st) (ce_swi ce) b v s)) st))"

text \<open>The switch over the message type in \<open>handle_wakeup\<close>.\<close>

definition obj_apply :: "('s, 'p) cn_env \<Rightarrow> nl_obj \<Rightarrow> ('s, 'p, 'm) cn_state_scheme \<Rightarrow>
    ('s, 'p, 'm) cn_state_scheme option" where
  "obj_apply ce x st =
     do {
       kind \<leftarrow> get_obj x;
       case kind of
         Obj_link _ \<Rightarrow> do { c \<leftarrow> change_of (\<lambda>y. case y of Obj_link l \<Rightarrow> Some l | _ \<Rightarrow> None) x; route_link_apply ce c st }
       | Obj_neigh _ \<Rightarrow> do { c \<leftarrow> change_of (\<lambda>y. case y of Obj_neigh l \<Rightarrow> Some l | _ \<Rightarrow> None) x; route_neigh_apply ce c st }
       | Obj_route _ \<Rightarrow> do { c \<leftarrow> change_of (\<lambda>y. case y of Obj_route l \<Rightarrow> Some l | _ \<Rightarrow> None) x; route_route_apply ce c st }
       | Obj_nh _ \<Rightarrow> do { c \<leftarrow> change_of (\<lambda>y. case y of Obj_nh l \<Rightarrow> Some l | _ \<Rightarrow> None) x; route_nh_apply c st }
       | Obj_addr _ \<Rightarrow> do { c \<leftarrow> change_of (\<lambda>y. case y of Obj_addr l \<Rightarrow> Some l | _ \<Rightarrow> None) x; route_addr_apply ce c st }
       | Obj_mdb _ \<Rightarrow>
           (if \<not> ce_multicast ce then None
            else do { c \<leftarrow> change_of (\<lambda>y. case y of Obj_mdb l \<Rightarrow> Some l | _ \<Rightarrow> None) x; route_mdb_apply ce c st })
       | Obj_bvlan _ \<Rightarrow>
           do { c \<leftarrow> change_of (\<lambda>y. case y of Obj_bvlan l \<Rightarrow> Some l | _ \<Rightarrow> None) x; route_bridge_vlan_apply ce c st }
     }"

end
