(* ===== verification/Netlink_Thread.thy ===== *)
theory Netlink_Thread
  imports Cnetlink Swap_Queue
begin

text \<open>
  The thread of \<open>cnetlink\<close> (\<open>src/src/netlink/cnetlink.cc\<close>): its state machine, the queue of netlink changes, and the
  two queues that the thread of the controller fills, packets to deliver and timed out forwarding entries.
  The record holds the components (\<open>cn_state\<close>) and the members that only this class touches. \<open>delivered\<close> and
  \<open>fdb_done\<close> are what was taken off the two queues, oldest first; \<open>wakeup\<close> tells that the thread will call
  \<open>handle_wakeup\<close> again.

  \<open>handle_wakeup\<close> is modelled as one step of the thread. For the two shared queues the interleaving with other
  threads is modelled as well, with one step for each critical section and each round of a loop.
\<close>

subsection \<open>State\<close>

datatype nl_state = NL_STATE_RUNNING | NL_STATE_INIT | NL_STATE_SHUTDOWN | NL_STATE_STOPPED

type_synonym fdb_ev = "u32 \<times> u16 \<times> mac"

record ('s, 'p) cnetlink =
  comps :: "('s, 'p) cn_state"
  registered :: bool \<comment> \<open>\<open>swi\<close> is set\<close>
  run_state :: nl_state
  nl_objs :: "nl_obj list"
  packet_in :: "(u32 \<times> packet) list"
  delivered :: "(u32 \<times> packet) list"
  fdb_evts :: "fdb_ev list"
  fdb_done :: "fdb_ev list"
  wakeup :: bool
  resend_timer :: bool

definition cnetlink_ctor :: "'s \<Rightarrow> 'p \<Rightarrow> nl_caches \<Rightarrow> ('s, 'p) cnetlink" where
  "cnetlink_ctor s p ca = \<lparr>comps = cnetlink_init s p ca, registered = False, run_state = NL_STATE_STOPPED, nl_objs = [],
     packet_in = [], delivered = [], fdb_evts = [], fdb_done = [], wakeup = False, resend_timer = False\<rparr>"

abbreviation nl_proc_max :: nat where "nl_proc_max \<equiv> 10"

subsection \<open>Calls of other threads\<close>

text \<open>\<open>thread.wakeup(this)\<close>.\<close>

definition wake :: "('s, 'p) cnetlink \<Rightarrow> ('s, 'p) cnetlink" where
  "wake c = c\<lparr>wakeup := True\<rparr>"

definition start_nl :: "('s, 'p) cnetlink \<Rightarrow> ('s, 'p) cnetlink" where
  "start_nl c = (if run_state c = NL_STATE_RUNNING then c else wake (c\<lparr>run_state := NL_STATE_INIT\<rparr>))"

definition stop_nl :: "('s, 'p) cnetlink \<Rightarrow> ('s, 'p) cnetlink" where
  "stop_nl c = (if run_state c = NL_STATE_STOPPED then c else wake (c\<lparr>run_state := NL_STATE_SHUTDOWN\<rparr>))"

text \<open>\<open>NL_TIMER_RESEND_STATE\<close> expires at once; \<open>handle_timeout\<close> is its handler.\<close>

definition resend_state :: "('s, 'p) cnetlink \<Rightarrow> ('s, 'p) cnetlink" where
  "resend_state c = (stop_nl c)\<lparr>resend_timer := True\<rparr>"

text \<open>\<open>subscribe_to\<close> with \<open>SWIF_ARP\<close> is the only call that reaches the switch.\<close>

definition register_switch :: "('s, 'p) cn_env \<Rightarrow> ('s, 'p) cnetlink \<Rightarrow> ('s, 'p) cnetlink" where
  "register_switch ce c = c\<lparr>registered := True, comps := upd_sw (sw_subscribe_to (ce_swi ce) 1) (comps c)\<rparr>"

definition unregister_switch :: "('s, 'p) cnetlink \<Rightarrow> ('s, 'p) cnetlink" where
  "unregister_switch c = stop_nl c"

definition init_subsystems :: "('s, 'p) cn_env \<Rightarrow> ('s, 'p) cnetlink \<Rightarrow> ('s, 'p) cnetlink option" where
  "init_subsystems ce c =
     (if registered c
      then map_option (\<lambda>(_, st). c\<lparr>comps := st\<rparr>) (l3_init (ce_l3 ce) (cn_view ce (comps c)) (ce_swi ce) (comps c))
      else None)"

definition switch_connected :: "('s, 'p) cn_env \<Rightarrow> ('s, 'p) cnetlink \<Rightarrow> ('s, 'p) cnetlink option" where
  "switch_connected ce c = init_subsystems ce c"

definition learn_l2 :: "u32 \<Rightarrow> packet \<Rightarrow> ('s, 'p) cnetlink \<Rightarrow> ('s, 'p) cnetlink" where
  "learn_l2 port_id pkt c = wake (c\<lparr>packet_in := packet_in c @ [(port_id, pkt)]\<rparr>)"

definition fdb_timeout_nl :: "u32 \<Rightarrow> u16 \<Rightarrow> mac \<Rightarrow> ('s, 'p) cnetlink \<Rightarrow> ('s, 'p) cnetlink" where
  "fdb_timeout_nl port_id vid mac c = wake (c\<lparr>fdb_evts := fdb_evts c @ [(port_id, vid, mac)]\<rparr>)"

subsection \<open>Events of the thread\<close>

definition nl_cb_v2 :: "nl_obj \<Rightarrow> ('s, 'p) cnetlink \<Rightarrow> ('s, 'p) cnetlink" where
  "nl_cb_v2 x c = (if run_state c \<noteq> NL_STATE_STOPPED then c\<lparr>nl_objs := nl_objs c @ [x]\<rparr> else c)"

text \<open>
  The kernel has sent messages: libnl brings the caches up to date and reports each change.
\<close>

definition handle_read_event :: "nl_caches \<Rightarrow> nl_obj list \<Rightarrow> ('s, 'p) cnetlink \<Rightarrow> ('s, 'p) cnetlink" where
  "handle_read_event ca changes c =
     (let c1 = fold nl_cb_v2 changes (c\<lparr>comps := (comps c)\<lparr>st_caches := ca\<rparr>\<rparr>)
      in if run_state c1 \<noteq> NL_STATE_STOPPED then wake c1 else c1)"

definition nl_handle_timeout :: "('s, 'p) cnetlink \<Rightarrow> ('s, 'p) cnetlink" where
  "nl_handle_timeout c = start_nl (c\<lparr>resend_timer := False\<rparr>)"

definition shutdown_subsystems :: "('s, 'p) cn_env \<Rightarrow> ('s, 'p) cnetlink \<Rightarrow> ('s, 'p) cnetlink" where
  "shutdown_subsystems ce c =
     c\<lparr>comps := snd (call_bond ce (\<lambda>(nl, s). ((), bond_clear nl, s))
                  ((comps c)\<lparr>st_ports := po_clear (ce_po ce) (st_ports (comps c))\<rparr>))\<rparr>"

text \<open>One round of the loop over the packets; \<open>None\<close> when it ends and the rest is put back.\<close>

definition learn_round :: "('s, 'p) cn_env \<Rightarrow> nat \<times> (u32 \<times> packet) list \<Rightarrow> ('s, 'p) cnetlink \<Rightarrow>
    (nat \<times> (u32 \<times> packet) list) option \<times> ('s, 'p) cnetlink" where
  "learn_round ce l c =
     (case l of
        (cnt, p # q) \<Rightarrow>
          if cnt < nl_proc_max \<and> run_state c = NL_STATE_RUNNING
          then (Some (Suc cnt, q),
                c\<lparr>comps := (comps c)\<lparr>st_ports := po_enqueue (ce_po ce) (fst p) (snd p) (st_ports (comps c))\<rparr>,
                  delivered := delivered c @ [p]\<rparr>)
          else (None, c\<lparr>packet_in := foldl (\<lambda>q x. x # q) (packet_in c) (rev (p # q))\<rparr>)
      | (cnt, []) \<Rightarrow> (None, c))"

text \<open>The whole loop, and the number of packets that are left.\<close>

fun learn_loop :: "('s, 'p) cn_env \<Rightarrow> nat \<Rightarrow> (u32 \<times> packet) list \<Rightarrow> ('s, 'p) cnetlink \<Rightarrow> nat \<times> ('s, 'p) cnetlink" where
  "learn_loop ce cnt [] c = (0, c)"
| "learn_loop ce cnt (p # q) c =
     (case learn_round ce (cnt, p # q) c of
        (Some _, c1) \<Rightarrow> learn_loop ce (Suc cnt) q c1
      | (None, c1) \<Rightarrow> (length (p # q), c1))"

definition handle_source_mac_learn :: "('s, 'p) cn_env \<Rightarrow> ('s, 'p) cnetlink \<Rightarrow> nat \<times> ('s, 'p) cnetlink" where
  "handle_source_mac_learn ce c = learn_loop ce 0 (packet_in c) (c\<lparr>packet_in := []\<rparr>)"

text \<open>The same for the forwarding entries; this loop also needs a bridge.\<close>

definition fdb_event :: "('s, 'p) cn_env \<Rightarrow> fdb_ev \<Rightarrow> ('s, 'p) cn_state \<Rightarrow> ('s, 'p) cn_state" where
  "fdb_event ce ev st =
     (let (port_id, vid, mac) = ev
      in case get_link (cn_view ce st) (get_ifindex port_id (po_base (ce_po ce) (st_ports st))) AF_BRIDGE of
          None \<Rightarrow> st
        | Some l \<Rightarrow> snd (fdb_timeout (ce_br ce) l vid mac st))"

definition fdb_round :: "('s, 'p) cn_env \<Rightarrow> nat \<times> fdb_ev list \<Rightarrow> ('s, 'p) cnetlink \<Rightarrow>
    (nat \<times> fdb_ev list) option \<times> ('s, 'p) cnetlink" where
  "fdb_round ce l c =
     (case l of
        (cnt, e # q) \<Rightarrow>
          if cnt < nl_proc_max \<and> br_link (st_bridge (comps c)) \<noteq> None \<and> run_state c = NL_STATE_RUNNING
          then (Some (Suc cnt, q), c\<lparr>comps := fdb_event ce e (comps c), fdb_done := fdb_done c @ [e]\<rparr>)
          else (None, c\<lparr>fdb_evts := foldl (\<lambda>q x. x # q) (fdb_evts c) (rev (e # q))\<rparr>)
      | (cnt, []) \<Rightarrow> (None, c))"

fun fdb_loop :: "('s, 'p) cn_env \<Rightarrow> nat \<Rightarrow> fdb_ev list \<Rightarrow> ('s, 'p) cnetlink \<Rightarrow> nat \<times> ('s, 'p) cnetlink" where
  "fdb_loop ce cnt [] c = (0, c)"
| "fdb_loop ce cnt (e # q) c =
     (case fdb_round ce (cnt, e # q) c of
        (Some _, c1) \<Rightarrow> fdb_loop ce (Suc cnt) q c1
      | (None, c1) \<Rightarrow> (length (e # q), c1))"

definition handle_fdb_timeout :: "('s, 'p) cn_env \<Rightarrow> ('s, 'p) cnetlink \<Rightarrow> nat \<times> ('s, 'p) cnetlink" where
  "handle_fdb_timeout ce c = fdb_loop ce 0 (fdb_evts c) (c\<lparr>fdb_evts := []\<rparr>)"

text \<open>The loop over the netlink changes: a change is taken off the queue before it is handled.\<close>

fun obj_loop :: "('s, 'p) cn_env \<Rightarrow> nat \<Rightarrow> ('s, 'p) cnetlink \<Rightarrow> ('s, 'p) cnetlink option" where
  "obj_loop ce 0 c = Some c"
| "obj_loop ce (Suc n) c =
     (case nl_objs c of
        [] \<Rightarrow> Some c
      | x # xs \<Rightarrow>
          if run_state c = NL_STATE_RUNNING
          then (case obj_apply ce x ((comps c)\<lparr>st_objs := xs\<rparr>) of
                  None \<Rightarrow> None
                | Some st \<Rightarrow> obj_loop ce n (c\<lparr>comps := st, nl_objs := xs\<rparr>))
          else Some c)"

definition handle_wakeup :: "('s, 'p) cn_env \<Rightarrow> ('s, 'p) cnetlink \<Rightarrow> ('s, 'p) cnetlink option" where
  "handle_wakeup ce c0 =
     (let c = c0\<lparr>wakeup := False\<rparr>
      in if \<not> registered c then Some c
         else case run_state c of
             NL_STATE_SHUTDOWN \<Rightarrow> Some ((shutdown_subsystems ce c)\<lparr>run_state := NL_STATE_STOPPED\<rparr>)
           | NL_STATE_STOPPED \<Rightarrow> Some c
           | _ \<Rightarrow>
               (case obj_loop ce nl_proc_max (c\<lparr>run_state := NL_STATE_RUNNING\<rparr>) of
                  None \<Rightarrow> None
                | Some c1 \<Rightarrow>
                    (let (n1, c2) = handle_source_mac_learn ce c1;
                         (n2, c3) = handle_fdb_timeout ce c2
                     in Some (if n1 \<noteq> 0 \<or> n2 \<noteq> 0 \<or> nl_objs c3 \<noteq> [] then wake c3 else c3))))"

end
