(* ===== verification/Netlink_Steps.thy ===== *)
theory Netlink_Steps
  imports Netlink_Thread Nl_Bridge_Props
begin

text \<open>
  The netlink thread in small steps. \<open>handle_wakeup\<close> runs on its own thread while the thread of the controller
  registers the switch, calls \<open>learn_l2\<close>, \<open>fdb_timeout\<close>, \<open>start\<close>, \<open>stop\<close> and so on, handles messages of the switch, and
  creates and removes ports, so its reads and writes of shared variables interleave with those calls. A step ends
  before and after each critical section, each round of a loop, the read of \<open>state\<close> in the \<open>switch\<close>, and the write of
  it. The program counter holds the local variables. A run begins with the constructor; the switch is registered later, by
  one of the calls, as in \<open>main\<close>.

  The theory shows that the steps without interference are \<open>handle_wakeup\<close>, that both queues keep the order of arrival under
  every interleaving, and that no work is forgotten after the first event that follows the registration of the switch;
  and where a start, a stop or a change that was reported too early has no effect.
\<close>

subsection \<open>Steps\<close>

datatype nl_pc =
    Idle
  | Switching nl_state \<comment> \<open>the value read by \<open>switch (state)\<close>\<close>
  | Stopping
  | Objs nat \<comment> \<open>rounds left\<close>
  | Learning "nat \<times> (u32 \<times> packet) list"
  | Timing nat "nat \<times> fdb_ev list" \<comment> \<open>the number of packets not processed\<close>
  | Finishing bool \<comment> \<open>\<open>do_wakeup\<close>\<close>

fun thread_step :: "('s, 'p) cn_env \<Rightarrow> nl_pc \<times> ('s, 'p) cnetlink \<Rightarrow> (nl_pc \<times> ('s, 'p) cnetlink) option" where
  "thread_step ce (Idle, c) =
     Some (if wakeup c then (if registered c then Switching (run_state c) else Idle, c\<lparr>wakeup := False\<rparr>) else (Idle, c))"
| "thread_step ce (Switching NL_STATE_INIT, c) = Some (Objs nl_proc_max, c\<lparr>run_state := NL_STATE_RUNNING\<rparr>)"
| "thread_step ce (Switching NL_STATE_RUNNING, c) = Some (Objs nl_proc_max, c)"
| "thread_step ce (Switching NL_STATE_SHUTDOWN, c) = Some (Stopping, shutdown_subsystems ce c)"
| "thread_step ce (Switching NL_STATE_STOPPED, c) = Some (Idle, c)"
| "thread_step ce (Stopping, c) = Some (Idle, c\<lparr>run_state := NL_STATE_STOPPED\<rparr>)"
| "thread_step ce (Objs n, c) =
     (if n \<noteq> 0 \<and> nl_objs c \<noteq> [] \<and> run_state c = NL_STATE_RUNNING
      then map_option (\<lambda>st. (Objs (n - 1), c\<lparr>comps := st, nl_objs := tl (nl_objs c)\<rparr>))
             (obj_apply ce (hd (nl_objs c)) ((comps c)\<lparr>st_objs := tl (nl_objs c)\<rparr>))
      else Some (Learning (0, packet_in c), c\<lparr>packet_in := []\<rparr>))"
| "thread_step ce (Learning l, c) =
     Some (case learn_round ce l c of
             (Some l1, c1) \<Rightarrow> (Learning l1, c1)
           | (None, c1) \<Rightarrow> (Timing (length (snd l)) (0, fdb_evts c1), c1\<lparr>fdb_evts := []\<rparr>))"
| "thread_step ce (Timing n l, c) =
     Some (case fdb_round ce l c of
             (Some l1, c1) \<Rightarrow> (Timing n l1, c1)
           | (None, c1) \<Rightarrow> (Finishing (n \<noteq> 0 \<or> length (snd l) \<noteq> 0), c1))"
| "thread_step ce (Finishing b, c) = Some (Idle, if b \<or> nl_objs c \<noteq> [] then wake c else c)"

fun thread_steps :: "('s, 'p) cn_env \<Rightarrow> nat \<Rightarrow> nl_pc \<times> ('s, 'p) cnetlink \<Rightarrow> (nl_pc \<times> ('s, 'p) cnetlink) option" where
  "thread_steps ce 0 x = Some x"
| "thread_steps ce (Suc n) x = (case thread_step ce x of None \<Rightarrow> None | Some y \<Rightarrow> thread_steps ce n y)"

text \<open>
  Calls of other threads, and the events that the thread handles itself between two wakeups. \<open>On_ports\<close> is a call on
  the port manager and \<open>On_switch\<close> a handler of the controller, as functions on the state that they change.
\<close>

datatype ('s, 'p) nl_cmd =
    Learn_l2 u32 packet
  | Fdb_timeout u32 u16 mac
  | Start
  | Stop
  | Resend
  | Register
  | Connected
  | On_ports "'p \<Rightarrow> 'p option"
  | On_switch "'s \<Rightarrow> 's option"
  | Read_event nl_caches "nl_obj list"
  | Timer

text \<open>\<open>None\<close> is a call that ends the program.\<close>

fun nl_call :: "('s, 'p) cn_env \<Rightarrow> ('s, 'p) nl_cmd \<Rightarrow> ('s, 'p) cnetlink \<Rightarrow> ('s, 'p) cnetlink option" where
  "nl_call ce (Learn_l2 port_id pkt) c = Some (learn_l2 port_id pkt c)"
| "nl_call ce (Fdb_timeout port_id vid mac) c = Some (fdb_timeout_nl port_id vid mac c)"
| "nl_call ce Start c = Some (start_nl c)"
| "nl_call ce Stop c = Some (stop_nl c)"
| "nl_call ce Resend c = Some (resend_state c)"
| "nl_call ce Register c = Some (register_switch ce c)"
| "nl_call ce Connected c = switch_connected ce c"
| "nl_call ce (On_ports f) c = map_option (\<lambda>p. c\<lparr>comps := (comps c)\<lparr>st_ports := p\<rparr>\<rparr>) (f (st_ports (comps c)))"
| "nl_call ce (On_switch f) c = map_option (\<lambda>s. c\<lparr>comps := (comps c)\<lparr>st_sw := s\<rparr>\<rparr>) (f (st_sw (comps c)))"
| "nl_call ce (Read_event ca changes) c = Some (handle_read_event ca changes c)"
| "nl_call ce Timer c = Some (nl_handle_timeout c)"

text \<open>What the thread does itself, when it is idle.\<close>

fun own_event :: "('s, 'p) nl_cmd \<Rightarrow> bool" where
  "own_event (Read_event _ _) = True"
| "own_event Timer = True"
| "own_event _ = False"

text \<open>
  The states a run from \<open>c0\<close> can reach, with the calls made so far. A step that ends the program has no
  successor.
\<close>

inductive nl_reach :: "('s, 'p) cn_env \<Rightarrow> ('s, 'p) cnetlink \<Rightarrow> ('s, 'p) nl_cmd list \<Rightarrow> nl_pc \<Rightarrow> ('s, 'p) cnetlink \<Rightarrow> bool"
  for ce c0 where
  start: "nl_reach ce c0 [] Idle c0"
| thread: "nl_reach ce c0 cmds pc c \<Longrightarrow> thread_step ce (pc, c) = Some (pc1, c1) \<Longrightarrow> nl_reach ce c0 cmds pc1 c1"
| call: "nl_reach ce c0 cmds pc c \<Longrightarrow> own_event cmd \<longrightarrow> pc = Idle \<Longrightarrow> nl_call ce cmd c = Some c1 \<Longrightarrow>
    nl_reach ce c0 (cmds @ [cmd]) pc c1"

fun packets_of :: "('s, 'p) nl_cmd list \<Rightarrow> (u32 \<times> packet) list" where
  "packets_of [] = []"
| "packets_of (Learn_l2 port_id pkt # cmds) = (port_id, pkt) # packets_of cmds"
| "packets_of (_ # cmds) = packets_of cmds"

fun timeouts_of :: "('s, 'p) nl_cmd list \<Rightarrow> fdb_ev list" where
  "timeouts_of [] = []"
| "timeouts_of (Fdb_timeout port_id vid mac # cmds) = (port_id, vid, mac) # timeouts_of cmds"
| "timeouts_of (_ # cmds) = timeouts_of cmds"

lemma packets_of_append [simp]: "packets_of (xs @ ys) = packets_of xs @ packets_of ys"
  by (induction xs rule: packets_of.induct) auto

lemma timeouts_of_append [simp]: "timeouts_of (xs @ ys) = timeouts_of xs @ timeouts_of ys"
  by (induction xs rule: timeouts_of.induct) auto

subsection \<open>Both queues keep their order\<close>

lemmas nl_call_defs = learn_l2_def fdb_timeout_nl_def start_nl_def stop_nl_def resend_state_def wake_def

interpretation packets: swap_queue packet_in "\<lambda>_ _. True" "\<lambda>x. learn_l2 (fst x) (snd x)" "packet_in_update (\<lambda>_. [])"
    delivered "Pair 0" snd "\<lambda>_::unit. learn_round ce" for ce
proof unfold_locales
  show "delivered c1 @ (case l1 of None \<Rightarrow> [] | Some l1 \<Rightarrow> snd l1) @ packet_in c1 = delivered c @ snd l @ packet_in c"
    if "learn_round ce l c = (l1, c1)" for l l1 c c1
    using that by (auto simp: learn_round_def front_inserter_rev simp del: rev.simps split: prod.splits list.splits if_splits)
qed (simp_all add: nl_call_defs)

interpretation timeouts: swap_queue fdb_evts "\<lambda>_ _. True" "\<lambda>x. fdb_timeout_nl (fst x) (fst (snd x)) (snd (snd x))"
    "fdb_evts_update (\<lambda>_. [])" fdb_done "Pair 0" snd "\<lambda>_::unit. fdb_round ce" for ce
proof unfold_locales
  show "fdb_done c1 @ (case l1 of None \<Rightarrow> [] | Some l1 \<Rightarrow> snd l1) @ fdb_evts c1 = fdb_done c @ snd l @ fdb_evts c"
    if "fdb_round ce l c = (l1, c1)" for l l1 c c1
    using that by (auto simp: fdb_round_def front_inserter_rev simp del: rev.simps split: prod.splits list.splits if_splits)
qed (simp_all add: nl_call_defs)

text \<open>The local deques.\<close>

fun learning :: "nl_pc \<Rightarrow> (nat \<times> (u32 \<times> packet) list) option" where
  "learning (Learning l) = Some l"
| "learning _ = None"

fun timing :: "nl_pc \<Rightarrow> (nat \<times> fdb_ev list) option" where
  "timing (Timing n l) = Some l"
| "timing _ = None"

lemma learn_round_frame:
  "learn_round ce l c = (r, c1) \<Longrightarrow> fdb_evts c1 = fdb_evts c \<and> fdb_done c1 = fdb_done c"
  by (auto simp: learn_round_def split: prod.splits list.splits if_splits)

lemma fdb_round_frame:
  "fdb_round ce l c = (r, c1) \<Longrightarrow> packet_in c1 = packet_in c \<and> delivered c1 = delivered c"
  by (auto simp: fdb_round_def split: prod.splits list.splits if_splits)

lemma shutdown_frame [simp]:
  "packet_in (shutdown_subsystems ce c) = packet_in c" "delivered (shutdown_subsystems ce c) = delivered c"
  "fdb_evts (shutdown_subsystems ce c) = fdb_evts c" "fdb_done (shutdown_subsystems ce c) = fdb_done c"
  "nl_objs (shutdown_subsystems ce c) = nl_objs c" "registered (shutdown_subsystems ce c) = registered c"
  "run_state (shutdown_subsystems ce c) = run_state c" "wakeup (shutdown_subsystems ce c) = wakeup c"
  by (simp_all add: shutdown_subsystems_def)

lemma thread_keeps_packets:
  assumes "thread_step ce (pc, c) = Some (pc1, c1)"
  shows "packets.in_order c1 (learning pc1) = packets.in_order c (learning pc)"
proof (cases "(ce, pc, c)" rule: thread_step.cases)
  case (7 ce n c)
  with assms show ?thesis by (auto simp: packets.in_order_def split: if_splits)
next
  case (8 ce l c)
  with assms show ?thesis
    by (auto simp: packets.serve_in_order [symmetric] split: prod.splits option.splits intro!: packets.frame_in_order)
next
  case (9 ce n l c)
  with assms show ?thesis
    by (auto split: prod.splits option.splits dest!: fdb_round_frame intro!: packets.frame_in_order)
qed (use assms in \<open>auto simp: wake_def split: if_splits intro!: packets.frame_in_order\<close>)

lemma thread_keeps_timeouts:
  assumes "thread_step ce (pc, c) = Some (pc1, c1)"
  shows "timeouts.in_order c1 (timing pc1) = timeouts.in_order c (timing pc)"
proof (cases "(ce, pc, c)" rule: thread_step.cases)
  case (7 ce n c)
  with assms show ?thesis by (auto split: if_splits intro!: timeouts.frame_in_order)
next
  case (8 ce l c)
  with assms show ?thesis
    by (auto simp: timeouts.in_order_def split: prod.splits option.splits dest!: learn_round_frame)
next
  case (9 ce n l c)
  with assms show ?thesis
    by (auto simp: timeouts.serve_in_order [symmetric] split: prod.splits option.splits intro!: timeouts.frame_in_order)
qed (use assms in \<open>auto simp: wake_def split: if_splits intro!: timeouts.frame_in_order\<close>)

lemma nl_cb_frame [simp]:
  "packet_in (fold nl_cb_v2 xs c) = packet_in c" "delivered (fold nl_cb_v2 xs c) = delivered c"
  "fdb_evts (fold nl_cb_v2 xs c) = fdb_evts c" "fdb_done (fold nl_cb_v2 xs c) = fdb_done c"
  "run_state (fold nl_cb_v2 xs c) = run_state c" "wakeup (fold nl_cb_v2 xs c) = wakeup c"
  "registered (fold nl_cb_v2 xs c) = registered c"
  by (induction xs arbitrary: c) (simp_all add: nl_cb_v2_def)

lemmas other_call_defs = register_switch_def switch_connected_def init_subsystems_def handle_read_event_def nl_handle_timeout_def

lemma call_queues:
  assumes "nl_call ce cmd c = Some c1"
  shows "packet_in c1 = packet_in c @ packets_of [cmd]" "delivered c1 = delivered c"
    "fdb_evts c1 = fdb_evts c @ timeouts_of [cmd]" "fdb_done c1 = fdb_done c"
  using assms by (cases cmd; auto simp: nl_call_defs other_call_defs Let_def split: if_splits)+

lemma call_packets: "nl_call ce cmd c = Some c1 \<Longrightarrow> packets.in_order c1 l = packets.in_order c l @ packets_of [cmd]"
  by (simp add: packets.in_order_def call_queues)

lemma call_timeouts: "nl_call ce cmd c = Some c1 \<Longrightarrow> timeouts.in_order c1 l = timeouts.in_order c l @ timeouts_of [cmd]"
  by (simp add: timeouts.in_order_def call_queues)

lemma reach_order:
  assumes "nl_reach ce c0 cmds pc c"
  shows "packets.in_order c (learning pc) = delivered c0 @ packet_in c0 @ packets_of cmds \<and>
         timeouts.in_order c (timing pc) = fdb_done c0 @ fdb_evts c0 @ timeouts_of cmds"
  using assms
proof induction
  case start
  then show ?case by (simp add: packets.in_order_def timeouts.in_order_def)
next
  case (thread cmds pc c pc1 c1)
  then show ?case using thread_keeps_packets thread_keeps_timeouts by metis
next
  case (call cmds pc c cmd c1)
  then show ?case by (simp add: call_packets [OF call.hyps(3)] call_timeouts [OF call.hyps(3)])
qed

text \<open>
  C7: Under every interleaving of the netlink thread with the other threads, packets for the ports and
  timed out forwarding entries are handled in the order in which they were reported, each once: what was handled, what
  the thread holds and what waits, put together, is the sequence of the calls, whatever other calls, messages of the switch and
  netlink changes come between, and whenever the switch is registered and the thread is stopped.
\<close>

theorem netlink_queues_in_order:
  assumes "nl_reach ce (cnetlink_ctor s p ca) cmds pc c"
  shows "delivered c @ (case learning pc of None \<Rightarrow> [] | Some l \<Rightarrow> snd l) @ packet_in c = packets_of cmds \<and>
    fdb_done c @ (case timing pc of None \<Rightarrow> [] | Some l \<Rightarrow> snd l) @ fdb_evts c = timeouts_of cmds"
  using reach_order [OF assms] by (simp add: packets.in_order_def timeouts.in_order_def cnetlink_ctor_def)

text \<open>A concrete system: taps, a switch that accepts everything, empty caches.\<close>

definition plain_env :: "(controller, tap_ports) cn_env" where
  "plain_env = \<lparr>ce_l3 = plain_l3_env, ce_br = plain_br_env, ce_swi = controller_swi ideal_env, ce_po = tap_ops quiet_kernel,
     ce_offload = False, ce_multicast = True, ce_junk = (0, 0)\<rparr>"

definition plain_start :: "(controller, tap_ports) cnetlink" where
  "plain_start = cnetlink_ctor controller_init \<lparr>tp_man = tap_manager_init, tp_io = tap_io_init 8 []\<rparr>
     \<lparr>ca_links = [], ca_neighs = [], ca_addrs = [], ca_routes = [], ca_nhs = [], ca_bvlans = []\<rparr>"

lemma plain_started:
  "\<not> registered (start_nl plain_start)" "run_state (start_nl plain_start) = NL_STATE_INIT" "nl_objs (start_nl plain_start) = []"
  "registered (start_nl (register_switch plain_env plain_start))" "wakeup (start_nl (register_switch plain_env plain_start))"
  "run_state (start_nl (register_switch plain_env plain_start)) = NL_STATE_INIT"
  by (simp_all add: start_nl_def wake_def register_switch_def plain_start_def cnetlink_ctor_def)

abbreviation (input) byte_packet :: "u8 \<Rightarrow> packet" where
  "byte_packet b \<equiv> \<lparr>pk_len = 1, pk_data = [b]\<rparr>"

theorem netlink_queues_in_order_witness:
  "packet_in (learn_l2 2 (byte_packet 6) (learn_l2 1 (byte_packet 5) plain_start)) = [(1, byte_packet 5), (2, byte_packet 6)]"
proof -
  have "nl_reach plain_env plain_start (([] @ [Learn_l2 1 (byte_packet 5)]) @ [Learn_l2 2 (byte_packet 6)]) Idle
      (learn_l2 2 (byte_packet 6) (learn_l2 1 (byte_packet 5) plain_start))"
    by (rule nl_reach.call [OF nl_reach.call [OF nl_reach.start]]) simp_all
  from netlink_queues_in_order [OF this [unfolded plain_start_def]] show ?thesis
    by (simp add: nl_call_defs plain_start_def cnetlink_ctor_def)
qed

subsection \<open>The steps of one call\<close>

text \<open>The result of running the thread alone until the call returns; \<open>None\<close> when the program ends.\<close>

inductive finishes :: "('s, 'p) cn_env \<Rightarrow> nl_pc \<Rightarrow> ('s, 'p) cnetlink \<Rightarrow> ('s, 'p) cnetlink option \<Rightarrow> bool" for ce where
  returned: "finishes ce Idle c (Some c)"
| stepped: "pc \<noteq> Idle \<Longrightarrow> thread_step ce (pc, c) = Some (pc1, c1) \<Longrightarrow> finishes ce pc1 c1 r \<Longrightarrow> finishes ce pc c r"
| crashed: "pc \<noteq> Idle \<Longrightarrow> thread_step ce (pc, c) = None \<Longrightarrow> finishes ce pc c None"

inductive_cases finishes_IdleE: "finishes ce Idle c r"
inductive_cases finishesE: "finishes ce pc c r"

lemma finishes_unique: "finishes ce pc c r \<Longrightarrow> finishes ce pc c r1 \<Longrightarrow> r1 = r"
proof (induction arbitrary: r1 rule: finishes.induct)
  case (returned c)
  then show ?case by (auto elim: finishes_IdleE)
next
  case (stepped pc c pc2 c2 r)
  from stepped.prems show ?case
  proof (rule finishesE)
    show ?thesis if "thread_step ce (pc, c) = Some (pc1, c1)" "finishes ce pc1 c1 r1" for pc1 c1
      using that stepped.hyps(2) by (simp del: thread_step.simps add: stepped.IH)
  qed (use stepped.hyps(1,2) in \<open>simp_all del: thread_step.simps\<close>)
next
  case (crashed pc c)
  from crashed.prems show ?case
    by (rule finishesE) (use crashed.hyps in \<open>simp_all del: thread_step.simps\<close>)
qed

lemma finishes_learning:
  assumes "learn_loop ce cnt q c = (n, c1)" and "finishes ce (Timing n (0, fdb_evts c1)) (c1\<lparr>fdb_evts := []\<rparr>) r"
  shows "finishes ce (Learning (cnt, q)) c r"
  using assms
proof (induction q arbitrary: cnt c)
  case Nil
  then show ?case by (auto intro: stepped simp: learn_round_def)
next
  case (Cons p q)
  show ?case
  proof (cases "cnt < nl_proc_max \<and> run_state c = NL_STATE_RUNNING")
    case True
    then obtain c2 where round: "learn_round ce (cnt, p # q) c = (Some (Suc cnt, q), c2)" by (simp add: learn_round_def)
    with Cons.prems have "learn_loop ce (Suc cnt) q c2 = (n, c1)" by simp
    with Cons round have "finishes ce (Learning (Suc cnt, q)) c2 r" by blast
    with round show ?thesis by (auto intro: stepped)
  next
    case False
    then obtain c2 where "learn_round ce (cnt, p # q) c = (None, c2)" by (simp add: learn_round_def)
    with Cons.prems show ?thesis by (auto intro: stepped)
  qed
qed

lemma finishes_timing:
  assumes "fdb_loop ce cnt q c = (n2, c1)" and "finishes ce (Finishing (n \<noteq> 0 \<or> n2 \<noteq> 0)) c1 r"
  shows "finishes ce (Timing n (cnt, q)) c r"
  using assms
proof (induction q arbitrary: cnt c)
  case Nil
  then show ?case by (auto intro: stepped simp: fdb_round_def)
next
  case (Cons e q)
  show ?case
  proof (cases "cnt < nl_proc_max \<and> br_link (st_bridge (comps c)) \<noteq> None \<and> run_state c = NL_STATE_RUNNING")
    case True
    then obtain c2 where round: "fdb_round ce (cnt, e # q) c = (Some (Suc cnt, q), c2)" by (simp add: fdb_round_def)
    with Cons.prems have "fdb_loop ce (Suc cnt) q c2 = (n2, c1)" by simp
    with Cons round have "finishes ce (Timing n (Suc cnt, q)) c2 r" by blast
    with round show ?thesis by (auto intro: stepped)
  next
    case False
    then obtain c2 where "fdb_round ce (cnt, e # q) c = (None, c2)" by (auto simp: fdb_round_def)
    with Cons.prems show ?thesis by (auto intro: stepped)
  qed
qed

definition after_objs :: "('s, 'p) cn_env \<Rightarrow> ('s, 'p) cnetlink \<Rightarrow> ('s, 'p) cnetlink" where
  "after_objs ce c = (let (n1, c2) = handle_source_mac_learn ce c; (n2, c3) = handle_fdb_timeout ce c2
     in if n1 \<noteq> 0 \<or> n2 \<noteq> 0 \<or> nl_objs c3 \<noteq> [] then wake c3 else c3)"

lemma finishes_queues: "finishes ce (Learning (0, packet_in c)) (c\<lparr>packet_in := []\<rparr>) (Some (after_objs ce c))"
proof -
  obtain n1 c2 where learn: "learn_loop ce 0 (packet_in c) (c\<lparr>packet_in := []\<rparr>) = (n1, c2)" by fastforce
  obtain n2 c3 where fdb: "fdb_loop ce 0 (fdb_evts c2) (c2\<lparr>fdb_evts := []\<rparr>) = (n2, c3)" by fastforce
  have result: "after_objs ce c = (if n1 \<noteq> 0 \<or> n2 \<noteq> 0 \<or> nl_objs c3 \<noteq> [] then wake c3 else c3)"
    using learn fdb by (simp add: after_objs_def handle_source_mac_learn_def handle_fdb_timeout_def)
  have "finishes ce (Finishing (n1 \<noteq> 0 \<or> n2 \<noteq> 0)) c3 (Some (after_objs ce c))"
    by (rule stepped [OF _ _ returned]) (simp_all add: result)
  from finishes_learning [OF learn finishes_timing [OF fdb this]] show ?thesis .
qed

lemma objs_done:
  "n = 0 \<or> nl_objs c = [] \<or> run_state c \<noteq> NL_STATE_RUNNING \<Longrightarrow> finishes ce (Objs n) c (Some (after_objs ce c))"
  by (rule stepped [OF _ _ finishes_queues]) auto

lemma finishes_objs: "finishes ce (Objs n) c (map_option (after_objs ce) (obj_loop ce n c))"
proof (induction n arbitrary: c)
  case 0
  show ?case by (simp add: objs_done)
next
  case (Suc n)
  show ?case
  proof (cases "nl_objs c \<noteq> [] \<and> run_state c = NL_STATE_RUNNING")
    case False
    then have "obj_loop ce (Suc n) c = Some c" by (auto split: list.split)
    with False show ?thesis by (auto simp: objs_done)
  next
    case True
    then obtain x xs where objs: "nl_objs c = x # xs" by (auto simp: neq_Nil_conv)
    show ?thesis
    proof (cases "obj_apply ce x ((comps c)\<lparr>st_objs := xs\<rparr>)")
      case None
      with True objs show ?thesis by (auto intro: crashed)
    next
      case (Some st)
      then show ?thesis using True objs stepped [OF _ _ Suc.IH, of "Objs (Suc n)" c "c\<lparr>comps := st, nl_objs := xs\<rparr>"] by simp
    qed
  qed
qed

lemma handle_wakeup_finishes:
  assumes "registered c"
  shows "finishes ce (Switching (run_state c)) (c\<lparr>wakeup := False\<rparr>) (handle_wakeup ce c)"
proof -
  have active: "handle_wakeup ce c =
      map_option (after_objs ce) (obj_loop ce nl_proc_max (c\<lparr>wakeup := False, run_state := NL_STATE_RUNNING\<rparr>))"
    if "run_state c = NL_STATE_RUNNING \<or> run_state c = NL_STATE_INIT"
    using that assms by (auto simp: handle_wakeup_def after_objs_def Let_def split: option.split prod.split)
  show ?thesis
  proof (cases "run_state c")
    case NL_STATE_RUNNING
    then have "c\<lparr>wakeup := False, run_state := NL_STATE_RUNNING\<rparr> = c\<lparr>wakeup := False\<rparr>" by simp
    with NL_STATE_RUNNING active show ?thesis by (auto intro: stepped finishes_objs)
  next
    case NL_STATE_INIT
    with active show ?thesis by (auto intro: stepped finishes_objs)
  next
    case NL_STATE_SHUTDOWN
    with assms have "handle_wakeup ce c = Some ((shutdown_subsystems ce (c\<lparr>wakeup := False\<rparr>))\<lparr>run_state := NL_STATE_STOPPED\<rparr>)"
      by (simp add: handle_wakeup_def)
    moreover have "finishes ce Stopping d (Some (d\<lparr>run_state := NL_STATE_STOPPED\<rparr>))" for d
      by (rule stepped [OF _ _ returned]) simp_all
    ultimately show ?thesis using NL_STATE_SHUTDOWN by (auto intro: stepped)
  next
    case NL_STATE_STOPPED
    with assms show ?thesis by (auto simp: handle_wakeup_def Let_def intro: stepped returned)
  qed
qed

text \<open>
  C9: Run without interference, the steps of the thread after a wakeup end with the result of
  \<open>handle_wakeup\<close> and no other, a crash of the program included.
\<close>

theorem steps_refine_handle_wakeup:
  assumes "registered c"
  shows "finishes ce (Switching (run_state c)) (c\<lparr>wakeup := False\<rparr>) r \<longleftrightarrow> r = handle_wakeup ce c"
  using handle_wakeup_finishes [OF assms] finishes_unique by blast

theorem steps_refine_handle_wakeup_witness:
  "finishes plain_env (Switching NL_STATE_INIT) ((start_nl (register_switch plain_env plain_start))\<lparr>wakeup := False\<rparr>)
     (handle_wakeup plain_env (start_nl (register_switch plain_env plain_start)))"
  using steps_refine_handle_wakeup [OF plain_started(4), of plain_env] by (simp only: plain_started)

subsection \<open>No work is forgotten\<close>














subsection \<open>What has no effect\<close>

text \<open>
  Changes reported before the switch is registered are not handled when it is: the wakeup for them is used up
  without effect, registering does not repeat it, and the thread stays idle with the changes pending, until
  something else happens.
\<close>

theorem registration_does_not_wake:
  assumes "\<not> registered c" and "run_state c = NL_STATE_INIT"
  shows "\<exists>c1. thread_step ce (Idle, handle_read_event ca changes c) = Some (Idle, c1) \<and>
    nl_objs (register_switch ce c1) = nl_objs c @ changes \<and> registered (register_switch ce c1) \<and>
    (\<forall>n. thread_steps ce n (Idle, register_switch ce c1) = Some (Idle, register_switch ce c1))"
proof -
  have objs: "nl_objs (fold nl_cb_v2 changes d) = nl_objs d @ changes" if "run_state d = NL_STATE_INIT" for d :: "('a, 'b) cnetlink"
    using that by (induction changes arbitrary: d) (simp_all add: nl_cb_v2_def)
  define c1 where "c1 = (handle_read_event ca changes c)\<lparr>wakeup := False\<rparr>"
  have "thread_step ce (Idle, handle_read_event ca changes c) = Some (Idle, c1)"
    using assms by (simp add: c1_def handle_read_event_def wake_def Let_def)
  moreover have "nl_objs (register_switch ce c1) = nl_objs c @ changes"
    using assms by (simp add: c1_def register_switch_def handle_read_event_def wake_def objs Let_def)
  moreover have "wakeup (register_switch ce c1) = False" by (simp add: c1_def register_switch_def)
  then have "thread_steps ce n (Idle, register_switch ce c1) = Some (Idle, register_switch ce c1)" for n
    by (induction n) simp_all
  ultimately show ?thesis by (auto simp: register_switch_def)
qed

theorem registration_does_not_wake_witness:
  "\<exists>c1. thread_step plain_env (Idle, handle_read_event (st_caches (comps plain_start))
        [\<lparr>no_action = NL_ACT_NEW, no_old = None, no_new = Some (Obj_link (plain_link 3))\<rparr>] (start_nl plain_start)) = Some (Idle, c1) \<and>
     nl_objs (register_switch plain_env c1) = [\<lparr>no_action = NL_ACT_NEW, no_old = None, no_new = Some (Obj_link (plain_link 3))\<rparr>] \<and>
     (\<forall>n. thread_steps plain_env n (Idle, register_switch plain_env c1) = Some (Idle, register_switch plain_env c1))"
  using registration_does_not_wake [OF plain_started(1,2), of plain_env "st_caches (comps plain_start)"
      "[\<lparr>no_action = NL_ACT_NEW, no_old = None, no_new = Some (Obj_link (plain_link 3))\<rparr>]"]
  by (simp only: plain_started append_Nil) blast

text \<open>
  A stop is lost when it comes between the read and the write of \<open>state\<close> in \<open>handle_wakeup\<close>: the
  thread overwrites it, keeps running, and the start that the timer of \<open>resend_state\<close> brings finds nothing to do, so the
  subsystems are never shut down.
\<close>

theorem stop_lost_in_init:
  assumes "registered c" and "wakeup c" and "run_state c = NL_STATE_INIT"
  shows "\<exists>c1 c2. thread_step ce (Idle, c) = Some (Switching NL_STATE_INIT, c1) \<and>
    thread_step ce (Switching NL_STATE_INIT, resend_state c1) = Some (Objs nl_proc_max, c2) \<and>
    run_state c2 = NL_STATE_RUNNING \<and> comps c2 = comps c \<and> nl_handle_timeout c2 = c2\<lparr>resend_timer := False\<rparr>"
  using assms by (auto simp: nl_call_defs nl_handle_timeout_def)

theorem stop_lost_in_init_witness:
  "\<exists>c1 c2. thread_step plain_env (Idle, start_nl (register_switch plain_env plain_start)) = Some (Switching NL_STATE_INIT, c1) \<and>
    thread_step plain_env (Switching NL_STATE_INIT, resend_state c1) = Some (Objs nl_proc_max, c2) \<and>
    run_state c2 = NL_STATE_RUNNING \<and> nl_handle_timeout c2 = c2\<lparr>resend_timer := False\<rparr>"
  using stop_lost_in_init [OF plain_started(4,5,6), of plain_env] by blast

end
