(* ===== verification/Netlink_Batch.thy ===== *)
theory Netlink_Batch
  imports Netlink_Steps
begin

text \<open>
  What one call of \<open>handle_wakeup\<close> gets done, and what a sequence of calls does: packets reach the port manager in
  batches of ten until none is left, while timed out forwarding entries without a bridge keep the thread busy for ever.
\<close>

fun wakeups :: "('s, 'p) cn_env \<Rightarrow> nat \<Rightarrow> ('s, 'p) cnetlink \<Rightarrow> ('s, 'p) cnetlink option" where
  "wakeups ce 0 c = Some c"
| "wakeups ce (Suc k) c = (case handle_wakeup ce c of None \<Rightarrow> None | Some c1 \<Rightarrow> wakeups ce k c1)"

definition running :: "('s, 'p) cnetlink \<Rightarrow> bool" where
  "running c \<longleftrightarrow> registered c \<and> (run_state c = NL_STATE_RUNNING \<or> run_state c = NL_STATE_INIT)"

text \<open>Handing packets to the port manager, one after the other.\<close>

definition deliver :: "('s, 'p) cn_env \<Rightarrow> (u32 \<times> packet) list \<Rightarrow> 'p \<Rightarrow> 'p" where
  "deliver ce ps = fold (\<lambda>(port_id, pkt). po_enqueue (ce_po ce) port_id pkt) ps"

lemma learn_loop_running:
  assumes "run_state c = NL_STATE_RUNNING"
  shows "learn_loop ce cnt q c =
    (length q - (nl_proc_max - cnt),
     c\<lparr>comps := (comps c)\<lparr>st_ports := deliver ce (take (nl_proc_max - cnt) q) (st_ports (comps c))\<rparr>,
       delivered := delivered c @ take (nl_proc_max - cnt) q,
       packet_in := drop (nl_proc_max - cnt) q @ packet_in c\<rparr>)"
  using assms
proof (induction q arbitrary: cnt c)
  case Nil
  then show ?case by (simp add: deliver_def)
next
  case (Cons p q)
  show ?case
  proof (cases "cnt < nl_proc_max")
    case True
    then obtain m where m: "nl_proc_max - cnt = Suc m" "nl_proc_max - Suc cnt = m" by (metis Suc_diff_Suc)
    with True Cons show ?thesis by (simp add: learn_round_def deliver_def split_beta)
  next
    case False
    with Cons.prems show ?thesis
      by (simp add: learn_round_def deliver_def front_inserter_rev del: rev.simps)
  qed
qed

lemma fdb_timeout_ports [simp]: "st_ports (snd (fdb_timeout be l vid mac st)) = st_ports st"
  by (simp add: fdb_timeout_def send_nl_msg_def upd_br_def Let_def split: option.split)

lemma fdb_event_ports [simp]: "st_ports (fdb_event ce e st) = st_ports st"
  by (simp add: fdb_event_def Let_def split: prod.split option.split)

lemma fdb_loop_frame:
  assumes "fdb_loop ce cnt q c = (n, c1)"
  shows "packet_in c1 = packet_in c" and "delivered c1 = delivered c" and "nl_objs c1 = nl_objs c"
    and "st_ports (comps c1) = st_ports (comps c)" and "run_state c1 = run_state c" and "registered c1 = registered c"
  using assms
  by (induction q arbitrary: cnt c)
     (auto simp: fdb_round_def split: if_splits)

lemma fdb_loop_no_bridge:
  assumes "br_link (st_bridge (comps c)) = None"
  shows "fdb_loop ce cnt q c = (length q, c\<lparr>fdb_evts := q @ fdb_evts c\<rparr>)"
  using assms by (cases q) (simp_all add: fdb_round_def front_inserter_rev del: rev.simps)

lemma handle_wakeup_no_objs:
  assumes "running c" and "nl_objs c = []"
  shows "handle_wakeup ce c = Some (after_objs ce (c\<lparr>wakeup := False, run_state := NL_STATE_RUNNING\<rparr>))"
  using assms by (auto simp: running_def handle_wakeup_def after_objs_def numeral_eq_Suc split: prod.split)

lemma after_objs_packets:
  assumes "run_state c = NL_STATE_RUNNING" and "registered c" and "nl_objs c = []" and c1_def: "c1 = after_objs ce c"
  shows "delivered c1 = delivered c @ take nl_proc_max (packet_in c)"
    and "packet_in c1 = drop nl_proc_max (packet_in c)"
    and "st_ports (comps c1) = deliver ce (take nl_proc_max (packet_in c)) (st_ports (comps c))"
    and "running c1" and "nl_objs c1 = []" and "packet_in c1 \<noteq> [] \<Longrightarrow> wakeup c1"
proof -
  define c2 where "c2 = c\<lparr>comps := (comps c)\<lparr>st_ports := deliver ce (take nl_proc_max (packet_in c)) (st_ports (comps c))\<rparr>,
       delivered := delivered c @ take nl_proc_max (packet_in c), packet_in := drop nl_proc_max (packet_in c)\<rparr>"
  have learn: "handle_source_mac_learn ce c = (length (packet_in c) - nl_proc_max, c2)"
    using assms(1) by (simp add: handle_source_mac_learn_def learn_loop_running c2_def)
  obtain n2 c3 where fdb: "handle_fdb_timeout ce c2 = (n2, c3)" by fastforce
  note frame = fdb_loop_frame [OF fdb [unfolded handle_fdb_timeout_def]]
  have c1: "c1 = (if length (packet_in c) - nl_proc_max \<noteq> 0 \<or> n2 \<noteq> 0 \<or> nl_objs c3 \<noteq> [] then wake c3 else c3)"
    using learn fdb by (simp add: c1_def after_objs_def)
  show "delivered c1 = delivered c @ take nl_proc_max (packet_in c)" and "packet_in c1 = drop nl_proc_max (packet_in c)"
    and "st_ports (comps c1) = deliver ce (take nl_proc_max (packet_in c)) (st_ports (comps c))"
    and "running c1" and "nl_objs c1 = []" and "packet_in c1 \<noteq> [] \<Longrightarrow> wakeup c1"
    using frame assms(1-3) by (auto simp: c1 c2_def wake_def running_def)
qed

lemma wakeups_deliver:
  assumes "running c" and "nl_objs c = []"
  shows "\<exists>c1. wakeups ce k c = Some c1 \<and>
    delivered c1 = delivered c @ take (nl_proc_max * k) (packet_in c) \<and>
    packet_in c1 = drop (nl_proc_max * k) (packet_in c) \<and>
    st_ports (comps c1) = deliver ce (take (nl_proc_max * k) (packet_in c)) (st_ports (comps c)) \<and>
    (k \<noteq> 0 \<and> packet_in c1 \<noteq> [] \<longrightarrow> wakeup c1)"
  using assms
proof (induction k arbitrary: c)
  case 0
  then show ?case by (simp add: deliver_def)
next
  case (Suc k)
  let ?r = "c\<lparr>wakeup := False, run_state := NL_STATE_RUNNING\<rparr>"
  define d where "d = after_objs ce ?r"
  have step: "handle_wakeup ce c = Some d" unfolding d_def by (rule handle_wakeup_no_objs [OF Suc.prems])
  have "run_state ?r = NL_STATE_RUNNING" "registered ?r" "nl_objs ?r = []" using Suc.prems by (simp_all add: running_def)
  note batch = after_objs_packets [OF this d_def, simplified]
  from Suc.IH [OF batch(4,5)] obtain c2 where
    c2: "wakeups ce k d = Some c2" "delivered c2 = delivered d @ take (nl_proc_max * k) (packet_in d)"
      "packet_in c2 = drop (nl_proc_max * k) (packet_in d)"
      "st_ports (comps c2) = deliver ce (take (nl_proc_max * k) (packet_in d)) (st_ports (comps d))"
      "k \<noteq> 0 \<and> packet_in c2 \<noteq> [] \<longrightarrow> wakeup c2" by blast
  have "wakeup c2" if "packet_in c2 \<noteq> []"
  proof (cases k)
    case 0
    with c2(1) have "c2 = d" by simp
    with that after_objs_packets(6) [OF _ _ _ d_def] Suc.prems show ?thesis by (simp add: running_def)
  next
    case (Suc m)
    with that c2(5) show ?thesis by simp
  qed
  moreover have "take (nl_proc_max * Suc k) (packet_in c) =
      take nl_proc_max (packet_in c) @ take (nl_proc_max * k) (drop nl_proc_max (packet_in c))"
    by (simp add: take_add)
  ultimately show ?case using step c2 batch(1-3) by (simp add: deliver_def add.commute)
qed

text \<open>
  C18: Packets that wait for the ports are all delivered: while the thread runs, no netlink changes are pending and no
  other thread interferes, every wakeup returns, each
  hands the next ten packets to the port manager in their order, and asks for another wakeup while packets are left.
\<close>

theorem packets_delivered:
  assumes "running c" and "nl_objs c = []"
  shows "\<exists>c1. wakeups ce k c = Some c1 \<and>
    delivered c1 = delivered c @ take (nl_proc_max * k) (packet_in c) \<and>
    packet_in c1 = drop (nl_proc_max * k) (packet_in c) \<and>
    st_ports (comps c1) = deliver ce (take (nl_proc_max * k) (packet_in c)) (st_ports (comps c)) \<and>
    (k \<noteq> 0 \<and> packet_in c1 \<noteq> [] \<longrightarrow> wakeup c1)"
  using assms by (rule wakeups_deliver)

theorem packets_delivered_witness:
  "\<exists>c1. wakeups plain_env 2 ((start_nl (register_switch plain_env plain_start))\<lparr>packet_in := replicate 13 (1, byte_packet 5)\<rparr>) = Some c1 \<and>
    delivered c1 = replicate 13 (1, byte_packet 5) \<and> packet_in c1 = []"
  using packets_delivered [of "(start_nl (register_switch plain_env plain_start))\<lparr>packet_in := replicate 13 (1, byte_packet 5)\<rparr>" plain_env 2]
  by (fastforce simp: running_def plain_started start_nl_def wake_def register_switch_def plain_start_def cnetlink_ctor_def)

text \<open>
  Without a bridge a timed out forwarding entry is never dropped, and since \<open>handle_wakeup\<close> asks for another
  wakeup while entries are left, the thread spins: after any number of wakeups the entries are still there and the next
  wakeup is due.
\<close>

theorem fdb_events_without_bridge_spin:
  assumes "running c" and "nl_objs c = []" and "packet_in c = []" and "fdb_evts c \<noteq> []"
    and "br_link (st_bridge (comps c)) = None"
  shows "\<exists>c1. wakeups ce (Suc k) c = Some c1 \<and> fdb_evts c1 = fdb_evts c \<and> fdb_done c1 = fdb_done c \<and> wakeup c1"
  using assms
proof (induction k arbitrary: c)
  case 0
  then show ?case
    by (simp add: handle_wakeup_no_objs after_objs_def handle_source_mac_learn_def handle_fdb_timeout_def
        fdb_loop_no_bridge wake_def)
next
  case (Suc k)
  define c1 where "c1 = c\<lparr>run_state := NL_STATE_RUNNING, wakeup := True\<rparr>"
  have "handle_wakeup ce c = Some c1" using Suc.prems
    by (simp add: handle_wakeup_no_objs after_objs_def handle_source_mac_learn_def handle_fdb_timeout_def
        fdb_loop_no_bridge wake_def c1_def)
  moreover have "running c1" "nl_objs c1 = []" "packet_in c1 = []" "fdb_evts c1 \<noteq> []" "br_link (st_bridge (comps c1)) = None"
    using Suc.prems by (simp_all add: c1_def running_def)
  note Suc.IH [OF this]
  ultimately show ?case by (auto simp: c1_def simp del: wakeups.simps(1) split: option.split)
qed

theorem fdb_events_without_bridge_spin_witness:
  "\<exists>c1. wakeups plain_env (Suc 3) ((start_nl (register_switch plain_env plain_start))\<lparr>fdb_evts := [(1, 5, 7)]\<rparr>) = Some c1 \<and>
    fdb_evts c1 = [(1, 5, 7)] \<and> wakeup c1"
  using fdb_events_without_bridge_spin [of "(start_nl (register_switch plain_env plain_start))\<lparr>fdb_evts := [(1, 5, 7)]\<rparr>" plain_env 3]
  by (fastforce simp: running_def plain_started start_nl_def wake_def register_switch_def plain_start_def cnetlink_ctor_def
      upd_sw_def call_sw_def split_beta cnetlink_init_def nl_bridge_init_def simp del: wakeups.simps)

text \<open>A stop and a start before the thread runs cancel each other: nothing is shut down.\<close>

lemma restart_skips_shutdown:
  "registered c \<Longrightarrow> run_state c = NL_STATE_RUNNING \<Longrightarrow> handle_wakeup ce (start_nl (stop_nl c)) = handle_wakeup ce c"
  by (simp add: handle_wakeup_def start_nl_def stop_nl_def wake_def Let_def)

end
