(* ===== verification/Northbound.thy ===== *)
theory Northbound
  imports Netlink_Batch Ctl_Session
begin

text \<open>
  The class between controller and netlink (\<open>nbi_impl\<close>, \<open>src/src/netlink/nbi_impl.cc\<close>), and the system it ties together:
  the controller is the switch state \<open>st_sw\<close> of the netlink components, the tap manager with its packet thread is their port
  state. The theorems follow a port and a packet through all of them.
\<close>

subsection \<open>The class\<close>

definition nbi_impl_ctor :: "'s \<Rightarrow> 'p \<Rightarrow> nl_caches \<Rightarrow> ('s, 'p) cnetlink" where
  "nbi_impl_ctor s p ca = start_nl (cnetlink_ctor s p ca)"

definition nbi_register_switch :: "('s, 'p) cn_env \<Rightarrow> ('s, 'p) cnetlink \<Rightarrow> ('s, 'p) cnetlink" where
  "nbi_register_switch ce c = register_switch ce c"

definition nbi_resend_state :: "('s, 'p) cnetlink \<Rightarrow> ('s, 'p) cnetlink" where
  "nbi_resend_state c = resend_state c"

definition switch_state_notification :: "('s, 'p) cn_env \<Rightarrow> switch_state \<Rightarrow> ('s, 'p) cnetlink \<Rightarrow> ('s, 'p) cnetlink option" where
  "switch_state_notification ce state c =
     (case state of SWITCH_STATE_UP \<Rightarrow> switch_connected ce c | _ \<Rightarrow> Some c)"

definition with_ports :: "('p \<Rightarrow> (int \<times> 'p) option) \<Rightarrow> ('s, 'p) cnetlink \<Rightarrow> ('s, 'p) cnetlink option" where
  "with_ports f c = map_option (\<lambda>(_, p). c\<lparr>comps := (comps c)\<lparr>st_ports := p\<rparr>\<rparr>) (f (st_ports (comps c)))"

text \<open>A port that is reported up is given its speed first.\<close>

definition port_changed :: "('s, 'p) cn_env \<Rightarrow> port_notification_data \<Rightarrow> 'p \<Rightarrow> (int \<times> 'p) option" where
  "port_changed ce ntfy p =
     po_change_port_status (ce_po ce) (ntf_name ntfy) (ntf_status ntfy)
       (if ntf_status ntfy then snd (po_set_port_speed (ce_po ce) (ntf_name ntfy) (ntf_speed ntfy) (ntf_duplex ntfy) p) else p)"

definition notify_port :: "('s, 'p) cn_env \<Rightarrow> port_notification_data \<Rightarrow> ('s, 'p) cnetlink \<Rightarrow> ('s, 'p) cnetlink option" where
  "notify_port ce ntfy c =
     (if get_port_type (ntf_port_id ntfy) \<noteq> port_type_physical then Some c
      else case ntf_ev ntfy of
          PORT_EVENT_TABLE \<Rightarrow>
            with_ports (po_create_portdev (ce_po ce) (ntf_port_id ntfy) (ntf_name ntfy) (ntf_hwaddr ntfy)) c
        | PORT_EVENT_MODIFY \<Rightarrow> with_ports (port_changed ce ntfy) c
        | PORT_EVENT_ADD \<Rightarrow> with_ports (port_changed ce ntfy) c
        | PORT_EVENT_DEL \<Rightarrow>
            with_ports (\<lambda>p. Some (po_destroy_portdev (ce_po ce) (ntf_port_id ntfy) (ntf_name ntfy) p)) c)"

definition port_notification :: "('s, 'p) cn_env \<Rightarrow> port_notification_data list \<Rightarrow> ('s, 'p) cnetlink \<Rightarrow> ('s, 'p) cnetlink option" where
  "port_notification ce notifications c = foreach_opt (notify_port ce) notifications c"

definition enqueue_to_switch :: "('s, 'p) cn_env \<Rightarrow> u32 \<Rightarrow> packet \<Rightarrow> ('s, 'p) cnetlink \<Rightarrow> (int \<times> ('s, 'p) cnetlink) option" where
  "enqueue_to_switch ce port_id pkt c =
     map_option (\<lambda>(_, s). (0, c\<lparr>comps := (comps c)\<lparr>st_sw := s\<rparr>\<rparr>)) (sw_enqueue (ce_swi ce) port_id pkt (st_sw (comps c)))"

definition nbi_enqueue :: "u32 \<Rightarrow> packet \<Rightarrow> ('s, 'p) cnetlink \<Rightarrow> ('s, 'p) cnetlink" where
  "nbi_enqueue port_id pkt c = learn_l2 port_id pkt c"

definition nbi_fdb_timeout :: "u32 \<Rightarrow> u16 \<Rightarrow> mac \<Rightarrow> ('s, 'p) cnetlink \<Rightarrow> ('s, 'p) cnetlink" where
  "nbi_fdb_timeout port_id vid mac c = fdb_timeout_nl port_id vid mac c"

subsection \<open>Messages of the switch\<close>

text \<open>The calls that a handler of the controller makes on its northbound interface, executed.\<close>

fun nbi_exec :: "('s, 'p) cn_env \<Rightarrow> nbi_call \<Rightarrow> ('s, 'p) cnetlink \<Rightarrow> ('s, 'p) cnetlink option" where
  "nbi_exec ce (Port_notification ntfs) c = port_notification ce ntfs c"
| "nbi_exec ce (Switch_state_notification state) c = switch_state_notification ce state c"
| "nbi_exec ce Resend_state c = Some (nbi_resend_state c)"
| "nbi_exec ce (Nb_enqueue port_id bytes) c =
     Some (nbi_enqueue port_id \<lparr>pk_len = of_nat (length bytes), pk_data = bytes\<rparr> c)"
| "nbi_exec ce (nbi_call.Fdb_timeout port_id vid mac) c = Some (nbi_fdb_timeout port_id vid mac c)"

definition from_switch :: "(controller, 'p) cn_env \<Rightarrow> (controller \<Rightarrow> controller \<times> nbi_call list) \<Rightarrow>
    (controller, 'p) cnetlink \<Rightarrow> (controller, 'p) cnetlink option" where
  "from_switch ce handler c =
     (let (ctl, calls) = handler (st_sw (comps c))
      in foreach_opt (nbi_exec ce) calls (c\<lparr>comps := (comps c)\<lparr>st_sw := ctl\<rparr>\<rparr>))"

lemma foreach_opt_Nil [simp]: "foreach_opt f [] = Some"
  by (rule ext) simp

subsection \<open>Every port gets its device\<close>

text \<open>What the port list of the switch has to satisfy for the loop to create a device for each port.\<close>

definition creatable :: "tap_env \<Rightarrow> tap_ports \<Rightarrow> of_port list \<Rightarrow> bool" where
  "creatable te p ports \<longleftrightarrow> distinct (map of_port_no ports) \<and> distinct (map of_name ports) \<and>
     (\<forall>q \<in> set ports. get_port_type (of_port_no q) = port_type_physical \<and>
        0 < length (of_name q) \<and> length (of_name q) < IFNAMSIZ \<and> 0 \<le> tun_open te (of_name q) \<and>
        fmlookup (tap_devs (tp_man p)) (of_port_no q) = None \<and>
        fmlookup (port_names2id (tp_man p)) (of_name q) = None \<and>
        fmlookup (id_to_hwaddr (tp_man p)) (of_port_no q) = None)"

definition tap_details :: "tap_env \<Rightarrow> of_port \<Rightarrow> tap_io_details" where
  "tap_details te q = \<lparr>tio_fd = tun_open te (of_name q), tio_port_id = of_port_no q, tio_cb = True, tio_mtu = 1500\<rparr>"

lemma create_device:
  assumes "creatable te p (q # ports)"
  obtains p1 where "tp_create_portdev te (of_port_no q) (of_name q) (of_hwaddr q) p = Some (0, p1)"
    and "creatable te p1 ports"
    and "port_names2id (tp_man p1) = fmupd (of_name q) (of_port_no q) (port_names2id (tp_man p))"
    and "io_events (tp_io p1) = io_events (tp_io p) @ [(TAP_IO_ADD, tap_details te q)]"
proof -
  let ?dev = "\<lparr>td_fd = tun_open te (of_name q), td_devname = of_name q, td_hwaddr = of_hwaddr q\<rparr>"
  define m where "m = (tp_man p)\<lparr>tap_devs := fmupd (of_port_no q) ?dev (tap_devs (tp_man p)),
    port_names2id := fmupd (of_name q) (of_port_no q) (port_names2id (tp_man p)),
    id_to_hwaddr := fmupd (of_port_no q) (of_hwaddr q) (id_to_hwaddr (tp_man p)),
    tap_names2fds := fm_emplace (of_name q) (tun_open te (of_name q)) (tap_names2fds (tp_man p))\<rparr>"
  have "tap_create_portdev (tun_open te) (of_port_no q) (of_name q) (of_hwaddr q) (tp_man p) = Some (0, m)"
    using assms by (auto simp: creatable_def tap_create_portdev_def ctapdev_def tap_open_def m_def)
  moreover have "fmlookup (tap_devs (tp_man p)) (of_port_no q) = None" using assms by (simp add: creatable_def)
  ultimately have "tp_create_portdev te (of_port_no q) (of_name q) (of_hwaddr q) p =
      Some (0, \<lparr>tp_man = m, tp_io = register_tap (tap_details te q) (tp_io p)\<rparr>)"
    by (simp add: tp_create_portdev_def m_def tap_details_def)
  moreover have "creatable te \<lparr>tp_man = m, tp_io = register_tap (tap_details te q) (tp_io p)\<rparr> ports"
    using assms by (auto simp: creatable_def m_def)
  ultimately show thesis using that by (simp add: m_def register_tap_def)
qed

lemma create_devices:
  assumes "ce_po ce = tap_ops te" and "creatable te (st_ports (comps c)) ports"
  shows "\<exists>c1. port_notification ce (map (port_data PORT_EVENT_TABLE) ports) c = Some c1 \<and>
    get_registered_ports (tp_man (st_ports (comps c1))) =
      fold (\<lambda>q. fmupd (of_name q) (of_port_no q)) ports (get_registered_ports (tp_man (st_ports (comps c)))) \<and>
    io_events (tp_io (st_ports (comps c1))) =
      io_events (tp_io (st_ports (comps c))) @ map (\<lambda>q. (TAP_IO_ADD, tap_details te q)) ports"
  using assms(2)
proof (induction ports arbitrary: c)
  case Nil
  then show ?case by (simp add: port_notification_def)
next
  case (Cons q ports)
  obtain p1 where p1: "tp_create_portdev te (of_port_no q) (of_name q) (of_hwaddr q) (st_ports (comps c)) = Some (0, p1)"
    "creatable te p1 ports" "port_names2id (tp_man p1) = fmupd (of_name q) (of_port_no q) (port_names2id (tp_man (st_ports (comps c))))"
    "io_events (tp_io p1) = io_events (tp_io (st_ports (comps c))) @ [(TAP_IO_ADD, tap_details te q)]"
    using create_device [OF Cons.prems] by blast
  let ?c = "c\<lparr>comps := (comps c)\<lparr>st_ports := p1\<rparr>\<rparr>"
  have physical: "get_port_type (of_port_no q) = port_type_physical" using Cons.prems by (simp add: creatable_def)
  have "notify_port ce (port_data PORT_EVENT_TABLE q) c = Some ?c"
    using p1(1) physical by (simp add: notify_port_def port_data_def with_ports_def assms(1) tap_ops_def)
  then show ?case using Cons.IH [of ?c] p1(2-4) by (simp add: port_notification_def get_registered_ports_def)
qed

definition listed_ports :: "of_port list \<Rightarrow> of_port list" where
  "listed_ports ports = filter (\<lambda>p. get_port_type (of_port_no p) \<notin> {port_type_lag, port_type_vxlan}) ports"

text \<open>
  C12: When the switch lists its ports, a tap device is created for each physical port and its descriptor is handed to the
  packet thread, in the order of the list; ports of LAGs and tunnels get none. It is required that the
  identifiers and names of the physical ports are new and distinct, and the names valid.
\<close>

theorem listed_ports_get_devices:
  assumes "ce_po ce = tap_ops te"
    and "creatable te (st_ports (comps c)) (listed_ports ports)"
  shows "\<exists>c1. from_switch ce (handle_port_desc_stats_reply env ports) c = Some c1 \<and>
    get_registered_ports (tp_man (st_ports (comps c1))) =
      fold (\<lambda>q. fmupd (of_name q) (of_port_no q))
        (listed_ports ports)
        (get_registered_ports (tp_man (st_ports (comps c)))) \<and>
    io_events (tp_io (st_ports (comps c1))) = io_events (tp_io (st_ports (comps c))) @
      map (\<lambda>q. (TAP_IO_ADD, tap_details te q))
        (listed_ports ports)"
proof -
  obtain ctl where "handle_port_desc_stats_reply env ports (st_sw (comps c)) =
      (ctl, [Port_notification (map (port_data PORT_EVENT_TABLE)
        (listed_ports ports))])"
    using port_desc_loop_eq [of env ports "[]" "st_sw (comps c)"]
    by (auto simp: handle_port_desc_stats_reply_def split_beta listed_ports_def)
  then show ?thesis
    using create_devices [OF assms(1), of "c\<lparr>comps := (comps c)\<lparr>st_sw := ctl\<rparr>\<rparr>" "listed_ports ports"] assms(2)
    by (simp add: from_switch_def)
qed

definition two_ports :: "of_port list" where
  "two_ports = [\<lparr>of_port_no = 1, of_hwaddr = 7, of_name = ''port1'', of_config = 0, of_state = 0, of_curr_speed = 1000, of_curr = 0\<rparr>,
     \<lparr>of_port_no = 0x20001, of_hwaddr = 8, of_name = ''lag1'', of_config = 0, of_state = 0, of_curr_speed = 0, of_curr = 0\<rparr>]"

theorem listed_ports_get_devices_witness:
  "\<exists>c1. from_switch plain_env (handle_port_desc_stats_reply ideal_env two_ports) plain_start = Some c1 \<and>
    get_registered_ports (tp_man (st_ports (comps c1))) = fmupd ''port1'' 1 fmempty \<and>
    io_events (tp_io (st_ports (comps c1))) = [(TAP_IO_ADD, \<lparr>tio_fd = 6, tio_port_id = 1, tio_cb = True, tio_mtu = 1500\<rparr>)]"
proof -
  have types: "get_port_type 1 = port_type_physical" "get_port_type 0x20001 = port_type_lag"
    by (simp_all add: get_port_type_def)
  have "ce_po plain_env = tap_ops quiet_kernel" by (simp add: plain_env_def)
  moreover have "creatable quiet_kernel (st_ports (comps plain_start))
      (listed_ports two_ports)"
    by (simp add: two_ports_def listed_ports_def types creatable_def quiet_kernel_def plain_start_def cnetlink_ctor_def cnetlink_init_def tap_manager_init_def)
  ultimately show ?thesis using listed_ports_get_devices [of plain_env quiet_kernel plain_start two_ports ideal_env]
    by (auto simp: two_ports_def listed_ports_def types tap_details_def quiet_kernel_def plain_start_def cnetlink_ctor_def cnetlink_init_def
        tap_manager_init_def tap_io_init_def get_registered_ports_def)
qed

subsection \<open>From the switch to a tap\<close>

text \<open>
  C10: A packet that the switch sends to the controller is written to the tap device of its port, unchanged: the
  controller hands it to the netlink thread, the next wakeup of that thread puts it into the queue of the packet
  thread, behind what is there, and when the kernel takes every packet the packet thread writes it. It is required that
  the thread runs with nothing else to do, and that the port has a device the packet thread knows.
\<close>

theorem packet_reaches_tap:
  assumes "ce_po ce = tap_ops te" and "running c" and "nl_objs c = []" and "packet_in c = []"
    and "0 \<le> tap_get_fd i (tp_man (st_ports (comps c)))"
    and "io_accepts (tap_get_fd i (tp_man (st_ports (comps c)))) (tp_io (st_ports (comps c)))"
  shows "\<exists>c1 c2. from_switch ce (handle_packet_in (Some i) bytes) c = Some c1 \<and> wakeup c1 \<and> handle_wakeup ce c1 = Some c2 \<and>
    io_log (tx (\<lambda>_. Wrote) (tp_io (st_ports (comps c2)))) =
      io_log (tp_io (st_ports (comps c))) @ map (\<lambda>p. (p, True)) (pout_queue (tp_io (st_ports (comps c)))) @
        [((tap_get_fd i (tp_man (st_ports (comps c))), \<lparr>pk_len = of_nat (length bytes), pk_data = bytes\<rparr>), True)]"
proof -
  let ?pkt = "\<lparr>pk_len = of_nat (length bytes), pk_data = bytes\<rparr>"
  let ?c1 = "c\<lparr>packet_in := [(i, ?pkt)], wakeup := True\<rparr>"
  let ?p = "st_ports (comps c)"
  have c1: "from_switch ce (handle_packet_in (Some i) bytes) c = Some ?c1"
    using assms(4) by (simp add: from_switch_def handle_packet_in_def send_packet_in_to_cpu_def nbi_enqueue_def nl_call_defs)
  obtain c2 where c2: "wakeups ce 1 ?c1 = Some c2"
    "st_ports (comps c2) = deliver ce (take (nl_proc_max * 1) [(i, ?pkt)]) ?p"
    using wakeups_deliver [of ?c1 ce 1] assms(2,3) by (auto simp: running_def)
  then have "handle_wakeup ce ?c1 = Some c2" by (simp split: option.splits)
  moreover have "pout_queue (tp_io (st_ports (comps c2))) = pout_queue (tp_io ?p) @ [(tap_get_fd i (tp_man ?p), ?pkt)]"
    "io_log (tp_io (st_ports (comps c2))) = io_log (tp_io ?p)"
    using assms(1,5,6) by (simp_all add: c2(2) deliver_def tap_ops_def tp_enqueue_def io_enqueue_def Let_def)
  ultimately show ?thesis using c1 by (simp add: tx_all_written)
qed

definition tap_system :: "(controller, tap_ports) cnetlink" where
  "tap_system = (start_nl (register_switch plain_env plain_start))\<lparr>comps := (comps (register_switch plain_env plain_start))\<lparr>
     st_ports := deaf_tap\<lparr>tp_io := (tap_io_init 8 [])\<lparr>sw_cbs := (replicate 8 tap_io_details_init)[5 := \<lparr>tio_fd = 5, tio_port_id = 1, tio_cb = True, tio_mtu = 1500\<rparr>]\<rparr>\<rparr>\<rparr>\<rparr>"

theorem packet_reaches_tap_witness:
  "\<exists>c1 c2. from_switch plain_env (handle_packet_in (Some 1) [1, 2]) tap_system = Some c1 \<and> handle_wakeup plain_env c1 = Some c2 \<and>
    io_log (tx (\<lambda>_. Wrote) (tp_io (st_ports (comps c2)))) = [((5, \<lparr>pk_len = 2, pk_data = [1, 2]\<rparr>), True)]"
proof -
  have ports: "st_ports (comps tap_system) =
      deaf_tap\<lparr>tp_io := (tap_io_init 8 [])\<lparr>sw_cbs := (replicate 8 tap_io_details_init)[5 := \<lparr>tio_fd = 5, tio_port_id = 1, tio_cb = True, tio_mtu = 1500\<rparr>]\<rparr>\<rparr>"
    by (simp add: tap_system_def)
  have fd: "tap_get_fd 1 (tp_man (st_ports (comps tap_system))) = 5"
    by (simp add: ports tap_get_fd_def deaf_tap_def)
  have "running tap_system" "nl_objs tap_system = []" "packet_in tap_system = []"
    by (simp_all add: tap_system_def running_def start_nl_def wake_def register_switch_def plain_start_def cnetlink_ctor_def)
  moreover have "io_accepts 5 (tp_io (st_ports (comps tap_system)))" by (simp add: ports io_accepts_def tap_io_init_def)
  moreover have "ce_po plain_env = tap_ops quiet_kernel" by (simp add: plain_env_def)
  moreover have "io_log (tp_io (st_ports (comps tap_system))) = []" "pout_queue (tp_io (st_ports (comps tap_system))) = []"
    by (simp_all add: ports tap_io_init_def)
  ultimately show ?thesis
    using packet_reaches_tap [of plain_env quiet_kernel tap_system 1 "[1, 2]"] unfolding fd by fastforce
qed

subsection \<open>From a tap to the switch\<close>

text \<open>A readable descriptor: the packet thread reads and hands the packet to the switch.\<close>

definition from_tap :: "('s, tap_ports) cn_env \<Rightarrow> int \<Rightarrow> u8 list \<Rightarrow> int \<Rightarrow> ('s, tap_ports) cnetlink \<Rightarrow>
    ('s, tap_ports) cnetlink option" where
  "from_tap ce result buf fd c =
     (case io_handle_read_event result buf fd (tp_io (st_ports (comps c))) of
        None \<Rightarrow> None
      | Some None \<Rightarrow> Some c
      | Some (Some (port_id, pkt)) \<Rightarrow> map_option snd (enqueue_to_switch ce port_id pkt c))"

text \<open>
  C11: Bytes read from a tap device leave as one packet for its port, exactly the bytes that were read; but a failed read
  makes the controller read beyond the buffer: the result -1 becomes the length \<open>2^64 - 1\<close> of a packet, which no check
  on the way to the switch refuses.
\<close>

theorem tap_reads_reach_switch:
  assumes "ce_swi ce = controller_swi env" and "0 \<le> fd" and "nat fd < length (sw_cbs (tp_io (st_ports (comps c))))"
    and "td = sw_cbs (tp_io (st_ports (comps c))) ! nat fd" and "tio_cb td"
    and "dpt_found env (dptid (st_sw (comps c)))" and "dpt_established env" and "dpt_has_port env (tio_port_id td)"
    and "send_outcome env (trace (st_sw (comps c))) (Packet_out (tio_port_id td) (take (nat n) buf)) = Inr r"
    and "0 < n" and "n \<le> int (length buf)" and "length buf < 2 ^ 32"
  shows "from_tap ce n buf fd c = Some (c\<lparr>comps := (comps c)\<lparr>st_sw :=
      emit (Sent (Packet_out (tio_port_id td) (take (nat n) buf))) (st_sw (comps c))\<rparr>\<rparr>) \<and>
    from_tap ce (- 1) buf fd c = None"
proof
  note read_beyond = failed_read_forwarded [OF assms(2,3), of buf]
  have len: "unat (word_of_int n :: u64) = nat n" using assms(10-12) by (simp add: unat_eq_nat_uint unsigned_of_int take_bit_int_eq_self)
  have "(word_of_int n :: u64) \<noteq> 0"
  proof
    assume "(word_of_int n :: u64) = 0"
    then have "unat (word_of_int n :: u64) = 0" by simp
    with len assms(10) show False by simp
  qed
  then have read: "io_handle_read_event n buf fd (tp_io (st_ports (comps c))) =
      Some (Some (tio_port_id td, \<lparr>pk_len = word_of_int n, pk_data = buf\<rparr>))"
    using assms(2-5) by (simp add: io_handle_read_event_def word_gt_0)
  have "enqueue env (tio_port_id td) \<lparr>pk_len = word_of_int n, pk_data = buf\<rparr> (st_sw (comps c)) =
      Some (0, emit (Sent (Packet_out (tio_port_id td) (take (nat n) buf))) (st_sw (comps c)))"
    using assms(6-12) len by (simp add: enqueue_def send_def)
  then show "from_tap ce n buf fd c = Some (c\<lparr>comps := (comps c)\<lparr>st_sw :=
      emit (Sent (Packet_out (tio_port_id td) (take (nat n) buf))) (st_sw (comps c))\<rparr>\<rparr>)"
    using read assms(1) by (simp add: from_tap_def enqueue_to_switch_def)
  have "unat (- 1 :: u64) = 2 ^ 64 - 1" by (simp add: unsigned_minus_1_eq_mask mask_eq_exp_minus_1)
  then have "enqueue env (tio_port_id td) \<lparr>pk_len = - 1, pk_data = buf\<rparr> (st_sw (comps c)) = None"
    using assms(6-8,12) by (simp add: enqueue_def)
  then show "from_tap ce (- 1) buf fd c = None"
    using read_beyond assms(1,4,5) by (simp add: from_tap_def enqueue_to_switch_def)
qed

theorem tap_reads_reach_switch_witness:
  "from_tap plain_env 2 [1, 2, 3] 5 tap_system = Some (tap_system\<lparr>comps := (comps tap_system)\<lparr>st_sw :=
      emit (Sent (Packet_out 1 [1, 2])) (st_sw (comps tap_system))\<rparr>\<rparr>) \<and>
   from_tap plain_env (- 1) [1, 2, 3] 5 tap_system = None"
proof -
  let ?td = "\<lparr>tio_fd = 5, tio_port_id = 1, tio_cb = True, tio_mtu = 1500\<rparr>"
  have io: "sw_cbs (tp_io (st_ports (comps tap_system))) = (replicate 8 tap_io_details_init)[5 := ?td]"
    by (simp add: tap_system_def)
  have "from_tap plain_env 2 [1, 2, 3] 5 tap_system = Some (tap_system\<lparr>comps := (comps tap_system)\<lparr>st_sw :=
        emit (Sent (Packet_out (tio_port_id ?td) (take (nat 2) [1, 2, 3]))) (st_sw (comps tap_system))\<rparr>\<rparr>) \<and>
      from_tap plain_env (- 1) [1, 2, 3] 5 tap_system = None"
  proof (rule tap_reads_reach_switch [where env = ideal_env and r = 0])
    show "ce_swi plain_env = controller_swi ideal_env" by (simp add: plain_env_def)
  qed (simp_all add: io ideal_env_def)
  then show ?thesis by simp
qed

end
