(* ===== verification/Cnetlink_Props.thy ===== *)
theory Cnetlink_Props
  imports Northbound
begin

text \<open>
  The event handlers of \<open>cnetlink\<close>: what happens to a port whose interface the kernel announces, and that the
  recursion of \<open>link_created\<close> through \<open>nl_bond::add_lag\<close> ends.
\<close>

subsection \<open>A new port\<close>

text \<open>The three calls on the switch, and the switch after them.\<close>

definition configured :: "'s switch_interface \<Rightarrow> u32 \<Rightarrow> mac \<Rightarrow> 's \<Rightarrow> 's" where
  "configured swi port_id hwaddr s =
     (let mode = SAI_BRIDGE_PORT_FDB_LEARNING_MODE_FDB_LOG_NOTIFICATION
      in snd (sw_port_set_move_learn swi port_id mode (snd (sw_port_set_learn swi port_id mode
           (snd (sw_port_set_config swi port_id hwaddr False s))))))"

lemma upd_sw_view [simp]: "cn_view ce (upd_sw f st) = cn_view ce st"
  by (simp add: upd_sw_def call_sw_def split_beta cn_view_def)

context port_class begin

lemma ready_port_configured:
  assumes "ce_po ce = po" and "po_portdev_ready po link (st_ports st) = Some (True, p1)"
    and "fmlookup (port_names2id (po_base po (st_ports st))) (ln_name link) = Some i" and "0 < sint i"
    and "ln_ifindex link \<noteq> 0" and "ln_type link \<noteq> Some ''vlan''"
  shows "\<exists>st1. port_link_created ce link st = Some st1 \<and>
    get_port_id_link (cn_view ce st1) (Some link) = i \<and>
    st_sw st1 = configured (ce_swi ce) i (get_hwaddr i (po_base po p1)) (st_sw st)"
proof -
  have found: "get_port_id (ln_ifindex link) (po_base po p1) = i"
    using ready_port [OF assms(2)] assms(3) by auto
  have id: "get_port_id_link (cn_view ce (st\<lparr>st_ports := p\<rparr>)) (Some link) = i" if "po_base po p = po_base po p1" for p
    using found assms(1,4-6) that
    by (simp add: get_port_id_link_def get_port_id_ifindex_def rtnl_link_is_vlan_def cn_view_def)
  show ?thesis using assms(1,2) id [OF refl] id [OF offload_keeps]
    by (simp add: port_link_created_def configured_def Let_def offload_keeps)
       (simp add: upd_sw_def call_sw_def split_beta)
qed

end

text \<open>
  C13: When the kernel announces the interface of a tap device, the port is found under the new interface from then on, and
  the switch is told to keep the port down and to log addresses it learns and addresses that move, in this order,
  for the port that the name was registered for.
\<close>

theorem new_tap_port_configured:
  assumes "ce_po ce = tap_ops te" and "get_link_type link = LT_TUN" and "ln_ifindex link \<noteq> 0" and "ln_type link \<noteq> Some ''vlan''"
    and "ln_family link \<noteq> AF_INET6"
    and "fmlookup (ifindex_to_id (tp_man (st_ports st))) (ln_ifindex link) = None"
    and "fmlookup (port_names2id (tp_man (st_ports st))) (ln_name link) = Some i" and "0 < sint i"
    and "fmlookup (tap_names2fds (tp_man (st_ports st))) (ln_name link) = Some fd" and "0 \<le> fd"
    and "nat fd < length (sw_cbs (tp_io (st_ports st)))"
  shows "\<exists>st1. link_created (Suc k) ce link st = Some st1 \<and>
    get_port_id_link (cn_view ce st1) (Some link) = i \<and>
    st_sw st1 = configured (ce_swi ce) i (get_hwaddr i (tp_man (st_ports st))) (st_sw st)"
proof -
  obtain p1 where p1: "po_portdev_ready (tap_ops te) link (st_ports st) = Some (True, p1)"
    "id_to_hwaddr (tp_man p1) = id_to_hwaddr (tp_man (st_ports st))"
    using assms(2,6,7,9-11)
    by (simp add: tap_ops_def tp_portdev_ready_def tap_portdev_ready_def tap_update_mtu_def tp_update_mtu_def io_update_mtu_def
        Let_def split_beta)
  have "get_hwaddr i (po_base (tap_ops te) p1) = get_hwaddr i (tp_man (st_ports st))"
    using p1(2) by (simp add: get_hwaddr_def tap_ops_def)
  moreover have "link_created (Suc k) ce link st = port_link_created ce link st" using assms(2,5) by simp
  moreover have "fmlookup (port_names2id (po_base (tap_ops te) (st_ports st))) (ln_name link) = Some i"
    using assms(7) by (simp add: tap_ops_def)
  ultimately show ?thesis
    using tap_class.ready_port_configured [OF assms(1) p1(1) _ assms(8,3,4)] by simp
qed

theorem new_tap_port_configured_witness:
  "\<exists>st1. link_created (Suc 1) plain_env (tap_link 13 ''port1'')
       ((comps tap_system)\<lparr>st_ports := (st_ports (comps tap_system))\<lparr>tp_man := (tp_man deaf_tap)\<lparr>ifindex_to_id := fmempty\<rparr>\<rparr>\<rparr>) = Some st1 \<and>
     get_port_id_link (cn_view plain_env st1) (Some (tap_link 13 ''port1'')) = 1"
proof -
  let ?st = "(comps tap_system)\<lparr>st_ports := (st_ports (comps tap_system))\<lparr>tp_man := (tp_man deaf_tap)\<lparr>ifindex_to_id := fmempty\<rparr>\<rparr>\<rparr>"
  have "\<exists>st1. link_created (Suc 1) plain_env (tap_link 13 ''port1'') ?st = Some st1 \<and>
      get_port_id_link (cn_view plain_env st1) (Some (tap_link 13 ''port1'')) = 1 \<and>
      st_sw st1 = configured (ce_swi plain_env) 1 (get_hwaddr 1 (tp_man (st_ports ?st))) (st_sw ?st)"
  proof (rule new_tap_port_configured [where te = quiet_kernel and fd = 5])
    show "ce_po plain_env = tap_ops quiet_kernel" by (simp add: plain_env_def)
    show "nat 5 < length (sw_cbs (tp_io (st_ports ?st)))" by (simp add: tap_system_def)
    show "ln_type (tap_link 13 ''port1'') \<noteq> Some ''vlan''" "ln_family (tap_link 13 ''port1'') \<noteq> AF_INET6"
      by (simp_all add: tap_link_def plain_link_def)
  qed (simp_all add: deaf_tap_def)
  then show ?thesis by blast
qed

subsection \<open>The recursion of link creation ends\<close>

text \<open>
  What libnl documents of objects of family \<open>AF_BRIDGE\<close>: they describe bridge ports, so none is classified as a bond.
\<close>

definition bridge_objects_are_ports :: "nl_view \<Rightarrow> bool" where
  "bridge_objects_are_ports nl \<longleftrightarrow>
     (\<forall>l \<in> set (nv_links nl) \<union> set (nv_deleted nl). ln_family l = AF_BRIDGE \<longrightarrow> get_link_type l \<noteq> LT_BOND)"

lemma find_mem: "find P xs = Some x \<Longrightarrow> x \<in> set xs \<and> P x"
  by (auto simp: find_Some_iff)

lemma get_link_bridge_type:
  "bridge_objects_are_ports nl \<Longrightarrow> get_link nl i AF_BRIDGE = Some l \<Longrightarrow> get_link_type l \<noteq> LT_BOND"
  by (auto simp: bridge_objects_are_ports_def get_link_def last_match_def split: option.splits
      dest!: find_mem)

lemma call_bond_links [simp]:
  "nv_links (cn_view ce (snd (call_bond ce f st))) = nv_links (cn_view ce st)"
  "nv_deleted (cn_view ce (snd (call_bond ce f st))) = nv_deleted (cn_view ce st)"
  by (simp_all add: call_bond_def cn_view_def split_beta)

lemma created_no_bond:
  "get_link_type link \<noteq> LT_BOND \<Longrightarrow> link_created_body ce created link st = link_created_body ce created' link st"
  by (simp split: link_type.split)

text \<open>
  C14: Handling a new link ends, provided libnl reports no object of family \<open>AF_BRIDGE\<close> as a bond: \<open>link_created\<close> calls
  itself, through \<open>add_lag\<close>, at most once. Two levels, which is what the event handlers use, do not call what stands
  below them, whatever it is, and give the result of the model at every greater depth.
\<close>

theorem link_created_depth:
  assumes "bridge_objects_are_ports (cn_view ce st)"
  shows "link_created_body ce (link_created_body ce below) link st = link_created (Suc (Suc k)) ce link st"
proof (cases "get_link_type link = LT_BOND")
  case False
  then show ?thesis unfolding link_created.simps(2) by (rule created_no_bond)
next
  case True
  define r where "r = call_bond ce (add_lag_entry (ce_swi ce) (fst (ce_junk ce)) link) st"
  have "bridge_objects_are_ports (cn_view ce (snd r))"
    using assms by (simp add: bridge_objects_are_ports_def r_def)
  then have "get_link_type l \<noteq> LT_BOND" if "lag_bridge_port (cn_view ce (snd r)) link = Some l" for l
    using that get_link_bridge_type by (auto simp: lag_bridge_port_def split: if_splits)
  then have "link_created_body ce below l (snd r) = link_created (Suc k) ce l (snd r)"
    if "lag_bridge_port (cn_view ce (snd r)) link = Some l" for l
    unfolding link_created.simps(2) using that by (intro created_no_bond)
  then have "cn_add_lag ce (link_created_body ce below) link st = cn_add_lag ce (link_created (Suc k) ce) link st"
    by (simp del: link_created.simps link_created_body_def add: cn_add_lag_def r_def [symmetric] split_beta split: option.split)
  then show ?thesis unfolding link_created.simps(2) [of "Suc k"] using True
    by (simp del: link_created.simps add: link_created_body_def [of _ "link_created_body ce below"])
qed

text \<open>A bond that is already a port of the bridge: it is added as a LAG, and the second level adds it to the bridge.\<close>

definition bridged_bond :: rtnl_link where
  "bridged_bond = (plain_link 9)\<lparr>ln_type := Some ''bond'', ln_master := 8, ln_slave_type := Some ''bridge''\<rparr>"

definition bond_caches :: nl_caches where
  "bond_caches = \<lparr>ca_links = [(plain_link 8)\<lparr>ln_type := Some ''bridge'', ln_vlan_filtering := Some 1\<rparr>, bridged_bond,
       (plain_link 9)\<lparr>ln_family := AF_BRIDGE, ln_master := 8\<rparr>],
     ca_neighs = [], ca_addrs = [], ca_routes = [], ca_nhs = [], ca_bvlans = []\<rparr>"

definition bond_state :: "(controller, tap_ports) cn_state" where
  "bond_state = (comps plain_start)\<lparr>st_caches := bond_caches, st_sw := controller_init\<lparr>connected := True\<rparr>\<rparr>"

theorem link_created_depth_witness:
  "link_created_body plain_env (link_created_body plain_env (\<lambda>_ _. None)) bridged_bond bond_state =
     link_created (Suc (Suc 5)) plain_env bridged_bond bond_state \<and>
   Option.is_none (link_created 1 plain_env bridged_bond bond_state) \<and>
   \<not> Option.is_none (link_created 2 plain_env bridged_bond bond_state)"
proof (intro conjI)
  show "link_created_body plain_env (link_created_body plain_env (\<lambda>_ _. None)) bridged_bond bond_state =
      link_created (Suc (Suc 5)) plain_env bridged_bond bond_state"
    by (rule link_created_depth)
       (simp add: bridge_objects_are_ports_def cn_view_def bond_state_def bond_caches_def bridged_bond_def plain_link_def
         plain_start_def cnetlink_ctor_def cnetlink_init_def deleted_objs_def List.map_filter_def get_link_type_def)
  show "Option.is_none (link_created 1 plain_env bridged_bond bond_state)" by code_simp
  show "\<not> Option.is_none (link_created 2 plain_env bridged_bond bond_state)" by code_simp
qed

end
