(* ===== verification/Api_Stats.thy ===== *)
theory Api_Stats
  imports Northbound "HOL-Library.List_Lexorder" "HOL-Library.Char_ord"
begin

text \<open>
  The program's own interface and its start: the statistics service (\<open>src/src/basebox_grpc_statistics.cc\<close>), the validation of
  command line flags and the order in which the objects are created (\<open>src/src/baseboxd.cc\<close>). A \<open>std::map\<close> with strings as keys
  is iterated in the order of their bytes, which is the lexicographic order of the library.
\<close>

subsection \<open>Statistics\<close>

record interface_state =
  if_name :: string
  in_discards :: u64
  in_errors :: u64
  in_fcs_errors :: u64
  in_octets :: u64
  in_unicast_pkts :: u64
  out_discards :: u64
  out_errors :: u64
  out_octets :: u64
  out_unicast_pkts :: u64

definition counter_ids :: "sai_port_stat_t list" where
  "counter_ids = [SAI_PORT_STAT_RX_PACKETS, SAI_PORT_STAT_TX_PACKETS, SAI_PORT_STAT_RX_BYTES, SAI_PORT_STAT_TX_BYTES,
     SAI_PORT_STAT_RX_DROPPED, SAI_PORT_STAT_TX_DROPPED, SAI_PORT_STAT_RX_ERRORS, SAI_PORT_STAT_TX_ERRORS,
     SAI_PORT_STAT_RX_FRAME_ERR, SAI_PORT_STAT_RX_OVER_ERR, SAI_PORT_STAT_RX_CRC_ERR, SAI_PORT_STAT_COLLISIONS]"

definition interface_entry :: "string \<Rightarrow> u64 list \<Rightarrow> interface_state" where
  "interface_entry name stats = \<lparr>if_name = name, in_discards = stats ! 4, in_errors = stats ! 6 + stats ! 9,
     in_fcs_errors = stats ! 8, in_octets = stats ! 2, in_unicast_pkts = stats ! 0, out_discards = stats ! 5,
     out_errors = stats ! 11, out_octets = stats ! 3, out_unicast_pkts = stats ! 1\<rparr>"

fun statistics_loop :: "'s switch_interface \<Rightarrow> 's \<Rightarrow> (string \<times> u32) list \<Rightarrow> interface_state list \<Rightarrow> interface_state list" where
  "statistics_loop swi s [] response = response"
| "statistics_loop swi s (port # ports) response =
     (let (rv, stats) = sw_get_statistics swi (ucast (snd port)) (Some counter_ids) (Some (replicate (length counter_ids) 0)) s
      in if rv \<noteq> 0 then statistics_loop swi s ports response
         else case stats of
             None \<Rightarrow> statistics_loop swi s ports response
           | Some cs \<Rightarrow> statistics_loop swi s ports (response @ [interface_entry (fst port) cs]))"

definition GetStatistics :: "'s switch_interface \<Rightarrow> 'p port_ops \<Rightarrow> 's \<Rightarrow> 'p \<Rightarrow> interface_state list" where
  "GetStatistics swi po s p = statistics_loop swi s (sorted_list_of_fmap (get_registered_ports (po_base po p))) []"

text \<open>What is reported for a port with statistics \<open>st\<close>.\<close>

definition reported :: "string \<Rightarrow> port_stats \<Rightarrow> interface_state" where
  "reported name st = \<lparr>if_name = name, in_discards = rx_dropped st, in_errors = rx_errors st + rx_over_err st,
     in_fcs_errors = rx_frame_err st, in_octets = rx_bytes st, in_unicast_pkts = rx_packets st, out_discards = tx_dropped st,
     out_errors = collisions st, out_octets = tx_bytes st, out_unicast_pkts = tx_packets st\<rparr>"

lemma entry_reported:
  "interface_entry name (map (stat_value st) counter_ids) = reported name st"
  by (simp add: interface_entry_def reported_def counter_ids_def)

lemma statistics_loop_controller:
  "statistics_loop (controller_swi env) c ports response = response @
     List.map_filter (\<lambda>(name, i). if i = 0 then None else map_option (reported name) (fmlookup (stats_array c) i)) ports"
proof (induction ports arbitrary: response)
  case Nil
  then show ?case by (simp add: List.map_filter_def)
next
  case (Cons port ports)
  have same: "ucast (ucast i :: u64) = i" for i :: u32
    by (rule bit_word_eqI) (auto simp: bit_simps)
  have zero: "ucast i = (0 :: u64) \<longleftrightarrow> i = 0" for i :: u32
    using same [of i] by auto
  show ?case
    by (cases port; cases "fmlookup (stats_array c) (snd port)")
       (simp_all add: Cons.IH get_statistics_def zero List.map_filter_simps entry_reported same)
qed

text \<open>
  C38: The statistics service reports, in the order of their names, exactly the registered ports for which the switch has
  sent counters, with the counters of the last reply; the sum of the receive errors wraps at 64 bits.
\<close>

theorem statistics_of_registered_ports:
  "GetStatistics (controller_swi env) po c p =
     List.map_filter (\<lambda>(name, i). if i = 0 then None else map_option (reported name) (fmlookup (stats_array c) i))
       (sorted_list_of_fmap (get_registered_ports (po_base po p)))"
  by (simp add: GetStatistics_def statistics_loop_controller)

subsection \<open>Start of the program\<close>

definition validate_port :: "int \<Rightarrow> bool" where
  "validate_port value = (0 < value \<and> value \<le> 65535)"

definition validate_vid :: "int \<Rightarrow> bool" where
  "validate_vid value = (0 < value \<and> value \<le> 4095)"

text \<open>The flags that \<open>baseboxd.cc\<close> defines, and those that it asks gflags to take from the environment (\<open>FLAGS_tryfromenv\<close>).\<close>

definition defined_flags :: "string list" where
  "defined_flags = [''multicast'', ''port'', ''ofdpa_grpc_port'', ''use_knet'', ''mark_fwd_offload'', ''clear_switch_configuration'',
     ''port_untagged_vid'', ''rx_rate_limit'', ''of_timeout_echo'', ''of_timeout_lifecheck'']"

definition tryfromenv :: "string list" where
  "tryfromenv = [''multicast'', ''port'', ''ofdpa_grpc_port'', ''use_knet'', ''mark_fwd_offload'', ''port_untagged_vid'',
     ''of_timeout_lifecheck'', ''of_timeout_echo'']"

text \<open>
  Two flags are not taken from the environment, although the template of the service configuration offers them there: setting them
  has no effect.
\<close>

lemma flags_not_from_environment:
  "filter (\<lambda>f. f \<notin> set tryfromenv) defined_flags = [''clear_switch_configuration'', ''rx_rate_limit'']"
  by (simp add: defined_flags_def tryfromenv_def)

text \<open>KNET interfaces are used when the flag asks for them and the kernel has them, taps otherwise.\<close>

definition uses_knet_manager :: "ctl_flags \<Rightarrow> bool \<Rightarrow> bool" where
  "uses_knet_manager flags knet_accessible =
     (let have_knet = use_knet flags \<and> knet_accessible in use_knet flags \<and> have_knet)"

text \<open>The objects in the order of their creation; the constructor of the controller registers it.\<close>

definition main_objects :: "('s, 'p) cn_env \<Rightarrow> 's \<Rightarrow> 'p \<Rightarrow> nl_caches \<Rightarrow> ('s, 'p) cnetlink" where
  "main_objects ce s p ca = nbi_register_switch ce (nbi_impl_ctor s p ca)"

end
