(* ===== verification/Nl_Obj.thy ===== *)
theory Nl_Obj
  imports Netlink_Steps "HOL-Library.Monad_Syntax" "HOL-Library.Sublist"
begin

text \<open>
  Reference counts of netlink objects: the class \<open>nl_obj\<close> (\<open>src/src/netlink/nl_obj.cc\<close>, \<open>nl_obj.h\<close>) and the places of
  \<open>cnetlink\<close> that create, copy and destroy its instances. Elsewhere the elements of the queue are values; here they are pointers
  to objects of libnl, and the calls that change reference counts are recorded in a trace. \<open>held\<close> counts, for the object
  at an address, the references that the program has taken and not yet given back. libnl frees an object when the last
  reference is released, so an object the program holds is not freed.

  Shown: whatever the kernel reports and the thread handles, the program holds exactly the references that the queue accounts for,
  never releases one it does not hold, never takes one on a null pointer, and holds none when the queue has been destroyed. The loop
  over pointers refines the loop over values of \<open>Netlink_Thread\<close>.
\<close>

subsection \<open>Pointers and calls\<close>

text \<open>A null pointer is \<open>None\<close>.\<close>

type_synonym obj_ptr = "nat option"

text \<open>\<open>Nl_object_clone p q\<close> is a call on \<open>p\<close> that returned \<open>q\<close>; the caller owns the clone.\<close>

datatype ref_call = Nl_object_get obj_ptr | Nl_object_put obj_ptr | Nl_object_clone obj_ptr obj_ptr

type_synonym ref_trace = "ref_call list"

text \<open>An action other than the three that are handled (\<open>NL_ACT_UNSPEC\<close>) is \<open>None\<close>.\<close>

record nl_obj_ref =
  or_action :: "nl_act option"
  or_old :: obj_ptr
  or_new :: obj_ptr

subsection \<open>The class\<close>

text \<open>\<open>None\<close> is the fatal log message for an invalid action.\<close>

definition increment_refcount :: "nl_obj_ref \<Rightarrow> ref_trace \<Rightarrow> ref_trace option" where
  "increment_refcount x tr =
     (case or_action x of
        Some NL_ACT_NEW \<Rightarrow> Some (tr @ [Nl_object_get (or_new x)])
      | Some NL_ACT_DEL \<Rightarrow> Some (tr @ [Nl_object_get (or_old x)])
      | Some NL_ACT_CHANGE \<Rightarrow> Some (tr @ [Nl_object_get (or_old x), Nl_object_get (or_new x)])
      | None \<Rightarrow> None)"

definition nl_obj_ctor :: "nl_act option \<Rightarrow> obj_ptr \<Rightarrow> obj_ptr \<Rightarrow> ref_trace \<Rightarrow> (nl_obj_ref \<times> ref_trace) option" where
  "nl_obj_ctor action old_obj new_obj tr =
     (let x = \<lparr>or_action = action, or_old = old_obj, or_new = new_obj\<rparr>
      in map_option (Pair x) (increment_refcount x tr))"

definition nl_obj_copy :: "nl_obj_ref \<Rightarrow> ref_trace \<Rightarrow> (nl_obj_ref \<times> ref_trace) option" where
  "nl_obj_copy other tr =
     (let x = \<lparr>or_action = or_action other, or_old = or_old other, or_new = or_new other\<rparr>
      in map_option (Pair x) (increment_refcount x tr))"

text \<open>The defaulted move constructor copies the members and leaves the source as it is.\<close>

definition nl_obj_move :: "nl_obj_ref \<Rightarrow> nl_obj_ref \<times> nl_obj_ref" where
  "nl_obj_move other = (other, other)"

definition nl_obj_assign :: "nl_obj_ref \<Rightarrow> nl_obj_ref \<Rightarrow> ref_trace \<Rightarrow> (nl_obj_ref \<times> ref_trace) option" where
  "nl_obj_assign this other tr =
     (let x = this\<lparr>or_action := or_action other, or_old := or_old other, or_new := or_new other\<rparr>
      in map_option (Pair x) (increment_refcount x tr))"

text \<open>The target and the source after a move assignment; no reference count is touched.\<close>

definition nl_obj_move_assign :: "nl_obj_ref \<Rightarrow> nl_obj_ref \<Rightarrow> nl_obj_ref \<times> nl_obj_ref" where
  "nl_obj_move_assign this other =
     (this\<lparr>or_action := or_action other, or_old := or_old other, or_new := or_new other\<rparr>,
      other\<lparr>or_action := None, or_old := None, or_new := None\<rparr>)"

definition nl_obj_dtor :: "nl_obj_ref \<Rightarrow> ref_trace \<Rightarrow> ref_trace option" where
  "nl_obj_dtor x tr =
     (case or_action x of
        Some NL_ACT_NEW \<Rightarrow> Some (tr @ [Nl_object_put (or_new x)])
      | Some NL_ACT_DEL \<Rightarrow> Some (tr @ [Nl_object_put (or_old x)])
      | Some NL_ACT_CHANGE \<Rightarrow> Some (tr @ [Nl_object_put (or_old x), Nl_object_put (or_new x)])
      | None \<Rightarrow> None)"

subsection \<open>The queue of changes\<close>

record obj_queue =
  oq_objs :: "nl_obj_ref list" \<comment> \<open>\<open>nl_objs\<close>\<close>
  oq_calls :: ref_trace

text \<open>\<open>local_new\<close> is what \<open>nl_object_clone\<close> returns.\<close>

definition nl_cb_v2_refs ::
  "nl_state \<Rightarrow> nl_act option \<Rightarrow> obj_ptr \<Rightarrow> obj_ptr \<Rightarrow> obj_ptr \<Rightarrow> obj_queue \<Rightarrow> obj_queue option" where
  "nl_cb_v2_refs st action old_obj new_obj local_new q =
     (if st \<noteq> NL_STATE_STOPPED
      then do {
        (x, tr) \<leftarrow> nl_obj_ctor action old_obj local_new (oq_calls q @ [Nl_object_clone new_obj local_new]);
        Some \<lparr>oq_objs = oq_objs q @ [x], oq_calls = tr @ [Nl_object_put local_new]\<rparr>
      }
      else Some q)"

text \<open>
  One element is taken off the queue: the front is copied and destroyed, the copy is handled and destroyed. The result holds the copy, the
  trace while it is handled, and the queue afterwards.
\<close>

definition pop_change :: "obj_queue \<Rightarrow> (nl_obj_ref \<times> ref_trace \<times> obj_queue) option" where
  "pop_change q =
     (case oq_objs q of
        [] \<Rightarrow> None
      | x # xs \<Rightarrow> do {
          (obj, tr1) \<leftarrow> nl_obj_copy x (oq_calls q);
          tr2 \<leftarrow> nl_obj_dtor x tr1;
          tr3 \<leftarrow> nl_obj_dtor obj tr2;
          Some (obj, tr2, \<lparr>oq_objs = xs, oq_calls = tr3\<rparr>)
        })"

text \<open>The deque is destroyed with the object that owns it.\<close>

fun destroy_objs :: "nl_obj_ref list \<Rightarrow> ref_trace \<Rightarrow> ref_trace option" where
  "destroy_objs [] tr = Some tr"
| "destroy_objs (x # xs) tr = nl_obj_dtor x tr \<bind> destroy_objs xs"

text \<open>The value behind a pointer, for the contents \<open>mem\<close> of the objects.\<close>

definition obj_value :: "(nat \<Rightarrow> nl_object) \<Rightarrow> nl_obj_ref \<Rightarrow> nl_obj option" where
  "obj_value mem x = map_option (\<lambda>a. \<lparr>no_action = a, no_old = map_option mem (or_old x), no_new = map_option mem (or_new x)\<rparr>)
     (or_action x)"

definition queue_values :: "(nat \<Rightarrow> nl_object) \<Rightarrow> nl_obj_ref list \<Rightarrow> nl_obj list" where
  "queue_values mem xs = List.map_filter (obj_value mem) xs"

text \<open>The loop of \<open>handle_wakeup\<close> over the queue of pointers.\<close>

fun obj_loop_refs :: "(nat \<Rightarrow> nl_object) \<Rightarrow> ('s, 'p) cn_env \<Rightarrow> nat \<Rightarrow> ('s, 'p) cnetlink \<Rightarrow> obj_queue \<Rightarrow>
    (('s, 'p) cnetlink \<times> obj_queue) option" where
  "obj_loop_refs mem ce 0 c q = Some (c, q)"
| "obj_loop_refs mem ce (Suc n) c q =
     (if oq_objs q = [] \<or> run_state c \<noteq> NL_STATE_RUNNING then Some (c, q)
      else do {
        (obj, _, q') \<leftarrow> pop_change q;
        x \<leftarrow> obj_value mem obj;
        st \<leftarrow> obj_apply ce x ((comps c)\<lparr>st_objs := queue_values mem (oq_objs q')\<rparr>);
        obj_loop_refs mem ce n (c\<lparr>comps := st, nl_objs := queue_values mem (oq_objs q')\<rparr>) q'
      })"

subsection \<open>Counting references\<close>

definition points :: "obj_ptr \<Rightarrow> nat \<Rightarrow> int" where
  "points p a = (if p = Some a then 1 else 0)"

lemma points_simps [simp]: "0 \<le> points p a" "points None a = 0" "points (Some a) a = 1"
  by (simp_all add: points_def)

fun ref_delta :: "nat \<Rightarrow> ref_call \<Rightarrow> int" where
  "ref_delta a (Nl_object_get p) = points p a"
| "ref_delta a (Nl_object_put p) = - points p a"
| "ref_delta a (Nl_object_clone p q) = points q a"

definition held :: "ref_trace \<Rightarrow> nat \<Rightarrow> int" where
  "held tr a = (\<Sum>c\<leftarrow>tr. ref_delta a c)"

lemma held_simps [simp]:
  "held [] a = 0" "held (c # tr) a = ref_delta a c + held tr a" "held (tr @ tr') a = held tr a + held tr' a"
  by (simp_all add: held_def)

text \<open>The references that an element accounts for, and those of a queue.\<close>

definition obj_refs :: "nl_obj_ref \<Rightarrow> nat \<Rightarrow> int" where
  "obj_refs x a =
     (case or_action x of
        Some NL_ACT_NEW \<Rightarrow> points (or_new x) a
      | Some NL_ACT_DEL \<Rightarrow> points (or_old x) a
      | Some NL_ACT_CHANGE \<Rightarrow> points (or_old x) a + points (or_new x) a
      | None \<Rightarrow> 0)"

definition queue_refs :: "nl_obj_ref list \<Rightarrow> nat \<Rightarrow> int" where
  "queue_refs xs a = (\<Sum>x\<leftarrow>xs. obj_refs x a)"

lemma queue_refs_simps [simp]:
  "queue_refs [] a = 0" "queue_refs (x # xs) a = obj_refs x a + queue_refs xs a"
  "queue_refs (xs @ ys) a = queue_refs xs a + queue_refs ys a"
  by (simp_all add: queue_refs_def)

lemma obj_refs_nonneg [simp]: "0 \<le> obj_refs x a"
  by (simp add: obj_refs_def split: option.split nl_act.split)

lemma queue_refs_nonneg [simp]: "0 \<le> queue_refs xs a"
  by (induction xs) simp_all

text \<open>No reference is released that the program does not hold, and none is taken on a null pointer.\<close>

definition safe_calls :: "ref_trace \<Rightarrow> bool" where
  "safe_calls tr \<longleftrightarrow> Nl_object_get None \<notin> set tr \<and> (\<forall>tr' \<in> set (prefixes tr). \<forall>a. 0 \<le> held tr' a)"

lemma safe_calls_Nil [simp]: "safe_calls []"
  by (simp add: safe_calls_def)

lemma safe_calls_snoc:
  "safe_calls (tr @ [c]) \<longleftrightarrow> safe_calls tr \<and> c \<noteq> Nl_object_get None \<and> (\<forall>a. 0 \<le> held tr a + ref_delta a c)"
  by (auto simp: safe_calls_def prefixes_snoc)

lemma safe_calls_held: "safe_calls tr \<Longrightarrow> 0 \<le> held tr a"
  by (simp add: safe_calls_def)

text \<open>
  What libnl reports: an added object is new, a removed one old, a changed one both. An element that was made from such a report has the
  pointers of its action.
\<close>

definition reported_objs :: "nl_act option \<Rightarrow> obj_ptr \<Rightarrow> obj_ptr \<Rightarrow> bool" where
  "reported_objs action old_obj new_obj =
     (case action of
        Some NL_ACT_NEW \<Rightarrow> new_obj \<noteq> None
      | Some NL_ACT_DEL \<Rightarrow> old_obj \<noteq> None
      | Some NL_ACT_CHANGE \<Rightarrow> old_obj \<noteq> None \<and> new_obj \<noteq> None
      | None \<Rightarrow> False)"

abbreviation obj_ok :: "nl_obj_ref \<Rightarrow> bool" where
  "obj_ok x \<equiv> reported_objs (or_action x) (or_old x) (or_new x)"

lemma safe_calls_snoc2:
  "safe_calls (tr @ [c, d]) \<longleftrightarrow> safe_calls tr \<and> c \<noteq> Nl_object_get None \<and> d \<noteq> Nl_object_get None \<and>
     (\<forall>a. 0 \<le> held tr a + ref_delta a c) \<and> (\<forall>a. 0 \<le> held tr a + ref_delta a c + ref_delta a d)"
  using safe_calls_snoc [of "tr @ [c]" d] by (simp add: safe_calls_snoc) blast

lemmas ref_simps = reported_objs_def obj_refs_def safe_calls_snoc safe_calls_snoc2 safe_calls_held

lemma increment_refcount_ok:
  assumes "obj_ok x" "safe_calls tr"
  obtains tr' where "increment_refcount x tr = Some tr'" "safe_calls tr'" "\<And>a. held tr' a = held tr a + obj_refs x a"
  using assms by (auto simp: increment_refcount_def ref_simps split: option.splits nl_act.splits)

lemma nl_obj_dtor_ok:
  assumes "obj_ok x" "safe_calls tr" "\<And>a. obj_refs x a \<le> held tr a"
  obtains tr' where "nl_obj_dtor x tr = Some tr'" "safe_calls tr'" "\<And>a. held tr' a = held tr a - obj_refs x a"
proof (cases "or_action x")
  case None
  then show ?thesis using assms(1) by (simp add: reported_objs_def)
next
  case (Some act)
  have sum: "obj_refs x a \<le> held tr a" for a using assms(3) .
  have "points (or_old x) a \<le> held tr a" if "act = NL_ACT_CHANGE" for a
  proof -
    have "obj_refs x a = points (or_old x) a + points (or_new x) a" using that Some by (simp add: obj_refs_def)
    then show ?thesis using sum [of a] points_simps(1) [of "or_new x" a] by linarith
  qed
  then show ?thesis using that sum assms(1,2) Some
    by (cases act) (auto simp: nl_obj_dtor_def ref_simps algebra_simps)
qed

subsection \<open>The queue holds what it refers to\<close>

definition queue_inv :: "obj_queue \<Rightarrow> bool" where
  "queue_inv q \<longleftrightarrow> list_all obj_ok (oq_objs q) \<and> safe_calls (oq_calls q) \<and>
     (\<forall>a. held (oq_calls q) a = queue_refs (oq_objs q) a)"

lemma nl_obj_copy_eq: "nl_obj_copy x tr = map_option (Pair x) (increment_refcount x tr)"
  by (cases x) (simp add: nl_obj_copy_def Let_def)

text \<open>
  A report that libnl makes; a clone that succeeds exists if and only if the object does.
\<close>

definition report_ok :: "nl_act option \<Rightarrow> obj_ptr \<Rightarrow> obj_ptr \<Rightarrow> obj_ptr \<Rightarrow> bool" where
  "report_ok action old_obj new_obj local_new \<longleftrightarrow>
     reported_objs action old_obj new_obj \<and> (local_new = None \<longleftrightarrow> new_obj = None)"

lemma nl_cb_v2_refs_inv:
  assumes "queue_inv q" "report_ok action old_obj new_obj local_new"
  obtains q' where "nl_cb_v2_refs st action old_obj new_obj local_new q = Some q'" "queue_inv q'"
    "oq_objs q' = (if st = NL_STATE_STOPPED then oq_objs q
       else oq_objs q @ [\<lparr>or_action = action, or_old = old_obj, or_new = local_new\<rparr>])"
proof (cases "st = NL_STATE_STOPPED")
  case True
  then show ?thesis using that assms(1) by (simp add: nl_cb_v2_refs_def)
next
  case False
  define x where "x = \<lparr>or_action = action, or_old = old_obj, or_new = local_new\<rparr>"
  have ok: "obj_ok x" using assms(2)
    by (auto simp: x_def report_ok_def reported_objs_def split: option.splits nl_act.splits)
  have "safe_calls (oq_calls q @ [Nl_object_clone new_obj local_new])"
    using assms(1) by (simp add: queue_inv_def safe_calls_snoc)
  from increment_refcount_ok [OF ok this] obtain tr where
    tr: "increment_refcount x (oq_calls q @ [Nl_object_clone new_obj local_new]) = Some tr" "safe_calls tr"
    "\<And>a. held tr a = held (oq_calls q) a + points local_new a + obj_refs x a" by (auto simp: algebra_simps)
  have "queue_inv \<lparr>oq_objs = oq_objs q @ [x], oq_calls = tr @ [Nl_object_put local_new]\<rparr>"
    using assms(1) ok tr by (simp add: queue_inv_def safe_calls_snoc)
  then show ?thesis using that False tr(1) by (simp add: nl_cb_v2_refs_def nl_obj_ctor_def x_def)
qed

text \<open>While an element is handled its objects are held by the copy.\<close>

lemma pop_change_inv:
  assumes "queue_inv q" "oq_objs q = x # xs"
  obtains tr q' where "pop_change q = Some (x, tr, q')" "queue_inv q'" "oq_objs q' = xs"
    "\<And>a. held tr a = obj_refs x a + queue_refs xs a"
proof -
  have ok: "obj_ok x" "safe_calls (oq_calls q)" and q: "\<And>a. held (oq_calls q) a = obj_refs x a + queue_refs xs a"
    and xs: "list_all obj_ok xs"
    using assms by (simp_all add: queue_inv_def)
  obtain tr1 where tr1: "increment_refcount x (oq_calls q) = Some tr1" "safe_calls tr1"
    "\<And>a. held tr1 a = held (oq_calls q) a + obj_refs x a" using increment_refcount_ok ok by blast
  obtain tr2 where tr2: "nl_obj_dtor x tr1 = Some tr2" "safe_calls tr2" "\<And>a. held tr2 a = held tr1 a - obj_refs x a"
    using nl_obj_dtor_ok [OF ok(1) tr1(2)] tr1(3) q by (auto simp: add_increasing2)
  obtain tr3 where tr3: "nl_obj_dtor x tr2 = Some tr3" "safe_calls tr3" "\<And>a. held tr3 a = held tr2 a - obj_refs x a"
    using nl_obj_dtor_ok [OF ok(1) tr2(2)] tr1(3) tr2(3) q by (auto simp: add_increasing2)
  show ?thesis
    using that [of tr2 "\<lparr>oq_objs = xs, oq_calls = tr3\<rparr>"] assms(2) tr1 tr2 tr3 q xs
    by (simp add: pop_change_def nl_obj_copy_eq queue_inv_def)
qed

lemma destroy_objs_ok:
  assumes "list_all obj_ok xs" "safe_calls tr" "\<And>a. queue_refs xs a \<le> held tr a"
  shows "\<exists>tr'. destroy_objs xs tr = Some tr' \<and> safe_calls tr' \<and> (\<forall>a. held tr' a = held tr a - queue_refs xs a)"
  using assms
proof (induction xs arbitrary: tr)
  case (Cons x xs)
  have "obj_refs x a \<le> held tr a" for a
    using Cons.prems(3) [of a] queue_refs_nonneg [of xs a] by (simp del: queue_refs_nonneg)
  then obtain tr1 where tr1: "nl_obj_dtor x tr = Some tr1" "safe_calls tr1" "\<And>a. held tr1 a = held tr a - obj_refs x a"
    using nl_obj_dtor_ok Cons.prems(1,2) by (metis list.pred_inject(2))
  have "queue_refs xs a \<le> held tr1 a" for a using Cons.prems(3) [of a] tr1(3) by simp
  then show ?case using Cons.IH [of tr1] Cons.prems(1) tr1 by auto
qed simp

text \<open>What happens to the queue in the life of a \<open>cnetlink\<close>: reports of libnl, in any state, and changes that are handled.\<close>

inductive queue_step :: "obj_queue \<Rightarrow> obj_queue \<Rightarrow> bool" where
  report: "report_ok action old_obj new_obj local_new \<Longrightarrow>
     nl_cb_v2_refs st action old_obj new_obj local_new q = Some q' \<Longrightarrow> queue_step q q'"
| handled: "pop_change q = Some (obj, tr, q') \<Longrightarrow> queue_step q q'"

definition empty_queue :: obj_queue where
  "empty_queue = \<lparr>oq_objs = [], oq_calls = []\<rparr>"

abbreviation queue_reach :: "obj_queue \<Rightarrow> bool" where
  "queue_reach q \<equiv> queue_step\<^sup>*\<^sup>* empty_queue q"

lemma queue_step_inv: "queue_step q q' \<Longrightarrow> queue_inv q \<Longrightarrow> queue_inv q'"
proof (induction rule: queue_step.induct)
  case (report action old_obj new_obj local_new st q q')
  then show ?case using nl_cb_v2_refs_inv [of q action old_obj new_obj local_new st] by (metis option.inject)
next
  case (handled q obj tr q')
  then obtain x xs where "oq_objs q = x # xs" by (cases "oq_objs q") (simp_all add: pop_change_def)
  then show ?case using pop_change_inv [OF handled(2)] handled(1) by (metis option.inject prod.inject)
qed

lemma queue_reach_inv: "queue_reach q \<Longrightarrow> queue_inv q"
proof (induction rule: rtranclp_induct)
  case base
  show ?case by (simp add: empty_queue_def queue_inv_def)
qed (rule queue_step_inv)

text \<open>
  C15: Whatever libnl reports and however many changes have been handled, the program holds on every netlink object exactly the
  references that the elements in the queue account for; it has never released a reference it did not hold nor taken one on a null
  pointer, the next change is taken off without a fatal error while its objects stay held, and when the queue is destroyed
  no reference is left.
\<close>

theorem queue_references_balanced:
  assumes "queue_reach q"
  shows "held (oq_calls q) a = queue_refs (oq_objs q) a \<and> safe_calls (oq_calls q) \<and>
    (oq_objs q = [] \<or> (\<exists>tr q'. pop_change q = Some (hd (oq_objs q), tr, q') \<and>
       obj_refs (hd (oq_objs q)) a \<le> held tr a \<and> oq_objs q' = tl (oq_objs q))) \<and>
    (\<exists>tr. destroy_objs (oq_objs q) (oq_calls q) = Some tr \<and> safe_calls tr \<and> held tr a = 0)"
proof -
  have inv: "queue_inv q" using queue_reach_inv assms .
  have "\<exists>tr q'. pop_change q = Some (x, tr, q') \<and> obj_refs x a \<le> held tr a \<and> oq_objs q' = xs"
    if "oq_objs q = x # xs" for x xs
    using pop_change_inv [OF inv that] by (metis le_add_same_cancel1 queue_refs_nonneg)
  moreover have "\<exists>tr. destroy_objs (oq_objs q) (oq_calls q) = Some tr \<and> safe_calls tr \<and> held tr a = 0"
    using destroy_objs_ok [of "oq_objs q" "oq_calls q"] inv by (auto simp: queue_inv_def)
  ultimately show ?thesis using inv by (cases "oq_objs q") (auto simp: queue_inv_def)
qed

text \<open>One change of a link is reported and handled; the clone is object 9.\<close>

definition reported_queue :: obj_queue where
  "reported_queue = the (nl_cb_v2_refs NL_STATE_RUNNING (Some NL_ACT_CHANGE) (Some 4) (Some 7) (Some 9) empty_queue)"

lemma reported_queue_eval:
  "oq_objs reported_queue = [\<lparr>or_action = Some NL_ACT_CHANGE, or_old = Some 4, or_new = Some 9\<rparr>]"
  "queue_reach reported_queue"
proof -
  have eval: "nl_cb_v2_refs NL_STATE_RUNNING (Some NL_ACT_CHANGE) (Some 4) (Some 7) (Some 9) empty_queue = Some reported_queue"
    and "oq_objs reported_queue = [\<lparr>or_action = Some NL_ACT_CHANGE, or_old = Some 4, or_new = Some 9\<rparr>]"
    by (simp_all add: reported_queue_def nl_cb_v2_refs_def nl_obj_ctor_def increment_refcount_def empty_queue_def)
  then show "oq_objs reported_queue = [\<lparr>or_action = Some NL_ACT_CHANGE, or_old = Some 4, or_new = Some 9\<rparr>]" by simp
  show "queue_reach reported_queue"
    by (rule r_into_rtranclp, rule queue_step.report [OF _ eval]) (simp add: report_ok_def reported_objs_def)
qed

theorem queue_references_balanced_witness:
  "queue_reach reported_queue \<and> held (oq_calls reported_queue) 9 = 1 \<and> held (oq_calls reported_queue) 7 = 0 \<and>
   safe_calls (oq_calls reported_queue) \<and>
   (\<exists>tr. destroy_objs (oq_objs reported_queue) (oq_calls reported_queue) = Some tr \<and> held tr 9 = 0)"
  using queue_references_balanced [OF reported_queue_eval(2), of 9] queue_references_balanced [OF reported_queue_eval(2), of 7]
    reported_queue_eval
  by (auto simp: obj_refs_def points_def)

subsection \<open>The loop over pointers refines the loop over values\<close>

lemma queue_values_simps [simp]:
  "queue_values mem [] = []"
  "queue_values mem (x # xs) = (case obj_value mem x of None \<Rightarrow> queue_values mem xs | Some v \<Rightarrow> v # queue_values mem xs)"
  by (simp_all add: queue_values_def List.map_filter_simps split: option.split)

lemma queue_values_append [simp]: "queue_values mem (xs @ ys) = queue_values mem xs @ queue_values mem ys"
  by (induction xs) (simp_all split: option.split)

text \<open>A report appends the value behind the clone.\<close>

lemma nl_cb_v2_refs_values:
  assumes "queue_inv q" "report_ok (Some act) old_obj new_obj local_new" "nl_objs c = queue_values mem (oq_objs q)"
    and "nl_cb_v2_refs (run_state c) (Some act) old_obj new_obj local_new q = Some q'"
  shows "nl_objs (nl_cb_v2 \<lparr>no_action = act, no_old = map_option mem old_obj, no_new = map_option mem local_new\<rparr> c) =
    queue_values mem (oq_objs q')"
proof -
  have "oq_objs q' = (if run_state c = NL_STATE_STOPPED then oq_objs q
       else oq_objs q @ [\<lparr>or_action = Some act, or_old = old_obj, or_new = local_new\<rparr>])"
    using nl_cb_v2_refs_inv [OF assms(1,2), of "run_state c"] assms(4) by (metis option.inject)
  then show ?thesis using assms(3) by (simp add: nl_cb_v2_def obj_value_def)
qed

lemma obj_value_ok: "obj_ok x \<Longrightarrow> \<exists>v. obj_value mem x = Some v"
  by (auto simp: obj_value_def reported_objs_def split: option.splits)

lemma obj_loop_refs_refines:
  assumes "queue_inv q" "nl_objs c = queue_values mem (oq_objs q)"
  shows "map_option fst (obj_loop_refs mem ce n c q) = obj_loop ce n c \<and>
    (\<forall>c' q'. obj_loop_refs mem ce n c q = Some (c', q') \<longrightarrow> queue_inv q' \<and> nl_objs c' = queue_values mem (oq_objs q'))"
  using assms
proof (induction n arbitrary: c q)
  case (Suc n)
  show ?case
  proof (cases "oq_objs q")
    case Nil
    then show ?thesis using Suc.prems by simp
  next
    case (Cons x xs)
    then obtain v where v: "obj_value mem x = Some v"
      using Suc.prems(1) obj_value_ok [of x mem] by (auto simp: queue_inv_def)
    obtain tr q' where pop: "pop_change q = Some (x, tr, q')" "queue_inv q'" "oq_objs q' = xs"
      using pop_change_inv [OF Suc.prems(1) Cons] by blast
    show ?thesis
      using Suc.prems Cons v pop Suc.IH [OF pop(2), of "c\<lparr>comps := st, nl_objs := queue_values mem xs\<rparr>" for st]
      by (cases "obj_apply ce v ((comps c)\<lparr>st_objs := queue_values mem xs\<rparr>)") simp_all
  qed
qed simp

text \<open>
  C16: The loop of \<open>handle_wakeup\<close> over the queue of pointers does what the loop over the values behind them does: it fails in the same
  cases, leaves the same components and the same queue, and the reference counts fit the queue afterwards as before.
\<close>

theorem pointer_loop_refines_values:
  assumes "queue_reach q" and "nl_objs c = queue_values mem (oq_objs q)"
  shows "(obj_loop ce n c = None \<and> obj_loop_refs mem ce n c q = None) \<or>
    (\<exists>c' q'. obj_loop ce n c = Some c' \<and> obj_loop_refs mem ce n c q = Some (c', q') \<and>
       nl_objs c' = queue_values mem (oq_objs q') \<and> safe_calls (oq_calls q') \<and>
       held (oq_calls q') a = queue_refs (oq_objs q') a)"
  using obj_loop_refs_refines [OF queue_reach_inv [OF assms(1)] assms(2), of ce n]
  by (cases "obj_loop_refs mem ce n c q") (auto simp: queue_inv_def)

text \<open>The change of a link that is not a port, in a running thread.\<close>

definition link_memory :: "nat \<Rightarrow> nl_object" where
  "link_memory a = Obj_link (plain_link (int a))"

theorem pointer_loop_refines_values_witness:
  "\<exists>c. run_state c = NL_STATE_RUNNING \<and> nl_objs c = queue_values link_memory (oq_objs reported_queue) \<and> length (nl_objs c) = 1 \<and>
    ((obj_loop plain_env 10 c = None \<and> obj_loop_refs link_memory plain_env 10 c reported_queue = None) \<or>
     (\<exists>c' q'. obj_loop plain_env 10 c = Some c' \<and> obj_loop_refs link_memory plain_env 10 c reported_queue = Some (c', q') \<and>
        nl_objs c' = queue_values link_memory (oq_objs q') \<and> safe_calls (oq_calls q') \<and>
        held (oq_calls q') 9 = queue_refs (oq_objs q') 9))"
proof -
  define c where "c = plain_start\<lparr>run_state := NL_STATE_RUNNING, nl_objs := queue_values link_memory (oq_objs reported_queue)\<rparr>"
  have c: "nl_objs c = queue_values link_memory (oq_objs reported_queue)" by (simp add: c_def)
  show ?thesis
    using pointer_loop_refines_values [OF reported_queue_eval(2) c, of plain_env 10 9]
    by (intro exI [of _ c]) (simp add: c_def reported_queue_eval(1) obj_value_def)
qed

subsection \<open>Assignment and move\<close>

text \<open>
  The thread never assigns nor moves an \<open>nl_obj\<close>; a deque needs neither to append and to pop. The operations are not balanced: an
  assignment keeps the references of the value it overwrites, a constructed move releases its references twice, and the source of a
  move assignment cannot be destroyed.
\<close>

lemma assignment_leaks:
  assumes "nl_obj_ctor (Some NL_ACT_NEW) None (Some a) [] = Some (x, tr1)"
    and "nl_obj_ctor (Some NL_ACT_NEW) None (Some b) tr1 = Some (y, tr2)" and "a \<noteq> b"
    and "nl_obj_assign x y tr2 = Some (x', tr3)" and "nl_obj_dtor y tr3 = Some tr4" and "nl_obj_dtor x' tr4 = Some tr5"
  shows "held tr5 a = 1 \<and> held tr5 b = 0"
  using assms by (auto simp: nl_obj_ctor_def nl_obj_assign_def nl_obj_dtor_def increment_refcount_def points_def)

lemma moved_object_released_twice:
  assumes "nl_obj_ctor (Some NL_ACT_NEW) None (Some a) [] = Some (x, tr1)" and "nl_obj_move x = (y, x')"
    and "nl_obj_dtor y tr1 = Some tr2" and "nl_obj_dtor x' tr2 = Some tr3"
  shows "held tr3 a = -1 \<and> \<not> safe_calls tr3"
proof -
  have "tr3 = [Nl_object_get (Some a), Nl_object_put (Some a), Nl_object_put (Some a)]"
    using assms by (auto simp: nl_obj_ctor_def nl_obj_move_def nl_obj_dtor_def increment_refcount_def)
  then have "held tr3 a = -1" by simp
  then show ?thesis using safe_calls_held [of tr3 a] by auto
qed

lemma moved_from_is_fatal: "nl_obj_dtor (snd (nl_obj_move_assign x y)) tr = None"
  by (simp add: nl_obj_move_assign_def nl_obj_dtor_def)

end
