(* ===== verification/Nl_Lookups.thy ===== *)
theory Nl_Lookups
  imports Nl_Obj
begin

text \<open>
  Lookups that return a counted reference: \<open>get_link_by_ifindex\<close> of \<open>cnetlink\<close> (\<open>src/src/netlink/cnetlink.cc\<close>) and the route query of
  \<open>src/src/netlink/nl_route_query.h\<close> with the callers that release its result (\<open>nl_l3.cc\<close>). Elsewhere lookups return values;
  here an object is an address with its contents, and \<open>held\<close> counts the references that the program keeps.

  A lookup of a link takes a reference on every match and releases one. A route query returns the last object that the
  kernel sent and the program holds one reference on it, given that the kernel answers with at most one object; the
  query over pointers then agrees with the parameter \<open>query_route\<close> of \<open>l3_env\<close>.
\<close>

subsection \<open>Links\<close>

text \<open>The callback keeps a reference on each match and overwrites the result. 10 is \<open>AF_INET6\<close>.\<close>

definition link_cb :: "nat \<times> rtnl_link \<Rightarrow> obj_ptr \<times> ref_trace \<Rightarrow> obj_ptr \<times> ref_trace" where
  "link_cb obj = (\<lambda>(link, tr). if ln_family (snd obj) \<noteq> 10 then (Some (fst obj), tr @ [Nl_object_get (Some (fst obj))]) else (link, tr))"

text \<open>\<open>links\<close> is the cache and \<open>deleted\<close> the links of pending deletions, with their addresses.\<close>

definition get_link_by_ifindex_refs ::
  "(nat \<times> rtnl_link) list \<Rightarrow> (nat \<times> rtnl_link) list \<Rightarrow> int \<Rightarrow> ref_trace \<Rightarrow> obj_ptr \<times> ref_trace" where
  "get_link_by_ifindex_refs links deleted ifindex tr0 =
     (let (link, tr) = fold link_cb (filter (\<lambda>obj. ln_ifindex (snd obj) = ifindex) links) (None, tr0)
      in if link = None
         then case find (\<lambda>obj. ln_ifindex (snd obj) = ifindex) deleted of
             None \<Rightarrow> (None, tr)
           | Some obj \<Rightarrow> (Some (fst obj), tr @ [Nl_object_get (Some (fst obj))])
         else (link, tr))"

text \<open>The deleter of the returned pointer; it is not called for a null pointer.\<close>

definition release_link :: "obj_ptr \<times> ref_trace \<Rightarrow> ref_trace" where
  "release_link r = (case fst r of None \<Rightarrow> snd r | Some a \<Rightarrow> snd r @ [Nl_object_put (Some a)])"

abbreviation link_matches :: "(nat \<times> rtnl_link) list \<Rightarrow> int \<Rightarrow> nat list" where
  "link_matches links ifindex \<equiv> map fst (filter (\<lambda>obj. ln_ifindex (snd obj) = ifindex \<and> ln_family (snd obj) \<noteq> 10) links)"

lemma fold_link_cb:
  "fold link_cb xs (link, tr) =
     (let ms = map fst (filter (\<lambda>obj. ln_family (snd obj) \<noteq> 10) xs)
      in (if ms = [] then link else Some (last ms), tr @ map (\<lambda>a. Nl_object_get (Some a)) ms))"
  by (induction xs arbitrary: link tr) (auto simp: link_cb_def Let_def)

lemma held_gets: "held (map (\<lambda>a. Nl_object_get (Some a)) as) a = int (count_list as a)"
  by (induction as) (auto simp: points_def)

lemma get_link_by_ifindex_refs_eq:
  "get_link_by_ifindex_refs links deleted ifindex tr =
     (let ms = link_matches links ifindex
      in if ms = []
         then case find (\<lambda>obj. ln_ifindex (snd obj) = ifindex) deleted of
             None \<Rightarrow> (None, tr)
           | Some obj \<Rightarrow> (Some (fst obj), tr @ [Nl_object_get (Some (fst obj))])
         else (Some (last ms), tr @ map (\<lambda>a. Nl_object_get (Some a)) ms))"
  by (simp add: get_link_by_ifindex_refs_def fold_link_cb Let_def conj_commute split: option.split)

lemma find_map_snd: "find P (map snd xs) = map_option snd (find (\<lambda>x. P (snd x)) xs)"
  by (induction xs) auto

lemma find_rev_last: "find P (rev xs) = (if filter P xs = [] then None else Some (last (filter P xs)))"
  by (induction xs rule: rev_induct) auto

text \<open>
  C40: A lookup of a link by its index returns a pointer to the link that the cache queries of the model return, and when the
  result has been released the program still holds one reference for every match in the cache but the last: a link
  that the cache has once for itself and once as a bridge port gains a reference with each lookup and is never freed.
\<close>

theorem link_lookup_keeps_references:
  assumes "\<And>a l. (a, l) \<in> set links \<union> set deleted \<Longrightarrow> mem a = l"
    and "nv_links nl = map snd links" and "nv_deleted nl = map snd deleted"
  shows "map_option mem (fst (get_link_by_ifindex_refs links deleted ifindex tr)) = get_link_by_ifindex nl ifindex \<and>
    held (release_link (get_link_by_ifindex_refs links deleted ifindex tr)) a =
      held tr a + int (count_list (butlast (link_matches links ifindex)) a)"
proof -
  let ?P = "\<lambda>obj. ln_ifindex (snd obj) = ifindex" and ?ms = "filter (\<lambda>obj. ln_ifindex (snd obj) = ifindex \<and> ln_family (snd obj) \<noteq> 10) links"
  have mem: "mem (fst x) = snd x" if "x \<in> set links \<union> set deleted" for x
    using assms(1) [of "fst x" "snd x"] that by simp
  have old: "map_option (\<lambda>x. mem (fst x)) (find ?P deleted) = find (\<lambda>l. ln_ifindex l = ifindex) (nv_deleted nl)"
  proof (cases "find ?P deleted")
    case (Some x)
    then have "x \<in> set deleted" by (metis find_Some_iff nth_mem)
    then show ?thesis using Some mem [of x] by (simp add: assms(3) find_map_snd)
  qed (simp add: assms(3) find_map_snd)
  have new: "last_match (\<lambda>l. ln_ifindex l = ifindex \<and> ln_family l \<noteq> 10) (nv_links nl) =
      (if ?ms = [] then None else Some (mem (last (map fst ?ms))))"
  proof (cases "?ms = []")
    case False
    then have "last ?ms \<in> set links" using last_in_set [OF False] by auto
    then show ?thesis using False mem [of "last ?ms"]
      by (simp add: last_match_def assms(2) find_rev_last filter_map comp_def last_map)
  qed (simp add: last_match_def assms(2) find_rev_last filter_map comp_def)
  have count: "count_list ms a = count_list (butlast ms) a + (if last ms = a then 1 else 0)" if "ms \<noteq> []" for ms
    using that by (cases ms rule: rev_cases) auto
  show ?thesis
  proof (cases "?ms = []")
    case True
    then show ?thesis using old new
      by (auto simp: get_link_by_ifindex_refs_eq get_link_by_ifindex_def release_link_def split: option.splits)
  next
    case False
    then show ?thesis using new count [of "map fst ?ms"]
      by (simp add: get_link_by_ifindex_refs_eq get_link_by_ifindex_def release_link_def held_gets points_def Let_def del: map_map)
  qed
qed

text \<open>Port 5 is in the cache as itself (object 1) and as a bridge port (object 2).\<close>

definition bridged_port_cache :: "(nat \<times> rtnl_link) list" where
  "bridged_port_cache = [(1, plain_link 5), (2, (plain_link 5)\<lparr>ln_family := AF_BRIDGE\<rparr>)]"

definition bridged_port_memory :: "nat \<Rightarrow> rtnl_link" where
  "bridged_port_memory a = (if a = 1 then plain_link 5 else (plain_link 5)\<lparr>ln_family := AF_BRIDGE\<rparr>)"

theorem link_lookup_keeps_references_witness:
  "map_option bridged_port_memory (fst (get_link_by_ifindex_refs bridged_port_cache [] 5 [])) =
     Some ((plain_link 5)\<lparr>ln_family := AF_BRIDGE\<rparr>) \<and>
   held (release_link (get_link_by_ifindex_refs bridged_port_cache [] 5 [])) 1 = 1 \<and>
   held (release_link (get_link_by_ifindex_refs bridged_port_cache [] 5 [])) 2 = 0"
proof -
  define nl where "nl = (cn_view plain_env (comps plain_start))\<lparr>nv_links := map snd bridged_port_cache, nv_deleted := []\<rparr>"
  have hyps: "\<And>a l. (a, l) \<in> set bridged_port_cache \<union> set [] \<Longrightarrow> bridged_port_memory a = l"
    "nv_links nl = map snd bridged_port_cache" "nv_deleted nl = map snd []"
    by (auto simp: nl_def bridged_port_cache_def bridged_port_memory_def)
  show ?thesis
    using link_lookup_keeps_references [where mem = bridged_port_memory, OF hyps, of 5 "[]" 1]
      link_lookup_keeps_references [where mem = bridged_port_memory, OF hyps, of 5 "[]" 2]
    by (simp add: nl_def bridged_port_cache_def get_link_by_ifindex_def last_match_def plain_link_def)
qed

subsection \<open>Route queries\<close>

record rtmsg =
  rtm_family :: u8
  rtm_dst_len :: u8
  rtm_flags :: u32

text \<open>
  What libnl and the kernel answer. A message of the answer is the result of parsing it and the objects that the parser passed on;
  \<open>rq_recv\<close> is the result of receiving. The two error codes are those of libnl for an unreachable destination.
\<close>

record route_kernel =
  rq_connect :: int
  rq_alloc :: bool
  rq_append :: "rtmsg \<Rightarrow> int"
  rq_put_addr :: "nl_addr \<Rightarrow> int"
  rq_send :: "rtmsg \<Rightarrow> nl_addr \<Rightarrow> int"
  rq_messages :: "rtmsg \<Rightarrow> nl_addr \<Rightarrow> (int \<times> nat list) list"
  rq_recv :: "rtmsg \<Rightarrow> nl_addr \<Rightarrow> int"
  nle_hostunreach :: int
  nle_failure :: int

definition parse_cb :: "nat \<Rightarrow> obj_ptr \<times> ref_trace \<Rightarrow> obj_ptr \<times> ref_trace" where
  "parse_cb obj = (\<lambda>(route, tr). (Some obj, tr @ [Nl_object_get (Some obj)]))"

text \<open>A message that cannot be parsed is fatal.\<close>

definition route_cb :: "int \<times> nat list \<Rightarrow> obj_ptr \<times> ref_trace \<Rightarrow> (obj_ptr \<times> ref_trace) option" where
  "route_cb msg r = (let r' = fold parse_cb (snd msg) r in if fst msg < 0 then None else Some r')"

fun recv_routes :: "(int \<times> nat list) list \<Rightarrow> obj_ptr \<times> ref_trace \<Rightarrow> (obj_ptr \<times> ref_trace) option" where
  "recv_routes [] r = Some r"
| "recv_routes (msg # msgs) r = route_cb msg r \<bind> recv_routes msgs"

definition route_request :: "nl_addr \<Rightarrow> u32 \<Rightarrow> rtmsg" where
  "route_request dst flags =
     \<lparr>rtm_family = word_of_int (na_family dst), rtm_dst_len = of_nat (na_prefixlen dst), rtm_flags = flags\<rparr>"

text \<open>The constructor of \<open>nl_route_query\<close>.\<close>

definition nl_route_query_ctor :: "route_kernel \<Rightarrow> unit option" where
  "nl_route_query_ctor rk = (if rq_connect rk < 0 then None else Some ())"

text \<open>\<open>None\<close> is a fatal error.\<close>

definition query_route_refs :: "route_kernel \<Rightarrow> nl_addr \<Rightarrow> u32 \<Rightarrow> ref_trace \<Rightarrow> (obj_ptr \<times> ref_trace) option" where
  "query_route_refs rk dst flags tr =
     (let rmsg = route_request dst flags
      in if \<not> rq_alloc rk then None
         else if rq_append rk rmsg < 0 then None
         else if rq_put_addr rk dst < 0 then None
         else if rq_send rk rmsg dst < 0 then None
         else do {
           (route, tr1) \<leftarrow> recv_routes (rq_messages rk rmsg dst) (None, tr);
           (let err = rq_recv rk rmsg dst
            in if err < 0
               then (if err = - nle_hostunreach rk \<or> err = - nle_failure rk then Some (None, tr1) else None)
               else Some (route, tr1))
         })"

text \<open>\<open>RTM_F_FIB_MATCH\<close>\<close>

abbreviation RTM_F_FIB_MATCH :: u32 where "RTM_F_FIB_MATCH \<equiv> 0x2000"

text \<open>The callers: \<open>nl_object_put\<close> after the use of a route; a null pointer is not released.\<close>

definition is_l3_neigh_routable_refs ::
  "route_kernel \<Rightarrow> (nat \<Rightarrow> rtnl_route) \<Rightarrow> l3_env \<Rightarrow> nl_addr \<Rightarrow> ref_trace \<Rightarrow> (bool \<times> ref_trace) option" where
  "is_l3_neigh_routable_refs rk mem le dst tr = do {
     nl_route_query_ctor rk;
     (route, tr1) \<leftarrow> query_route_refs rk dst 0 tr;
     (case route of
        None \<Rightarrow> Some (False, tr1)
      | Some a \<Rightarrow> Some (guess_scope le (mem a) = RT_SCOPE_LINK, tr1 @ [Nl_object_put (Some a)]))
   }"

definition duplicate_route_refs ::
  "route_kernel \<Rightarrow> (nat \<Rightarrow> rtnl_route) \<Rightarrow> l3_env \<Rightarrow> rtnl_route \<Rightarrow> ref_trace \<Rightarrow> (bool \<times> ref_trace) option" where
  "duplicate_route_refs rk mem le r tr =
     (if 0 < rt_priority r \<and> rt_protocol r \<noteq> RTPROT_KERNEL
      then do {
        nl_route_query_ctor rk;
        (route, tr1) \<leftarrow> query_route_refs rk (rt_dst r) RTM_F_FIB_MATCH tr;
        (case route of
           None \<Rightarrow> Some (False, tr1)
         | Some a \<Rightarrow>
             (let duplicate = rt_protocol (mem a) = RTPROT_KERNEL \<and>
                    addr_cmp le (Some (rt_dst r)) (Some (rt_dst (mem a))) = 0
              in Some (duplicate, tr1 @ [Nl_object_put (Some a)])))
      }
      else Some (False, tr))"

text \<open>The environment of \<open>nl_l3\<close> that a kernel gives.\<close>

definition with_kernel :: "route_kernel \<Rightarrow> (nat \<Rightarrow> rtnl_route) \<Rightarrow> l3_env \<Rightarrow> l3_env" where
  "with_kernel rk mem le = le\<lparr>query_route := (\<lambda>dst fib.
     case query_route_refs rk dst (if fib then RTM_F_FIB_MATCH else 0) [] of
       None \<Rightarrow> None
     | Some (route, _) \<Rightarrow> map_option mem route)\<rparr>"

text \<open>
  A kernel that works: the request is built and sent, every message parses, a request for one route is answered with at
  most one object, and an answer that ends with an error has none.
\<close>

definition route_kernel_ok :: "route_kernel \<Rightarrow> bool" where
  "route_kernel_ok rk \<longleftrightarrow> 0 \<le> rq_connect rk \<and> rq_alloc rk \<and> (\<forall>m. 0 \<le> rq_append rk m) \<and> (\<forall>dst. 0 \<le> rq_put_addr rk dst) \<and>
     (\<forall>m dst. 0 \<le> rq_send rk m dst \<and> list_all (\<lambda>msg. 0 \<le> fst msg) (rq_messages rk m dst) \<and>
        length (concat (map snd (rq_messages rk m dst))) \<le> 1 \<and>
        (0 \<le> rq_recv rk m dst \<or> concat (map snd (rq_messages rk m dst)) = [] \<and>
           (rq_recv rk m dst = - nle_hostunreach rk \<or> rq_recv rk m dst = - nle_failure rk)))"

lemma fold_parse_cb:
  "fold parse_cb objs (route, tr) =
     (if objs = [] then route else Some (last objs), tr @ map (\<lambda>a. Nl_object_get (Some a)) objs)"
  by (induction objs arbitrary: route tr) (auto simp: parse_cb_def)

text \<open>When all messages parse, the last object is the result and a reference is taken on each.\<close>

lemma recv_routes_ok:
  assumes "list_all (\<lambda>msg. 0 \<le> fst msg) msgs"
  shows "recv_routes msgs (route, tr) =
     (let objs = concat (map snd msgs)
      in Some (if objs = [] then route else Some (last objs), tr @ map (\<lambda>a. Nl_object_get (Some a)) objs))"
  using assms
  by (induction msgs arbitrary: route tr) (auto simp: route_cb_def fold_parse_cb Let_def)

lemma query_route_refs_ok:
  assumes "route_kernel_ok rk"
  obtains "\<And>tr. query_route_refs rk dst flags tr = Some (None, tr)"
  | a where "\<And>tr. query_route_refs rk dst flags tr = Some (Some a, tr @ [Nl_object_get (Some a)])"
proof -
  let ?m = "route_request dst flags"
  let ?objs = "concat (map snd (rq_messages rk ?m dst))"
  have kernel: "rq_alloc rk" "0 \<le> rq_append rk ?m" "0 \<le> rq_put_addr rk dst" "0 \<le> rq_send rk ?m dst"
    "list_all (\<lambda>msg. 0 \<le> fst msg) (rq_messages rk ?m dst)" "length ?objs \<le> 1"
    "0 \<le> rq_recv rk ?m dst \<or> ?objs = [] \<and> (rq_recv rk ?m dst = - nle_hostunreach rk \<or> rq_recv rk ?m dst = - nle_failure rk)"
    using assms by (simp_all add: route_kernel_ok_def)
  show thesis
  proof (cases ?objs)
    case Nil
    then have "\<And>tr. query_route_refs rk dst flags tr = Some (None, tr)"
      using kernel by (auto simp: query_route_refs_def recv_routes_ok Let_def)
    then show thesis by (rule that(1))
  next
    case (Cons a objs)
    then have "?objs = [a]" using kernel(6) by simp
    then have "\<And>tr. query_route_refs rk dst flags tr = Some (Some a, tr @ [Nl_object_get (Some a)])"
      using kernel by (auto simp: query_route_refs_def recv_routes_ok Let_def)
    then show thesis by (rule that(2))
  qed
qed

text \<open>
  C39: With a kernel that works a route query does not end the program; the two callers in \<open>nl_l3\<close> that look at a route decide as the model does
  with the kernel as its environment, and give back the reference they were given.
\<close>

theorem route_queries_balanced:
  assumes "route_kernel_ok rk"
  shows "\<exists>tr1 tr2. is_l3_neigh_routable_refs rk mem le dst tr = Some (is_l3_neigh_routable (with_kernel rk mem le) dst, tr1) \<and>
    duplicate_route_refs rk mem le r tr = Some (duplicate_route (with_kernel rk mem le) r, tr2) \<and>
    held tr1 a = held tr a \<and> held tr2 a = held tr a"
proof -
  have connect: "nl_route_query_ctor rk = Some ()" using assms by (simp add: nl_route_query_ctor_def route_kernel_ok_def)
  have "\<exists>tr1. is_l3_neigh_routable_refs rk mem le dst tr = Some (is_l3_neigh_routable (with_kernel rk mem le) dst, tr1) \<and>
      held tr1 a = held tr a"
    by (rule query_route_refs_ok [OF assms, of dst 0])
       (simp_all add: is_l3_neigh_routable_refs_def is_l3_neigh_routable_def with_kernel_def connect)
  moreover have "\<exists>tr2. duplicate_route_refs rk mem le r tr = Some (duplicate_route (with_kernel rk mem le) r, tr2) \<and>
      held tr2 a = held tr a"
    by (rule query_route_refs_ok [OF assms, of "rt_dst r" RTM_F_FIB_MATCH])
       (auto simp: duplicate_route_refs_def duplicate_route_def with_kernel_def connect)
  ultimately show ?thesis by blast
qed

text \<open>A kernel that knows one route, and no other.\<close>

definition one_route_kernel :: route_kernel where
  "one_route_kernel = \<lparr>rq_connect = 0, rq_alloc = True, rq_append = (\<lambda>_. 0), rq_put_addr = (\<lambda>_. 0), rq_send = (\<lambda>_ _. 0),
     rq_messages = (\<lambda>_ dst. if na_bits dst = 7 then [(0, [3])] else []), rq_recv = (\<lambda>_ dst. if na_bits dst = 7 then 0 else - 1),
     nle_hostunreach = 35, nle_failure = 1\<rparr>"

theorem route_queries_balanced_witness:
  "\<exists>tr1 tr2. is_l3_neigh_routable_refs one_route_kernel (\<lambda>a. plain_route \<lparr>na_family = 2, na_prefixlen = 32, na_bits = 7\<rparr> [] 0)
      plain_l3_env \<lparr>na_family = 2, na_prefixlen = 32, na_bits = 7\<rparr> [] =
      Some (guess_scope plain_l3_env (plain_route \<lparr>na_family = 2, na_prefixlen = 32, na_bits = 7\<rparr> [] 0) = RT_SCOPE_LINK, tr1) \<and>
    duplicate_route_refs one_route_kernel (\<lambda>a. plain_route \<lparr>na_family = 2, na_prefixlen = 32, na_bits = 7\<rparr> [] 0) plain_l3_env
      (plain_route \<lparr>na_family = 2, na_prefixlen = 32, na_bits = 9\<rparr> [] 0) [] = Some (False, tr2) \<and> held tr1 3 = 0 \<and> held tr2 3 = 0"
proof -
  let ?dst = "\<lparr>na_family = 2, na_prefixlen = 32, na_bits = 7\<rparr>"
  let ?mem = "\<lambda>a :: nat. plain_route ?dst [] 0"
  have ok: "route_kernel_ok one_route_kernel" by (simp add: route_kernel_ok_def one_route_kernel_def)
  have "is_l3_neigh_routable (with_kernel one_route_kernel ?mem plain_l3_env) ?dst =
      (guess_scope plain_l3_env (?mem 0) = RT_SCOPE_LINK)"
    "duplicate_route (with_kernel one_route_kernel ?mem plain_l3_env)
       (plain_route \<lparr>na_family = 2, na_prefixlen = 32, na_bits = 9\<rparr> [] 0) = False"
    by (simp_all add: is_l3_neigh_routable_def duplicate_route_def with_kernel_def query_route_refs_def one_route_kernel_def
        route_cb_def parse_cb_def plain_route_def)
  then show ?thesis
    using route_queries_balanced [OF ok, of ?mem plain_l3_env ?dst "[]"
        "plain_route \<lparr>na_family = 2, na_prefixlen = 32, na_bits = 9\<rparr> [] 0" 3]
    by simp
qed

text \<open>When an object arrives before the error, the reference on it is lost.\<close>

lemma route_query_loses_reference:
  assumes "rq_alloc rk" "0 \<le> rq_append rk (route_request dst flags)" "0 \<le> rq_put_addr rk dst"
    "0 \<le> rq_send rk (route_request dst flags) dst"
    and "rq_messages rk (route_request dst flags) dst = [(0, [x])]" "rq_recv rk (route_request dst flags) dst = - nle_failure rk"
    "0 < nle_failure rk"
  shows "\<exists>tr'. query_route_refs rk dst flags tr = Some (None, tr') \<and> held tr' x = held tr x + 1"
  using assms by (simp add: query_route_refs_def route_cb_def parse_cb_def)

end
