(* ===== verification/Nl_Hashing.thy ===== *)
theory Nl_Hashing
  imports Nl_Vxlan
begin

text \<open>
  The hash functions of the unordered containers (\<open>src/src/netlink/nl_hashing.h\<close>, \<open>nl_l3.cc\<close>, \<open>nl_vxlan.cc\<close>). The hashes of the
  standard library for numbers, null pointers and strings are the parameter \<open>hash_env\<close>. The containers themselves are maps and
  association lists in the model; that is right when keys that compare equal have the same hash, which is shown for the
  groups of next hops, whose comparison is not the equality of their members.
\<close>

subsection \<open>Tuples\<close>

definition hash_combine :: "u64 \<Rightarrow> u64 \<Rightarrow> u64" where
  "hash_combine seed h = seed XOR (h + 0x9e3779b9 + push_bit 6 seed + drop_bit 2 seed)"

text \<open>\<open>hs\<close> are the hashes of the elements; the recursion is that of the template.\<close>

fun HashValueImpl :: "u64 list \<Rightarrow> nat \<Rightarrow> u64 \<Rightarrow> u64" where
  "HashValueImpl hs 0 seed = hash_combine seed (hs ! 0)"
| "HashValueImpl hs (Suc i) seed = hash_combine (HashValueImpl hs i seed) (hs ! Suc i)"

definition tuple_hash :: "u64 list \<Rightarrow> u64" where
  "tuple_hash hs = HashValueImpl hs (length hs - 1) 0"

lemma HashValueImpl_foldl: "i < length hs \<Longrightarrow> HashValueImpl hs i seed = foldl hash_combine seed (take (Suc i) hs)"
  by (induction i) (simp_all add: take_Suc_conv_app_nth)

text \<open>The elements are combined from the first to the last.\<close>

lemma tuple_hash_foldl: "hs \<noteq> [] \<Longrightarrow> tuple_hash hs = foldl hash_combine 0 hs"
  using HashValueImpl_foldl [of "length hs - 1" hs 0] by (cases hs) (simp_all add: tuple_hash_def)

subsection \<open>Keys\<close>

record hash_env =
  h_u64 :: "u64 \<Rightarrow> u64"
  h_u32 :: "u32 \<Rightarrow> u64"
  h_u16 :: "u16 \<Rightarrow> u64"
  h_int :: "int \<Rightarrow> u64"
  h_null :: u64
  h_bytes :: "nl_addr \<Rightarrow> u64" \<comment> \<open>of the bytes of an address\<close>
  addr_len :: "nl_addr \<Rightarrow> nat"

definition mac_hash :: "hash_env \<Rightarrow> mac \<Rightarrow> u64" where
  "mac_hash he lla = h_u64 he (ucast lla)"

definition nh_stub_hash :: "hash_env \<Rightarrow> nh_stub \<Rightarrow> u64" where
  "nh_stub_hash he nh =
     (let seed = (case ns_nh nh of
          None \<Rightarrow> hash_combine 0 (h_null he)
        | Some a \<Rightarrow>
            (let seed = hash_combine 0 (h_int he (na_family a));
                 seed = hash_combine seed (h_u32 he (of_nat (na_prefixlen a)))
             in if 0 < addr_len he a then hash_combine seed (h_bytes he a) else seed))
      in hash_combine seed (h_int he (ns_ifindex nh)))"

definition nh_set_hash :: "hash_env \<Rightarrow> nh_stub list \<Rightarrow> u64" where
  "nh_set_hash he arg = foldl (\<lambda>seed v. hash_combine seed (nh_stub_hash he v)) 0 arg"

definition pport_vlan_hash :: "hash_env \<Rightarrow> pport_vlan \<Rightarrow> u64" where
  "pport_vlan_hash he v = hash_combine (hash_combine 0 (h_u32 he (pv_pport v))) (h_u16 he (pv_vid v))"

definition tunnel_nh_hash :: "hash_env \<Rightarrow> tunnel_nh \<Rightarrow> u64" where
  "tunnel_nh_hash he v =
     hash_combine (hash_combine (hash_combine 0 (h_u64 he (tn_smac v))) (h_u64 he (tn_dmac v))) (pport_vlan_hash he (tn_pv v))"

definition endpoint_port_hash :: "hash_env \<Rightarrow> endpoint_port \<Rightarrow> u64" where
  "endpoint_port_hash he v =
     hash_combine (hash_combine (hash_combine 0 (h_u32 he (ep_local_ipv4 v))) (h_u32 he (ep_remote_ipv4 v)))
       (h_u32 he (ep_initiator_udp_dst_port v))"

text \<open>
  The container compares groups element by element with \<open>operator==\<close>, which looks at the identifier of a next hop object as well;
  the hash does not. libnl's comparison of addresses gives zero for equal addresses only.
\<close>

lemma equal_groups_hash_alike:
  assumes cmp: "\<And>a b. addr_cmp le a b = 0 \<Longrightarrow> a = b" and "list_all2 (nh_eq le) xs ys"
  shows "nh_set_hash he xs = nh_set_hash he ys"
proof -
  have one: "nh_stub_hash he x = nh_stub_hash he y" if "nh_eq le x y" for x y
    using cmp [of "ns_nh x" "ns_nh y"] that by (simp add: nh_eq_def nh_stub_hash_def)
  have "foldl (\<lambda>seed v. hash_combine seed (nh_stub_hash he v)) s xs = foldl (\<lambda>seed v. hash_combine seed (nh_stub_hash he v)) s ys" for s
    using assms(2) by (induction arbitrary: s rule: list_all2_induct) (simp_all add: one)
  then show ?thesis by (simp add: nh_set_hash_def)
qed

end
