(* ===== verification/Nl_Keeps.thy ===== *)
theory Nl_Keeps
  imports Nl_L3 Nl_Bond
begin

text \<open>
  What the netlink side keeps of the switch. \<open>switch_invariant\<close> is the contract of a switch with an invariant: each
  operation that the netlink components call keeps it. \<open>table_invariant\<close> adds an invariant of the VLAN tables that the
  methods of \<open>nl_vlan\<close> keep. Inside these contracts every method of the netlink components is shown to keep both, here for VLANs,
  bonds and routing, in the theories \<open>Nl_Keeps_Bridge\<close> and \<open>Nl_Keeps_Thread\<close> for the rest.

  A method that returns a pair has a rewrite rule. A method that may abort has an introduction rule for \<open>pred_option\<close>, in
  which \<open>K\<close> is what is to hold of the result: it suffices that \<open>K\<close> holds of every result whose state has the invariant.
\<close>

section \<open>Results that may abort\<close>

lemma pred_option_bind [simp]: "pred_option K (Option.bind m f) \<longleftrightarrow> pred_option (\<lambda>x. pred_option K (f x)) m"
  by (cases m) auto

lemma pred_option_map [simp]: "pred_option K (map_option f m) \<longleftrightarrow> pred_option (\<lambda>x. K (f x)) m"
  by (cases m) auto

lemma pred_option_True [simp]: "pred_option (\<lambda>_. True) m"
  by (cases m) auto

lemma pred_option_any: "(\<And>x. K x) \<Longrightarrow> pred_option K m"
  by (cases m) auto

lemma pred_option_Some: "m = Some x \<Longrightarrow> pred_option K m \<Longrightarrow> K x"
  by simp

lemma pred_option_case:
  "(x = None \<Longrightarrow> pred_option K m) \<Longrightarrow> (\<And>y. x = Some y \<Longrightarrow> pred_option K (f y)) \<Longrightarrow>
    pred_option K (case x of None \<Rightarrow> m | Some y \<Rightarrow> f y)"
  by (cases x) auto

lemma foreach_opt_inv:
  assumes "J s" and "\<And>x s. J s \<Longrightarrow> pred_option J (f x s)" and "\<And>s. J s \<Longrightarrow> K s"
  shows "pred_option K (foreach_opt f xs s)"
  using assms(1)
proof (induction xs arbitrary: s)
  case Nil
  then show ?case using assms(3) by simp
next
  case (Cons x xs)
  then have "pred_option J (f x s)" by (intro assms(2))
  then show ?case using Cons.IH by (cases "f x s") auto
qed

lemma cb_loop_inv:
  assumes "J st" and "\<And>c st. J st \<Longrightarrow> pred_option J (notify c st)" and "\<And>g st. J st \<Longrightarrow> J (upd g st)"
    and "\<And>st. J st \<Longrightarrow> K st"
  shows "pred_option K (cb_loop cbs upd matches notify k st)"
proof (cases "cb_loop cbs upd matches notify k st")
  case (Some st')
  let ?keeps = "\<lambda>notify upd. (\<forall>c st. J st \<longrightarrow> pred_option J (notify c st)) \<and> (\<forall>g st. J st \<longrightarrow> J (upd g st))"
  have "?keeps notify upd \<and> J st \<longrightarrow> J st'"
  proof (rule cb_loop.raw_induct [OF _ Some, where P = "\<lambda>_ upd _ notify _ st y. ?keeps notify upd \<and> J st \<longrightarrow> J y"], intro impI)
    fix loop cbs upd matches notify k st y
    assume IH: "\<And>cbs upd matches notify k st y. loop cbs upd matches notify k st = Some y \<Longrightarrow>
        ?keeps notify upd \<and> J st \<longrightarrow> J y"
      and body: "(if length (cbs st) \<le> k then Some st
        else if matches (cbs st ! k)
        then notify (cbs st ! k) st \<bind> (\<lambda>st1. loop cbs upd matches notify k (upd (remove_nth k) st1))
        else loop cbs upd matches notify (Suc k) st) = Some y"
      and J: "?keeps notify upd \<and> J st"
    have "J st1" if "notify (cbs st ! k) st = Some st1" for st1
      using J that by (metis option.pred_inject(2))
    then show "J y"
      using body J by (auto dest!: IH split: if_splits Option.bind_splits)
  qed
  then show ?thesis using Some assms by simp
qed simp
section \<open>Contract of the switch\<close>

locale switch_invariant =
  fixes swi :: "'s switch_interface" and P :: "'s \<Rightarrow> bool"
  assumes port_laws:
      "\<And>a b s. P s \<Longrightarrow> P (snd (sw_port_set_learn swi a b s))"
      "\<And>a b s. P s \<Longrightarrow> P (snd (sw_port_set_move_learn swi a b s))"
      "\<And>a b c s. P s \<Longrightarrow> P (snd (sw_port_set_config swi a b c s))"
      "\<And>a s. P s \<Longrightarrow> P (snd (sw_subscribe_to swi a s))"
    and lag_laws:
      "\<And>a b s. P s \<Longrightarrow> P (snd (sw_lag_create swi a b s))"
      "\<And>a s. P s \<Longrightarrow> P (snd (sw_lag_remove swi a s))"
      "\<And>a b s. P s \<Longrightarrow> P (snd (sw_lag_add_member swi a b s))"
      "\<And>a b s. P s \<Longrightarrow> P (snd (sw_lag_remove_member swi a b s))"
      "\<And>a b c s. P s \<Longrightarrow> P (snd (sw_lag_set_member_active swi a b c s))"
      "\<And>a b s. P s \<Longrightarrow> P (snd (sw_lag_set_mode swi a b s))"
    and l2_laws:
      "\<And>a s. P s \<Longrightarrow> P (snd (sw_l2_set_idle_timeout swi a s))"
      "\<And>a b s. P s \<Longrightarrow> P (snd (sw_l2_addr_remove_all_in_vlan swi a b s))"
      "\<And>a b c d e f s. P s \<Longrightarrow> P (snd (sw_l2_addr_add swi a b c d e f s))"
      "\<And>a b c s. P s \<Longrightarrow> P (snd (sw_l2_addr_remove swi a b c s))"
      "\<And>a b c d s. P s \<Longrightarrow> P (snd (sw_l2_overlay_addr_add swi a b c d s))"
      "\<And>a b c s. P s \<Longrightarrow> P (snd (sw_l2_overlay_addr_remove swi a b c s))"
      "\<And>a b c s. P s \<Longrightarrow> P (snd (sw_l2_multicast_group_join swi a b c s))"
      "\<And>a b c d s. P s \<Longrightarrow> P (snd (sw_l2_multicast_group_leave swi a b c d s))"
      "\<And>a b s. P s \<Longrightarrow> P (snd (sw_l2_multicast_group_rejoin_all_in_vlan swi a b s))"
      "\<And>a b s. P s \<Longrightarrow> P (snd (sw_l2_multicast_group_leave_all_in_vlan swi a b s))"
    and l3_laws:
      "\<And>a b c s. P s \<Longrightarrow> P (snd (sw_l3_termination_add swi a b c s))"
      "\<And>a b c s. P s \<Longrightarrow> P (snd (sw_l3_termination_add_v6 swi a b c s))"
      "\<And>a b c s. P s \<Longrightarrow> P (snd (sw_l3_termination_remove swi a b c s))"
      "\<And>a b c s. P s \<Longrightarrow> P (snd (sw_l3_termination_remove_v6 swi a b c s))"
      "\<And>a b c d s. P s \<Longrightarrow> P (snd (sw_l3_egress_create swi a b c d s))"
      "\<And>a b c d e s. P s \<Longrightarrow> P (snd (sw_l3_egress_update swi a b c d e s))"
      "\<And>a s. P s \<Longrightarrow> P (snd (sw_l3_egress_remove swi a s))"
      "\<And>a b c d e s. P s \<Longrightarrow> P (snd (sw_l3_unicast_host_add_in4 swi a b c d e s))"
      "\<And>a b s. P s \<Longrightarrow> P (snd (sw_l3_unicast_host_remove_in4 swi a b s))"
      "\<And>a b c d e f s. P s \<Longrightarrow> P (snd (sw_l3_unicast_route_add_in4 swi a b c d e f s))"
      "\<And>a b c s. P s \<Longrightarrow> P (snd (sw_l3_unicast_route_remove_in4 swi a b c s))"
      "\<And>a b c d e s. P s \<Longrightarrow> P (snd (sw_l3_unicast_host_add_in6 swi a b c d e s))"
      "\<And>a b s. P s \<Longrightarrow> P (snd (sw_l3_unicast_host_remove_in6 swi a b s))"
      "\<And>a b c d e f s. P s \<Longrightarrow> P (snd (sw_l3_unicast_route_add_in6 swi a b c d e f s))"
      "\<And>a b c s. P s \<Longrightarrow> P (snd (sw_l3_unicast_route_remove_in6 swi a b c s))"
      "\<And>a s. P s \<Longrightarrow> P (snd (sw_l3_ecmp_add swi a s))"
      "\<And>a b s. P s \<Longrightarrow> P (snd (sw_l3_ecmp_update swi a b s))"
      "\<And>a s. P s \<Longrightarrow> P (snd (sw_l3_ecmp_remove swi a s))"
    and vlan_laws:
      "\<And>a b c d s. P s \<Longrightarrow> P (snd (sw_ingress_port_vlan_add swi a b c d s))"
      "\<And>a b c d s. P s \<Longrightarrow> P (snd (sw_ingress_port_vlan_remove swi a b c d s))"
      "\<And>a b s. P s \<Longrightarrow> P (snd (sw_ingress_port_pvid_add swi a b s))"
      "\<And>a b s. P s \<Longrightarrow> P (snd (sw_ingress_port_pvid_remove swi a b s))"
      "\<And>a b c d s. P s \<Longrightarrow> P (snd (sw_egress_port_vlan_add swi a b c d s))"
      "\<And>a b s. P s \<Longrightarrow> P (snd (sw_egress_port_vlan_remove swi a b s))"
      "\<And>a b c s. P s \<Longrightarrow> P (snd (sw_egress_bridge_port_vlan_add swi a b c s))"
      "\<And>a b s. P s \<Longrightarrow> P (snd (sw_egress_bridge_port_vlan_remove swi a b s))"
      "\<And>a b s. P s \<Longrightarrow> P (snd (sw_ingress_port_stacked_vlan_enable swi a b s))"
      "\<And>a b s. P s \<Longrightarrow> P (snd (sw_ingress_port_stacked_vlan_disable swi a b s))"
      "\<And>a b c d s. P s \<Longrightarrow> P (snd (sw_ingress_port_pop_vlan_add swi a b c d s))"
      "\<And>a b c d s. P s \<Longrightarrow> P (snd (sw_ingress_port_pop_vlan_remove swi a b c d s))"
      "\<And>a b c s. P s \<Longrightarrow> P (snd (sw_egress_port_push_vlan_add swi a b c s))"
      "\<And>a b c s. P s \<Longrightarrow> P (snd (sw_egress_port_push_vlan_remove swi a b c s))"
      "\<And>a s. P s \<Longrightarrow> P (snd (sw_set_egress_tpid swi a s))"
      "\<And>a s. P s \<Longrightarrow> P (snd (sw_delete_egress_tpid swi a s))"
    and tunnel_laws:
      "\<And>a s. P s \<Longrightarrow> P (snd (sw_overlay_tunnel_add swi a s))"
      "\<And>a s. P s \<Longrightarrow> P (snd (sw_overlay_tunnel_remove swi a s))"
      "\<And>a b s. P s \<Longrightarrow> P (snd (sw_add_l2_overlay_flood swi a b s))"
      "\<And>a b s. P s \<Longrightarrow> P (snd (sw_del_l2_overlay_flood swi a b s))"
      "\<And>a b s. P s \<Longrightarrow> P (snd (sw_tunnel_tenant_create swi a b s))"
      "\<And>a s. P s \<Longrightarrow> P (snd (sw_tunnel_tenant_delete swi a s))"
      "\<And>a b c d e s. P s \<Longrightarrow> P (snd (sw_tunnel_next_hop_create swi a b c d e s))"
      "\<And>a s. P s \<Longrightarrow> P (snd (sw_tunnel_next_hop_delete swi a s))"
      "\<And>a b c d e s. P s \<Longrightarrow> P (snd (sw_tunnel_access_port_create swi a b c d e s))"
      "\<And>a b c d e f g h i j s. P s \<Longrightarrow> P (snd (sw_tunnel_enpoint_create swi a b c d e f g h i j s))"
      "\<And>a s. P s \<Longrightarrow> P (snd (sw_tunnel_port_delete swi a s))"
      "\<And>a b s. P s \<Longrightarrow> P (snd (sw_tunnel_port_tenant_add swi a b s))"
      "\<And>a b s r s'. P s \<Longrightarrow> sw_tunnel_port_tenant_remove swi a b s = Some (r, s') \<Longrightarrow> P s'"
    and stg_laws:
      "\<And>a b c s. P s \<Longrightarrow> P (snd (sw_ofdpa_stg_state_port_set swi a b c s))"
begin

lemmas switch_laws [simp] = port_laws lag_laws l2_laws l3_laws vlan_laws tunnel_laws(1-12) stg_laws

lemma keep_foreach_ignore [simp]: "P s \<Longrightarrow> (\<And>x s. P s \<Longrightarrow> P (snd (f x s))) \<Longrightarrow> P (foreach_ignore f xs s)"
  by (rule foreach_ignore_inv)

lemma keep_foreach_break [simp]: "P s \<Longrightarrow> (\<And>x s. P s \<Longrightarrow> P (snd (f x s))) \<Longrightarrow> P (snd (foreach_break f xs rv s))"
  by (rule foreach_break_inv)

subsection \<open>VLANs\<close>

lemma keep_remove_ingress_vlan [simp]: "P s \<Longrightarrow> P (snd (remove_ingress_vlan nl swi port_id vid pvid vrf_id s))"
  by (simp add: remove_ingress_vlan_def)

lemma keep_add_ingress_vlan [simp]: "P s \<Longrightarrow> P (snd (add_ingress_vlan nl swi port_id vid tagged vrf_id s))"
  by (simp add: add_ingress_vlan_def Let_def split_beta)

lemma keep_add_ingress_vlan_link [simp]: "P s \<Longrightarrow> P (snd (add_ingress_vlan_link nl swi link vid tagged v s))"
  by (simp add: add_ingress_vlan_link_def)

lemma keep_remove_ingress_vlan_link [simp]: "P s \<Longrightarrow> P (snd (remove_ingress_vlan_link nl swi link vid pvid s))"
  by (simp add: remove_ingress_vlan_link_def)

lemma keep_enable_vlan [simp]: "P s \<Longrightarrow> P (snd (enable_vlan nl swi port_id vid tagged vrf_id s))"
  by (simp add: enable_vlan_def Let_def split_beta)

lemma keep_disable_vlan [simp]: "P s \<Longrightarrow> P (snd (disable_vlan nl swi port_id vid tagged vrf_id s))"
  by (simp add: disable_vlan_def Let_def split_beta)

lemma keep_add_vlan [simp]: "P s \<Longrightarrow> P (snd (snd (add_vlan nl swi link vid tagged (v, s))))"
  by (simp add: add_vlan_def Let_def split_beta split: option.split)

lemma keep_remove_vlan [simp]: "P s \<Longrightarrow> P (snd (snd (remove_vlan nl swi link vid tagged (v, s))))"
  by (simp add: remove_vlan_def Let_def split_beta split: option.split)

lemma keep_enable_vlans [simp]: "P s \<Longrightarrow> P (snd (snd (enable_vlans nl swi untagged link (v, s))))"
  by (simp add: enable_vlans_def Let_def)

lemma keep_disable_vlans [simp]: "P s \<Longrightarrow> P (snd (snd (disable_vlans nl swi untagged link (v, s))))"
  by (simp add: disable_vlans_def Let_def)

lemma keep_add_ingress_pvid [simp]: "P s \<Longrightarrow> P (snd (snd (add_ingress_pvid nl swi link pvid (v, s))))"
  by (simp add: add_ingress_pvid_def Let_def split_beta)

lemma keep_remove_ingress_pvid [simp]: "P s \<Longrightarrow> P (snd (snd (remove_ingress_pvid nl swi link pvid (v, s))))"
  by (simp add: remove_ingress_pvid_def Let_def split_beta split: option.split)

lemma keep_remove_bridge_vlan [simp]: "P s \<Longrightarrow> P (snd (remove_bridge_vlan nl swi link vid pvid tagged (v, s)))"
  by (simp add: remove_bridge_vlan_def Let_def)

lemma keep_add_bridge_vlan [simp]: "P s \<Longrightarrow> P (snd (snd (add_bridge_vlan nl swi link vid pvid tagged (v, s))))"
  by (simp add: add_bridge_vlan_def Let_def split_beta)

lemma keep_update_egress_bridge_vlan [simp]:
  "P s \<Longrightarrow> P (snd (snd (update_egress_bridge_vlan nl swi link vid untagged (v, s))))"
  by (simp add: update_egress_bridge_vlan_def Let_def split_beta split: option.split)

lemma keep_vrf_attach [simp]: "P s \<Longrightarrow> P (snd (vrf_attach nl swi untagged link (v, s)))"
  by (simp add: vrf_attach_def Let_def)

lemma keep_vrf_detach [simp]: "P s \<Longrightarrow> P (snd (vrf_detach nl swi untagged link (v, s)))"
  by (simp add: vrf_detach_def Let_def split: option.split)

lemma keep_bond_member_attached [simp]: "P s \<Longrightarrow> P (snd (bond_member_attached nl swi untagged bond member v s))"
  by (simp add: bond_member_attached_def Let_def split_beta split: option.split)

lemma keep_bond_member_detached [simp]: "P s \<Longrightarrow> P (snd (bond_member_detached nl swi untagged bond member v s))"
  by (simp add: bond_member_detached_def Let_def split_beta split: option.split)

subsection \<open>Bonds\<close>

lemma keep_update_lag [simp]: "P s \<Longrightarrow> P (snd (snd (update_lag swi junk old_link new_link (nl, s))))"
  by (simp add: update_lag_def Let_def)

lemma keep_add_lag_entry [simp]: "P s \<Longrightarrow> P (snd (snd (add_lag_entry swi junk bond (nl, s))))"
  by (simp add: add_lag_entry_def Let_def split_beta split: option.split)

lemma keep_remove_lag [simp]: "P s \<Longrightarrow> P (snd (snd (remove_lag swi bond (nl, s))))"
  by (simp add: remove_lag_def Let_def split_beta split: option.split)

lemma keep_join_lag [simp]: "P s \<Longrightarrow> P (snd (snd (join_lag swi lag_id link (nl, s))))"
  by (simp add: join_lag_def Let_def split_beta)

lemma keep_update_lag_member [simp]: "P s \<Longrightarrow> P (snd (snd (update_lag_member swi old_slave new_slave (nl, s))))"
  by (simp add: update_lag_member_def Let_def split: option.split)

lemma keep_remove_lag_member:
  "P s \<Longrightarrow> pred_option (\<lambda>(_, _, s'). P s') (remove_lag_member swi bond link (nl, s))"
  by (simp add: remove_lag_member_def Let_def split_beta split: option.split)

lemma keep_remove_lag_member_link:
  "P s \<Longrightarrow> pred_option (\<lambda>(_, _, s'). P s') (remove_lag_member_link swi link (nl, s))"
  by (simp add: remove_lag_member_link_def keep_remove_lag_member split: option.split)

end

section \<open>Contract of the VLAN tables\<close>

text \<open>
  The invariant of the switch may depend on a part \<open>view\<close> of the state that routing does not change.
\<close>

definition keeps :: "(nl_vlan \<Rightarrow> bool) \<Rightarrow> ('x \<Rightarrow> 's \<Rightarrow> bool) \<Rightarrow> (('s, 'm) l3_state_scheme \<Rightarrow> 'x) \<Rightarrow>
    ('s, 'm) l3_state_scheme \<Rightarrow> bool" where
  "keeps V P view st \<longleftrightarrow> V (st_vlan st) \<and> P (view st) (st_sw st)"

locale table_invariant =
  fixes swi :: "'s switch_interface" and P :: "'x \<Rightarrow> 's \<Rightarrow> bool" and V :: "nl_vlan \<Rightarrow> bool"
    and view :: "('s, 'm) l3_state_scheme \<Rightarrow> 'x"
  assumes switch: "switch_invariant swi (P x)"
    and view_laws:
      "view (st\<lparr>st_sw := s\<rparr>) = view st"
      "view (st\<lparr>st_vlan := v\<rparr>) = view st"
      "view (st\<lparr>st_l3 := l\<rparr>) = view st"
    and table_laws:
      "\<And>nl link vid tagged v s. V v \<Longrightarrow> V (fst (snd (add_vlan nl swi link vid tagged (v, s))))"
      "\<And>nl link vid tagged v s. V v \<Longrightarrow> V (fst (snd (remove_vlan nl swi link vid tagged (v, s))))"
      "\<And>nl untagged link v s. V v \<Longrightarrow> V (fst (snd (enable_vlans nl swi untagged link (v, s))))"
      "\<And>nl untagged link v s. V v \<Longrightarrow> V (fst (snd (disable_vlans nl swi untagged link (v, s))))"
      "\<And>nl link pvid v s. V v \<Longrightarrow> V (fst (snd (add_ingress_pvid nl swi link pvid (v, s))))"
      "\<And>nl link pvid v s. V v \<Longrightarrow> V (fst (snd (remove_ingress_pvid nl swi link pvid (v, s))))"
      "\<And>nl link vid pvid tagged v s. V v \<Longrightarrow> V (fst (snd (add_bridge_vlan nl swi link vid pvid tagged (v, s))))"
      "\<And>nl link vid pvid tagged v s. V v \<Longrightarrow> V (fst (remove_bridge_vlan nl swi link vid pvid tagged (v, s)))"
      "\<And>nl link vid untagged v s. V v \<Longrightarrow> V (fst (snd (update_egress_bridge_vlan nl swi link vid untagged (v, s))))"
      "\<And>nl untagged link v s. V v \<Longrightarrow> V (fst (vrf_attach nl swi untagged link (v, s)))"
      "\<And>nl untagged link v s. V v \<Longrightarrow> V (fst (vrf_detach nl swi untagged link (v, s)))"

sublocale table_invariant \<subseteq> sw: switch_invariant swi "P x" for x
  by (rule switch)

context table_invariant
begin

declare table_laws [simp] view_laws [simp]

abbreviation I where "I \<equiv> keeps V P view"

lemma keep_call_sw [simp]: "I st \<Longrightarrow> (\<And>x s. P x s \<Longrightarrow> P x (snd (f s))) \<Longrightarrow> I (snd (call_sw f st))"
  by (simp add: keeps_def call_sw_def split_beta)

lemma keep_call_vlan [simp]:
  "I st \<Longrightarrow> (\<And>x v s. V v \<Longrightarrow> P x s \<Longrightarrow> V (fst (snd (f (v, s)))) \<and> P x (snd (snd (f (v, s))))) \<Longrightarrow> I (snd (call_vlan f st))"
  unfolding keeps_def call_vlan_def by (auto simp: split_beta)

lemma keep_upd_l3 [simp]: "I (upd_l3 f st) = I st"
  by (simp add: keeps_def upd_l3_def)

lemma keep_st: "pred_option I m \<Longrightarrow> (\<And>st. I st \<Longrightarrow> K st) \<Longrightarrow> pred_option K m"
  by (cases m) auto

lemma keep_snd: "pred_option (\<lambda>r. I (snd r)) m \<Longrightarrow> (\<And>r. I (snd r) \<Longrightarrow> K r) \<Longrightarrow> pred_option K m"
  by (cases m) auto

lemma keep_snd_snd: "pred_option (\<lambda>r. I (snd (snd r))) m \<Longrightarrow> (\<And>r. I (snd (snd r)) \<Longrightarrow> K r) \<Longrightarrow> pred_option K m"
  by (cases m) auto

subsection \<open>Egress interfaces, groups and termination MACs\<close>

lemma keep_add_vlan_ptr [simp]: "I st \<Longrightarrow> I (snd (add_vlan_ptr nl swi link vid tagged st))"
  by (simp add: add_vlan_ptr_def split: option.split)

lemma keep_remove_vlan_ptr [simp]: "I st \<Longrightarrow> I (snd (remove_vlan_ptr nl swi link vid tagged st))"
  by (simp add: remove_vlan_ptr_def split: option.split)

lemma keep_add_l3_egress [simp]: "I st \<Longrightarrow> I (snd (add_l3_egress nl swi ifindex vid s_mac d_mac old st))"
  by (simp add: add_l3_egress_def Let_def split_beta split: option.split)

lemma keep_del_l3_egress [simp]: "I st \<Longrightarrow> I (snd (del_l3_egress nl swi ifindex vid s_mac d_mac st))"
  by (simp add: del_l3_egress_def Let_def split_beta split: option.split)

lemma keep_fold [simp]: "J r \<Longrightarrow> (\<And>x r. J r \<Longrightarrow> J (f x r)) \<Longrightarrow> J (fold f xs r)"
  by (induction xs arbitrary: r) auto

lemma keep_update_l3_egress [simp]: "I st \<Longrightarrow> I (snd (update_l3_egress le swi port_id vid o_mac n_mac st))"
  unfolding update_l3_egress_def Let_def
  by (rule keep_fold [where J = "\<lambda>r. I (snd r)"]) (auto simp: split_beta split: option.split)

lemma keep_add_l3_ecmp_group [simp]: "I st \<Longrightarrow> I (snd (add_l3_ecmp_group swi nhs st))"
  by (simp add: add_l3_ecmp_group_def Let_def split_beta split: option.split)

lemma keep_del_l3_ecmp_group [simp]: "I st \<Longrightarrow> I (snd (del_l3_ecmp_group swi nhs st))"
  by (simp add: del_l3_ecmp_group_def Let_def split_beta split: option.split)

lemma keep_add_l3_termination [THEN keep_snd, intro!]:
  "I st \<Longrightarrow> pred_option (\<lambda>r. I (snd r)) (add_l3_termination swi port_id vid mac af st)"
  by (simp add: add_l3_termination_def Let_def)

lemma keep_del_l3_termination [THEN keep_snd, intro!]:
  "I st \<Longrightarrow> pred_option (\<lambda>r. I (snd r)) (del_l3_termination swi port_id vid mac af st)"
  by (simp add: del_l3_termination_def Let_def)

lemma keep_move_l3_termination [THEN keep_snd_snd, intro!]:
  "I (snd r) \<Longrightarrow> pred_option (\<lambda>r. I (snd (snd r))) (move_l3_termination swi port_id vid o_mac n_mac af r)"
  by (auto simp: move_l3_termination_def)

lemma keep_update_l3_termination [THEN keep_snd, intro!]:
  "I st \<Longrightarrow> pred_option (\<lambda>r. I (snd r)) (update_l3_termination swi port_id vid o_mac n_mac st)"
  by (auto simp: update_l3_termination_def)

subsection \<open>Addresses\<close>

lemma keep_add_l3_addr [THEN keep_snd, intro!]:
  "I st \<Longrightarrow> pred_option (\<lambda>r. I (snd r)) (add_l3_addr le nl swi a st)"
  by (auto simp: add_l3_addr_def Let_def split_beta split: option.split)

lemma keep_add_lo_addr_v6 [simp]: "I st \<Longrightarrow> I (snd (add_lo_addr_v6 le swi a st))"
  by (simp add: add_lo_addr_v6_def Let_def split_beta)

lemma keep_add_l3_addr_v6 [THEN keep_snd, intro!]:
  "I st \<Longrightarrow> pred_option (\<lambda>r. I (snd r)) (add_l3_addr_v6 le nl swi a st)"
  by (auto simp: add_l3_addr_v6_def Let_def split_beta split: option.split)

lemma keep_del_l3_addr [THEN keep_snd, intro!]:
  "I st \<Longrightarrow> pred_option (\<lambda>r. I (snd r)) (del_l3_addr le nl swi a st)"
  by (auto simp: del_l3_addr_def Let_def split_beta split: option.split)

lemma keep_l3_init [THEN keep_snd, intro!]:
  "I st \<Longrightarrow> pred_option (\<lambda>r. I (snd r)) (l3_init le nl swi st)"
  unfolding l3_init_def
  by (rule foreach_opt_inv [where J = "\<lambda>r. I (snd r)"]) (auto simp: split_beta)

subsection \<open>Neighbours\<close>

text \<open>Lookups do not change the state.\<close>

lemmas reads [intro!] =
  pred_option_any [where m = "nb_lladdr n" for n]
  pred_option_any [where m = "nb_dst n" for n]
  pred_option_any [where m = "get_link_by_ifindex nl i" for nl i]
  pred_option_any [where m = "get_neighbour c nl i a" for c nl i a]
  pred_option_any [where m = "resolved_neighbour le nl nh" for le nl nh]
  pred_option_any [where m = "get_l3_interface_id_nh le nl nh st" for le nl nh st]
  pred_option_any [where m = "link_local_route_left le nl r" for le nl r]

lemma keep_add_l3_neigh_egress [THEN keep_snd_snd, intro!]:
  "I st \<Longrightarrow> pred_option (\<lambda>r. I (snd (snd r))) (add_l3_neigh_egress le nl swi n out st)"
  by (auto simp: add_l3_neigh_egress_def Let_def split_beta split: option.split
      intro!: foreach_opt_inv [where J = "\<lambda>r. I (snd (snd (snd r)))"])

lemma keep_del_l3_neigh_egress [THEN keep_snd, intro!]:
  "I st \<Longrightarrow> pred_option (\<lambda>r. I (snd r)) (del_l3_neigh_egress le nl swi n st)"
  by (auto simp: del_l3_neigh_egress_def Let_def split_beta split: option.split list.split)

lemma keep_add_l3_unicast_route_addr [THEN keep_snd, intro!]:
  "I st \<Longrightarrow> pred_option (\<lambda>r. I (snd r)) (add_l3_unicast_route_addr le swi dst l3_id is_ecmp update_route vrf_id st)"
  by (simp add: add_l3_unicast_route_addr_def Let_def)

lemma keep_del_l3_unicast_route_addr [simp]: "I st \<Longrightarrow> I (snd (del_l3_unicast_route_addr le swi dst vrf_id st))"
  by (simp add: del_l3_unicast_route_addr_def Let_def)

lemma keep_notify [simp]:
  "I (notify_on_net_reachable f np st) = I st"
  "I (notify_on_nh_reachable f p st) = I st"
  "I (notify_on_nh_unreachable f p st) = I st"
  by (simp_all add: notify_on_net_reachable_def notify_on_nh_reachable_def notify_on_nh_unreachable_def)

lemma keep_nh_reachable_notification [THEN keep_st, intro!]:
  "I st \<Longrightarrow> pred_option I (nh_reachable_notification le nl swi n p st)"
  by (auto simp: nh_reachable_notification_def Let_def split_beta split: option.split
      intro!: foreach_opt_inv [where J = "\<lambda>r. I (snd r)"])

lemma keep_nh_unreachable_notification [THEN keep_st, intro!]:
  "I st \<Longrightarrow> pred_option I (nh_unreachable_notification le nl swi n p st)"
  by (auto simp: nh_unreachable_notification_def Let_def split_beta split: option.split
      intro!: pred_option_any [where m = "foreach_opt f nhs {||}" for f nhs])

lemma keep_add_l3_neigh [THEN keep_snd, intro!]:
  assumes "I st" and "\<And>n p st. I st \<Longrightarrow> pred_option I (vx_nh n p st)"
  shows "pred_option (\<lambda>r. I (snd r)) (add_l3_neigh le nl swi vx_nh n st)"
  using assms
  by (auto simp: add_l3_neigh_def Let_def split_beta split: cb_owner.split
      intro!: cb_loop_inv [where J = I])

lemma keep_del_l3_neigh [THEN keep_snd, intro!]: "I st \<Longrightarrow> pred_option (\<lambda>r. I (snd r)) (del_l3_neigh le nl swi n st)"
  by (auto simp: del_l3_neigh_def notify_unreach_callbacks_def Let_def split_beta split: option.split
      intro!: cb_loop_inv [where J = I])

lemma keep_update_l3_neigh [THEN keep_snd, intro!]:
  assumes "I st" and "\<And>n p st. I st \<Longrightarrow> pred_option I (vx_nh n p st)"
  shows "pred_option (\<lambda>r. I (snd r)) (update_l3_neigh le nl swi vx_nh n_old n_new st)"
  using assms
  by (auto simp: update_l3_neigh_def Let_def split_beta split: option.split list.split)

subsection \<open>Routes\<close>

lemma keep_resolve_nexthop [THEN keep_snd, intro!]:
  "I (snd acc) \<Longrightarrow> pred_option (\<lambda>r. I (snd r)) (resolve_nexthop le nl swi r nh acc)"
  by (auto simp: resolve_nexthop_def Let_def split_beta split: option.split)

lemma keep_route_target [simp]: "I st \<Longrightarrow> I (snd (route_target swi nhs l3_interfaces st))"
  by (simp add: route_target_def Let_def split_beta)

lemma keep_add_l3_unicast_route [THEN keep_snd, intro!]:
  assumes "I st" and "\<And>n p st. I st \<Longrightarrow> pred_option I (vx_nh n p st)" and "\<And>p st. I st \<Longrightarrow> pred_option I (vx_net p st)"
  shows "pred_option (\<lambda>r. I (snd r)) (add_l3_unicast_route le nl swi vx_nh vx_net r update_route st)"
  using assms
  by (auto simp: add_l3_unicast_route_def Let_def split_beta split: option.split
      intro!: foreach_opt_inv [where J = "\<lambda>r. I (snd r)"] foreach_opt_inv [where J = I] cb_loop_inv [where J = I])

lemma keep_release_nexthop [THEN keep_snd, intro!]:
  "I (snd acc) \<Longrightarrow> pred_option (\<lambda>r. I (snd r)) (release_nexthop le nl swi dst nh acc)"
  by (auto simp: release_nexthop_def Let_def split_beta split: option.split)

lemma keep_del_l3_unicast_route [THEN keep_snd, intro!]:
  "I st \<Longrightarrow> pred_option (\<lambda>r. I (snd r)) (del_l3_unicast_route le nl swi r keep_route st)"
  by (auto simp: del_l3_unicast_route_def Let_def split_beta split: option.split
      intro!: foreach_opt_inv [where J = "\<lambda>r. I (snd r)"] foreach_opt_inv [where J = I])

lemma keep_by_route_type [THEN keep_snd, intro!]:
  "I st \<Longrightarrow> pred_option (\<lambda>r. I (snd r)) unicast \<Longrightarrow> pred_option (\<lambda>r. I (snd r)) (by_route_type type unicast st)"
  by (simp add: by_route_type_def)

lemma keep_l3_routes [THEN keep_snd, intro!]:
  assumes "I st" and "\<And>n p st. I st \<Longrightarrow> pred_option I (vx_nh n p st)" and "\<And>p st. I st \<Longrightarrow> pred_option I (vx_net p st)"
  shows "pred_option (\<lambda>r. I (snd r)) (add_l3_route le nl swi vx_nh vx_net r st)"
    and "pred_option (\<lambda>r. I (snd r)) (update_l3_route le nl swi vx_nh vx_net r_old r_new st)"
    and "pred_option (\<lambda>r. I (snd r)) (del_l3_route le nl swi r st)"
  using assms
  by (auto simp: add_l3_route_def update_l3_route_def update_l3_unicast_route_def del_l3_route_def)

end

end
