(* ===== verification/Nl_Keeps_Bridge.thy ===== *)
theory Nl_Keeps_Bridge
  imports Nl_Keeps Nl_Bridge
begin

text \<open>
  What tunnels and the bridge keep of the switch and of the VLAN tables. \<open>tunnel_invariant\<close> adds to \<open>table_invariant\<close> that the
  part of the state on which the invariant of the switch depends is not that of the tunnels. In \<open>bridge_invariant\<close> this part is
  the record of spanning tree states, and the methods that change it together with the switch keep the invariant.
\<close>

locale tunnel_invariant = table_invariant swi P V view
  for swi :: "'s switch_interface" and P V and view :: "('s, 'm) vx_state_scheme \<Rightarrow> 'x" +
  assumes view_vxlan: "view (st\<lparr>st_vxlan := x\<rparr>) = view st"
begin

section \<open>Tunnels\<close>

lemma keep_upd_vx [simp]: "I (upd_vx f st) = I st"
  by (simp add: keeps_def upd_vx_def view_vxlan)

lemma keep_retry [simp]: "P x s \<Longrightarrow> (\<And>s. P x s \<Longrightarrow> P x (snd (f s))) \<Longrightarrow> P x (snd (retry n f s))"
  by (induction n arbitrary: s) (auto simp: split_beta Let_def)

lemma keep_tenant_remove [THEN keep_snd, intro!]:
  "I st \<Longrightarrow> pred_option (\<lambda>r. I (snd r)) (call_sw_opt (sw_tunnel_port_tenant_remove swi lport tid) st)"
  by (cases "sw_tunnel_port_tenant_remove swi lport tid (st_sw st)")
    (auto simp: call_sw_opt_def keeps_def dest: sw.tunnel_laws(13))

lemma keep_create_vni [simp]: "I st \<Longrightarrow> I (snd (create_vni swi link st))"
  by (simp add: create_vni_def Let_def split_beta)

lemma keep_remove_vni [simp]: "I st \<Longrightarrow> I (snd (remove_vni swi link st))"
  by (simp add: remove_vni_def Let_def split_beta split: option.split)

lemma keep_flooding [simp]:
  "I st \<Longrightarrow> I (snd (enable_flooding swi tunnel_id lport_id st))"
  "I st \<Longrightarrow> I (snd (disable_flooding swi tunnel_id lport_id st))"
  by (simp_all add: enable_flooding_def disable_flooding_def Let_def split_beta)

lemmas vx_reads [intro!] =
  pred_option_any [where m = "bridge_is_port_flooding l x" for l x]
  pred_option_any [where m = "get_access_tunnel_port p v x" for p v x]
  pred_option_any [where m = "lookup_endpoint l a b x" for l a b x]
  pred_option_any [where m = "ln_vxlan_id l" for l]
  pred_option_any [where m = "ln_vxlan_port l" for l]

lemma keep_delete_access_port [THEN keep_snd, intro!]:
  "I st \<Longrightarrow> pred_option (\<lambda>r. I (snd r)) (delete_access_port swi brl pport_no vid wipe st)"
  by (auto simp: delete_access_port_def Let_def split_beta split: option.split)

lemma keep_create_access_port [THEN keep_snd_snd, intro!]:
  "I st \<Longrightarrow> pred_option (\<lambda>r. I (snd (snd r))) (create_access_port swi brl tunnel_id name pport_no vid untagged st)"
  by (auto simp: create_access_port_def Let_def split_beta split: option.split)

lemma keep_delete_next_hop_tnh [simp]: "I st \<Longrightarrow> I (snd (delete_next_hop_tnh swi tnh st))"
  by (simp add: delete_next_hop_tnh_def Let_def split_beta split: option.split)

lemma keep_delete_next_hop_id [simp]: "I st \<Longrightarrow> I (snd (delete_next_hop_id swi nh_id st))"
  by (simp add: delete_next_hop_id_def split: option.split)

lemma keep_delete_next_hop_neigh [THEN keep_snd, intro!]:
  "I st \<Longrightarrow> pred_option (\<lambda>r. I (snd r)) (delete_next_hop_neigh le nl swi neigh st)"
  by (simp add: delete_next_hop_neigh_def split: option.split)

lemma keep_create_next_hop_neigh [THEN keep_snd_snd, intro!]:
  "I st \<Longrightarrow> pred_option (\<lambda>r. I (snd (snd r))) (create_next_hop_neigh le nl swi neigh st)"
  by (simp add: create_next_hop_neigh_def Let_def split_beta split: option.split)

lemma keep_create_next_hop [THEN keep_snd_snd, intro!]:
  "I st \<Longrightarrow> pred_option (\<lambda>r. I (snd (snd r))) (create_next_hop le nl swi vxlan_link remote st)"
  by (auto simp: create_next_hop_def Let_def split_beta split: option.split)

lemma keep_create_endpoint_port [THEN keep_snd_snd, intro!]:
  "I st \<Longrightarrow> pred_option (\<lambda>r. I (snd (snd r))) (create_endpoint_port swi vxlan_link local grp next_hop_id st)"
  by (auto simp: create_endpoint_port_def Let_def split_beta split: option.split)

lemma keep_delete_endpoint_remote [THEN keep_snd, intro!]:
  "I st \<Longrightarrow> pred_option (\<lambda>r. I (snd r)) (delete_endpoint_remote swi vxlan_link local remote st)"
  by (auto simp: delete_endpoint_remote_def Let_def split_beta split: option.split)

lemma keep_delete_endpoint [THEN keep_snd, intro!]:
  "I st \<Longrightarrow> pred_option (\<lambda>r. I (snd r)) (delete_endpoint swi vxlan_link st)"
  by (auto simp: delete_endpoint_def split_beta split: option.split)

lemma keep_add_l2_neigh_port [THEN keep_snd, intro!]:
  "I st \<Longrightarrow> pred_option (\<lambda>r. I (snd r)) (add_l2_neigh_port swi neigh lport tunnel_id st)"
  by (auto simp: add_l2_neigh_port_def Let_def)

lemma keep_create_endpoint_remote [THEN keep_snd, intro!]:
  "I st \<Longrightarrow> pred_option (\<lambda>r. I (snd r)) (create_endpoint_remote le nl swi vxlan_link brl remote st)"
  by (auto simp: create_endpoint_remote_def Let_def split_beta split: option.split
      intro!: foreach_opt_inv [where J = "\<lambda>r. I (snd r)"])

lemma keep_create_endpoint [THEN keep_snd, intro!]:
  "I st \<Longrightarrow> pred_option (\<lambda>r. I (snd r)) (create_endpoint le nl swi vxlan_link brl st)"
  by (auto simp: create_endpoint_def split_beta split: option.split)

lemma keep_delete_l2_neigh_tunnel [THEN keep_snd, intro!]:
  "I st \<Longrightarrow> pred_option (\<lambda>r. I (snd r)) (delete_l2_neigh_tunnel swi tunnel_id neigh_mac st)"
  by (auto simp: delete_l2_neigh_tunnel_def intro: pred_option_any)

lemma keep_delete_l2_neigh_access [THEN keep_snd, intro!]:
  "I st \<Longrightarrow> pred_option (\<lambda>r. I (snd r)) (delete_l2_neigh_access nl swi link vlan neigh_mac st)"
  by (auto simp: delete_l2_neigh_access_def Let_def)

lemma keep_delete_l2_neigh_endpoint [THEN keep_snd, intro!]:
  "I st \<Longrightarrow> pred_option (\<lambda>r. I (snd r)) (delete_l2_neigh_endpoint swi vxlan_link local remote neigh_mac st)"
  by (auto simp: delete_l2_neigh_endpoint_def Let_def split_beta split: option.split)

lemma keep_delete_l2_neigh [THEN keep_snd, intro!]:
  "I st \<Longrightarrow> pred_option (\<lambda>r. I (snd r)) (delete_l2_neigh le nl swi neigh link st)"
  by (auto simp: delete_l2_neigh_def Let_def split_beta split: option.split)

lemma keep_add_l2_neigh [THEN keep_snd, intro!]:
  assumes "I st" and "\<And>l b t a st. I st \<Longrightarrow> pred_option (\<lambda>r. I (snd r)) (upd l b t a st)"
  shows "pred_option (\<lambda>r. I (snd r)) (add_l2_neigh le nl swi upd neigh link brl st)"
  using assms(1) by (auto simp: add_l2_neigh_def Let_def split_beta split: option.split intro!: assms(2) [THEN keep_snd])

lemma keep_vx_net_reachable [THEN keep_st, intro!]:
  "I st \<Longrightarrow> pred_option I (vx_net_reachable_notification le nl swi params st)"
  by (auto simp: vx_net_reachable_notification_def split: option.split)

lemma keep_vx_nh_reachable [THEN keep_st, intro!]:
  "I st \<Longrightarrow> pred_option I (vx_nh_reachable_notification le nl swi n p st)"
  by (auto simp: vx_nh_reachable_notification_def)

lemma keep_vx_register_bridge [THEN keep_st, intro!]:
  assumes "I st" and "\<And>l b t a st. I st \<Longrightarrow> pred_option (\<lambda>r. I (snd r)) (upd l b t a st)"
  shows "pred_option I (vx_register_bridge le nl swi upd b st)"
  using assms by (auto simp: vx_register_bridge_def Let_def split_beta intro!: foreach_opt_inv [where J = I])

end

section \<open>Spanning tree states\<close>

locale bridge_invariant = tunnel_invariant swi P V view
  for swi :: "'s switch_interface" and P V and view :: "('s, 'm) br_state_scheme \<Rightarrow> bridge_stp_states" +
  assumes view_stp: "view st = stp_states (st_bridge st)"
    and stp_laws:
      "\<And>nl port state b s. P b s \<Longrightarrow> P (fst (set_port_stp_state nl swi port state (b, s))) (snd (set_port_stp_state nl swi port state (b, s)))"
      "\<And>nl port vid state b s. P b s \<Longrightarrow>
         pred_option (\<lambda>(_, b', s'). P b' s') (add_port_vlan_stp_state nl swi port vid state (b, s))"
      "\<And>nl port vid b s. P b s \<Longrightarrow>
         P (fst (snd (del_port_vlan_stp_state nl swi port vid (b, s)))) (snd (snd (del_port_vlan_stp_state nl swi port vid (b, s))))"
      "\<And>b s. P b s \<Longrightarrow> P bridge_stp_states_init s"
begin

lemma keeps_bridge: "I st \<longleftrightarrow> V (st_vlan st) \<and> P (stp_states (st_bridge st)) (st_sw st)"
  by (simp add: keeps_def view_stp)

lemma keep_set_port_vlan_stp_state [simp]: "P b s \<Longrightarrow> P b (snd (set_port_vlan_stp_state nl swi port_id vid state s))"
proof -
  assume "P b s"
  then have "P b (snd (fold (\<lambda>mem (err, s). let (err2, s1) = sw_ofdpa_stg_state_port_set swi mem vid state s
      in (if err2 < 0 then err2 else err, s1)) xs (0, s)))" for xs
    by (intro keep_fold [where J = "\<lambda>r. P b (snd r)"]) (auto simp: split_beta)
  then show ?thesis using \<open>P b s\<close> by (simp add: set_port_vlan_stp_state_def)
qed

lemma keep_set_pvlan_stp:
  "P b s \<Longrightarrow> pred_option (\<lambda>(_, b', s'). P b' s') (set_pvlan_stp nl swi bridge bvlan_info (b, s))"
  by (simp add: set_pvlan_stp_def Let_def stp_laws)

lemma keep_drop_pvlan_stp:
  "P b s \<Longrightarrow> P (fst (snd (drop_pvlan_stp nl swi bridge bvlan_info (b, s)))) (snd (snd (drop_pvlan_stp nl swi bridge bvlan_info (b, s))))"
  by (simp add: drop_pvlan_stp_def Let_def stp_laws)

lemma keep_call_stp [THEN keep_st]:
  assumes "I st" and "\<And>b s. P b s \<Longrightarrow> pred_option (\<lambda>(b', s'). P b' s') (f (b, s))"
  shows "pred_option I (call_stp f st)"
  using assms(1) assms(2) [of "stp_states (st_bridge st)" "st_sw st"]
  by (cases "f (stp_states (st_bridge st), st_sw st)") (auto simp: call_stp_def keeps_bridge)

lemma keep_call_stp_snd [THEN keep_st]:
  assumes "I st" and "\<And>b s. P b s \<Longrightarrow> pred_option (\<lambda>(_, b', s'). P b' s') (f (b, s))"
  shows "pred_option I (call_stp (\<lambda>x. map_option snd (f x)) st)"
  using assms(1) assms(2) [of "stp_states (st_bridge st)" "st_sw st"]
  by (cases "f (stp_states (st_bridge st), st_sw st)") (auto simp: call_stp_def keeps_bridge)

section \<open>The bridge\<close>

lemma keep_upd_br [simp]: "(\<And>b. stp_states (f b) = stp_states b) \<Longrightarrow> I (upd_br f st) = I st"
  by (simp add: keeps_bridge upd_br_def)

lemma keep_send_nl_msg [simp]: "I (snd (send_nl_msg be msg st)) = I st"
  by (simp add: keeps_bridge send_nl_msg_def)

lemma keep_sw_each [simp]: "I st \<Longrightarrow> (\<And>b x s. P b s \<Longrightarrow> P b (snd (f x s))) \<Longrightarrow> I (sw_each f xs st)"
  by (simp add: keeps_bridge sw_each_def)

lemma keep_vlan_proto [simp]:
  "I st \<Longrightarrow> I (snd (set_vlan_proto be nl swi link port_id st))"
  "I st \<Longrightarrow> I (snd (delete_vlan_proto be nl swi link port_id st))"
  by (simp_all add: set_vlan_proto_def delete_vlan_proto_def Let_def split_beta)

lemma keep_set_port_locked [simp]: "I st \<Longrightarrow> I (set_port_locked nl swi link locked st)"
  by (simp add: set_port_locked_def Let_def)

lemma keep_set_ageing_time [THEN keep_st, intro!]: "I st \<Longrightarrow> pred_option I (set_ageing_time nl swi ageing_time st)"
  by (auto simp: set_ageing_time_def intro!: foreach_opt_inv [where J = I])

lemma keep_set_bridge_interface [THEN keep_st, intro!]:
  "I st \<Longrightarrow> pred_option I (set_bridge_interface be nl swi bridge st)"
  by (auto simp: set_bridge_interface_def Let_def split: option.split)

lemmas br_reads [intro!] =
  pred_option_any [where m = "br_link b" for b]
  pred_option_any [where m = "ln_br_vlan l" for l]
  pred_option_any [where m = "is_vid_set v x" for v x]
  pred_option_any [where m = "get_link nl i f" for nl i f]
  pred_option_any [where m = "fmlookup m k" for m k]
  pred_option_any [where m = "vc_any vc" for vc]

lemma keep_add_neigh_to_fdb [THEN keep_st, intro!]: "I st \<Longrightarrow> pred_option I (add_neigh_to_fdb be nl swi neigh update st)"
  by (auto simp: add_neigh_to_fdb_def Let_def split_beta split: option.split)

lemma keep_remove_neigh_from_fdb [THEN keep_st, intro!]:
  "I st \<Longrightarrow> pred_option I (remove_neigh_from_fdb be nl swi neigh st)"
  by (auto simp: remove_neigh_from_fdb_def Let_def split: option.split)

lemma keep_fdb_timeout [simp]: "I st \<Longrightarrow> I (snd (fdb_timeout be port_link vid mac st))"
  by (simp add: fdb_timeout_def Let_def split_beta split: option.split)

lemma keep_flush_fdb [THEN keep_snd, intro!]: "I st \<Longrightarrow> pred_option (\<lambda>r. I (snd r)) (flush_fdb be ifindex vlan flags st)"
  by (simp add: flush_fdb_def split_beta)

text \<open>A function that adds neighbours to a tunnel, as the bridge calls it.\<close>

definition keeps_add :: "('s, 'm) neigh_adder \<Rightarrow> bool" where
  "keeps_add vx_add \<longleftrightarrow> (\<forall>n l b st. I st \<longrightarrow> pred_option (\<lambda>r. I (snd r)) (vx_add n l b st))"

lemma keeps_addI: "(\<And>n l b st. I st \<Longrightarrow> pred_option (\<lambda>r. I (snd r)) (vx_add n l b st)) \<Longrightarrow> keeps_add vx_add"
  by (simp add: keeps_add_def)

lemma keeps_addD [THEN keep_snd]:
  "keeps_add vx_add \<Longrightarrow> I st \<Longrightarrow> pred_option (\<lambda>r. I (snd r)) (vx_add n l b st)"
  by (simp add: keeps_add_def)

lemma keep_update_access_port [THEN keep_st, intro!]:
  "keeps_add vx_add \<Longrightarrow> I st \<Longrightarrow>
    pred_option I (update_access_port be nl swi vx_add vxlan_link vx_br_link vid tunnel_id add br_port st)"
  by (auto simp: update_access_port_def Let_def split_beta split: option.split
      intro!: foreach_opt_inv [where J = I] keeps_addD [where vx_add = vx_add])

lemma keep_update_access_ports [THEN keep_snd, intro!]:
  "keeps_add vx_add \<Longrightarrow> I st \<Longrightarrow>
    pred_option (\<lambda>r. I (snd r)) (update_access_ports be nl swi vx_add vxlan_link vx_br_link tunnel_id add st)"
  by (auto simp: update_access_ports_def Let_def split: option.split intro!: foreach_opt_inv [where J = I])

lemma keep_vx_add_l2_neigh: "keeps_add (vx_add_l2_neigh k le be nl swi)"
proof (induction k)
  case (Suc k)
  then show ?case by (intro keeps_addI) (auto simp: vx_add_step_def)
qed (simp add: keeps_add_def)

subsection \<open>VLANs of a port\<close>

lemma keep_vlan_added [THEN keep_st, intro!]:
  "keeps_add vx_add \<Longrightarrow> I st \<Longrightarrow> pred_option I (vlan_added be nl swi vx_add vc vid egress_untagged st)"
  by (auto simp: vlan_added_def Let_def split_beta split: option.split
      intro!: foreach_opt_inv [where J = I] keep_call_stp_snd stp_laws)

lemma keep_vlan_removed [THEN keep_st, intro!]:
  "keeps_add vx_add \<Longrightarrow> I st \<Longrightarrow> pred_option I (vlan_removed be nl swi vx_add vc vid egress_untagged st)"
  by (auto simp: vlan_removed_def Let_def split_beta intro!: foreach_opt_inv [where J = I])

lemma keep_update_vlan_word [THEN keep_st, intro!]:
  "keeps_add vx_add \<Longrightarrow> I st \<Longrightarrow> pred_option I (update_vlan_word be nl swi vx_add vc old new i st)"
  by (auto simp: update_vlan_word_def Let_def intro!: foreach_opt_inv [where J = I])

lemma keep_update_vlans [THEN keep_st, intro!]:
  "keeps_add vx_add \<Longrightarrow> I st \<Longrightarrow> pred_option I (update_vlans be nl swi vx_add old_link new_link st)"
  unfolding update_vlans_def pred_option_bind Let_def split_beta
  apply (rule pred_option_any)
  apply (rule pred_option_case, simp)
  apply (unfold pred_option_bind, rule pred_option_any)
  apply (auto intro!: foreach_opt_inv [where J = I])
  done

subsection \<open>Ports of the bridge\<close>

lemma keep_bridge_port_stp [THEN keep_st, intro!]: "I st \<Longrightarrow> pred_option I (bridge_port_stp nl swi port_id state st)"
  by (auto simp: bridge_port_stp_def split_beta stp_laws intro!: keep_call_stp)

lemma keep_add_interface [THEN keep_st, intro!]:
  "keeps_add vx_add \<Longrightarrow> I st \<Longrightarrow> pred_option I (add_interface be nl swi vx_add link st)"
  by (auto simp: add_interface_def Let_def)

lemma keep_update_interface [THEN keep_st, intro!]:
  "keeps_add vx_add \<Longrightarrow> I st \<Longrightarrow> pred_option I (update_interface be nl swi vx_add old_link new_link st)"
  by (auto simp: update_interface_def Let_def)

lemma keep_delete_interface [THEN keep_st, intro!]:
  "keeps_add vx_add \<Longrightarrow> I st \<Longrightarrow> pred_option I (delete_interface be nl swi vx_add link st)"
  by (auto simp: delete_interface_def Let_def)

lemma keep_br_bond_member [THEN keep_snd, intro!]:
  "I st \<Longrightarrow> pred_option (\<lambda>r. I (snd r)) (br_bond_member_attached be nl swi bond member st)"
  "I st \<Longrightarrow> pred_option (\<lambda>r. I (snd r)) (br_bond_member_detached be nl swi bond member st)"
  by (auto simp: br_bond_member_attached_def br_bond_member_detached_def Let_def split_beta split: option.split)

lemma keep_clear_tpid_entries [THEN keep_st, intro!]: "I st \<Longrightarrow> pred_option I (clear_tpid_entries be nl swi st)"
  by (auto simp: clear_tpid_entries_def)

lemma keep_mdb_merge [simp]: "P b s \<Longrightarrow> P b (mdb_merge swi xs ys s)"
proof -
  have "swi' = swi \<Longrightarrow> P b s \<Longrightarrow> P b (mdb_merge swi' xs ys s)" for swi' s
    by (induction swi' xs ys s rule: mdb_merge.induct) (simp_all add: mdb_leave_def mdb_join_def)
  then show "P b s \<Longrightarrow> P b (mdb_merge swi xs ys s)" by simp
qed

lemma keep_mdb_update [simp]: "P b s \<Longrightarrow> P b (snd (mdb_update le be nl swi old_mdb new_mdb br s))"
  by (simp add: mdb_update_def Let_def)

end

end
