(* ===== verification/Nl_Keeps_Thread.thy ===== *)
theory Nl_Keeps_Thread
  imports Nl_Keeps_Bridge Netlink_Steps
begin

text \<open>
  What the class \<open>cnetlink\<close> and its thread keep of the switch and of the VLAN tables: every change that the kernel reports is
  handled so that both invariants hold afterwards, and so does every step of the thread and every
  call of another thread, provided the handlers of the switch among them keep the invariant of the switch.
\<close>

locale daemon_invariant = bridge_invariant "ce_swi ce" P V view
  for ce :: "('s, 'p) cn_env" and P V and view :: "('s, 'p) cn_state \<Rightarrow> bridge_stp_states"
begin

section \<open>Links, addresses and routes\<close>

lemma keep_no_bridge [simp]: "I st \<Longrightarrow> I (st\<lparr>st_bridge := nl_bridge_init\<rparr>)"
  by (auto simp: keeps_bridge nl_bridge_init_def intro: stp_laws)

lemma keep_fields [simp]:
  "I (st\<lparr>st_ignored := ig\<rparr>) = I st"
  "I (st\<lparr>st_ports := p\<rparr>) = I st"
  "I (st\<lparr>st_objs := os\<rparr>) = I st"
  "I (st\<lparr>st_caches := ca\<rparr>) = I st"
  by (simp_all add: keeps_bridge)

lemma keep_upd_sw [simp]: "I st \<Longrightarrow> (\<And>b s. P b s \<Longrightarrow> P b (snd (f s))) \<Longrightarrow> I (upd_sw f st)"
  by (simp add: upd_sw_def)

lemma keep_upd_vlan [simp]:
  "I st \<Longrightarrow> (\<And>b v s. V v \<Longrightarrow> P b s \<Longrightarrow> V (fst (f (v, s))) \<and> P b (snd (f (v, s)))) \<Longrightarrow> I (upd_vlan f st)"
  by (simp add: upd_vlan_def)

lemma keep_call_bond [simp]:
  "I st \<Longrightarrow> (\<And>nl b s. P b s \<Longrightarrow> P b (snd (snd (f (nl, s))))) \<Longrightarrow> I (snd (call_bond ce f st))"
  by (simp add: call_bond_def keeps_bridge split_beta)

lemma keep_call_bond_opt [THEN keep_st]:
  assumes "I st" and "\<And>nl b s. P b s \<Longrightarrow> pred_option (\<lambda>(_, _, s'). P b s') (f (nl, s))"
  shows "pred_option I (call_bond_opt ce f st)"
  using assms(1) assms(2) [of "stp_states (st_bridge st)" "st_sw st" "cn_view ce st"]
  by (cases "f (cn_view ce st, st_sw st)") (auto simp: call_bond_opt_def call_bond_def keeps_bridge)

lemma keep_cn_vx [intro!]: "keeps_add (cn_vx_add ce nl)"
  unfolding cn_vx_add_def by (rule keep_vx_add_l2_neigh)

lemma keep_cn_vx_nh [THEN keep_st, intro!]: "I st \<Longrightarrow> pred_option I (cn_vx_nh ce nl n p st)"
  by (auto simp: cn_vx_nh_def)

lemma keep_cn_vx_net [THEN keep_st, intro!]: "I st \<Longrightarrow> pred_option I (cn_vx_net ce nl p st)"
  by (auto simp: cn_vx_net_def)

lemma keep_add_l3_address [THEN keep_snd, intro!]: "I st \<Longrightarrow> pred_option (\<lambda>r. I (snd r)) (add_l3_address ce a st)"
  by (auto simp: add_l3_address_def)

lemma keep_l3_lists [THEN keep_snd, intro!]:
  "I st \<Longrightarrow> pred_option (\<lambda>r. I (snd r)) (add_l3_addresses ce link st)"
  "I st \<Longrightarrow> pred_option (\<lambda>r. I (snd r)) (remove_l3_addresses ce link st)"
  "I st \<Longrightarrow> pred_option (\<lambda>r. I (snd r)) (add_l3_routes ce link st)"
  "I st \<Longrightarrow> pred_option (\<lambda>r. I (snd r)) (remove_l3_routes ce link st)"
  by (auto simp: add_l3_addresses_def remove_l3_addresses_def add_l3_routes_def remove_l3_routes_def
      intro!: foreach_opt_inv [where J = "\<lambda>r. I (snd r)"])

lemma keep_l3_configuration [THEN keep_snd, intro!]:
  "I st \<Longrightarrow> pred_option (\<lambda>r. I (snd r)) (add_l3_configuration ce link st)"
  "I st \<Longrightarrow> pred_option (\<lambda>r. I (snd r)) (remove_l3_configuration ce link st)"
  by (auto simp: add_l3_configuration_def remove_l3_configuration_def intro!: foreach_opt_inv [where J = "\<lambda>r. I (snd r)"])

lemma keep_update_on_mac_change [THEN keep_snd, intro!]:
  "I st \<Longrightarrow> pred_option (\<lambda>r. I (snd r)) (update_on_mac_change ce old_link new_link st)"
  by (auto simp: update_on_mac_change_def Let_def)

section \<open>Created, changed and removed links\<close>

text \<open>\<open>link_created\<close> as \<open>add_lag\<close> calls it.\<close>

definition keeps_created :: "(rtnl_link \<Rightarrow> ('s, 'p) cn_state \<Rightarrow> ('s, 'p) cn_state option) \<Rightarrow> bool" where
  "keeps_created created \<longleftrightarrow> (\<forall>l st. I st \<longrightarrow> pred_option I (created l st))"

lemma keep_cn_add_lag [THEN keep_snd, intro!]:
  "keeps_created created \<Longrightarrow> I st \<Longrightarrow> pred_option (\<lambda>r. I (snd r)) (cn_add_lag ce created bond st)"
  by (auto simp: cn_add_lag_def keeps_created_def Let_def split_beta split: option.split)

lemma keep_cn_add_lag_member [THEN keep_snd, intro!]:
  "keeps_created created \<Longrightarrow> I st \<Longrightarrow> pred_option (\<lambda>r. I (snd r)) (cn_add_lag_member ce created bond link st)"
  by (auto simp: cn_add_lag_member_def split_beta split: option.split)

lemma keep_select_bridge [THEN keep_snd, intro!]:
  "I st \<Longrightarrow> pred_option (\<lambda>r. I (snd r)) (select_bridge ce master br st)"
  by (auto simp: select_bridge_def Let_def split: option.split intro: pred_option_any)

lemma keep_bridge_slave_created [THEN keep_st, intro!]: "I st \<Longrightarrow> pred_option I (bridge_slave_created ce link st)"
  by (auto simp: bridge_slave_created_def Let_def split: option.split)

lemma keep_port_link_created [THEN keep_st, intro!]: "I st \<Longrightarrow> pred_option I (port_link_created ce link st)"
  by (auto simp: port_link_created_def Let_def split_beta intro!: pred_option_any)

lemma keeps_createdI: "(\<And>l st. I st \<Longrightarrow> pred_option I (created l st)) \<Longrightarrow> keeps_created created"
  by (simp add: keeps_created_def)

lemma keep_link_created: "keeps_created (link_created k ce)"
proof (induction k)
  case (Suc k)
  then show ?case by (intro keeps_createdI) (auto split: link_type.split)
qed (simp add: keeps_created_def)

lemma keep_link_created_st [THEN keep_st, intro!]: "I st \<Longrightarrow> pred_option I (link_created k ce link st)"
  by (rule keep_link_created [unfolded keeps_created_def, rule_format])

lemma keep_iface_changed [THEN keep_st, intro!]: "I st \<Longrightarrow> pred_option I (iface_changed ce old_link new_link st)"
  by (auto simp: iface_changed_def split_beta intro!: pred_option_any)

lemma keep_bond_slave_updated [THEN keep_st, intro!]:
  "I st \<Longrightarrow> pred_option I (bond_slave_updated ce port_id old_link new_link st)"
  by (auto simp: bond_slave_updated_def Let_def intro!: keep_call_bond_opt sw.keep_remove_lag_member_link)

lemma keep_port_updated [THEN keep_st, intro!]: "I st \<Longrightarrow> pred_option I (port_updated ce port_id old_link new_link st)"
  by (auto simp: port_updated_def intro!: keep_link_created)

lemma keep_vrf_slave_updated [THEN keep_st, intro!]: "I st \<Longrightarrow> pred_option I (vrf_slave_updated ce old_link new_link st)"
  by (auto simp: vrf_slave_updated_def)

lemma keep_vlan_link_updated [THEN keep_st, intro!]: "I st \<Longrightarrow> pred_option I (vlan_link_updated ce old_link new_link st)"
  by (auto simp: vlan_link_updated_def)

lemma keep_bridge_link_updated [THEN keep_st, intro!]:
  "I st \<Longrightarrow> pred_option I (bridge_link_updated ce old_link new_link st)"
  by (auto simp: bridge_link_updated_def Let_def intro!: pred_option_case)

lemma keep_link_updated [THEN keep_st, intro!]: "I st \<Longrightarrow> pred_option I (link_updated ce old_link new_link st)"
  by (auto simp: link_updated_def Let_def split: link_type.split)

lemma keep_bridge_deleted [THEN keep_st, intro!]: "I st \<Longrightarrow> pred_option I (bridge_deleted ce link st)"
  by (auto simp: bridge_deleted_def Let_def)

lemma keep_link_deleted [THEN keep_st, intro!]: "I st \<Longrightarrow> pred_option I (link_deleted ce link st)"
  by (auto simp: link_deleted_def split_beta split: link_type.split
      intro!: pred_option_any [where m = "po_portdev_removed po l p" for po l p])

section \<open>Entries of the forwarding table\<close>

lemma keep_neigh_ll_created [THEN keep_st, intro!]: "I st \<Longrightarrow> pred_option I (neigh_ll_created ce neigh st)"
  by (auto simp: neigh_ll_created_def Let_def intro!: keeps_addD [OF keep_cn_vx])

lemma keep_neigh_ll_deleted [THEN keep_st, intro!]: "I st \<Longrightarrow> pred_option I (neigh_ll_deleted ce neigh st)"
  by (auto simp: neigh_ll_deleted_def Let_def)

lemma keep_neigh_ll_updated [THEN keep_st, intro!]: "I st \<Longrightarrow> pred_option I (neigh_ll_updated ce old_neigh new_neigh st)"
  by (auto simp: neigh_ll_updated_def Let_def)

section \<open>The changes of the kernel\<close>

lemma keep_route_link_apply [THEN keep_st, intro!]: "I st \<Longrightarrow> pred_option I (route_link_apply ce c st)"
  by (cases c) auto

lemma keep_route_addr_apply [THEN keep_st, intro!]: "I st \<Longrightarrow> pred_option I (route_addr_apply ce c st)"
  by (cases c) auto

lemma keep_route_neigh_apply [THEN keep_st, intro!]: "I st \<Longrightarrow> pred_option I (route_neigh_apply ce c st)"
  by (cases c) auto

lemma keep_route_route_apply [THEN keep_st, intro!]: "I st \<Longrightarrow> pred_option I (route_route_apply ce c st)"
  by (cases c) auto

lemma keep_route_mdb_apply [THEN keep_st, intro!]: "I st \<Longrightarrow> pred_option I (route_mdb_apply ce c st)"
  by (simp add: route_mdb_apply_def)

lemma keep_route_bridge_vlan_apply [THEN keep_st, intro!]: "I st \<Longrightarrow> pred_option I (route_bridge_vlan_apply ce c st)"
  by (auto split: option.split change.split intro!: keep_call_stp keep_call_stp_snd keep_set_pvlan_stp
      simp: split_beta keep_drop_pvlan_stp)

lemma keep_obj_apply [THEN keep_st, intro!]: "I st \<Longrightarrow> pred_option I (obj_apply ce x st)"
  by (auto simp: obj_apply_def simp del: route_bridge_vlan_apply.simps split: nl_object.split
      intro!: pred_option_any [where m = "get_obj x" for x] pred_option_any [where m = "change_of f x" for f x])

section \<open>The thread\<close>

lemma keep_learn_round [simp]: "I (comps (snd (learn_round ce l c))) = I (comps c)"
  by (simp add: learn_round_def split: prod.split list.split)

lemma keep_fdb_event [simp]: "I st \<Longrightarrow> I (fdb_event ce ev st)"
  by (simp add: fdb_event_def split_beta split: option.split)

lemma keep_fdb_round [simp]: "I (comps c) \<Longrightarrow> I (comps (snd (fdb_round ce l c)))"
  by (simp add: fdb_round_def split: prod.split list.split)

lemma keep_shutdown [simp]: "I (comps c) \<Longrightarrow> I (comps (shutdown_subsystems ce c))"
  by (simp add: shutdown_subsystems_def split_beta)

lemma keep_register_switch [simp]: "I (comps c) \<Longrightarrow> I (comps (register_switch ce c))"
  by (simp add: register_switch_def)

lemma keep_switch_connected: "I (comps c) \<Longrightarrow> pred_option (\<lambda>c'. I (comps c')) (switch_connected ce c)"
  by (auto simp: switch_connected_def init_subsystems_def split_beta)

lemma keep_wake [simp]: "comps (wake c) = comps c"
  by (simp add: wake_def)

lemma keep_thread_step:
  assumes "I (comps c)" and "thread_step ce (pc, c) = Some (pc1, c1)"
  shows "I (comps c1)"
proof -
  have "pred_option (\<lambda>r. I (comps (snd r))) (thread_step ce (pc, c))"
    by (rule thread_step.cases [of "(ce, pc, c)"]) (use assms(1) in \<open>auto simp: split_beta split: option.split\<close>)
  then show ?thesis using assms(2) by simp
qed

lemma keep_nl_cb [simp]: "comps (fold nl_cb_v2 changes c) = comps c"
  by (induction changes arbitrary: c) (simp_all add: nl_cb_v2_def)

text \<open>Handlers of the switch that keep its invariant, in the calls of a run.\<close>

definition keeping_handlers :: "('s, 'p) nl_cmd list \<Rightarrow> bool" where
  "keeping_handlers cmds \<longleftrightarrow> (\<forall>f b s. On_switch f \<in> set cmds \<longrightarrow> P b s \<longrightarrow> pred_option (P b) (f s))"

lemma keep_nl_call:
  assumes "I (comps c)" and "nl_call ce cmd c = Some c1" and "keeping_handlers [cmd]"
  shows "I (comps c1)"
proof (cases cmd)
  case (On_switch f)
  then obtain s where s: "f (st_sw (comps c)) = Some s" "c1 = c\<lparr>comps := (comps c)\<lparr>st_sw := s\<rparr>\<rparr>" using assms(2) by auto
  have "pred_option (P b) (f (st_sw (comps c)))" if "P b (st_sw (comps c))" for b
    using assms(3) On_switch that by (simp add: keeping_handlers_def)
  then show ?thesis using assms(1) s by (auto simp: keeps_bridge)
next
  case Connected
  then show ?thesis using assms keep_switch_connected [OF assms(1)] by (auto dest: pred_option_Some)
qed (use assms in \<open>auto simp: nl_call_defs handle_read_event_def nl_handle_timeout_def Let_def\<close>)

lemma keep_reach: "nl_reach ce c0 cmds pc c \<Longrightarrow> I (comps c0) \<Longrightarrow> keeping_handlers cmds \<Longrightarrow> I (comps c)"
proof (induction rule: nl_reach.induct)
  case (thread cmds pc c pc1 c1)
  then show ?case by (blast intro: keep_thread_step)
next
  case (call cmds pc c cmd c1)
  then have "keeping_handlers cmds" "keeping_handlers [cmd]" by (auto simp: keeping_handlers_def)
  then show ?case using call keep_nl_call by blast
qed

end

end
