(* ===== verification/Daemon_Invariant.thy ===== *)
theory Daemon_Invariant
  imports Nl_Keeps_Thread Nl_Vlan_Table Northbound
begin

text \<open>
  Invariants of the whole daemon: the contracts of \<open>Nl_Keeps\<close> for the controller, and what holds in every state that the
  netlink thread reaches, from the constructor on, while the controller handles the messages of the switch and other threads
  make their calls.
\<close>

section \<open>The controller\<close>

text \<open>
  The multicast groups and the spanning tree groups are consistent, and each VLAN in which the bridge has recorded the state of
  a port has a spanning tree group.
\<close>

definition ctl_ok :: "bridge_stp_states \<Rightarrow> controller \<Rightarrow> bool" where
  "ctl_ok bs c \<longleftrightarrow> mc_inv (mc_groups c) \<and> stg_inv c \<and> fmdom (pv_states bs) |\<subseteq>| fmdom (vlan_to_stg c)"

lemma ctl_ok_fields [simp]:
  "ctl_ok bs (c\<lparr>trace := t\<rparr>) = ctl_ok bs c"
  "ctl_ok bs (c\<lparr>swi_flags := f\<rparr>) = ctl_ok bs c"
  "ctl_ok bs (c\<lparr>dptid := n\<rparr>) = ctl_ok bs c"
  "ctl_ok bs (c\<lparr>connected := k\<rparr>) = ctl_ok bs c"
  "ctl_ok bs (c\<lparr>l2_domain := d\<rparr>) = ctl_ok bs c"
  "ctl_ok bs (c\<lparr>lag := l\<rparr>) = ctl_ok bs c"
  "ctl_ok bs (c\<lparr>lag_id_next := i\<rparr>) = ctl_ok bs c"
  "ctl_ok bs (c\<lparr>tunnel_dlf_flood := d2\<rparr>) = ctl_ok bs c"
  "ctl_ok bs (c\<lparr>egress_interface_id := e\<rparr>) = ctl_ok bs c"
  "ctl_ok bs (c\<lparr>freed_egress_interfaces_ids := F\<rparr>) = ctl_ok bs c"
  "ctl_ok bs (c\<lparr>ecmp_interface_id := e\<rparr>) = ctl_ok bs c"
  "ctl_ok bs (c\<lparr>freed_ecmp_interfaces_ids := F\<rparr>) = ctl_ok bs c"
  "ctl_ok bs (c\<lparr>default_idle_timeout := t2\<rparr>) = ctl_ok bs c"
  by (simp_all add: ctl_ok_def stg_inv_def)

lemma ctl_ok_send [simp]:
  "ctl_ok bs (snd (send_all env ms c)) = ctl_ok bs c"
  "ctl_ok bs (snd (of_send env ms c)) = ctl_ok bs c"
  "ctl_ok bs (snd (rpc_call env r c)) = ctl_ok bs c"
  "ctl_ok bs (snd (send env m c)) = ctl_ok bs c"
  by (subst snd_send_all snd_of_send snd_rpc_call, simp)+ (simp add: send_def emit_def split: sum.split)

lemma stg_inv_mc_groups [simp]: "stg_inv (c\<lparr>mc_groups := g\<rparr>) = stg_inv c"
  by (simp add: stg_inv_def)

lemma stg_inv_send_all [simp]: "stg_inv (snd (send_all env ms c)) = stg_inv c"
  by (subst snd_send_all) (simp add: stg_inv_def)

lemma vlan_to_stg_send_all [simp]: "vlan_to_stg (snd (send_all env ms c)) = vlan_to_stg c"
  by (subst snd_send_all) simp

lemma stg_inv_join [simp]: "stg_inv c \<Longrightarrow> stg_inv (snd (l2_multicast_group_join env port vid m c))"
  by (simp add: l2_multicast_group_join_def try_catch_def with_dpt_def Let_def split_beta del: send_all.simps)

lemma stg_inv_leave [simp]: "stg_inv c \<Longrightarrow> stg_inv (snd (l2_multicast_group_leave env port vid m d c))"
  by (simp add: l2_multicast_group_leave_def try_catch_def with_dpt_def Let_def case_send_all del: send_all.simps
      split: option.split sum.split)

lemma vlan_to_stg_multicast [simp]:
  "vlan_to_stg (snd (l2_multicast_group_join env port vid m c)) = vlan_to_stg c"
  "vlan_to_stg (snd (l2_multicast_group_leave env port vid m d c)) = vlan_to_stg c"
  by (simp_all add: l2_multicast_group_join_def l2_multicast_group_leave_def try_catch_def with_dpt_def Let_def split_beta case_send_all
      del: send_all.simps split: option.split sum.split)

lemma ctl_ok_multicast [simp]:
  "ctl_ok bs c \<Longrightarrow> ctl_ok bs (snd (l2_multicast_group_join env port vid m c))"
  "ctl_ok bs c \<Longrightarrow> ctl_ok bs (snd (l2_multicast_group_leave env port vid m d c))"
  by (simp_all add: ctl_ok_def mc_inv_join mc_inv_leave)

lemma ctl_ok_multicast_all [simp]:
  "ctl_ok bs c \<Longrightarrow> ctl_ok bs (snd (l2_multicast_group_rejoin_all_in_vlan env port vid c))"
  "ctl_ok bs c \<Longrightarrow> ctl_ok bs (snd (l2_multicast_group_leave_all_in_vlan env port vid c))"
  unfolding l2_multicast_group_rejoin_all_in_vlan_def l2_multicast_group_leave_all_in_vlan_def Let_def
  by (auto intro!: mc_walk_inv [where P = "ctl_ok bs"])

lemma mc_groups_rpc [simp]: "mc_groups (snd (rpc_call env r c)) = mc_groups c"
  by (subst snd_rpc_call) simp

lemma mc_groups_stg_create: "pred_option (\<lambda>r. mc_groups (snd r) = mc_groups c) (ofdpa_stg_create env vid c)"
  by (simp add: ofdpa_stg_create_def find_free_stgid_def op_defs Let_def split_beta split: option.split)

lemma mc_groups_stg [simp]:
  "mc_groups (snd (ofdpa_stg_destroy env vid c)) = mc_groups c"
  "mc_groups (snd (ofdpa_stg_state_port_set env p vid s c)) = mc_groups c"
  by (simp_all add: ofdpa_stg_destroy_def ofdpa_stg_state_port_set_def op_defs Let_def split_beta split: option.split)

lemma ctl_ok_stg_state [simp]: "ctl_ok bs c \<Longrightarrow> ctl_ok bs (snd (ofdpa_stg_state_port_set env p vid s c))"
  by (simp add: ctl_ok_def stg_inv_state_port_set stg_state_groups)

lemma ctl_ok_tenant_delete_loop [simp]: "ctl_ok bs (snd (tenant_delete_loop env lport tid n c)) = ctl_ok bs c"
  by (induction n arbitrary: c) (simp_all add: op_defs Let_def split_beta)

lemma ctl_ok_tenant_remove: "ctl_ok bs c \<Longrightarrow> tunnel_port_tenant_remove env lport tid c = Some (r, c') \<Longrightarrow> ctl_ok bs c'"
  using ctl_ok_tenant_delete_loop [of bs env lport tid 49 c]
  by (auto simp: tunnel_port_tenant_remove_def Let_def split_beta split: if_splits)

lemma ctl_ok_port [simp]:
  "ctl_ok bs c \<Longrightarrow> ctl_ok bs (snd (port_set_learn env p l c))"
  "ctl_ok bs c \<Longrightarrow> ctl_ok bs (snd (port_set_move_learn env p l c))"
  "ctl_ok bs c \<Longrightarrow> ctl_ok bs (snd (l2_set_idle_timeout t c))"
  by (simp_all add: port_set_learn_def port_set_move_learn_def l2_set_idle_timeout_def op_defs)

lemma ctl_ok_send_then_barrier [simp]: "ctl_ok bs (snd (send_then_barrier env m c)) = ctl_ok bs c"
  by (simp add: send_then_barrier_def try_catch_def with_dpt_def send_def emit_def split: sum.split)

lemma ctl_ok_l3_ids [simp]:
  "ctl_ok bs c \<Longrightarrow> ctl_ok bs (snd (l3_egress_create env p v s d c))"
  "ctl_ok bs c \<Longrightarrow> ctl_ok bs (snd (l3_egress_remove env i c))"
  "ctl_ok bs c \<Longrightarrow> ctl_ok bs (snd (l3_ecmp_add env S c))"
  "ctl_ok bs c \<Longrightarrow> ctl_ok bs (snd (l3_ecmp_remove env i c))"
  by (simp_all add: l3_egress_create_def l3_egress_remove_def l3_ecmp_add_def l3_ecmp_remove_def Let_def split_beta)

lemmas l3_send_defs =
  l3_termination_add_def l3_termination_add_v6_def l3_termination_remove_def l3_termination_remove_v6_def
  l3_egress_update_def l3_ecmp_update_def
  l3_unicast_host_add_in4_def l3_unicast_host_add_in6_def l3_unicast_host_remove_in4_def l3_unicast_host_remove_in6_def
  l3_unicast_route_add_in4_def l3_unicast_route_add_in6_def l3_unicast_route_remove_in4_def l3_unicast_route_remove_in6_def

lemma ctl_ok_flood [simp]:
  "ctl_ok bs c \<Longrightarrow> ctl_ok bs (snd (egress_bridge_port_vlan_add env p v u c))"
  "ctl_ok bs c \<Longrightarrow> ctl_ok bs (snd (egress_bridge_port_vlan_remove env p v c))"
  "ctl_ok bs c \<Longrightarrow> ctl_ok bs (snd (add_l2_overlay_flood env t l c))"
  "ctl_ok bs c \<Longrightarrow> ctl_ok bs (snd (del_l2_overlay_flood env t l c))"
  by (simp_all add: egress_bridge_port_vlan_add_def egress_bridge_port_vlan_remove_def add_l2_overlay_flood_def
      del_l2_overlay_flood_def op_defs try_catch_def with_dpt_def case_send_all Let_def split_beta
      del: send_all.simps split: option.split sum.split)

section \<open>The VLAN tables\<close>

text \<open>
  The keys of the reference counts are port numbers other than 0 and valid VLANs, and so are those of the VLANs of bridge ports; a
  port without a VLAN has no entry there.
\<close>

definition tables_valid :: "nl_vlan \<Rightarrow> bool" where
  "tables_valid v \<longleftrightarrow> keys_valid v \<and>
     (\<forall>p m. fmlookup (bridge_vlan v) p = Some m \<longrightarrow> p \<noteq> 0 \<and> m \<noteq> fmempty \<and> fBall (fmdom m) is_vid_valid)"

lemma is_vid_valid_iff: "is_vid_valid vid \<longleftrightarrow> 1 \<le> uint vid \<and> uint vid \<le> 4095"
  by (auto simp: is_vid_valid_def word_le_def word_less_def)

lemma tables_valid_init: "tables_valid nl_vlan_init"
  by (simp add: tables_valid_def keys_valid_def nl_vlan_init_def)

lemma keys_valid_fields [simp]:
  "keys_valid (v\<lparr>port_pvid := m\<rparr>) = keys_valid v"
  "keys_valid (v\<lparr>vlan_vrf := m2\<rparr>) = keys_valid v"
  "keys_valid (v\<lparr>bridge_vlan := m3\<rparr>) = keys_valid v"
  by (simp_all add: keys_valid_def)

lemma tables_valid_fields [simp]:
  "tables_valid (v\<lparr>port_pvid := m\<rparr>) = tables_valid v"
  "tables_valid (v\<lparr>vlan_vrf := m2\<rparr>) = tables_valid v"
  by (simp_all add: tables_valid_def)

lemma tables_valid_port_vlan:
  "tables_valid v \<Longrightarrow> keys_valid (v\<lparr>port_vlan := m\<rparr>) \<Longrightarrow> tables_valid (v\<lparr>port_vlan := m\<rparr>)"
  by (simp add: tables_valid_def)

lemma tables_valid_add_vlan: "tables_valid v \<Longrightarrow> tables_valid (fst (snd (add_vlan nl swi link vid tagged (v, s))))"
  by (auto simp: add_vlan_def Let_def split_beta split: option.split intro!: tables_valid_port_vlan)
    (auto simp: tables_valid_def keys_valid_def)

lemma tables_valid_remove_vlan: "tables_valid v \<Longrightarrow> tables_valid (fst (snd (remove_vlan nl swi link vid tagged (v, s))))"
  by (auto simp: remove_vlan_def Let_def split_beta split: option.split intro!: tables_valid_port_vlan)
    (auto simp: tables_valid_def keys_valid_def)

lemma tables_valid_record:
  "tables_valid v \<Longrightarrow> p \<noteq> 0 \<Longrightarrow> is_vid_valid vid \<Longrightarrow> tables_valid (bridge_vlan_record p vid outer tagged v)"
  by (auto simp: tables_valid_def bridge_vlan_record_def fm_emplace_def split: option.split if_splits)

lemma tables_valid_forget: "tables_valid v \<Longrightarrow> tables_valid (bridge_vlan_forget p vid v)"
  by (auto simp: tables_valid_def bridge_vlan_forget_def Let_def split: option.split if_splits)

lemma tables_valid_remove_bridge_vlan:
  "tables_valid v \<Longrightarrow> tables_valid (fst (remove_bridge_vlan nl swi link vid pvid tagged (v, s)))"
  by (auto simp: remove_bridge_vlan_def Let_def intro: tables_valid_forget)

lemma tables_valid_add_bridge_vlan:
  "tables_valid v \<Longrightarrow> tables_valid (fst (snd (add_bridge_vlan nl swi link vid pvid tagged (v, s))))"
  by (auto simp: add_bridge_vlan_def Let_def split_beta intro!: tables_valid_remove_bridge_vlan tables_valid_record)

lemma tables_valid_update_egress:
  "tables_valid v \<Longrightarrow> tables_valid (fst (snd (update_egress_bridge_vlan nl swi link vid untagged (v, s))))"
  by (auto simp: update_egress_bridge_vlan_def tables_valid_def Let_def split_beta split: option.split if_splits)

section \<open>The contracts for the controller\<close>

interpretation ctl_switch: switch_invariant "controller_swi env" "ctl_ok bs" for env bs
proof (unfold_locales, unfold controller_swi_sel)
  fix c c' :: controller and r
  show "tunnel_port_tenant_remove env a b c = Some (r, c') \<Longrightarrow> ctl_ok bs c'" if "ctl_ok bs c" for a b
    using that by (rule ctl_ok_tenant_remove)
qed (simp_all add: op_defs l3_send_defs Let_def split_beta split: option.split)

abbreviation stp_view :: "('s, 'm) br_state_scheme \<Rightarrow> bridge_stp_states" where
  "stp_view st \<equiv> stp_states (st_bridge st)"

interpretation ctl_tables: tunnel_invariant "controller_swi env" ctl_ok tables_valid stp_view for env
  by unfold_locales
    (simp_all add: tables_valid_add_vlan tables_valid_remove_vlan tables_valid_remove_bridge_vlan tables_valid_add_bridge_vlan
      tables_valid_update_egress enable_vlans_def disable_vlans_def add_ingress_pvid_def remove_ingress_pvid_def
      vrf_attach_def vrf_detach_def Let_def split_beta split: option.split)

text \<open>The controller provides spanning tree groups and keeps its multicast groups consistent meanwhile.\<close>

lemma mc_stg_create:
  assumes "mc_inv (mc_groups c) \<and> stg_inv c"
  shows "\<exists>rv c'. ofdpa_stg_create env v c = Some (rv, c') \<and> (mc_inv (mc_groups c') \<and> stg_inv c') \<and>
    fmdom (vlan_to_stg c') = (if rv < 0 then fmdom (vlan_to_stg c) else finsert v (fmdom (vlan_to_stg c)))"
  using stg_create_groups [of c env v] mc_groups_stg_create [of c env v] assms by fastforce

interpretation ctl_mc_stg: stg_provider "controller_swi env" "\<lambda>c. mc_inv (mc_groups c) \<and> stg_inv c"
    "\<lambda>c. fmdom (vlan_to_stg c)" for env
  by unfold_locales
     (use mc_stg_create stg_inv_destroy stg_destroy_groups stg_inv_state_port_set stg_state_groups in simp_all)

lemma covered_ctl_ok: "ctl_mc_stg.covered st \<longleftrightarrow> ctl_ok (fst st) (snd st)"
  by (auto simp: ctl_mc_stg.covered_def ctl_ok_def)

interpretation ctl_bridge: bridge_invariant "controller_swi env" ctl_ok tables_valid stp_view for env
proof unfold_locales
  fix nl port state vid bs and c :: controller
  assume ok: "ctl_ok bs c"
  then have covered: "ctl_mc_stg.covered (bs, c)" by (simp add: covered_ctl_ok)
  show "ctl_ok (fst (set_port_stp_state nl (controller_swi env) port state (bs, c)))
      (snd (set_port_stp_state nl (controller_swi env) port state (bs, c)))"
    using ctl_mc_stg.covered_port_state [OF covered] by (simp add: covered_ctl_ok)
  show "pred_option (\<lambda>(_, b', s'). ctl_ok b' s') (add_port_vlan_stp_state nl (controller_swi env) port vid state (bs, c))"
    using ctl_mc_stg.covered_pvlan_state [OF covered, of nl env port vid state] by (auto simp: covered_ctl_ok)
  show "ctl_ok (fst (snd (del_port_vlan_stp_state nl (controller_swi env) port vid (bs, c))))
      (snd (snd (del_port_vlan_stp_state nl (controller_swi env) port vid (bs, c))))"
    using ctl_mc_stg.covered_pvlan_drop [OF covered] by (simp add: covered_ctl_ok)
  show "ctl_ok bridge_stp_states_init c" using ok by (simp add: ctl_ok_def bridge_stp_states_init_def)
qed simp

interpretation ctl_daemon: daemon_invariant "ce\<lparr>ce_swi := controller_swi env\<rparr>" ctl_ok tables_valid stp_view
  for ce :: "(controller, 'p) cn_env" and env
  unfolding daemon_invariant_def by (simp add: ctl_bridge.bridge_invariant_axioms)

section \<open>Messages of the switch\<close>

text \<open>
  What the controller does to its own state when the switch connects, disconnects or sends a message, when its timer expires, and
  when a packet of a tap is to be sent. The other handlers only call the northbound interface.
\<close>

datatype switch_event =
    Dpt_open ctl_flags dpt_info
  | Dpt_close nat "of_port list"
  | Desc_stats
  | Port_desc "of_port list"
  | Experimenter_message u32 u32 u32
  | Ctl_timer u32
  | Tap_packet u32 packet

text \<open>An exception that leaves a handler may end the program; the state it leaves is covered in both cases.\<close>

fun ctl_handler :: "ofenv \<Rightarrow> switch_event \<Rightarrow> controller \<Rightarrow> controller option" where
  "ctl_handler env (Dpt_open fl dpt) c = Some (snd (handle_dpt_open env fl dpt c))"
| "ctl_handler env (Dpt_close dpt_id ports) c = Some (fst (handle_dpt_close env dpt_id ports c))"
| "ctl_handler env Desc_stats c = Some (fst (snd (handle_desc_stats_reply env c)))"
| "ctl_handler env (Port_desc ports) c = Some (fst (handle_port_desc_stats_reply env ports c))"
| "ctl_handler env (Experimenter_message exp_id exp_type xid) c =
     Some (fst (snd (handle_experimenter_message env exp_id exp_type xid c)))"
| "ctl_handler env (Ctl_timer timer_id) c = Some (handle_timeout env timer_id c)"
| "ctl_handler env (Tap_packet port_id pkt) c = map_option snd (enqueue env port_id pkt c)"

definition controller_handlers :: "ofenv \<Rightarrow> (controller, 'p) nl_cmd list \<Rightarrow> bool" where
  "controller_handlers env cmds \<longleftrightarrow> (\<forall>f. On_switch f \<in> set cmds \<longrightarrow> f \<in> range (ctl_handler env))"

lemma ctl_ok_emit [simp]: "ctl_ok bs (emit e c) = ctl_ok bs c"
  by (simp add: emit_def)

lemma ctl_ok_port_desc [simp]: "ctl_ok bs (fst (port_desc_loop env ps ntfs c)) = ctl_ok bs c"
  by (induction env ps ntfs c rule: port_desc_loop.induct) (simp_all add: ofdpa_defs)

lemma ctl_ok_handler: "ctl_ok bs c \<Longrightarrow> pred_option (ctl_ok bs) (ctl_handler env ev c)"
  by (cases ev)
    (auto simp: handle_dpt_open_def handle_dpt_close_def handle_desc_stats_reply_def handle_port_desc_stats_reply_def
      handle_experimenter_message_def handle_timeout_def request_port_stats_def with_dpt_def enqueue_def subscribe_to_def
      ofdpa_defs op_defs Let_def split_beta case_send_all send_def simp del: send_all.simps split: sum.split exn.split option.split)

text \<open>
  Handling a message of the switch, with the calls on the northbound interface, is a sequence of the calls of which runs consist.
\<close>

definition notify_ports :: "('s, 'p) cn_env \<Rightarrow> port_notification_data \<Rightarrow> 'p \<Rightarrow> 'p option" where
  "notify_ports ce ntfy p =
     (if get_port_type (ntf_port_id ntfy) \<noteq> port_type_physical then Some p
      else map_option snd
        (case ntf_ev ntfy of
           PORT_EVENT_TABLE \<Rightarrow> po_create_portdev (ce_po ce) (ntf_port_id ntfy) (ntf_name ntfy) (ntf_hwaddr ntfy) p
         | PORT_EVENT_DEL \<Rightarrow> Some (po_destroy_portdev (ce_po ce) (ntf_port_id ntfy) (ntf_name ntfy) p)
         | _ \<Rightarrow> port_changed ce ntfy p))"

fun nbi_cmds :: "('s, 'p) cn_env \<Rightarrow> nbi_call \<Rightarrow> ('s, 'p) nl_cmd list" where
  "nbi_cmds ce (Port_notification ntfs) = map (\<lambda>n. On_ports (notify_ports ce n)) ntfs"
| "nbi_cmds ce (Switch_state_notification state) = (if state = SWITCH_STATE_UP then [Connected] else [])"
| "nbi_cmds ce Resend_state = [Resend]"
| "nbi_cmds ce (Nb_enqueue port_id bytes) = [Learn_l2 port_id \<lparr>pk_len = of_nat (length bytes), pk_data = bytes\<rparr>]"
| "nbi_cmds ce (nbi_call.Fdb_timeout port_id vid mac) = [Netlink_Steps.Fdb_timeout port_id vid mac]"

lemma notify_port_call: "notify_port ce n c = nl_call ce (On_ports (notify_ports ce n)) c"
  by (cases "ntf_ev n") (auto simp: notify_port_def notify_ports_def with_ports_def option.map_comp comp_def case_prod_unfold)

lemma nbi_exec_calls: "nbi_exec ce x c = foreach_opt (nl_call ce) (nbi_cmds ce x) c"
proof (cases x)
  case (Port_notification ntfs)
  have "notify_port ce = (\<lambda>n. nl_call ce (On_ports (notify_ports ce n)))" by (intro ext) (rule notify_port_call)
  then show ?thesis by (simp add: Port_notification port_notification_def foreach_opt_map del: nl_call.simps)
qed (auto simp: switch_state_notification_def nbi_resend_state_def nbi_enqueue_def nbi_fdb_timeout_def split: switch_state.split)

lemma from_switch_calls:
  "from_switch ce handler c = foreach_opt (nl_call ce)
     (On_switch (\<lambda>s. Some (fst (handler s))) # concat (map (nbi_cmds ce) (snd (handler (st_sw (comps c)))))) c"
  by (simp add: from_switch_def split_beta foreach_opt_concat [symmetric] nbi_exec_calls [abs_def])

lemma reach_calls:
  "nl_reach ce c0 cmds pc c \<Longrightarrow> \<forall>cmd \<in> set xs. \<not> own_event cmd \<Longrightarrow> foreach_opt (nl_call ce) xs c = Some c1 \<Longrightarrow>
    nl_reach ce c0 (cmds @ xs) pc c1"
proof (induction xs arbitrary: cmds c)
  case (Cons x xs)
  then obtain c2 where c2: "nl_call ce x c = Some c2" "foreach_opt (nl_call ce) xs c2 = Some c1"
    by (auto simp: bind_eq_Some_conv)
  then have "nl_reach ce c0 (cmds @ [x]) pc c2" using Cons.prems by (auto intro: nl_reach.call)
  then show ?case using Cons c2(2) by fastforce
qed simp

lemma from_switch_reach:
  assumes "nl_reach ce c0 cmds pc c" and "from_switch ce handler c = Some c1"
  shows "\<exists>calls. nl_reach ce c0 (cmds @ On_switch (\<lambda>s. Some (fst (handler s))) # calls) pc c1 \<and> (\<forall>f. On_switch f \<notin> set calls)"
proof -
  have "\<not> own_event cmd \<and> (\<forall>f. cmd \<noteq> On_switch f)" if "cmd \<in> set (nbi_cmds ce x)" for cmd x
    using that by (cases x) (auto split: if_splits)
  then show ?thesis
    using reach_calls [OF assms(1) _ assms(2) [unfolded from_switch_calls]]
    by (intro exI [of _ "concat (map (nbi_cmds ce) (snd (handler (st_sw (comps c)))))"]) auto
qed

section \<open>Every state of the daemon\<close>

lemma same_env: "ce_swi ce = controller_swi env \<Longrightarrow> ce\<lparr>ce_swi := controller_swi env\<rparr> = ce"
  by simp

lemma daemon_keeps:
  assumes "ce_swi ce = controller_swi env"
    and "nl_reach ce (cnetlink_ctor controller_init p ca) cmds pc c" and "controller_handlers env cmds"
  shows "keeps tables_valid ctl_ok stp_view (comps c)"
proof -
  have "keeps tables_valid ctl_ok stp_view (comps (cnetlink_ctor controller_init p ca))"
    by (simp add: keeps_def cnetlink_ctor_def cnetlink_init_def tables_valid_init ctl_ok_def stg_inv_init mc_inv_def controller_init_def
        stg_inv_init [unfolded controller_init_def] nl_bridge_init_def bridge_stp_states_init_def)
  moreover have "ctl_daemon.keeping_handlers cmds"
    using assms(3) ctl_ok_handler unfolding controller_handlers_def ctl_daemon.keeping_handlers_def by blast
  ultimately show ?thesis
    using ctl_daemon.keep_reach [of env ce "cnetlink_ctor controller_init p ca" cmds pc c] same_env [OF assms(1)] assms(2) by simp
qed

subsection \<open>A run\<close>

text \<open>The kernel reports a new VLAN device with identifier 5 on the interface of port 1, and the thread handles the change.\<close>

definition vlan_device :: rtnl_link where
  "vlan_device = (plain_link 7)\<lparr>ln_type := Some ''vlan'', ln_link := 3, ln_vlan_id := 5\<rparr>"

definition no_caches :: nl_caches where
  "no_caches = \<lparr>ca_links = [], ca_neighs = [], ca_addrs = [], ca_routes = [], ca_nhs = [], ca_bvlans = []\<rparr>"

definition one_port :: tap_ports where
  "one_port = \<lparr>tp_man = tap_manager_init\<lparr>ifindex_to_id := fmupd 3 1 fmempty\<rparr>, tp_io = tap_io_init 8 []\<rparr>"

definition device_reported :: "(controller, tap_ports) cnetlink" where
  "device_reported = handle_read_event no_caches [\<lparr>no_action = NL_ACT_NEW, no_old = None, no_new = Some (Obj_link vlan_device)\<rparr>]
     (register_switch plain_env (start_nl (cnetlink_ctor controller_init one_port no_caches)))"

definition device_cmds :: "(controller, tap_ports) nl_cmd list" where
  "device_cmds = [Start, Register,
     Read_event no_caches [\<lparr>no_action = NL_ACT_NEW, no_old = None, no_new = Some (Obj_link vlan_device)\<rparr>]]"

lemma device_port [simp]:
  assumes "st_ports st = one_port" and "st_caches st = no_caches" and "st_objs st = []" and "br_link (st_bridge st) = None"
  shows "get_port_id_link (cn_view plain_env st) (Some vlan_device) = 1"
    and "\<not> is_bridge_interface (cn_view plain_env st) vlan_device"
  using assms
  by (simp_all add: get_port_id_link_def get_port_id_ifindex_def get_port_id_def vlan_device_def plain_link_def rtnl_link_is_vlan_def
      cn_view_def plain_env_def tap_ops_def one_port_def is_bridge_interface_def get_link_by_ifindex_def no_caches_def deleted_objs_def
      List.map_filter_def last_match_def)

lemma device_created:
  assumes "st_ports st = one_port" and "st_caches st = no_caches" and "st_objs st = []" and "br_link (st_bridge st) = None"
    and "st_vlan st = nl_vlan_init"
  shows "\<exists>st'. link_created 2 plain_env vlan_device st = Some st' \<and> fmlookup (port_vlan (st_vlan st')) (1, 5) = Some 1"
proof -
  have "get_link_type vlan_device = LT_VLAN" "ln_family vlan_device = 0" "ln_vlan_id vlan_device = 5"
    by (simp_all add: vlan_device_def plain_link_def get_link_type_def)
  moreover have "lag_ports nl 1 = []" for nl by (simp add: lag_ports_def get_port_type_def)
  ultimately show ?thesis using assms
    by (simp add: numeral_2_eq_2 call_vlan_def add_vlan_def plain_env_def [THEN arg_cong [where f = ce_swi]] enable_vlan_ideal Let_def
        nl_vlan_init_def)
qed

lemma device_handled:
  "\<exists>c. nl_reach plain_env (cnetlink_ctor controller_init one_port no_caches) device_cmds (Objs 9) c \<and>
     controller_handlers ideal_env device_cmds \<and> fmlookup (port_vlan (st_vlan (comps c))) (1, 5) = Some 1"
proof -
  let ?c0 = "cnetlink_ctor controller_init one_port no_caches"
  let ?c1 = "device_reported\<lparr>wakeup := False\<rparr>"
  let ?c2 = "?c1\<lparr>run_state := NL_STATE_RUNNING\<rparr>"
  let ?cmds = "(([] @ [Start]) @ [Register]) @
    [Read_event no_caches [\<lparr>no_action = NL_ACT_NEW, no_old = None, no_new = Some (Obj_link vlan_device)\<rparr>]]"
  note defs = device_reported_def nl_call_defs handle_read_event_def nl_cb_v2_def register_switch_def cnetlink_ctor_def
  have "nl_reach plain_env ?c0 ?cmds Idle device_reported"
    unfolding device_reported_def by (intro nl_reach.call [OF nl_reach.call [OF nl_reach.call [OF nl_reach.start]]]) simp_all
  then have "nl_reach plain_env ?c0 ?cmds (Switching NL_STATE_INIT) ?c1"
    by (rule nl_reach.thread) (simp add: defs)
  then have reach: "nl_reach plain_env ?c0 ?cmds (Objs 10) ?c2"
    by (rule nl_reach.thread) simp
  obtain st where st: "link_created 2 plain_env vlan_device ((comps ?c2)\<lparr>st_objs := []\<rparr>) = Some st"
    and entry: "fmlookup (port_vlan (st_vlan st)) (1, 5) = Some 1"
    using device_created [of "(comps ?c2)\<lparr>st_objs := []\<rparr>"]
    by (auto simp: defs upd_sw_def call_sw_def split_beta cnetlink_init_def nl_bridge_init_def)
  have "thread_step plain_env (Objs 10, ?c2) = Some (Objs 9, ?c2\<lparr>comps := st, nl_objs := []\<rparr>)"
    using st by (simp add: defs obj_apply_def get_obj_def change_of_def)
  from nl_reach.thread [OF reach this] entry show ?thesis by (auto simp: device_cmds_def controller_handlers_def)
qed

text \<open>
  C2: In every state that the daemon reaches, whatever the kernel reports, whatever the switch answers and sends and whatever calls other
  threads make in between, the VLAN tables are well formed: the reference counts and the VLANs of bridge ports belong to
  port numbers other than 0 and to VLAN identifiers between 1 and 4095, and no bridge port without a VLAN is left behind. Every
  change of a link, an address, a neighbour, a route, a multicast database or a VLAN passes through the components; each of
  their operations keeps the tables so, also on its error paths. That the port of an entry still exists is not claimed.
\<close>

theorem daemon_tables_valid:
  assumes "ce_swi ce = controller_swi env"
    and "nl_reach ce (cnetlink_ctor controller_init p ca) cmds pc c" and "controller_handlers env cmds"
  shows "(\<forall>q vid n. fmlookup (port_vlan (st_vlan (comps c))) (q, vid) = Some n \<longrightarrow> q \<noteq> 0 \<and> 1 \<le> uint vid \<and> uint vid \<le> 4095) \<and>
    (\<forall>q m. fmlookup (bridge_vlan (st_vlan (comps c))) q = Some m \<longrightarrow> q \<noteq> 0 \<and> m \<noteq> fmempty \<and>
       (\<forall>vid x. fmlookup m vid = Some x \<longrightarrow> 1 \<le> uint vid \<and> uint vid \<le> 4095))"
proof -
  have "tables_valid (st_vlan (comps c))" using daemon_keeps [OF assms] by (simp add: keeps_def)
  then show ?thesis
    unfolding tables_valid_def keys_valid_def by (fastforce simp: is_vid_valid_iff intro: fmdomI)
qed

theorem daemon_tables_valid_witness:
  "\<exists>c. nl_reach plain_env (cnetlink_ctor controller_init one_port no_caches) device_cmds (Objs 9) c \<and>
     fmlookup (port_vlan (st_vlan (comps c))) (1, 5) = Some 1 \<and>
     (\<forall>q vid n. fmlookup (port_vlan (st_vlan (comps c))) (q, vid) = Some n \<longrightarrow> q \<noteq> 0 \<and> 1 \<le> uint vid \<and> uint vid \<le> 4095)"
proof -
  obtain c where c: "nl_reach plain_env (cnetlink_ctor controller_init one_port no_caches) device_cmds (Objs 9) c"
    and handlers: "controller_handlers ideal_env device_cmds"
    and entry: "fmlookup (port_vlan (st_vlan (comps c))) (1, 5) = Some 1"
    using device_handled by blast
  have "ce_swi plain_env = controller_swi ideal_env" by (simp add: plain_env_def)
  from daemon_tables_valid [OF this c handlers] show ?thesis using c entry by (intro exI [of _ c] conjI) auto
qed

text \<open>
  C3: In every such state the controller's records are consistent too: there is one entry for a multicast group in a VLAN and no
  interface is both enabled and disabled in it, the spanning tree groups in use are exactly those recorded for VLANs, no
  two VLANs share one, and all of them are between 2 and 511. Each VLAN in which the bridge has recorded the state of a port has
  such a group, so that a state in a VLAN is never applied to the default group.
\<close>

theorem daemon_groups_consistent:
  assumes "ce_swi ce = controller_swi env"
    and "nl_reach ce (cnetlink_ctor controller_init p ca) cmds pc c" and "controller_handlers env cmds"
  shows "mc_inv (mc_groups (st_sw (comps c))) \<and> stg_inv (st_sw (comps c)) \<and>
    fmdom (pv_states (stp_states (st_bridge (comps c)))) |\<subseteq>| fmdom (vlan_to_stg (st_sw (comps c)))"
  using daemon_keeps [OF assms] by (simp add: keeps_def ctl_ok_def)

theorem daemon_groups_consistent_witness:
  "\<exists>c. nl_reach plain_env (cnetlink_ctor controller_init one_port no_caches) device_cmds (Objs 9) c \<and>
     fmlookup (port_vlan (st_vlan (comps c))) (1, 5) = Some 1 \<and>
     mc_inv (mc_groups (st_sw (comps c))) \<and> stg_inv (st_sw (comps c))"
proof -
  obtain c where c: "nl_reach plain_env (cnetlink_ctor controller_init one_port no_caches) device_cmds (Objs 9) c"
    and handlers: "controller_handlers ideal_env device_cmds"
    and entry: "fmlookup (port_vlan (st_vlan (comps c))) (1, 5) = Some 1"
    using device_handled by blast
  have "ce_swi plain_env = controller_swi ideal_env" by (simp add: plain_env_def)
  from daemon_groups_consistent [OF this c handlers] show ?thesis using c entry by blast
qed

end
