(* ===== verification/Spec2Isabelle.thy ===== *)
theory Spec2Isabelle
  imports Ctl_Vlan Ctl_L3 Ctl_L2 Ctl_Lag Ctl_Stg Ctl_Tunnel Ctl_Session Net_Utils
    Tap_Manager Knet_Manager Nl_Vlan_Table Nl_L3_Props Nl_Vxlan_Props Nl_Bridge_Props Cnetlink_Props Api_Stats
    Nl_Obj Nl_Lookups Nl_Setup Nl_Hashing Daemon_Invariant
begin

text \<open>
  \<^bold>\<open>Verification of baseboxd.\<close>

  baseboxd (\<open>src/src/\<close>) makes a switch that speaks OpenFlow and the OF-DPA gRPC interface behave like a part of Linux: it
  creates a network interface for every port of the switch, follows the configuration that the kernel announces over netlink,
  and programs the switch accordingly. Packets for the CPU travel from the switch to the interfaces and back.

  \<^bold>\<open>The parts and how they interact.\<close>
  The class \<open>controller\<close> (\<open>of-dpa/controller.cc\<close>) holds the connection to the switch. Towards netlink it is a
  \<open>switch_interface\<close> (\<open>sai.h\<close>), with one method for each thing the switch can be told; towards the switch it sends
  OpenFlow messages and calls the gRPC client \<open>ofdpa_client\<close>. What the switch reports it passes to the northbound interface \<open>nbi_impl\<close>.
  The class \<open>cnetlink\<close> owns the netlink thread. It keeps the libnl caches and a queue of changes, dispatches each
  change, and owns one component for each concern: \<open>nl_vlan\<close>, \<open>nl_bond\<close>, \<open>nl_l3\<close>, \<open>nl_vxlan\<close> and \<open>nl_bridge\<close>. A port manager
  (\<open>tap_manager\<close> or \<open>knet_manager\<close>) maps kernel interfaces to ports; the taps have a packet thread of their own, \<open>tap_io\<close>.

  \<^bold>\<open>How the program is modelled.\<close>
  A class is a record of its members, a method a function on that record, with the result first. Return codes are \<open>int\<close>
  (negative: an error of \<open>errno.h\<close>). Integers have the width of the source (\<open>u8\<close> to \<open>u64\<close>), so truncation and
  wrap-around are those of C++. \<open>std::map\<close> and \<open>std::set\<close> are finite maps and sets, iterated in ascending order. An assertion
  that fails, a fatal log message, the use of a null pointer or of an end iterator is \<open>None\<close>. The sequence of messages and
  remote calls is the member \<open>trace\<close> of the controller; whether a send or a call succeeds is decided by the parameter \<open>ofenv\<close>, for
  every prefix of the trace anew, so theorems hold for every behaviour of network and switch unless they say otherwise.
  What libnl and the kernel answer are the parameters \<open>l3_env\<close>, \<open>br_env\<close>, \<open>tap_env\<close>, \<open>knet_env\<close>. The content of an uninitialised buffer is a
  parameter too (\<open>junk_buf\<close>), a function of everything it may depend on. Where the code compares with the capacity of a vector, the
  reserved elements are part of the state. The pointer to the gRPC client, null until the first connection, is not a member of the
  model: \<open>null_client_used\<close> reads from the trace whether a remote call came too early.

  \<^bold>\<open>Theories.\<close>
  \<^item> \<open>Basebox_Prelude\<close>: word types, loops, finite maps. \<open>Openflow\<close>: messages of the flow-mod library and of gRPC as
    datatypes, and \<open>ofenv\<close>. \<open>Port_Ids\<close>: packing of port type and number (\<open>sai.h\<close>).
  \<^item> \<open>Id_Allocator\<close>, \<open>Group_Spec\<close>: interfaces as locales. The first is a counter with a set of freed identifiers, interpreted for egress
    interfaces and ECMP groups; the second states when the group commands sent to the switch are accepted and describe a
    family of sets, interpreted for the flooding groups of VLANs and of tunnels.
  \<^item> \<open>Controller_Base\<close>, \<open>Ofdpa_Client\<close>, \<open>Ctl_Vlan\<close>, \<open>Ctl_L2\<close>, \<open>Ctl_L3\<close>, \<open>Ctl_Lag\<close>, \<open>Ctl_Stg\<close>, \<open>Ctl_Tunnel\<close>, \<open>Ctl_Packet\<close>,
    \<open>Ctl_Session\<close>: the methods of \<open>controller\<close> and \<open>ofdpa_client\<close>, by subject. Shown: the groups on the switch are the member sets
    the controller records (C1, tunnels likewise), identifiers are never handed out twice nor lost, the multicast groups keep their
    invariant, the search for a spanning tree group ends, retries are bounded by 50.
  \<^item> \<open>Switch_Interface\<close>: the virtual methods as a record of operations, with the controller as its instance.
  \<^item> \<open>Net_Utils\<close>, \<open>Nl_View\<close>: address conversions, link types (\<open>netlink-utils.cc\<close>), and the queries over the libnl caches.
  \<^item> \<open>Vlan_Table\<close>, \<open>Nl_Vlan\<close>, \<open>Nl_Vlan_Table\<close>: \<open>nl_vlan\<close>. The locale states what VLAN membership calls promise and is interpreted
    on the controller; reference counts are exact, counted VLANs are installed, failures are rolled back.
  \<^item> \<open>Nl_Bond\<close>: \<open>nl_bond\<close>.
  \<^item> \<open>Nl_L3_Egress\<close>, \<open>Nl_L3\<close>, \<open>Nl_L3_Table\<close>, \<open>Nl_L3_Props\<close>: \<open>nl_l3\<close>: addresses, neighbours, routes, egress interfaces, ECMP groups,
    callbacks. Counted interfaces are distinct and held by the controller; a lost neighbour is notified to each waiting route once.
  \<^item> \<open>Nl_Vxlan\<close>, \<open>Nl_Vxlan_Props\<close>: \<open>nl_vxlan\<close>: tenants, endpoints, access ports, next hops.
  \<^item> \<open>Bridge_Bits\<close>, \<open>Bridge_Stp\<close>, \<open>Nl_Bridge\<close>, \<open>Nl_Bridge_Props\<close>: \<open>nl_bridge\<close> and \<open>bridge_stp_states\<close>: the loops over VLAN
    bitmaps visit exactly the VLANs whose membership or tagging changed, multicast updates are the difference of two databases of IPv6
    groups, every VLAN with a state has a group, the calls between bridge and tunnels end.
  \<^item> \<open>Port_Manager\<close>, \<open>Tap_Manager\<close>, \<open>Knet_Manager\<close>, \<open>Swap_Queue\<close>, \<open>Tap_Io\<close>, \<open>Port_Interface\<close>: the port managers and the packet
    thread. The two directions of the interface map are inverse; packets keep their order. \<open>Swap_Queue\<close> is the contract of a deque that a worker
    swaps out, interpreted for the packet thread and for both queues of the netlink thread.
  \<^item> \<open>Cnetlink\<close>, \<open>Netlink_Thread\<close>: the handlers for every kind of change, over one state \<open>cn_state\<close> that holds all
    components, and the thread with its state machine. \<open>Netlink_Steps\<close> splits \<open>handle_wakeup\<close> into the steps that interleave with
    other threads: they refine the handler, the queues keep their order, and no wakeup is lost after the first event that follows
    the registration of the switch. \<open>Netlink_Batch\<close>: all packets are
    delivered, ten at a time. \<open>Cnetlink_Props\<close>: a new port is configured, the recursion of \<open>link_created\<close> ends.
  \<^item> \<open>Nl_Keeps\<close>, \<open>Nl_Keeps_Bridge\<close>, \<open>Nl_Keeps_Thread\<close>, \<open>Daemon_Invariant\<close>: invariants of the whole daemon. The first three state
    the contracts between the layers as locales, each building on the one before: the switch keeps an invariant
    (\<open>switch_invariant\<close>), the VLAN tables keep another (\<open>table_invariant\<close>), tunnels and bridge add the record of
    spanning tree states (\<open>tunnel_invariant\<close>, \<open>bridge_invariant\<close>), the thread composes them (\<open>daemon_invariant\<close>). Inside, every method
    of the netlink side is shown to keep the invariants, on all its branches. The last theory interprets them on the controller:
    in every state that the thread reaches from the constructor on, interleaved with the calls of other threads and the messages of the
    switch, the VLAN tables are well formed, the groups of the controller are consistent, and every VLAN with a spanning tree state
    has a group.
  \<^item> \<open>Northbound\<close>: \<open>nbi_impl\<close> and the composition of all of the above: ports that the switch lists get devices, a packet from
    the switch is written to its tap, one from a tap is sent to the switch. \<open>Api_Stats\<close>: the statistics service and the start of the program.
  \<^item> \<open>Nl_Obj\<close>, \<open>Nl_Lookups\<close>: elsewhere netlink objects are values; here they are pointers with reference counts. The first models
    \<open>nl_obj\<close> and the queue: references are balanced, and the loop over pointers refines the loop over values. The second models
    lookups that return a counted reference: a link by its index, which leaks, and the kernel query of \<open>nl_route_query.h\<close>, which
    refines the parameter \<open>query_route\<close>.
  \<^item> \<open>Nl_Setup\<close>: the sockets and caches that \<open>cnetlink\<close> sets up and the numbers it reads from files of the kernel.
    \<open>Nl_Hashing\<close>: the hash functions of the unordered containers.

  \<^bold>\<open>Bounds and fuel.\<close>
  The mutual calls of bridge and tunnels (\<open>vx_add_step\<close>) and the recursion of \<open>link_created\<close> (\<open>link_created_body\<close>) are written as one
  level with the function it calls as an argument; \<open>vx_add_l2_neigh\<close> and \<open>link_created\<close> iterate it to a depth, and the
  handlers use depth two. Running out of levels is \<open>None\<close>, as an abort is; but two levels are shown not to call the function below
  them, whatever it is, so the levels never run out. This needs that no port of the switch is a VXLAN interface, and that
  libnl reports no object of family \<open>AF_BRIDGE\<close> as a bond. Retry loops have the bound of the source (50). The loop over callbacks
  of lost neighbours is a \<open>partial_function\<close> that is shown to return unless a notification fails. A wakeup handles at most
  \<open>nl_proc_max\<close> (10) elements of each queue, as in the source.

  \<^bold>\<open>Concurrency.\<close>
  Threads interleave between critical sections in \<open>Tap_Io\<close> and \<open>Netlink_Steps\<close>. In \<open>Netlink_Steps\<close> a run begins with the constructor of
  \<open>cnetlink\<close>; a call of another thread, with the wakeup it ends with, is one step: the registration of the switch, starts and stops,
  reported packets and timeouts, the initialisation after a connection, operations of the port manager, and handlers of
  the controller. So is the handling of one netlink change. Elsewhere a method runs without interference.

  \<^bold>\<open>Not modelled.\<close>
  Log output (\<open>nl_output.cc\<close>); reference counts of libnl objects other than the queued changes, links and queried routes; the
  setup of the gRPC server (\<open>basebox_api.cc\<close>); flag parsing in \<open>main\<close>; the constants of \<open>ofdpa_datatypes.h\<close> that are not used; handlers of
  the controller that only log. What remains is declarations, I/O of libraries, and log messages.
\<close>

end
